(* ===== verification/Prelude.thy ===== *)
theory Prelude
  imports Main "HOL-Library.Word"
begin

text \<open>
  Shared vocabulary of the development: the Go values every component uses (times,
  durations, decimal texts), SQL-style updates of a table kept as a list of rows, and the
  generic list facts the component proofs rest on. The collection \<open>go_consts\<close> holds the
  definitions of the string constants of the source; their pairwise difference is what the
  case distinctions on statuses need.
\<close>

named_theorems go_consts "string constants of the source"
named_theorems row_simps "how a statement changes the rows of a table"

type_synonym go_time = int
type_synonym duration = "64 word"

text \<open>
  A \<open>time.Time\<close> is its instant in nanoseconds; a \<open>time.Duration\<close> is a Go \<open>int64\<close> of
  nanoseconds, so its arithmetic wraps. \<open>t.Add(d)\<close> adds the signed value.
\<close>

definition Second :: duration where
  "Second = 1000000000"

definition Minute :: duration where
  "Minute = 60 * Second"

definition time_add :: "go_time \<Rightarrow> duration \<Rightarrow> go_time" where
  "time_add t d = t + sint d"

lemma sint_mult_fits:
  fixes a b :: "64 word"
  assumes "- (2 ^ 63) \<le> sint a * sint b" and "sint a * sint b < 2 ^ 63"
  shows "sint (a * b) = sint a * sint b"
  using assms by (simp add: sint_word_ariths signed_take_bit_int_eq_self)

lemma sint_durations [simp]:
  "sint Second = 1000000000" "sint Minute = 60000000000"
  by (simp_all add: Second_def Minute_def sint_mult_fits)

subsection \<open>Decimal texts\<close>

fun nat_text :: "nat \<Rightarrow> string" where
  "nat_text n = (if n < 10 then [char_of (48 + n)]
                 else nat_text (n div 10) @ [char_of (48 + n mod 10)])"

declare nat_text.simps [simp del]

definition itoa :: "int \<Rightarrow> string" where
  "itoa i = (if i < 0 then CHR ''-'' # nat_text (nat (- i)) else nat_text (nat i))"

subsection \<open>Rows of a table\<close>

definition update_where :: "('r \<Rightarrow> bool) \<Rightarrow> ('r \<Rightarrow> 'r) \<Rightarrow> 'r list \<Rightarrow> 'r list" where
  "update_where p f rows = map (\<lambda>r. if p r then f r else r) rows"

text \<open>No two rows that satisfy \<open>p\<close> have the same \<open>k\<close>: a (partial) unique index.\<close>

definition unique_on :: "('r \<Rightarrow> bool) \<Rightarrow> ('r \<Rightarrow> 'k) \<Rightarrow> 'r list \<Rightarrow> bool" where
  "unique_on p k rows \<longleftrightarrow> distinct (map k (filter p rows))"

subsection \<open>Facts about rows\<close>

lemma update_where_simps [simp]:
  "update_where p f [] = []"
  "update_where p f (r # rs) = (if p r then f r else r) # update_where p f rs"
  by (simp_all add: update_where_def)

lemma update_where_append [simp]:
  "update_where p f (xs @ ys) = update_where p f xs @ update_where p f ys"
  by (simp add: update_where_def)

lemma length_update_where [simp]: "length (update_where p f rows) = length rows"
  by (simp add: update_where_def)

lemma in_update_where:
  "r \<in> set (update_where p f rows) \<longleftrightarrow>
     (\<exists>r0 \<in> set rows. r = (if p r0 then f r0 else r0))"
  by (auto simp: update_where_def)

lemma update_where_idle: "(\<And>r. r \<in> set rows \<Longrightarrow> \<not> p r) \<Longrightarrow> update_where p f rows = rows"
  by (induction rows) auto

lemma map_update_where_keep:
  "(\<And>r. r \<in> set rows \<Longrightarrow> p r \<Longrightarrow> k (f r) = k r) \<Longrightarrow> map k (update_where p f rows) = map k rows"
  by (induction rows) auto

lemma filter_update_where_keep:
  "(\<And>r. r \<in> set rows \<Longrightarrow> p r \<Longrightarrow> q (f r) = q r) \<Longrightarrow>
   filter q (update_where p f rows) = update_where p f (filter q rows)"
  by (induction rows) auto

lemma find_SomeD: "find p xs = Some x \<Longrightarrow> x \<in> set xs \<and> p x"
  by (auto simp: find_Some_iff)

lemma find_NoneD: "find p xs = None \<Longrightarrow> x \<in> set xs \<Longrightarrow> \<not> p x"
  by (auto simp: find_None_iff)

lemma find_append: "find p (xs @ ys) = (case find p xs of None \<Rightarrow> find p ys | Some x \<Rightarrow> Some x)"
  by (induction xs) auto

lemma distinct_map_inj: "distinct (map k xs) \<Longrightarrow> x \<in> set xs \<Longrightarrow> y \<in> set xs \<Longrightarrow> k x = k y \<Longrightarrow> x = y"
  by (auto simp: distinct_map dest: inj_onD)

lemma find_unique_key:
  assumes "distinct (map k xs)" and "x \<in> set xs"
  shows "find (\<lambda>r. k r = k x) xs = Some x"
  using assms by (induction xs) auto

lemma unique_on_empty [simp]: "unique_on p k []"
  by (simp add: unique_on_def)

lemma unique_on_append1:
  "unique_on p k (rows @ [r]) \<longleftrightarrow>
     unique_on p k rows \<and> (p r \<longrightarrow> (\<forall>x \<in> set rows. p x \<longrightarrow> k x \<noteq> k r))"
  by (simp add: unique_on_def image_iff) (metis (no_types))

lemma unique_on_inj:
  "unique_on p k rows \<Longrightarrow> x \<in> set rows \<Longrightarrow> y \<in> set rows \<Longrightarrow> p x \<Longrightarrow> p y \<Longrightarrow> k x = k y \<Longrightarrow> x = y"
  by (auto simp: unique_on_def dest: distinct_map_inj)

lemma unique_on_update_where:
  assumes "unique_on p k rows"
    and "\<And>r. r \<in> set rows \<Longrightarrow> q r \<Longrightarrow> k (f r) = k r"
    and "\<And>r. r \<in> set rows \<Longrightarrow> q r \<Longrightarrow> p (f r) \<Longrightarrow> p r"
  shows "unique_on p k (update_where q f rows)"
  using assms
proof (induction rows)
  case (Cons r rows)
  have sub: "x \<in> k ` set (filter p (update_where q f rows)) \<Longrightarrow> x \<in> k ` set (filter p rows)" for x
    using Cons.prems(2,3) by (fastforce simp: in_update_where split: if_splits)
  have rest: "unique_on p k rows"
    using Cons.prems(1) by (simp add: unique_on_def split: if_splits)
  have IH: "unique_on p k (update_where q f rows)"
    by (rule Cons.IH [OF rest]) (use Cons.prems(2,3) in auto)
  have head: "p r \<Longrightarrow> k r \<notin> k ` set (filter p rows)"
    using Cons.prems(1) by (simp add: unique_on_def)
  have "q r \<Longrightarrow> p (f r) \<Longrightarrow> p r \<and> k (f r) = k r"
    using Cons.prems(2,3) by simp
  then show ?case
    using IH head sub by (auto simp: unique_on_def)
qed simp

lemma notin_image_iff: "y \<notin> f ` S \<longleftrightarrow> (\<forall>x \<in> S. f x \<noteq> y)"
  by auto

text \<open>Updating the one row of a key: the table after it, as a set.\<close>

lemma set_update_key:
  assumes "distinct (map k rows)" and "r \<in> set rows" and "q r"
  shows "set (update_where (\<lambda>x. k x = k r \<and> q x) f rows) = insert (f r) {x \<in> set rows. k x \<noteq> k r}"
proof -
  have one: "k x = k r \<longleftrightarrow> x = r" if "x \<in> set rows" for x
    using distinct_map_inj[OF assms(1) that assms(2)] by auto
  have "update_where (\<lambda>x. k x = k r \<and> q x) f rows = map (\<lambda>x. if x = r then f r else x) rows"
    unfolding update_where_def by (rule map_cong) (use one assms(3) in auto)
  moreover have "{x \<in> set rows. k x \<noteq> k r} = set rows - {r}"
    using one by auto
  ultimately show ?thesis using assms(2) by auto
qed

lemma update_where_keepI: "x \<in> set rows \<Longrightarrow> \<not> p x \<Longrightarrow> x \<in> set (update_where p f rows)"
  by (auto simp: update_where_def image_iff)

lemma update_where_hitI: "x \<in> set rows \<Longrightarrow> p x \<Longrightarrow> f x \<in> set (update_where p f rows)"
  by (auto simp: update_where_def image_iff)

end
