(* ===== verification/GoErrors.thy ===== *)
theory GoErrors
  imports Prelude
begin

text \<open>
  Go's error values. \<open>sentinel\<close> lists the package-level error variables of the source and
  the ones of the driver and of \<open>context\<close> that the source tests for; \<open>go_error\<close> has one
  constructor per error type of the source, \<open>Errorf\<close> for \<open>fmt.Errorf("op: %w", err)\<close>,
  \<open>Join\<close> for \<open>errors.Join\<close> and \<open>Opaque\<close> for an error whose identity is never tested.
  \<open>errors_is\<close> is \<open>errors.Is\<close>: it follows \<open>Unwrap\<close>, and the custom error types unwrap to
  their sentinel only (\<open>TransientError.Unwrap\<close> does not expose the error it carries).
\<close>

datatype sentinel =
    ErrInvalidTransferState
  | ErrInvalidTransferStatus
  | ErrInvalidTransactionAttemptStatus
  | ErrTransactionAttemptConflict
  | ErrProcessingLockLost
  | ErrSourceWalletNotFound
  | ErrTransient
  | ErrTransactionAttemptNotFound
  | ErrTransferNotFound
  | ErrValidation
  | ErrDeliveryLeaseLost
  | ErrWalletNotFound
  | ErrDuplicateActiveWallet
  | WalletsErrValidation
  | ErrNoRows
  | ErrClosed
  | Canceled

datatype go_error =
    Sentinel sentinel
  | InvalidStateError string string string
  | AttemptConflictError string string string
  | TransientError string go_error
  | ValidationError string string
  | WalletsValidationError string string
  | PgError string string
  | Opaque string
  | Errorf string go_error
  | Join "go_error list"

fun sentinel_text :: "sentinel \<Rightarrow> string" where
  "sentinel_text ErrInvalidTransferState = ''invalid transfer state''"
| "sentinel_text ErrInvalidTransferStatus = ''invalid transfer status''"
| "sentinel_text ErrInvalidTransactionAttemptStatus = ''invalid transaction attempt status''"
| "sentinel_text ErrTransactionAttemptConflict = ''transaction attempt conflict''"
| "sentinel_text ErrProcessingLockLost = ''processing lock lost''"
| "sentinel_text ErrSourceWalletNotFound = ''source wallet not found''"
| "sentinel_text ErrTransient = ''transient error''"
| "sentinel_text ErrTransactionAttemptNotFound = ''transaction attempt not found''"
| "sentinel_text ErrTransferNotFound = ''transfer not found''"
| "sentinel_text ErrValidation = ''validation error''"
| "sentinel_text ErrDeliveryLeaseLost = ''webhook delivery lease lost''"
| "sentinel_text ErrWalletNotFound = ''wallet not found''"
| "sentinel_text ErrDuplicateActiveWallet = ''duplicate active wallet''"
| "sentinel_text WalletsErrValidation = ''validation error''"
| "sentinel_text ErrNoRows = ''no rows in result set''"
| "sentinel_text ErrClosed = ''Exception (504) Reason: channel/connection is not open''"
| "sentinel_text Canceled = ''context canceled''"

fun errors_is :: "go_error \<Rightarrow> sentinel \<Rightarrow> bool" where
  "errors_is (Sentinel s) t = (s = t)"
| "errors_is (InvalidStateError _ _ _) t = (t = ErrInvalidTransferState)"
| "errors_is (AttemptConflictError _ _ _) t = (t = ErrTransactionAttemptConflict)"
| "errors_is (TransientError _ _) t = (t = ErrTransient)"
| "errors_is (ValidationError _ _) t = (t = ErrValidation)"
| "errors_is (WalletsValidationError _ _) t = (t = WalletsErrValidation)"
| "errors_is (PgError _ _) t = False"
| "errors_is (Opaque _) t = False"
| "errors_is (Errorf _ e) t = errors_is e t"
| "errors_is (Join es) t = list_ex (\<lambda>e. errors_is e t) es"

text \<open>\<open>errors.As(err, &pgError)\<close>: code and constraint name of the first \<open>PgError\<close> of the chain.\<close>

fun as_pg_error :: "go_error \<Rightarrow> (string \<times> string) option" where
  "as_pg_error (PgError code constraint) = Some (code, constraint)"
| "as_pg_error (Errorf _ e) = as_pg_error e"
| "as_pg_error (Join es) =
     (case filter (\<lambda>r. r \<noteq> None) (map as_pg_error es) of [] \<Rightarrow> None | r # _ \<Rightarrow> r)"
| "as_pg_error _ = None"

fun join_lines :: "string list \<Rightarrow> string" where
  "join_lines [] = []"
| "join_lines [l] = l"
| "join_lines (l # ls) = l @ [CHR 0x0A] @ join_lines ls"

text \<open>\<open>err.Error()\<close>. The text of a driver error is its code and constraint here.\<close>

fun error_text :: "go_error \<Rightarrow> string" where
  "error_text (Sentinel s) = sentinel_text s"
| "error_text (InvalidStateError tid expected actual) =
     ''transfer '' @ tid @ '' expected status '' @ expected @ '' but got '' @ actual"
| "error_text (AttemptConflictError aid expected actual) =
     ''transaction attempt '' @ aid @ '' expected status '' @ expected @ '' but got '' @ actual"
| "error_text (TransientError operation e) =
     (if operation = '''' then ''transient error: '' @ error_text e
      else operation @ '': '' @ error_text e)"
| "error_text (ValidationError field message) =
     (if field = '''' then message else field @ '': '' @ message)"
| "error_text (WalletsValidationError field message) =
     (if field = '''' then message else field @ '': '' @ message)"
| "error_text (PgError code constraint) = code @ '' '' @ constraint"
| "error_text (Opaque s) = s"
| "error_text (Errorf operation e) = operation @ '': '' @ error_text e"
| "error_text (Join es) = join_lines (map error_text es)"

text \<open>
  The verb \<open>%q\<close> on a string: quotes, backslashes and control characters are escaped; other
  characters stand for themselves (printable text).
\<close>

definition hex_digit :: "nat \<Rightarrow> char" where
  "hex_digit n = char_of (if n < 10 then 48 + n else 87 + n)"

definition go_escape :: "char \<Rightarrow> string" where
  "go_escape c =
     (let n = (of_char c :: nat) in
      if c = CHR 0x22 then [CHR 0x5C, CHR 0x22] else if c = CHR 0x5C then [CHR 0x5C, CHR 0x5C]
      else if n = 7 then [CHR 0x5C, CHR ''a''] else if n = 8 then [CHR 0x5C, CHR ''b'']
      else if n = 9 then [CHR 0x5C, CHR ''t''] else if n = 10 then [CHR 0x5C, CHR ''n'']
      else if n = 11 then [CHR 0x5C, CHR ''v''] else if n = 12 then [CHR 0x5C, CHR ''f'']
      else if n = 13 then [CHR 0x5C, CHR ''r'']
      else if n < 32 \<or> n = 127 then [CHR 0x5C, CHR ''x'', hex_digit (n div 16), hex_digit (n mod 16)]
      else [c])"

definition go_quote :: "string \<Rightarrow> string" where
  "go_quote s = [CHR 0x22] @ concat (map go_escape s) @ [CHR 0x22]"

text \<open>\<open>errors.Join(acc, err)\<close> with a possibly nil accumulator.\<close>

fun errors_join :: "go_error option \<Rightarrow> go_error \<Rightarrow> go_error" where
  "errors_join None e = Join [e]"
| "errors_join (Some acc) e = Join [acc, e]"

lemma errors_is_join [simp]:
  "errors_is (errors_join acc e) t \<longleftrightarrow>
     errors_is e t \<or> (\<exists>a. acc = Some a \<and> errors_is a t)"
  by (cases acc) auto

lemma transient_hides_cause:
  "errors_is (TransientError operation e) t \<longleftrightarrow> t = ErrTransient"
  by simp

end
