(* ===== verification/Json.thy ===== *)
theory Json
  imports GoErrors
begin

text \<open>
  \<open>json.RawMessage\<close>: either a text that is one JSON value (kept as the value) or a text that
  does not parse. \<open>json.Marshal\<close> of the two structs the source encodes builds the object of
  its tagged fields; \<open>json.Unmarshal\<close> into a struct walks the members in order, assigns the
  member whose name matches a field (ignoring ASCII case), ignores the others, leaves the
  field alone on null and reports a value of the wrong kind.
\<close>

datatype json =
    JNull
  | JBool bool
  | JInt int
  | JNumber string
  | JString string
  | JArray "json list"
  | JObject "(string \<times> json) list"

datatype raw_json = RawText string | RawJson json

text \<open>The file \<^verbatim>\<open>job.go\<close>: the message of the transfer queue.\<close>

record TransferJob =
  job_TransferID :: string
  job_Attempt :: int

text \<open>The file \<^verbatim>\<open>attempt.go\<close>: the stored form of a signed transaction.\<close>

record TransactionAttemptPayload =
  pay_Encoding :: string
  pay_RawTransaction :: string

definition ascii_lower :: "char \<Rightarrow> char" where
  "ascii_lower c = (if 65 \<le> (of_char c :: nat) \<and> (of_char c :: nat) \<le> 90
                    then char_of ((of_char c :: nat) + 32) else c)"

definition field_matches :: "string \<Rightarrow> string \<Rightarrow> bool" where
  "field_matches field name \<longleftrightarrow> map ascii_lower name = map ascii_lower field"

text \<open>A JSON number fits a Go \<open>int\<close> when it is an integer of 64 bits.\<close>

definition fits_int64 :: "int \<Rightarrow> bool" where
  "fits_int64 i \<longleftrightarrow> - (2 ^ 63) \<le> i \<and> i < 2 ^ 63"

definition assign_string :: "json \<Rightarrow> string \<Rightarrow> bool \<times> string" where
  "assign_string v old =
     (case v of JString s \<Rightarrow> (True, s) | JNull \<Rightarrow> (True, old) | _ \<Rightarrow> (False, old))"

definition assign_int :: "json \<Rightarrow> int \<Rightarrow> bool \<times> int" where
  "assign_int v old =
     (case v of JInt i \<Rightarrow> if fits_int64 i then (True, i) else (False, old)
      | JNull \<Rightarrow> (True, old) | _ \<Rightarrow> (False, old))"

fun decode_job :: "(string \<times> json) list \<Rightarrow> bool \<times> TransferJob \<Rightarrow> bool \<times> TransferJob" where
  "decode_job [] acc = acc"
| "decode_job ((name, v) # ms) (ok, job) =
     (if field_matches ''transfer_id'' name
      then (let (fine, s) = assign_string v (job_TransferID job)
            in decode_job ms (ok \<and> fine, job\<lparr>job_TransferID := s\<rparr>))
      else if field_matches ''attempt'' name
      then (let (fine, i) = assign_int v (job_Attempt job)
            in decode_job ms (ok \<and> fine, job\<lparr>job_Attempt := i\<rparr>))
      else decode_job ms (ok, job))"

definition unmarshal_job :: "raw_json \<Rightarrow> go_error + TransferJob" where
  "unmarshal_job raw =
     (case raw of
        RawText _ \<Rightarrow> Inl (Opaque ''invalid JSON'')
      | RawJson JNull \<Rightarrow> Inr \<lparr>job_TransferID = '''', job_Attempt = 0\<rparr>
      | RawJson (JObject ms) \<Rightarrow>
          (let (ok, job) = decode_job ms (True, \<lparr>job_TransferID = '''', job_Attempt = 0\<rparr>)
           in if ok then Inr job else Inl (Opaque ''cannot unmarshal into TransferJob''))
      | RawJson _ \<Rightarrow> Inl (Opaque ''cannot unmarshal into TransferJob''))"

definition marshal_job :: "TransferJob \<Rightarrow> raw_json" where
  "marshal_job job =
     RawJson (JObject [(''transfer_id'', JString (job_TransferID job)),
                       (''attempt'', JInt (job_Attempt job))])"

fun decode_payload ::
  "(string \<times> json) list \<Rightarrow> bool \<times> TransactionAttemptPayload \<Rightarrow> bool \<times> TransactionAttemptPayload" where
  "decode_payload [] acc = acc"
| "decode_payload ((name, v) # ms) (ok, p) =
     (if field_matches ''encoding'' name
      then (let (fine, s) = assign_string v (pay_Encoding p)
            in decode_payload ms (ok \<and> fine, p\<lparr>pay_Encoding := s\<rparr>))
      else if field_matches ''raw_transaction'' name
      then (let (fine, s) = assign_string v (pay_RawTransaction p)
            in decode_payload ms (ok \<and> fine, p\<lparr>pay_RawTransaction := s\<rparr>))
      else decode_payload ms (ok, p))"

text \<open>\<open>TransactionAttempt.Payload\<close> and \<open>newTransactionAttemptPayload\<close>.\<close>

definition attempt_Payload :: "raw_json \<Rightarrow> go_error + TransactionAttemptPayload" where
  "attempt_Payload raw =
     (case raw of
        RawText _ \<Rightarrow> Inl (Opaque ''invalid JSON'')
      | RawJson JNull \<Rightarrow> Inr \<lparr>pay_Encoding = '''', pay_RawTransaction = ''''\<rparr>
      | RawJson (JObject ms) \<Rightarrow>
          (let (ok, p) = decode_payload ms (True, \<lparr>pay_Encoding = '''', pay_RawTransaction = ''''\<rparr>)
           in if ok then Inr p else Inl (Opaque ''cannot unmarshal into TransactionAttemptPayload''))
      | RawJson _ \<Rightarrow> Inl (Opaque ''cannot unmarshal into TransactionAttemptPayload''))"

definition newTransactionAttemptPayload :: "string \<Rightarrow> raw_json" where
  "newTransactionAttemptPayload rawTransaction =
     RawJson (JObject [(''encoding'', JString ''raw_transaction''),
                       (''raw_transaction'', JString rawTransaction)])"

subsection \<open>Round trips\<close>

lemma field_matches_members [simp]:
  "field_matches ''transfer_id'' ''transfer_id''"
  "field_matches ''attempt'' ''attempt''"
  "\<not> field_matches ''transfer_id'' ''attempt''"
  "field_matches ''encoding'' ''encoding''"
  "field_matches ''raw_transaction'' ''raw_transaction''"
  "\<not> field_matches ''encoding'' ''raw_transaction''"
  by (simp_all add: field_matches_def ascii_lower_def)

lemma unmarshal_marshal_job:
  "unmarshal_job (marshal_job job) =
     (if fits_int64 (job_Attempt job) then Inr job
      else Inl (Opaque ''cannot unmarshal into TransferJob''))"
  by (simp add: unmarshal_job_def marshal_job_def assign_string_def assign_int_def)

lemma attempt_Payload_new:
  "attempt_Payload (newTransactionAttemptPayload raw) =
     Inr \<lparr>pay_Encoding = ''raw_transaction'', pay_RawTransaction = raw\<rparr>"
  by (simp add: attempt_Payload_def newTransactionAttemptPayload_def assign_string_def)

end
