(* ===== verification/Schema.thy ===== *)
theory Schema
  imports Json
begin

text \<open>
  The data of the system: the Go structs of the modules (\<^verbatim>\<open>model.go\<close>, \<^verbatim>\<open>attempt.go\<close>,
  \<^verbatim>\<open>outbox.go\<close>) and the PostgreSQL schema that stores them (\<^verbatim>\<open>migrations/\<close>). A table is the
  list of its rows in insertion order, a row is the Go struct a scan of it gives. The CHECK
  constraints and unique indexes of the migrations are bool-valued functions that the
  statements of the repositories test. \<open>pg\<close> holds what the server supplies: the sequence of
  values of \<open>gen_random_uuid()\<close>, the reading of a text as a uuid (canonical text, or an
  error), the text of a timestamp in JSON, and whether an unqualified name in a \<open>RETURNING\<close>
  list is accepted although two relations of the statement have it (PostgreSQL documents
  that it is not: error 42702).
\<close>

subsection \<open>Constants of the source\<close>

definition StatusCreated :: string where [go_consts]: "StatusCreated = ''CREATED''"
definition StatusValidated :: string where [go_consts]: "StatusValidated = ''VALIDATED''"
definition StatusQueued :: string where [go_consts]: "StatusQueued = ''QUEUED''"
definition StatusSigning :: string where [go_consts]: "StatusSigning = ''SIGNING''"
definition StatusSubmitted :: string where [go_consts]: "StatusSubmitted = ''SUBMITTED''"
definition StatusPendingOnChain :: string where [go_consts]: "StatusPendingOnChain = ''PENDING_ON_CHAIN''"
definition StatusConfirmed :: string where [go_consts]: "StatusConfirmed = ''CONFIRMED''"
definition StatusFailed :: string where [go_consts]: "StatusFailed = ''FAILED''"

definition AttemptStatusSigned :: string where [go_consts]: "AttemptStatusSigned = ''SIGNED''"
definition AttemptStatusBroadcasting :: string where [go_consts]: "AttemptStatusBroadcasting = ''BROADCASTING''"
definition AttemptStatusBroadcasted :: string where [go_consts]: "AttemptStatusBroadcasted = ''BROADCASTED''"
definition AttemptStatusFailed :: string where [go_consts]: "AttemptStatusFailed = ''FAILED''"

definition OutboxEventTypeTransferRequested :: string where
  [go_consts]: "OutboxEventTypeTransferRequested = ''transfer.requested''"
definition OutboxStatusPending :: string where [go_consts]: "OutboxStatusPending = ''PENDING''"
definition OutboxStatusProcessing :: string where [go_consts]: "OutboxStatusProcessing = ''PROCESSING''"
definition OutboxStatusRetry :: string where [go_consts]: "OutboxStatusRetry = ''RETRY''"
definition OutboxStatusDispatched :: string where [go_consts]: "OutboxStatusDispatched = ''DISPATCHED''"

definition DeliveryStatusPending :: string where [go_consts]: "DeliveryStatusPending = ''PENDING''"
definition DeliveryStatusRetrying :: string where [go_consts]: "DeliveryStatusRetrying = ''RETRYING''"
definition DeliveryStatusInProgress :: string where [go_consts]: "DeliveryStatusInProgress = ''IN_PROGRESS''"
definition DeliveryStatusDelivered :: string where [go_consts]: "DeliveryStatusDelivered = ''DELIVERED''"
definition DeliveryStatusFailed :: string where [go_consts]: "DeliveryStatusFailed = ''FAILED''"

definition WalletStatusActive :: string where [go_consts]: "WalletStatusActive = ''ACTIVE''"
definition WalletStatusInactive :: string where [go_consts]: "WalletStatusInactive = ''INACTIVE''"

definition ReceiptStatusPending :: string where [go_consts]: "ReceiptStatusPending = ''PENDING''"
definition ReceiptStatusConfirmed :: string where [go_consts]: "ReceiptStatusConfirmed = ''CONFIRMED''"
definition ReceiptStatusFailed :: string where [go_consts]: "ReceiptStatusFailed = ''FAILED''"
definition ReceiptStatusNotFound :: string where [go_consts]: "ReceiptStatusNotFound = ''NOT_FOUND''"

subsection \<open>Rows\<close>

record Transfer =
  tr_ID :: string
  tr_IdempotencyKey :: string
  tr_Chain :: string
  tr_AssetType :: string
  tr_SourceWalletID :: string
  tr_DestinationAddress :: string
  tr_Amount :: string
  tr_CallbackURL :: string
  tr_MetadataJSON :: raw_json
  tr_TxHash :: string
  tr_Status :: string
  tr_CreatedAt :: go_time
  tr_UpdatedAt :: go_time

record StatusHistory =
  sh_ID :: string
  sh_TransferID :: string
  sh_FromStatus :: "string option"
  sh_ToStatus :: string
  sh_CreatedAt :: go_time

record TransactionAttempt =
  ta_ID :: string
  ta_TransferID :: string
  ta_Nonce :: "64 word option"
  ta_RawPayload :: raw_json
  ta_TxHash :: string
  ta_Status :: string
  ta_ErrorMessage :: string
  ta_CreatedAt :: go_time
  ta_UpdatedAt :: go_time

record OutboxEvent =
  oe_ID :: string
  oe_TransferID :: string
  oe_EventType :: string
  oe_PayloadJSON :: raw_json
  oe_Status :: string
  oe_AttemptCount :: int
  oe_AvailableAt :: go_time
  oe_LockedAt :: "go_time option"
  oe_DispatchedAt :: "go_time option"
  oe_LastError :: string
  oe_CreatedAt :: go_time
  oe_UpdatedAt :: go_time

record Delivery =
  wd_ID :: string
  wd_TransferRequestID :: string
  wd_TransferStatusHistoryID :: string
  wd_TargetURL :: string
  wd_EventType :: string
  wd_TransferStatus :: string
  wd_PayloadJSON :: raw_json
  wd_DeliveryStatus :: string
  wd_AttemptCount :: int
  wd_MaxAttempts :: int
  wd_ResponseStatusCode :: int
  wd_ResponseBody :: string
  wd_LastError :: string
  wd_NextAttemptAt :: "go_time option"
  wd_LeaseExpiresAt :: "go_time option"
  wd_DeliveredAt :: "go_time option"
  wd_CreatedAt :: go_time
  wd_UpdatedAt :: go_time

record Wallet =
  wa_ID :: string
  wa_Chain :: string
  wa_Address :: string
  wa_Label :: string
  wa_SigningType :: string
  wa_Status :: string
  wa_CreatedAt :: go_time
  wa_UpdatedAt :: go_time

record ReconciliationResult =
  rr_ID :: string
  rr_TransferRequestID :: string
  rr_TxHash :: string
  rr_InternalStatus :: string
  rr_BlockchainStatus :: string
  rr_IsMismatch :: bool
  rr_Notes :: string
  rr_CheckedAt :: go_time
  rr_TriggerSource :: string

record db =
  transfer_requests :: "Transfer list"
  transfer_status_history :: "StatusHistory list"
  transaction_attempts :: "TransactionAttempt list"
  transfer_outbox :: "OutboxEvent list"
  webhook_deliveries :: "Delivery list"
  wallets :: "Wallet list"
  reconciliation_results :: "ReconciliationResult list"
  uuid_count :: nat
  db_now :: go_time

record pg =
  gen_random_uuid :: "nat \<Rightarrow> string"
  uuid_in :: "string \<Rightarrow> string option"
  timestamptz_out :: "go_time \<Rightarrow> string"
  accepts_ambiguous :: bool

definition empty_db :: db where
  "empty_db = \<lparr>transfer_requests = [], transfer_status_history = [], transaction_attempts = [],
     transfer_outbox = [], webhook_deliveries = [], wallets = [], reconciliation_results = [],
     uuid_count = 0, db_now = 0\<rparr>"

subsection \<open>Constraints of the migrations\<close>

definition transfer_statuses :: "string list" where
  "transfer_statuses = [StatusCreated, StatusValidated, StatusQueued, StatusSigning,
     StatusSubmitted, StatusPendingOnChain, StatusConfirmed, StatusFailed]"

definition attempt_statuses :: "string list" where
  "attempt_statuses = [AttemptStatusSigned, AttemptStatusBroadcasting,
     AttemptStatusBroadcasted, AttemptStatusFailed]"

text \<open>The partial unique index on active attempts (migration 8) and on hashes (migration 10).\<close>

definition attempt_active :: "TransactionAttempt \<Rightarrow> bool" where
  "attempt_active a \<longleftrightarrow> ta_Status a = AttemptStatusSigned \<or> ta_Status a = AttemptStatusBroadcasting"

definition attempt_has_hash :: "TransactionAttempt \<Rightarrow> bool" where
  "attempt_has_hash a \<longleftrightarrow> ta_TxHash a \<noteq> ''''"

text \<open>The CHECK constraints on \<open>webhook_deliveries\<close> (migration 11).\<close>

definition delivery_row_ok :: "Delivery \<Rightarrow> bool" where
  "delivery_row_ok r \<longleftrightarrow>
     wd_TransferStatus r \<in> set [StatusSubmitted, StatusConfirmed, StatusFailed] \<and>
     wd_DeliveryStatus r \<in> set [DeliveryStatusPending, DeliveryStatusRetrying,
       DeliveryStatusInProgress, DeliveryStatusDelivered, DeliveryStatusFailed] \<and>
     0 \<le> wd_AttemptCount r \<and> 0 < wd_MaxAttempts r \<and> wd_AttemptCount r \<le> wd_MaxAttempts r \<and>
     (wd_ResponseStatusCode r = 0 \<or>
        100 \<le> wd_ResponseStatusCode r \<and> wd_ResponseStatusCode r \<le> 599) \<and>
     (wd_DeliveryStatus r \<in> set [DeliveryStatusPending, DeliveryStatusRetrying]
        \<and> wd_NextAttemptAt r \<noteq> None
      \<or> wd_DeliveryStatus r = DeliveryStatusInProgress \<and> wd_LeaseExpiresAt r \<noteq> None
      \<or> wd_DeliveryStatus r = DeliveryStatusDelivered
        \<and> wd_DeliveredAt r \<noteq> None \<and> wd_NextAttemptAt r = None
      \<or> wd_DeliveryStatus r = DeliveryStatusFailed \<and> wd_NextAttemptAt r = None)"

subsection \<open>The constants differ\<close>

lemma transfer_status_neq [simp]:
  "StatusCreated \<noteq> StatusValidated" "StatusCreated \<noteq> StatusQueued" "StatusCreated \<noteq> StatusSigning"
  "StatusCreated \<noteq> StatusSubmitted" "StatusCreated \<noteq> StatusPendingOnChain"
  "StatusCreated \<noteq> StatusConfirmed" "StatusCreated \<noteq> StatusFailed"
  "StatusValidated \<noteq> StatusQueued" "StatusValidated \<noteq> StatusSigning"
  "StatusValidated \<noteq> StatusSubmitted" "StatusValidated \<noteq> StatusPendingOnChain"
  "StatusValidated \<noteq> StatusConfirmed" "StatusValidated \<noteq> StatusFailed"
  "StatusQueued \<noteq> StatusSigning" "StatusQueued \<noteq> StatusSubmitted"
  "StatusQueued \<noteq> StatusPendingOnChain" "StatusQueued \<noteq> StatusConfirmed" "StatusQueued \<noteq> StatusFailed"
  "StatusSigning \<noteq> StatusSubmitted" "StatusSigning \<noteq> StatusPendingOnChain"
  "StatusSigning \<noteq> StatusConfirmed" "StatusSigning \<noteq> StatusFailed"
  "StatusSubmitted \<noteq> StatusPendingOnChain" "StatusSubmitted \<noteq> StatusConfirmed"
  "StatusSubmitted \<noteq> StatusFailed"
  "StatusPendingOnChain \<noteq> StatusConfirmed" "StatusPendingOnChain \<noteq> StatusFailed"
  "StatusConfirmed \<noteq> StatusFailed"
  by (simp_all add: go_consts)

lemmas transfer_status_neq_sym [simp] = transfer_status_neq [symmetric]

lemma attempt_status_neq [simp]:
  "AttemptStatusSigned \<noteq> AttemptStatusBroadcasting" "AttemptStatusSigned \<noteq> AttemptStatusBroadcasted"
  "AttemptStatusSigned \<noteq> AttemptStatusFailed" "AttemptStatusBroadcasting \<noteq> AttemptStatusBroadcasted"
  "AttemptStatusBroadcasting \<noteq> AttemptStatusFailed" "AttemptStatusBroadcasted \<noteq> AttemptStatusFailed"
  by (simp_all add: go_consts)

lemmas attempt_status_neq_sym [simp] = attempt_status_neq [symmetric]

lemma outbox_status_neq [simp]:
  "OutboxStatusPending \<noteq> OutboxStatusProcessing" "OutboxStatusPending \<noteq> OutboxStatusRetry"
  "OutboxStatusPending \<noteq> OutboxStatusDispatched" "OutboxStatusProcessing \<noteq> OutboxStatusRetry"
  "OutboxStatusProcessing \<noteq> OutboxStatusDispatched" "OutboxStatusRetry \<noteq> OutboxStatusDispatched"
  by (simp_all add: go_consts)

lemmas outbox_status_neq_sym [simp] = outbox_status_neq [symmetric]

lemma delivery_status_neq [simp]:
  "DeliveryStatusPending \<noteq> DeliveryStatusRetrying" "DeliveryStatusPending \<noteq> DeliveryStatusInProgress"
  "DeliveryStatusPending \<noteq> DeliveryStatusDelivered" "DeliveryStatusPending \<noteq> DeliveryStatusFailed"
  "DeliveryStatusRetrying \<noteq> DeliveryStatusInProgress" "DeliveryStatusRetrying \<noteq> DeliveryStatusDelivered"
  "DeliveryStatusRetrying \<noteq> DeliveryStatusFailed" "DeliveryStatusInProgress \<noteq> DeliveryStatusDelivered"
  "DeliveryStatusInProgress \<noteq> DeliveryStatusFailed" "DeliveryStatusDelivered \<noteq> DeliveryStatusFailed"
  by (simp_all add: go_consts)

lemmas delivery_status_neq_sym [simp] = delivery_status_neq [symmetric]

lemma receipt_status_neq [simp]:
  "ReceiptStatusPending \<noteq> ReceiptStatusConfirmed" "ReceiptStatusPending \<noteq> ReceiptStatusFailed"
  "ReceiptStatusPending \<noteq> ReceiptStatusNotFound" "ReceiptStatusConfirmed \<noteq> ReceiptStatusFailed"
  "ReceiptStatusConfirmed \<noteq> ReceiptStatusNotFound" "ReceiptStatusFailed \<noteq> ReceiptStatusNotFound"
  by (simp_all add: go_consts)

lemmas receipt_status_neq_sym [simp] = receipt_status_neq [symmetric]

end
