(* ===== verification/Driver.thy ===== *)
theory Driver
  imports Schema
begin

text \<open>
  How a repository call meets the database. Every call of a repository method is one round
  trip (one transaction, or one autocommitted statement). Before it runs, other sessions may
  have committed work (\<open>interfere\<close>), the context may have been cancelled (\<open>cancels\<close>) and one
  driver call of the round trip may fail (\<open>tick_fault\<close>: its number within the method, its
  error, and whether the server had applied the work although the reply was lost). The
  schedule \<open>w_sched\<close> lists what happens at the next round trips; past its end nothing else
  happens. The rest of the world is what the components act on: the clock of the process, the
  calls made to signer, broadcaster and webhook targets (each with the database at that
  moment), the broker (what was published and settled, how each library call ends), Redis
  (keys with their token and expiry, how each command ends), what the lock's heartbeat sees
  while a transfer is processed, and whether the context ends during the next waits.
\<close>

record tick =
  interfere :: "db \<Rightarrow> db"
  tick_fault :: "(nat \<times> go_error \<times> bool) option"
  cancels :: bool

datatype settlement = AckDelivery | NackRequeue | RejectDrop

text \<open>
  What the select of the heartbeat goroutine sees: its ticker after some nanoseconds, the
  processing context done, or its stop function called.
\<close>

datatype heartbeat_event = HeartbeatTick nat | ProcessingDone | HeartbeatStop

text \<open>\<open>amqp.Publishing\<close> as the source fills it, with its exchange and routing key.\<close>

record Publishing =
  pub_Exchange :: string
  pub_RoutingKey :: string
  pub_ContentType :: string
  pub_Persistent :: bool
  pub_Body :: raw_json
  pub_Type :: string

record world =
  w_db :: db
  w_sched :: "tick list"
  w_ctx :: "go_error option"
  w_clock :: go_time
  w_signed :: "(Transfer \<times> db) list"
  w_broadcasts :: "(Transfer \<times> TransactionAttempt \<times> db) list"
  w_published :: "Publishing list"
  w_amqp_outcomes :: "go_error option list"
  w_amqp_closed :: bool
  w_channels :: nat
  w_settled :: "settlement list"
  w_redis :: "string \<Rightarrow> (string \<times> go_time) option"
  w_redis_outcomes :: "(go_error \<times> bool) option list"
  w_uuids :: nat
  w_heartbeat :: "heartbeat_event list"
  w_waits :: "bool list"
  w_posted :: "(Delivery \<times> db) list"

type_synonym fault = "(nat \<times> go_error \<times> bool) option"
type_synonym ('w, 'a) act = "'w \<Rightarrow> (go_error + 'a) \<times> 'w"

definition enter :: "world \<Rightarrow> fault \<times> world" where
  "enter w =
     (case w_sched w of
        [] \<Rightarrow> (map_option (\<lambda>e. (0, e, False)) (w_ctx w), w)
      | t # ts \<Rightarrow>
          (let ctx = (if cancels t \<and> w_ctx w = None then Some (Sentinel Canceled) else w_ctx w)
           in (case ctx of Some e \<Rightarrow> Some (0, e, False) | None \<Rightarrow> tick_fault t,
               w\<lparr>w_db := interfere t (w_db w), w_sched := ts, w_ctx := ctx\<rparr>)))"

text \<open>The error of driver call number \<open>k\<close> of the current method, if the schedule makes it fail.\<close>

definition fails_at :: "nat \<Rightarrow> fault \<Rightarrow> go_error option" where
  "fails_at k f = (case f of Some (j, e, _) \<Rightarrow> if j = k then Some e else None | None \<Rightarrow> None)"

definition reply_lost :: "fault \<Rightarrow> bool" where
  "reply_lost f = (case f of Some (_, _, applied) \<Rightarrow> applied | None \<Rightarrow> False)"

definition driver :: "nat \<Rightarrow> fault \<Rightarrow> go_error + 'a \<Rightarrow> go_error + 'a" where
  "driver k f r = (case fails_at k f of Some e \<Rightarrow> Inl e | None \<Rightarrow> r)"

text \<open>
  An autocommitted statement that changes rows: on success its new state is the database's;
  when the reply is lost after the server applied it, the caller sees the error and the
  database has the change.
\<close>

definition autocommit :: "fault \<Rightarrow> go_error + 'a \<times> db \<Rightarrow> (world, 'a) act" where
  "autocommit f r w =
     (case r of
        Inl e \<Rightarrow> (driver 0 f (Inl e), w)
      | Inr (x, d) \<Rightarrow>
          (case fails_at 0 f of
             None \<Rightarrow> (Inr x, w\<lparr>w_db := d\<rparr>)
           | Some e \<Rightarrow> (Inl e, if reply_lost f then w\<lparr>w_db := d\<rparr> else w)))"

text \<open>A round trip that only reads.\<close>

definition query :: "(db \<Rightarrow> go_error + 'a) \<Rightarrow> (world, 'a) act" where
  "query q w = (let (f, w1) = enter w in (driver 0 f (q (w_db w1)), w1))"

text \<open>
  \<open>run_quiet\<close>: nothing else happens around the call, which is what a claim about one call in
  isolation assumes.
\<close>

definition quiet :: "world \<Rightarrow> bool" where
  "quiet w \<longleftrightarrow> w_sched w = [] \<and> w_ctx w = None"

text \<open>The database the statements of the next round trip see.\<close>

definition seen_db :: "world \<Rightarrow> db" where
  "seen_db w = w_db (snd (enter w))"

lemma enter_quiet [simp]: "quiet w \<Longrightarrow> enter w = (None, w)"
  by (simp add: enter_def quiet_def)

lemma seen_db_quiet [simp]: "quiet w \<Longrightarrow> seen_db w = w_db w"
  by (simp add: seen_db_def)

lemma fails_at_None [simp]: "fails_at k None = None"
  by (simp add: fails_at_def)

lemma driver_None [simp]: "driver k None r = r"
  by (simp add: driver_def)

lemma query_quiet [simp]: "quiet w \<Longrightarrow> query q w = (q (w_db w), w)"
  by (simp add: query_def)

lemma autocommit_quiet [simp]:
  "autocommit None r w = (case r of Inl e \<Rightarrow> (Inl e, w) | Inr (x, d) \<Rightarrow> (Inr x, w\<lparr>w_db := d\<rparr>))"
  by (simp add: autocommit_def split: sum.splits)

lemma quiet_db_update [simp]: "quiet (w\<lparr>w_db := d\<rparr>) = quiet w"
  by (simp add: quiet_def)

subsection \<open>What a round trip can change\<close>

text \<open>
  \<open>same_outside w w'\<close>: a round trip touches the database, consumes the schedule and may see
  the context cancelled; everything else of the world is as before.
\<close>

definition same_outside :: "world \<Rightarrow> world \<Rightarrow> bool" where
  "same_outside w w' \<longleftrightarrow>
     w_clock w' = w_clock w \<and> w_signed w' = w_signed w \<and> w_broadcasts w' = w_broadcasts w \<and>
     w_published w' = w_published w \<and> w_amqp_outcomes w' = w_amqp_outcomes w \<and>
     w_amqp_closed w' = w_amqp_closed w \<and> w_channels w' = w_channels w \<and>
     w_settled w' = w_settled w \<and> w_redis w' = w_redis w \<and>
     w_redis_outcomes w' = w_redis_outcomes w \<and> w_uuids w' = w_uuids w \<and>
     w_heartbeat w' = w_heartbeat w \<and> w_waits w' = w_waits w \<and> w_posted w' = w_posted w"

lemma same_outside_refl [simp]: "same_outside w w"
  by (simp add: same_outside_def)

lemma same_outside_trans: "same_outside a b \<Longrightarrow> same_outside b c \<Longrightarrow> same_outside a c"
  by (simp add: same_outside_def)

lemma same_outside_db [simp]: "same_outside w (w'\<lparr>w_db := d\<rparr>) = same_outside w w'"
  by (simp add: same_outside_def)

lemma same_outside_enter [simp]: "same_outside w (snd (enter w))"
  by (simp add: enter_def same_outside_def Let_def split: list.splits)

lemma autocommit_outside [simp]: "same_outside w0 (snd (autocommit f r w)) = same_outside w0 w"
  by (simp add: autocommit_def split: sum.splits prod.splits option.splits)

lemma query_outside: "same_outside w (snd (query q w))"
  by (simp add: query_def split: prod.splits) (metis same_outside_enter snd_conv)

lemma length_sched_enter: "length (w_sched (snd (enter w))) = length (w_sched w) - 1"
  by (simp add: enter_def Let_def split: list.splits)

subsection \<open>What the environment is assumed to do\<close>

text \<open>
  A failed driver call is a lost connection, a timeout or a cancelled context: it is no
  server report (those come from the statements) and no other error the code tests for.
\<close>

definition driver_failure :: "go_error \<Rightarrow> bool" where
  "driver_failure e \<longleftrightarrow> as_pg_error e = None \<and> (\<forall>s. errors_is e s \<longrightarrow> s = Canceled)"

text \<open>
  \<open>relies R w\<close>: whatever the other sessions commit, they do it in steps of \<open>R\<close> (the rely
  condition of the concurrency theorems), and driver calls fail as above.
\<close>

definition relies :: "(db \<Rightarrow> db \<Rightarrow> bool) \<Rightarrow> world \<Rightarrow> bool" where
  "relies R w \<longleftrightarrow>
     (\<forall>t \<in> set (w_sched w). (\<forall>d. R\<^sup>*\<^sup>* d (interfere t d)) \<and>
        (\<forall>k e b. tick_fault t = Some (k, e, b) \<longrightarrow> driver_failure e)) \<and>
     (\<forall>e. w_ctx w = Some e \<longrightarrow> driver_failure e)"

lemma driver_failure_canceled [simp]: "driver_failure (Sentinel Canceled)"
  by (simp add: driver_failure_def)

lemma relies_quiet [simp]: "quiet w \<Longrightarrow> relies R w"
  by (simp add: relies_def quiet_def)

lemma relies_db [simp]: "relies R (w\<lparr>w_db := d\<rparr>) = relies R w"
  by (simp add: relies_def)

lemma relies_enter:
  assumes "relies R w" and "enter w = (f, w1)"
  shows "relies R w1" and "R\<^sup>*\<^sup>* (w_db w) (w_db w1)"
    and "fails_at k f = Some e \<Longrightarrow> driver_failure e"
  using assms
  by (auto simp: relies_def enter_def fails_at_def Let_def split: list.splits option.splits if_splits prod.splits)

text \<open>A round trip whose first driver call fails before the server sees it.\<close>

definition lost_call :: "go_error \<Rightarrow> tick" where
  "lost_call e = \<lparr>interfere = id, tick_fault = Some (0, e, False), cancels = False\<rparr>"

end
