(* ===== verification/TransferRepo.thy ===== *)
theory TransferRepo
  imports Driver
begin

text \<open>
  \<^verbatim>\<open>transfers/repository.go\<close> and \<^verbatim>\<open>transfers/postgres_repository.go\<close>: the parameters and the
  \<open>Repository\<close> interface (a record of functions over the caller's world), the SQL
  statements (functions on the database that report a row, \<open>ErrNoRows\<close> or a server error),
  and the methods of \<open>PostgresRepository\<close> over the driver.
\<close>

subsection \<open>Interface\<close>

record CreateParams =
  cp_IdempotencyKey :: string
  cp_Chain :: string
  cp_AssetType :: string
  cp_SourceWalletID :: string
  cp_DestinationAddress :: string
  cp_Amount :: string
  cp_CallbackURL :: string
  cp_MetadataJSON :: raw_json
  cp_Status :: string

record ListParams =
  lp_Limit :: int
  lp_Offset :: int

record TransitionParams =
  tp_ID :: string
  tp_FromStatus :: string
  tp_ToStatus :: string
  tp_TxHash :: "string option"

record CreateAttemptParams =
  ca_TransferID :: string
  ca_Nonce :: "64 word option"
  ca_RawPayload :: raw_json
  ca_TxHash :: string
  ca_Status :: string
  ca_ErrorMessage :: string

record UpdateAttemptParams =
  ua_AttemptID :: string
  ua_ExpectedStatus :: string
  ua_Status :: string
  ua_ErrorMessage :: string

record 'w Repository =
  repo_Create :: "CreateParams \<Rightarrow> ('w, Transfer \<times> bool) act"
  repo_GetByID :: "string \<Rightarrow> ('w, Transfer) act"
  repo_List :: "ListParams \<Rightarrow> ('w, Transfer list) act"
  repo_TransitionStatus :: "TransitionParams \<Rightarrow> ('w, Transfer) act"
  repo_GetLatestAttempt :: "string \<Rightarrow> ('w, TransactionAttempt) act"
  repo_CreateAttempt :: "CreateAttemptParams \<Rightarrow> ('w, TransactionAttempt) act"
  repo_UpdateAttempt :: "UpdateAttemptParams \<Rightarrow> ('w, TransactionAttempt) act"

subsection \<open>Errors of a write\<close>

definition mapTransferWriteError :: "string \<Rightarrow> go_error \<Rightarrow> go_error" where
  "mapTransferWriteError operation err =
     (case as_pg_error err of
        None \<Rightarrow> Errorf operation err
      | Some (code, constraint) \<Rightarrow>
          if code = ''23503'' \<and> constraint = ''fk_transfer_requests_source_wallet_id''
          then Errorf operation (Sentinel ErrSourceWalletNotFound)
          else if code = ''23505'' \<and>
            constraint \<in> set [''idx_transaction_attempts_transfer_request_active_attempt'',
                              ''uq_transaction_attempts_transaction_hash'']
          then Errorf operation (Sentinel ErrTransactionAttemptConflict)
          else if code = ''23514'' \<and>
            constraint \<in> set [''chk_transfer_requests_status'',
              ''chk_transfer_status_history_from_status'', ''chk_transfer_status_history_to_status'']
          then Errorf operation (Sentinel ErrInvalidTransferStatus)
          else if code = ''23514'' \<and> constraint = ''chk_transaction_attempts_status''
          then Errorf operation (Sentinel ErrInvalidTransactionAttemptStatus)
          else Errorf operation err)"

subsection \<open>Statements\<close>

definition fresh_uuid :: "pg \<Rightarrow> db \<Rightarrow> string" where
  "fresh_uuid pg d = gen_random_uuid pg (uuid_count d)"

text \<open>The cast of a decimal integer to \<open>NUMERIC(78, 0)\<close> and back to text.\<close>

fun digits_value :: "nat \<Rightarrow> string \<Rightarrow> nat option" where
  "digits_value acc [] = Some acc"
| "digits_value acc (c # cs) =
     (if 48 \<le> (of_char c :: nat) \<and> (of_char c :: nat) \<le> 57
      then digits_value (acc * 10 + (of_char c - 48)) cs else None)"

definition decimal_value :: "string \<Rightarrow> int option" where
  "decimal_value s =
     (case s of
        [] \<Rightarrow> None
      | c # cs \<Rightarrow>
          if c = CHR ''-'' then (if cs = [] then None else map_option (\<lambda>n. - int n) (digits_value 0 cs))
          else if c = CHR ''+'' then (if cs = [] then None else map_option int (digits_value 0 cs))
          else map_option int (digits_value 0 s))"

definition numeric_78 :: "string \<Rightarrow> go_error + string" where
  "numeric_78 s =
     (case decimal_value s of
        None \<Rightarrow> Inl (PgError ''22P02'' '''')
      | Some i \<Rightarrow> if \<bar>i\<bar> < 10 ^ 78 then Inr (itoa i) else Inl (PgError ''22003'' ''''))"

text \<open>\<open>scanTransfer\<close>: an empty \<open>metadata_json\<close> text reads as the empty object.\<close>

definition scan_metadata :: "raw_json \<Rightarrow> raw_json" where
  "scan_metadata m = (if m = RawText '''' then RawJson (JObject []) else m)"

definition scanTransfer :: "Transfer \<Rightarrow> Transfer" where
  "scanTransfer r = r\<lparr>tr_MetadataJSON := scan_metadata (tr_MetadataJSON r)\<rparr>"

definition sql_insert_transfer :: "pg \<Rightarrow> CreateParams \<Rightarrow> db \<Rightarrow> go_error + Transfer \<times> db" where
  "sql_insert_transfer pg p d =
     (case (uuid_in pg (cp_SourceWalletID p), numeric_78 (cp_Amount p)) of
        (None, _) \<Rightarrow> Inl (PgError ''22P02'' '''')
      | (Some wallet, Inl e) \<Rightarrow> Inl e
      | (Some wallet, Inr amount) \<Rightarrow>
          if cp_Status p \<notin> set transfer_statuses
          then Inl (PgError ''23514'' ''chk_transfer_requests_status'')
          else if \<exists>r \<in> set (transfer_requests d). tr_IdempotencyKey r = cp_IdempotencyKey p
          then Inl (Sentinel ErrNoRows)
          else if \<exists>r \<in> set (transfer_requests d). tr_ID r = fresh_uuid pg d
          then Inl (PgError ''23505'' ''transfer_requests_pkey'')
          else if \<not> (\<exists>x \<in> set (wallets d). wa_ID x = wallet)
          then Inl (PgError ''23503'' ''fk_transfer_requests_source_wallet_id'')
          else (let r = \<lparr>tr_ID = fresh_uuid pg d, tr_IdempotencyKey = cp_IdempotencyKey p,
                         tr_Chain = cp_Chain p, tr_AssetType = cp_AssetType p,
                         tr_SourceWalletID = wallet,
                         tr_DestinationAddress = cp_DestinationAddress p,
                         tr_Amount = amount, tr_CallbackURL = cp_CallbackURL p,
                         tr_MetadataJSON = cp_MetadataJSON p, tr_TxHash = '''',
                         tr_Status = cp_Status p, tr_CreatedAt = db_now d, tr_UpdatedAt = db_now d\<rparr>
                in Inr (scanTransfer r,
                        d\<lparr>transfer_requests := transfer_requests d @ [r],
                          uuid_count := Suc (uuid_count d)\<rparr>)))"

definition sql_insert_history ::
  "pg \<Rightarrow> string \<Rightarrow> string option \<Rightarrow> string \<Rightarrow> db \<Rightarrow> go_error + unit \<times> db" where
  "sql_insert_history pg tid from_status to_status d =
     (if \<exists>s. from_status = Some s \<and> s \<notin> set transfer_statuses
      then Inl (PgError ''23514'' ''chk_transfer_status_history_from_status'')
      else if to_status \<notin> set transfer_statuses
      then Inl (PgError ''23514'' ''chk_transfer_status_history_to_status'')
      else if \<exists>h \<in> set (transfer_status_history d). sh_ID h = fresh_uuid pg d
      then Inl (PgError ''23505'' ''transfer_status_history_pkey'')
      else if \<not> (\<exists>r \<in> set (transfer_requests d). tr_ID r = tid)
      then Inl (PgError ''23503'' ''transfer_status_history_transfer_request_id_fkey'')
      else Inr ((), d\<lparr>transfer_status_history := transfer_status_history d @
                        [\<lparr>sh_ID = fresh_uuid pg d, sh_TransferID = tid, sh_FromStatus = from_status,
                          sh_ToStatus = to_status, sh_CreatedAt = db_now d\<rparr>],
                      uuid_count := Suc (uuid_count d)\<rparr>))"

definition sql_insert_outbox ::
  "pg \<Rightarrow> string \<Rightarrow> string \<Rightarrow> raw_json \<Rightarrow> string \<Rightarrow> db \<Rightarrow> go_error + unit \<times> db" where
  "sql_insert_outbox pg tid event_type payload status d =
     (if status \<notin> set [OutboxStatusPending, OutboxStatusProcessing, OutboxStatusRetry, OutboxStatusDispatched]
      then Inl (PgError ''23514'' ''transfer_outbox_status_check'')
      else if \<exists>x \<in> set (transfer_outbox d). oe_ID x = fresh_uuid pg d
      then Inl (PgError ''23505'' ''transfer_outbox_pkey'')
      else if \<exists>x \<in> set (transfer_outbox d). oe_TransferID x = tid \<and> oe_EventType x = event_type
      then Inl (PgError ''23505'' ''idx_transfer_outbox_transfer_event_unique'')
      else if \<not> (\<exists>r \<in> set (transfer_requests d). tr_ID r = tid)
      then Inl (PgError ''23503'' ''transfer_outbox_transfer_request_id_fkey'')
      else Inr ((), d\<lparr>transfer_outbox := transfer_outbox d @
                        [\<lparr>oe_ID = fresh_uuid pg d, oe_TransferID = tid, oe_EventType = event_type,
                          oe_PayloadJSON = payload, oe_Status = status, oe_AttemptCount = 0,
                          oe_AvailableAt = db_now d, oe_LockedAt = None, oe_DispatchedAt = None,
                          oe_LastError = '''', oe_CreatedAt = db_now d, oe_UpdatedAt = db_now d\<rparr>],
                      uuid_count := Suc (uuid_count d)\<rparr>))"

definition transition_row :: "TransitionParams \<Rightarrow> db \<Rightarrow> Transfer \<Rightarrow> Transfer" where
  "transition_row p d r =
     r\<lparr>tr_Status := tp_ToStatus p,
       tr_TxHash := (case tp_TxHash p of None \<Rightarrow> tr_TxHash r | Some h \<Rightarrow> h),
       tr_UpdatedAt := db_now d\<rparr>"

definition sql_update_transfer :: "pg \<Rightarrow> TransitionParams \<Rightarrow> db \<Rightarrow> go_error + Transfer \<times> db" where
  "sql_update_transfer pg p d =
     (case uuid_in pg (tp_ID p) of
        None \<Rightarrow> Inl (PgError ''22P02'' '''')
      | Some k \<Rightarrow>
          (case find (\<lambda>r. tr_ID r = k \<and> tr_Status r = tp_FromStatus p) (transfer_requests d) of
             None \<Rightarrow> Inl (Sentinel ErrNoRows)
           | Some r \<Rightarrow>
               if tp_ToStatus p \<notin> set transfer_statuses
               then Inl (PgError ''23514'' ''chk_transfer_requests_status'')
               else Inr (scanTransfer (transition_row p d r),
                         d\<lparr>transfer_requests :=
                             update_where (\<lambda>x. tr_ID x = k \<and> tr_Status x = tp_FromStatus p)
                               (transition_row p d) (transfer_requests d)\<rparr>)))"

definition sql_select_transfer :: "pg \<Rightarrow> string \<Rightarrow> db \<Rightarrow> go_error + Transfer" where
  "sql_select_transfer pg tid d =
     (case uuid_in pg tid of
        None \<Rightarrow> Inl (PgError ''22P02'' '''')
      | Some k \<Rightarrow>
          (case find (\<lambda>r. tr_ID r = k) (transfer_requests d) of
             None \<Rightarrow> Inl (Sentinel ErrNoRows)
           | Some r \<Rightarrow> Inr (scanTransfer r)))"

definition sql_select_by_key :: "string \<Rightarrow> db \<Rightarrow> go_error + Transfer" where
  "sql_select_by_key key d =
     (case find (\<lambda>r. tr_IdempotencyKey r = key) (transfer_requests d) of
        None \<Rightarrow> Inl (Sentinel ErrNoRows)
      | Some r \<Rightarrow> Inr (scanTransfer r))"

definition sql_latest_attempt :: "pg \<Rightarrow> string \<Rightarrow> db \<Rightarrow> go_error + TransactionAttempt" where
  "sql_latest_attempt pg tid d =
     (case uuid_in pg tid of
        None \<Rightarrow> Inl (PgError ''22P02'' '''')
      | Some k \<Rightarrow>
          (case sort_key (\<lambda>a. - ta_CreatedAt a)
                  (filter (\<lambda>a. ta_TransferID a = k) (transaction_attempts d)) of
             [] \<Rightarrow> Inl (Sentinel ErrNoRows)
           | a # _ \<Rightarrow> Inr a))"

definition sql_select_attempt :: "pg \<Rightarrow> string \<Rightarrow> db \<Rightarrow> go_error + TransactionAttempt" where
  "sql_select_attempt pg aid d =
     (case uuid_in pg aid of
        None \<Rightarrow> Inl (PgError ''22P02'' '''')
      | Some k \<Rightarrow>
          (case find (\<lambda>a. ta_ID a = k) (transaction_attempts d) of
             None \<Rightarrow> Inl (Sentinel ErrNoRows)
           | Some a \<Rightarrow> Inr a))"

definition sql_insert_attempt :: "pg \<Rightarrow> CreateAttemptParams \<Rightarrow> db \<Rightarrow> go_error + TransactionAttempt \<times> db" where
  "sql_insert_attempt pg p d =
     (case uuid_in pg (ca_TransferID p) of
        None \<Rightarrow> Inl (PgError ''22P02'' '''')
      | Some k \<Rightarrow>
          (let a = \<lparr>ta_ID = fresh_uuid pg d, ta_TransferID = k, ta_Nonce = ca_Nonce p,
                    ta_RawPayload = ca_RawPayload p, ta_TxHash = ca_TxHash p, ta_Status = ca_Status p,
                    ta_ErrorMessage = ca_ErrorMessage p, ta_CreatedAt = db_now d, ta_UpdatedAt = db_now d\<rparr>
           in if ta_Status a \<notin> set attempt_statuses
              then Inl (PgError ''23514'' ''chk_transaction_attempts_status'')
              else if \<exists>x \<in> set (transaction_attempts d). ta_ID x = ta_ID a
              then Inl (PgError ''23505'' ''transaction_attempts_pkey'')
              else if attempt_active a \<and>
                (\<exists>x \<in> set (transaction_attempts d). attempt_active x \<and> ta_TransferID x = k)
              then Inl (PgError ''23505'' ''idx_transaction_attempts_transfer_request_active_attempt'')
              else if attempt_has_hash a \<and>
                (\<exists>x \<in> set (transaction_attempts d). ta_TxHash x = ta_TxHash a)
              then Inl (PgError ''23505'' ''uq_transaction_attempts_transaction_hash'')
              else if \<not> (\<exists>r \<in> set (transfer_requests d). tr_ID r = k)
              then Inl (PgError ''23503'' ''transaction_attempts_transfer_request_id_fkey'')
              else Inr (a, d\<lparr>transaction_attempts := transaction_attempts d @ [a],
                             uuid_count := Suc (uuid_count d)\<rparr>)))"

definition attempt_row :: "UpdateAttemptParams \<Rightarrow> db \<Rightarrow> TransactionAttempt \<Rightarrow> TransactionAttempt" where
  "attempt_row p d a =
     a\<lparr>ta_Status := ua_Status p, ta_ErrorMessage := ua_ErrorMessage p, ta_UpdatedAt := db_now d\<rparr>"

definition sql_update_attempt :: "pg \<Rightarrow> UpdateAttemptParams \<Rightarrow> db \<Rightarrow> go_error + TransactionAttempt \<times> db" where
  "sql_update_attempt pg p d =
     (case uuid_in pg (ua_AttemptID p) of
        None \<Rightarrow> Inl (PgError ''22P02'' '''')
      | Some k \<Rightarrow>
          (case find (\<lambda>a. ta_ID a = k \<and> ta_Status a = ua_ExpectedStatus p) (transaction_attempts d) of
             None \<Rightarrow> Inl (Sentinel ErrNoRows)
           | Some a \<Rightarrow>
               if ua_Status p \<notin> set attempt_statuses
               then Inl (PgError ''23514'' ''chk_transaction_attempts_status'')
               else if attempt_active (attempt_row p d a) \<and>
                 (\<exists>x \<in> set (transaction_attempts d).
                    attempt_active x \<and> ta_ID x \<noteq> k \<and> ta_TransferID x = ta_TransferID a)
               then Inl (PgError ''23505'' ''idx_transaction_attempts_transfer_request_active_attempt'')
               else Inr (attempt_row p d a,
                         d\<lparr>transaction_attempts :=
                             update_where (\<lambda>x. ta_ID x = k \<and> ta_Status x = ua_ExpectedStatus p)
                               (attempt_row p d) (transaction_attempts d)\<rparr>)))"

subsection \<open>Methods of \<open>PostgresRepository\<close>\<close>

definition GetByID :: "pg \<Rightarrow> string \<Rightarrow> (world, Transfer) act" where
  "GetByID pg tid w =
     (case query (sql_select_transfer pg tid) w of
        (Inl e, w1) \<Rightarrow>
          (Inl (if errors_is e ErrNoRows then Sentinel ErrTransferNotFound
                else Errorf ''get transfer by id'' e), w1)
      | (Inr t, w1) \<Rightarrow> (Inr t, w1))"

definition getByIdempotencyKey :: "string \<Rightarrow> (world, Transfer) act" where
  "getByIdempotencyKey key w =
     (case query (sql_select_by_key key) w of
        (Inl e, w1) \<Rightarrow>
          (Inl (if errors_is e ErrNoRows then Sentinel ErrTransferNotFound
                else Errorf ''get transfer by idempotency key'' e), w1)
      | (Inr t, w1) \<Rightarrow> (Inr t, w1))"

text \<open>
  \<open>Create\<close>: one transaction of five driver calls (begin, insert the request, insert the
  first history row, insert the outbox event, commit); anything that fails before the commit
  rolls back. When the key is taken, the existing row is read outside the transaction.
\<close>

definition Create :: "pg \<Rightarrow> CreateParams \<Rightarrow> (world, Transfer \<times> bool) act" where
  "Create pg p w =
     (let (f, w1) = enter w in
      case driver 0 f (Inr ()) of
        Inl e \<Rightarrow> (Inl (Errorf ''begin transfer create transaction'' e), w1)
      | Inr _ \<Rightarrow>
      (case driver 1 f (sql_insert_transfer pg p (w_db w1)) of
         Inl e \<Rightarrow>
           (if errors_is e ErrNoRows
            then (case getByIdempotencyKey (cp_IdempotencyKey p) w1 of
                    (Inl ge, w2) \<Rightarrow> (Inl ge, w2)
                  | (Inr existing, w2) \<Rightarrow> (Inr (existing, False), w2))
            else (Inl (mapTransferWriteError ''insert transfer request'' e), w1))
       | Inr (transfer, d1) \<Rightarrow>
      (case driver 2 f (sql_insert_history pg (tr_ID transfer) None (tr_Status transfer) d1) of
         Inl e \<Rightarrow> (Inl (Errorf ''insert transfer status history'' e), w1)
       | Inr (_, d2) \<Rightarrow>
      (let payload = marshal_job \<lparr>job_TransferID = tr_ID transfer, job_Attempt = 0\<rparr> in
       case driver 3 f (sql_insert_outbox pg (tr_ID transfer) OutboxEventTypeTransferRequested
                          payload OutboxStatusPending d2) of
         Inl e \<Rightarrow> (Inl (Errorf ''insert transfer outbox event'' e), w1)
       | Inr (_, d3) \<Rightarrow>
      (case fails_at 4 f of
         Some e \<Rightarrow> (Inl (Errorf ''commit transfer request'' e),
                     if reply_lost f then w1\<lparr>w_db := d3\<rparr> else w1)
       | None \<Rightarrow> (Inr (transfer, True), w1\<lparr>w_db := d3\<rparr>))))))"

text \<open>SQL's \<open>LIMIT\<close> and \<open>OFFSET\<close> refuse negative numbers.\<close>

definition sql_list_transfers :: "ListParams \<Rightarrow> db \<Rightarrow> go_error + Transfer list" where
  "sql_list_transfers p d =
     (if lp_Limit p < 0 then Inl (PgError ''2201W'' '''')
      else if lp_Offset p < 0 then Inl (PgError ''2201X'' '''')
      else Inr (map scanTransfer
             (take (nat (lp_Limit p)) (drop (nat (lp_Offset p))
                (sort_key (\<lambda>r. - tr_CreatedAt r) (transfer_requests d))))))"

definition List_transfers :: "ListParams \<Rightarrow> (world, Transfer list) act" where
  "List_transfers p w =
     (case query (sql_list_transfers p) w of
        (Inl e, w1) \<Rightarrow> (Inl (Errorf ''list transfers'' e), w1)
      | (Inr ts, w1) \<Rightarrow> (Inr ts, w1))"

definition TransitionStatus :: "pg \<Rightarrow> TransitionParams \<Rightarrow> (world, Transfer) act" where
  "TransitionStatus pg p w =
     (let (f, w1) = enter w in
      case driver 0 f (Inr ()) of
        Inl e \<Rightarrow> (Inl (Errorf ''begin transfer transition transaction'' e), w1)
      | Inr _ \<Rightarrow>
      (case driver 1 f (sql_update_transfer pg p (w_db w1)) of
         Inl e \<Rightarrow>
           (if errors_is e ErrNoRows
            then (case GetByID pg (tp_ID p) w1 of
                    (Inl ge, w2) \<Rightarrow> (Inl ge, w2)
                  | (Inr current, w2) \<Rightarrow>
                      (Inl (InvalidStateError (tr_ID current) (tp_FromStatus p) (tr_Status current)), w2))
            else (Inl (mapTransferWriteError ''update transfer status'' e), w1))
       | Inr (transfer, d1) \<Rightarrow>
      (case driver 2 f (sql_insert_history pg (tr_ID transfer) (Some (tp_FromStatus p)) (tp_ToStatus p) d1) of
         Inl e \<Rightarrow> (Inl (Errorf ''insert transfer status transition'' e), w1)
       | Inr (_, d2) \<Rightarrow>
      (case fails_at 3 f of
         Some e \<Rightarrow> (Inl (Errorf ''commit transfer status transition'' e),
                     if reply_lost f then w1\<lparr>w_db := d2\<rparr> else w1)
       | None \<Rightarrow> (Inr transfer, w1\<lparr>w_db := d2\<rparr>)))))"

definition GetLatestAttempt :: "pg \<Rightarrow> string \<Rightarrow> (world, TransactionAttempt) act" where
  "GetLatestAttempt pg tid w =
     (case query (sql_latest_attempt pg tid) w of
        (Inl e, w1) \<Rightarrow>
          (Inl (if errors_is e ErrNoRows then Sentinel ErrTransactionAttemptNotFound
                else Errorf ''get latest transaction attempt'' e), w1)
      | (Inr a, w1) \<Rightarrow> (Inr a, w1))"

definition getAttemptByID :: "pg \<Rightarrow> string \<Rightarrow> (world, TransactionAttempt) act" where
  "getAttemptByID pg aid w =
     (case query (sql_select_attempt pg aid) w of
        (Inl e, w1) \<Rightarrow>
          (Inl (if errors_is e ErrNoRows then Sentinel ErrTransactionAttemptNotFound
                else Errorf ''get transaction attempt by id'' e), w1)
      | (Inr a, w1) \<Rightarrow> (Inr a, w1))"

definition CreateAttempt :: "pg \<Rightarrow> CreateAttemptParams \<Rightarrow> (world, TransactionAttempt) act" where
  "CreateAttempt pg p w =
     (let (f, w1) = enter w in
      case autocommit f (sql_insert_attempt pg p (w_db w1)) w1 of
        (Inl e, w2) \<Rightarrow> (Inl (mapTransferWriteError ''create transaction attempt'' e), w2)
      | (Inr a, w2) \<Rightarrow> (Inr a, w2))"

definition UpdateAttempt :: "pg \<Rightarrow> UpdateAttemptParams \<Rightarrow> (world, TransactionAttempt) act" where
  "UpdateAttempt pg p w =
     (let (f, w1) = enter w in
      case autocommit f (sql_update_attempt pg p (w_db w1)) w1 of
        (Inl e, w2) \<Rightarrow>
          (if errors_is e ErrNoRows
           then (case getAttemptByID pg (ua_AttemptID p) w2 of
                   (Inl ge, w3) \<Rightarrow> (Inl ge, w3)
                 | (Inr current, w3) \<Rightarrow>
                     (Inl (AttemptConflictError (ta_ID current) (ua_ExpectedStatus p) (ta_Status current)), w3))
           else (Inl (mapTransferWriteError ''update transaction attempt'' e), w2))
      | (Inr a, w2) \<Rightarrow> (Inr a, w2))"

definition PostgresRepository :: "pg \<Rightarrow> world Repository" where
  "PostgresRepository pg =
     \<lparr>repo_Create = Create pg, repo_GetByID = GetByID pg, repo_List = List_transfers,
      repo_TransitionStatus = TransitionStatus pg, repo_GetLatestAttempt = GetLatestAttempt pg,
      repo_CreateAttempt = CreateAttempt pg, repo_UpdateAttempt = UpdateAttempt pg\<rparr>"

subsection \<open>Decimal texts\<close>

lemma digits_value_append:
  "digits_value acc (xs @ ys) =
     (case digits_value acc xs of None \<Rightarrow> None | Some n \<Rightarrow> digits_value n ys)"
  by (induction acc xs rule: digits_value.induct) auto

lemma digits_value_nat_text: "digits_value 0 (nat_text n) = Some n"
proof (induction n rule: nat_text.induct)
  case (1 n)
  then show ?case by (subst nat_text.simps) (auto simp: digits_value_append)
qed

lemma nat_text_inj: "nat_text m = nat_text n \<Longrightarrow> m = n"
  by (metis digits_value_nat_text option.inject)

end
