(* ===== verification/Processor.thy ===== *)
theory Processor
  imports TransferRepo
begin

text \<open>
  \<^verbatim>\<open>transfers/processor.go\<close>: the state machine that advances a transfer. A \<open>Processor\<close> is
  parametric in its world and holds the three interfaces of the Go struct. A Go pair
  \<open>(Transfer, error)\<close> is a sum (every caller discards the transfer of a failed call).

  The submission functions call each other again when another worker changed the attempt
  between the read and the conditional update, which other workers can repeat any number of
  times, so these functions and the loop of \<open>ProcessTransfer\<close> carry fuel; running out is
  \<open>None\<close>, and the theory \<open>RepoContract\<close> shows how much is enough.
\<close>

record SignedTransfer =
  st_RawTransaction :: string
  st_TxHash :: string
  st_Nonce :: "64 word option"

record 'w Processor =
  p_repository :: "'w Repository"
  p_signer :: "Transfer \<Rightarrow> ('w, SignedTransfer) act"
  p_broadcaster :: "Transfer \<Rightarrow> TransactionAttempt \<Rightarrow> ('w, unit) act"

type_synonym 'w outcome = "((go_error + Transfer) \<times> 'w) option"

definition transition :: "'w Processor \<Rightarrow> Transfer \<Rightarrow> string \<Rightarrow> string option \<Rightarrow> ('w, Transfer) act" where
  "transition P transfer toStatus txHash w =
     repo_TransitionStatus (p_repository P)
       \<lparr>tp_ID = tr_ID transfer, tp_FromStatus = tr_Status transfer,
        tp_ToStatus = toStatus, tp_TxHash = txHash\<rparr> w"

definition submitBroadcastedAttempt ::
  "'w Processor \<Rightarrow> Transfer \<Rightarrow> TransactionAttempt \<Rightarrow> ('w, Transfer) act" where
  "submitBroadcastedAttempt P transfer attempt w =
     (if ta_TxHash attempt = ''''
      then (Inl (Opaque (''transaction attempt '' @ ta_ID attempt @ '' is missing tx hash'')), w)
      else transition P transfer StatusSubmitted (Some (ta_TxHash attempt)) w)"

function (sequential)
    resumeSubmission :: "nat \<Rightarrow> 'w Processor \<Rightarrow> Transfer \<Rightarrow> TransactionAttempt \<Rightarrow> 'w \<Rightarrow> 'w outcome"
and broadcastAttempt :: "nat \<Rightarrow> 'w Processor \<Rightarrow> Transfer \<Rightarrow> TransactionAttempt \<Rightarrow> 'w \<Rightarrow> 'w outcome"
and resumeLatestAttempt :: "nat \<Rightarrow> 'w Processor \<Rightarrow> Transfer \<Rightarrow> 'w \<Rightarrow> 'w outcome" where
  "resumeSubmission n P transfer attempt w =
     (if ta_Status attempt = AttemptStatusSigned
      then (case repo_UpdateAttempt (p_repository P)
                   \<lparr>ua_AttemptID = ta_ID attempt, ua_ExpectedStatus = AttemptStatusSigned,
                    ua_Status = AttemptStatusBroadcasting, ua_ErrorMessage = ''''\<rparr> w of
              (Inl e, w1) \<Rightarrow>
                (if errors_is e ErrTransactionAttemptConflict
                 then resumeLatestAttempt n P transfer w1
                 else Some (Inl e, w1))
            | (Inr updatedAttempt, w1) \<Rightarrow> broadcastAttempt n P transfer updatedAttempt w1)
      else if ta_Status attempt = AttemptStatusBroadcasting
      then broadcastAttempt n P transfer attempt w
      else if ta_Status attempt = AttemptStatusBroadcasted
      then Some (submitBroadcastedAttempt P transfer attempt w)
      else if ta_Status attempt = AttemptStatusFailed
      then Some (Inl (Opaque (''latest transaction attempt '' @ ta_ID attempt @ '' failed: ''
                        @ ta_ErrorMessage attempt)), w)
      else Some (Inl (Opaque (''transaction attempt '' @ ta_ID attempt @ '' has unsupported status ''
                        @ ta_Status attempt)), w))"
| "broadcastAttempt n P transfer attempt w =
     (case p_broadcaster P transfer attempt w of
        (Inl e, w1) \<Rightarrow>
          (let nextStatus = (if errors_is e ErrTransient then AttemptStatusSigned else AttemptStatusFailed) in
           case repo_UpdateAttempt (p_repository P)
                  \<lparr>ua_AttemptID = ta_ID attempt, ua_ExpectedStatus = AttemptStatusBroadcasting,
                   ua_Status = nextStatus, ua_ErrorMessage = error_text e\<rparr> w1 of
             (Inl ue, w2) \<Rightarrow>
               (if errors_is ue ErrTransactionAttemptConflict
                then resumeLatestAttempt n P transfer w2
                else Some (Inl ue, w2))
           | (Inr _, w2) \<Rightarrow> Some (Inl e, w2))
      | (Inr _, w1) \<Rightarrow>
          (case repo_UpdateAttempt (p_repository P)
                  \<lparr>ua_AttemptID = ta_ID attempt, ua_ExpectedStatus = AttemptStatusBroadcasting,
                   ua_Status = AttemptStatusBroadcasted, ua_ErrorMessage = ''''\<rparr> w1 of
             (Inl e, w2) \<Rightarrow>
               (if errors_is e ErrTransactionAttemptConflict
                then resumeLatestAttempt n P transfer w2
                else Some (Inl e, w2))
           | (Inr broadcastedAttempt, w2) \<Rightarrow>
               Some (submitBroadcastedAttempt P transfer broadcastedAttempt w2)))"
| "resumeLatestAttempt 0 P transfer w = None"
| "resumeLatestAttempt (Suc n) P transfer w =
     (case repo_GetLatestAttempt (p_repository P) (tr_ID transfer) w of
        (Inl e, w1) \<Rightarrow> Some (Inl e, w1)
      | (Inr latestAttempt, w1) \<Rightarrow> resumeSubmission n P transfer latestAttempt w1)"
  by pat_completeness auto
termination
  by (relation "measure (\<lambda>x. case x of
        Inl (n, _) \<Rightarrow> 3 * n + 2
      | Inr (Inl (n, _)) \<Rightarrow> 3 * n + 1
      | Inr (Inr (n, _)) \<Rightarrow> 3 * n)") auto

declare resumeSubmission.simps [simp del] broadcastAttempt.simps [simp del]

definition createAttemptAndSubmit :: "nat \<Rightarrow> 'w Processor \<Rightarrow> Transfer \<Rightarrow> 'w \<Rightarrow> 'w outcome" where
  "createAttemptAndSubmit n P transfer w =
     (case p_signer P transfer w of
        (Inl e, w1) \<Rightarrow> Some (Inl e, w1)
      | (Inr signedTransfer, w1) \<Rightarrow>
          if st_RawTransaction signedTransfer = ''''
          then Some (Inl (Opaque ''signed transfer raw transaction is empty''), w1)
          else if st_TxHash signedTransfer = ''''
          then Some (Inl (Opaque ''signed transfer tx hash is empty''), w1)
          else (case repo_CreateAttempt (p_repository P)
                       \<lparr>ca_TransferID = tr_ID transfer, ca_Nonce = st_Nonce signedTransfer,
                        ca_RawPayload = newTransactionAttemptPayload (st_RawTransaction signedTransfer),
                        ca_TxHash = st_TxHash signedTransfer, ca_Status = AttemptStatusSigned,
                        ca_ErrorMessage = ''''\<rparr> w1 of
                  (Inl e, w2) \<Rightarrow>
                    (if errors_is e ErrTransactionAttemptConflict
                     then resumeLatestAttempt n P transfer w2
                     else Some (Inl e, w2))
                | (Inr attempt, w2) \<Rightarrow> resumeSubmission n P transfer attempt w2))"

definition submitTransfer :: "nat \<Rightarrow> 'w Processor \<Rightarrow> Transfer \<Rightarrow> 'w \<Rightarrow> 'w outcome" where
  "submitTransfer n P transfer w =
     (case repo_GetLatestAttempt (p_repository P) (tr_ID transfer) w of
        (Inr attempt, w1) \<Rightarrow> resumeSubmission n P transfer attempt w1
      | (Inl e, w1) \<Rightarrow>
          (if errors_is e ErrTransactionAttemptNotFound
           then createAttemptAndSubmit n P transfer w1
           else Some (Inl e, w1)))"

text \<open>One pass of the switch in the loop of \<open>ProcessTransfer\<close>, for the statuses that do work.\<close>

definition process_step :: "nat \<Rightarrow> 'w Processor \<Rightarrow> Transfer \<Rightarrow> 'w \<Rightarrow> 'w outcome" where
  "process_step n P transfer w =
     (if tr_Status transfer = StatusCreated then Some (transition P transfer StatusValidated None w)
      else if tr_Status transfer = StatusValidated then Some (transition P transfer StatusQueued None w)
      else if tr_Status transfer = StatusQueued then Some (transition P transfer StatusSigning None w)
      else if tr_Status transfer = StatusSigning then submitTransfer n P transfer w
      else if tr_Status transfer = StatusSubmitted
      then Some (transition P transfer StatusPendingOnChain None w)
      else Some (Inl (InvalidStateError (tr_ID transfer) StatusCreated (tr_Status transfer)), w))"

fun process_loop :: "nat \<Rightarrow> 'w Processor \<Rightarrow> Transfer \<Rightarrow> 'w \<Rightarrow> 'w outcome" where
  "process_loop 0 P transfer w = None"
| "process_loop (Suc n) P transfer w =
     (if tr_Status transfer = StatusPendingOnChain \<or> tr_Status transfer = StatusFailed
      then Some (Inr transfer, w)
      else (case process_step n P transfer w of
              None \<Rightarrow> None
            | Some (Inl e, w1) \<Rightarrow> Some (Inl e, w1)
            | Some (Inr transfer1, w1) \<Rightarrow>
                if tr_Status transfer1 = StatusPendingOnChain then Some (Inr transfer1, w1)
                else process_loop n P transfer1 w1))"

definition ProcessTransfer :: "nat \<Rightarrow> 'w Processor \<Rightarrow> string \<Rightarrow> 'w \<Rightarrow> 'w outcome" where
  "ProcessTransfer n P transferID w =
     (case repo_GetByID (p_repository P) transferID w of
        (Inl e, w1) \<Rightarrow> Some (Inl e, w1)
      | (Inr transfer, w1) \<Rightarrow> process_loop n P transfer w1)"

definition FailTransfer :: "'w Processor \<Rightarrow> string \<Rightarrow> 'w \<Rightarrow> go_error option \<times> 'w" where
  "FailTransfer P transferID w =
     (case repo_GetByID (p_repository P) transferID w of
        (Inl e, w1) \<Rightarrow> (Some e, w1)
      | (Inr transfer, w1) \<Rightarrow>
          if tr_Status transfer = StatusPendingOnChain \<or> tr_Status transfer = StatusFailed
          then (None, w1)
          else (case transition P transfer StatusFailed None w1 of
                  (Inl e, w2) \<Rightarrow>
                    (if errors_is e ErrInvalidTransferState then (None, w2) else (Some e, w2))
                | (Inr _, w2) \<Rightarrow> (None, w2)))"

text \<open>
  Signer and broadcaster of the worker, with their calls on record: the \<open>k\<close>-th call's answer
  is a function of \<open>k\<close> and of the arguments. \<open>MockBroadcaster\<close> (\<^verbatim>\<open>mocks.go\<close>) always succeeds.
\<close>

definition LoggedSigner ::
  "(nat \<Rightarrow> Transfer \<Rightarrow> go_error + SignedTransfer) \<Rightarrow> Transfer \<Rightarrow> (world, SignedTransfer) act" where
  "LoggedSigner answer transfer w =
     (answer (length (w_signed w)) transfer, w\<lparr>w_signed := w_signed w @ [(transfer, w_db w)]\<rparr>)"

definition LoggedBroadcaster ::
  "(nat \<Rightarrow> Transfer \<Rightarrow> TransactionAttempt \<Rightarrow> go_error option) \<Rightarrow>
   Transfer \<Rightarrow> TransactionAttempt \<Rightarrow> (world, unit) act" where
  "LoggedBroadcaster answer transfer attempt w =
     (case answer (length (w_broadcasts w)) transfer attempt of None \<Rightarrow> Inr () | Some e \<Rightarrow> Inl e,
      w\<lparr>w_broadcasts := w_broadcasts w @ [(transfer, attempt, w_db w)]\<rparr>)"

definition MockBroadcaster :: "Transfer \<Rightarrow> TransactionAttempt \<Rightarrow> (world, unit) act" where
  "MockBroadcaster = LoggedBroadcaster (\<lambda>_ _ _. None)"

definition NewProcessor ::
  "pg \<Rightarrow> (nat \<Rightarrow> Transfer \<Rightarrow> go_error + SignedTransfer) \<Rightarrow>
   (nat \<Rightarrow> Transfer \<Rightarrow> TransactionAttempt \<Rightarrow> go_error option) \<Rightarrow> world Processor" where
  "NewProcessor pg sign bcast =
     \<lparr>p_repository = PostgresRepository pg, p_signer = LoggedSigner sign,
      p_broadcaster = LoggedBroadcaster bcast\<rparr>"

end
