(* ===== verification/TransferSteps.thy ===== *)
theory TransferSteps
  imports TransferRepo
begin

text \<open>
  The committed work on the transfer tables as a step relation, and what every interleaving
  of such steps keeps. A step is one transaction: the rules take the statements of
  \<^verbatim>\<open>TransferRepo\<close> with the parameters the service and the processor use. The invariant
  \<open>transfer_inv\<close> says that the history of a transfer replays to its status, that each
  transfer has one outbox event, that at most one attempt of a transfer is active, and that
  a submitted transfer carries the hash of a broadcast attempt.
\<close>

subsection \<open>Steps\<close>

definition advance_pairs :: "(string \<times> string) list" where
  "advance_pairs = [(StatusCreated, StatusValidated), (StatusValidated, StatusQueued),
     (StatusQueued, StatusSigning), (StatusSubmitted, StatusPendingOnChain)]"

definition attempt_pairs :: "(string \<times> string) list" where
  "attempt_pairs = [(AttemptStatusSigned, AttemptStatusBroadcasting),
     (AttemptStatusBroadcasting, AttemptStatusSigned),
     (AttemptStatusBroadcasting, AttemptStatusFailed),
     (AttemptStatusBroadcasting, AttemptStatusBroadcasted)]"

text \<open>A broadcast attempt of the transfer \<open>tid\<close> with hash \<open>h\<close> is on record.\<close>

definition broadcast_on_record :: "string \<Rightarrow> string \<Rightarrow> db \<Rightarrow> bool" where
  "broadcast_on_record tid h d \<longleftrightarrow>
     (\<exists>a \<in> set (transaction_attempts d).
        ta_TransferID a = tid \<and> ta_TxHash a = h \<and> ta_Status a = AttemptStatusBroadcasted)"

definition requested_payload :: "string \<Rightarrow> raw_json" where
  "requested_payload tid = marshal_job \<lparr>job_TransferID = tid, job_Attempt = 0\<rparr>"

text \<open>The transaction of \<open>TransitionStatus\<close>: the update and its history row.\<close>

definition tx_transition :: "pg \<Rightarrow> TransitionParams \<Rightarrow> db \<Rightarrow> go_error + Transfer \<times> db" where
  "tx_transition pg p d =
     (case sql_update_transfer pg p d of
        Inl e \<Rightarrow> Inl e
      | Inr (t, d1) \<Rightarrow>
          (case sql_insert_history pg (tr_ID t) (Some (tp_FromStatus p)) (tp_ToStatus p) d1 of
             Inl e \<Rightarrow> Inl e
           | Inr (_, d2) \<Rightarrow> Inr (t, d2)))"

text \<open>The transaction of \<open>Create\<close>.\<close>

definition tx_create :: "pg \<Rightarrow> CreateParams \<Rightarrow> db \<Rightarrow> go_error + Transfer \<times> db" where
  "tx_create pg p d =
     (case sql_insert_transfer pg p d of
        Inl e \<Rightarrow> Inl e
      | Inr (t, d1) \<Rightarrow>
          (case sql_insert_history pg (tr_ID t) None (tr_Status t) d1 of
             Inl e \<Rightarrow> Inl e
           | Inr (_, d2) \<Rightarrow>
               (case sql_insert_outbox pg (tr_ID t) OutboxEventTypeTransferRequested
                       (requested_payload (tr_ID t)) OutboxStatusPending d2 of
                  Inl e \<Rightarrow> Inl e
                | Inr (_, d3) \<Rightarrow> Inr (t, d3))))"

inductive transfer_step :: "pg \<Rightarrow> db \<Rightarrow> db \<Rightarrow> bool" for pg where
  create: "tx_create pg p d = Inr (t, d') \<Longrightarrow> cp_Status p = StatusCreated \<Longrightarrow> transfer_step pg d d'"
| advance: "tx_transition pg p d = Inr (t, d') \<Longrightarrow>
    (tp_FromStatus p, tp_ToStatus p) \<in> set advance_pairs \<Longrightarrow> tp_TxHash p = None \<Longrightarrow>
    transfer_step pg d d'"
| submit: "tx_transition pg p d = Inr (t, d') \<Longrightarrow> tp_FromStatus p = StatusSigning \<Longrightarrow>
    tp_ToStatus p = StatusSubmitted \<Longrightarrow> tp_TxHash p = Some h \<Longrightarrow> h \<noteq> '''' \<Longrightarrow>
    broadcast_on_record (tr_ID t) h d \<Longrightarrow> transfer_step pg d d'"
| fail: "tx_transition pg p d = Inr (t, d') \<Longrightarrow> tp_ToStatus p = StatusFailed \<Longrightarrow>
    tp_FromStatus p \<noteq> StatusPendingOnChain \<Longrightarrow> tp_FromStatus p \<noteq> StatusFailed \<Longrightarrow>
    tp_TxHash p = None \<Longrightarrow> transfer_step pg d d'"
| attempt_create: "sql_insert_attempt pg p d = Inr (a, d') \<Longrightarrow> ca_Status p = AttemptStatusSigned \<Longrightarrow>
    ca_TxHash p \<noteq> '''' \<Longrightarrow> ca_RawPayload p = newTransactionAttemptPayload raw \<Longrightarrow> raw \<noteq> '''' \<Longrightarrow>
    transfer_step pg d d'"
| attempt_update: "sql_update_attempt pg p d = Inr (a, d') \<Longrightarrow>
    (ua_ExpectedStatus p, ua_Status p) \<in> set attempt_pairs \<Longrightarrow> transfer_step pg d d'"

inductive_cases transfer_stepE: "transfer_step pg d d'"

subsection \<open>The invariant\<close>

fun replay :: "string option \<Rightarrow> StatusHistory list \<Rightarrow> string option option" where
  "replay s [] = Some s"
| "replay s (h # hs) =
     (if sh_FromStatus h = s then replay (Some (sh_ToStatus h)) hs else None)"

definition history_of :: "string \<Rightarrow> db \<Rightarrow> StatusHistory list" where
  "history_of tid d = filter (\<lambda>h. sh_TransferID h = tid) (transfer_status_history d)"

definition outbox_of :: "string \<Rightarrow> db \<Rightarrow> OutboxEvent list" where
  "outbox_of tid d = filter (\<lambda>x. oe_TransferID x = tid) (transfer_outbox d)"

text \<open>The keys of the transfer tables: primary keys, unique columns and partial unique indexes.\<close>

definition keys_inv :: "db \<Rightarrow> bool" where
  "keys_inv d \<longleftrightarrow>
     distinct (map tr_ID (transfer_requests d)) \<and>
     distinct (map tr_IdempotencyKey (transfer_requests d)) \<and>
     distinct (map ta_ID (transaction_attempts d)) \<and>
     unique_on attempt_active ta_TransferID (transaction_attempts d) \<and>
     unique_on attempt_has_hash ta_TxHash (transaction_attempts d)"

definition refs_inv :: "db \<Rightarrow> bool" where
  "refs_inv d \<longleftrightarrow>
     (\<forall>h \<in> set (transfer_status_history d). sh_TransferID h \<in> tr_ID ` set (transfer_requests d)) \<and>
     (\<forall>x \<in> set (transfer_outbox d). oe_TransferID x \<in> tr_ID ` set (transfer_requests d)) \<and>
     (\<forall>a \<in> set (transaction_attempts d). ta_TransferID a \<in> tr_ID ` set (transfer_requests d))"

definition history_inv :: "db \<Rightarrow> bool" where
  "history_inv d \<longleftrightarrow>
     (\<forall>t \<in> set (transfer_requests d). replay None (history_of (tr_ID t) d) = Some (Some (tr_Status t)))"

definition outbox_inv :: "db \<Rightarrow> bool" where
  "outbox_inv d \<longleftrightarrow>
     (\<forall>t \<in> set (transfer_requests d). \<exists>x. outbox_of (tr_ID t) d = [x] \<and>
        oe_EventType x = OutboxEventTypeTransferRequested \<and>
        oe_PayloadJSON x = requested_payload (tr_ID t))"

definition on_chain_statuses :: "string list" where
  "on_chain_statuses = [StatusSubmitted, StatusPendingOnChain]"

definition hash_inv :: "db \<Rightarrow> bool" where
  "hash_inv d \<longleftrightarrow>
     (\<forall>t \<in> set (transfer_requests d).
        tr_Status t \<in> set [StatusCreated, StatusValidated, StatusQueued, StatusSigning,
                           StatusSubmitted, StatusPendingOnChain, StatusFailed] \<and>
        (tr_Status t \<in> set on_chain_statuses \<longrightarrow> tr_TxHash t \<noteq> '''') \<and>
        (tr_Status t \<notin> set (StatusFailed # on_chain_statuses) \<longrightarrow> tr_TxHash t = '''') \<and>
        (tr_TxHash t \<noteq> '''' \<longrightarrow> broadcast_on_record (tr_ID t) (tr_TxHash t) d))"

definition attempts_inv :: "db \<Rightarrow> bool" where
  "attempts_inv d \<longleftrightarrow>
     (\<forall>a \<in> set (transaction_attempts d).
        ta_Status a \<in> set attempt_statuses \<and> ta_TxHash a \<noteq> '''' \<and>
        (\<exists>raw. raw \<noteq> '''' \<and> ta_RawPayload a = newTransactionAttemptPayload raw))"

definition transfer_inv :: "db \<Rightarrow> bool" where
  "transfer_inv d \<longleftrightarrow>
     keys_inv d \<and> refs_inv d \<and> history_inv d \<and> outbox_inv d \<and> hash_inv d \<and> attempts_inv d"

lemmas transfer_inv_defs = keys_inv_def refs_inv_def history_inv_def outbox_inv_def hash_inv_def
  attempts_inv_def

subsection \<open>What a statement that succeeds has done\<close>

lemma replay_append1:
  "replay s (hs @ [h]) =
     (case replay s hs of None \<Rightarrow> None
      | Some s' \<Rightarrow> if sh_FromStatus h = s' then Some (Some (sh_ToStatus h)) else None)"
  by (induction hs arbitrary: s) auto

lemma scanTransfer_simps [simp]:
  "tr_ID (scanTransfer r) = tr_ID r" "tr_Status (scanTransfer r) = tr_Status r"
  "tr_TxHash (scanTransfer r) = tr_TxHash r"
  "tr_IdempotencyKey (scanTransfer r) = tr_IdempotencyKey r"
  "tr_SourceWalletID (scanTransfer r) = tr_SourceWalletID r"
  "tr_Amount (scanTransfer r) = tr_Amount r"
  by (simp_all add: scanTransfer_def)

lemma transition_row_simps [simp]:
  "tr_ID (transition_row p d r) = tr_ID r"
  "tr_IdempotencyKey (transition_row p d r) = tr_IdempotencyKey r"
  "tr_Status (transition_row p d r) = tp_ToStatus p"
  "tr_TxHash (transition_row p d r) = (case tp_TxHash p of None \<Rightarrow> tr_TxHash r | Some h \<Rightarrow> h)"
  by (simp_all add: transition_row_def)

lemma attempt_row_simps [simp]:
  "ta_ID (attempt_row p d a) = ta_ID a" "ta_TransferID (attempt_row p d a) = ta_TransferID a"
  "ta_TxHash (attempt_row p d a) = ta_TxHash a" "ta_RawPayload (attempt_row p d a) = ta_RawPayload a"
  "ta_Nonce (attempt_row p d a) = ta_Nonce a" "ta_CreatedAt (attempt_row p d a) = ta_CreatedAt a"
  "ta_Status (attempt_row p d a) = ua_Status p"
  "attempt_has_hash (attempt_row p d a) = attempt_has_hash a"
  by (simp_all add: attempt_row_def attempt_has_hash_def)

text \<open>The history row a transition adds.\<close>

definition history_row :: "pg \<Rightarrow> string \<Rightarrow> string option \<Rightarrow> string \<Rightarrow> db \<Rightarrow> StatusHistory" where
  "history_row pg tid from_status to_status d =
     \<lparr>sh_ID = fresh_uuid pg d, sh_TransferID = tid, sh_FromStatus = from_status,
      sh_ToStatus = to_status, sh_CreatedAt = db_now d\<rparr>"

lemma sql_insert_historyD:
  assumes "sql_insert_history pg tid fs ts d = Inr (u, d')"
  shows "d' = d\<lparr>transfer_status_history := transfer_status_history d @ [history_row pg tid fs ts d],
                uuid_count := Suc (uuid_count d)\<rparr>"
    and "tid \<in> tr_ID ` set (transfer_requests d)" and "ts \<in> set transfer_statuses"
  using assms by (auto simp: sql_insert_history_def history_row_def split: if_splits)

lemma sql_update_transferD:
  assumes "sql_update_transfer pg p d = Inr (t, d')"
  obtains k r where "uuid_in pg (tp_ID p) = Some k"
    and "r \<in> set (transfer_requests d)" and "tr_ID r = k" and "tr_Status r = tp_FromStatus p"
    and "t = scanTransfer (transition_row p d r)"
    and "d' = d\<lparr>transfer_requests :=
                  update_where (\<lambda>x. tr_ID x = k \<and> tr_Status x = tp_FromStatus p)
                    (transition_row p d) (transfer_requests d)\<rparr>"
    and "tp_ToStatus p \<in> set transfer_statuses"
  using assms
  by (auto simp: sql_update_transfer_def split: option.splits if_splits dest: find_SomeD)

lemma tx_transitionD:
  assumes "tx_transition pg p d = Inr (t, d')"
  obtains r where "uuid_in pg (tp_ID p) = Some (tr_ID r)"
    and "r \<in> set (transfer_requests d)" and "tr_Status r = tp_FromStatus p"
    and "t = scanTransfer (transition_row p d r)"
    and "d' = d\<lparr>transfer_requests :=
                  update_where (\<lambda>x. tr_ID x = tr_ID r \<and> tr_Status x = tp_FromStatus p)
                    (transition_row p d) (transfer_requests d),
                transfer_status_history := transfer_status_history d @
                  [history_row pg (tr_ID r) (Some (tp_FromStatus p)) (tp_ToStatus p) d],
                uuid_count := Suc (uuid_count d)\<rparr>"
proof -
  from assms obtain d1 where u: "sql_update_transfer pg p d = Inr (t, d1)"
    and h: "sql_insert_history pg (tr_ID t) (Some (tp_FromStatus p)) (tp_ToStatus p) d1 = Inr ((), d')"
    by (auto simp: tx_transition_def split: sum.splits)
  from u obtain k r where r: "uuid_in pg (tp_ID p) = Some k" "r \<in> set (transfer_requests d)"
      "tr_ID r = k" "tr_Status r = tp_FromStatus p" "t = scanTransfer (transition_row p d r)"
      "d1 = d\<lparr>transfer_requests :=
                update_where (\<lambda>x. tr_ID x = k \<and> tr_Status x = tp_FromStatus p)
                  (transition_row p d) (transfer_requests d)\<rparr>"
    by (rule sql_update_transferD)
  with sql_insert_historyD(1)[OF h] show ?thesis
    by (intro that[of r]) (simp_all add: history_row_def fresh_uuid_def)
qed

definition request_row :: "pg \<Rightarrow> CreateParams \<Rightarrow> string \<Rightarrow> string \<Rightarrow> db \<Rightarrow> Transfer" where
  "request_row pg p wallet amount d =
     \<lparr>tr_ID = fresh_uuid pg d, tr_IdempotencyKey = cp_IdempotencyKey p,
      tr_Chain = cp_Chain p, tr_AssetType = cp_AssetType p, tr_SourceWalletID = wallet,
      tr_DestinationAddress = cp_DestinationAddress p, tr_Amount = amount,
      tr_CallbackURL = cp_CallbackURL p, tr_MetadataJSON = cp_MetadataJSON p, tr_TxHash = '''',
      tr_Status = cp_Status p, tr_CreatedAt = db_now d, tr_UpdatedAt = db_now d\<rparr>"

definition outbox_row :: "pg \<Rightarrow> string \<Rightarrow> string \<Rightarrow> raw_json \<Rightarrow> string \<Rightarrow> db \<Rightarrow> OutboxEvent" where
  "outbox_row pg tid event_type payload status d =
     \<lparr>oe_ID = fresh_uuid pg d, oe_TransferID = tid, oe_EventType = event_type,
      oe_PayloadJSON = payload, oe_Status = status, oe_AttemptCount = 0,
      oe_AvailableAt = db_now d, oe_LockedAt = None, oe_DispatchedAt = None,
      oe_LastError = '''', oe_CreatedAt = db_now d, oe_UpdatedAt = db_now d\<rparr>"

lemma row_simps_fields [simp]:
  "tr_ID (request_row pg p wallet amount d) = fresh_uuid pg d"
  "tr_IdempotencyKey (request_row pg p wallet amount d) = cp_IdempotencyKey p"
  "tr_Status (request_row pg p wallet amount d) = cp_Status p"
  "tr_TxHash (request_row pg p wallet amount d) = ''''"
  "sh_TransferID (history_row pg tid fs ts d) = tid"
  "sh_FromStatus (history_row pg tid fs ts d) = fs"
  "sh_ToStatus (history_row pg tid fs ts d) = ts"
  "oe_TransferID (outbox_row pg tid et pl st d) = tid"
  "oe_EventType (outbox_row pg tid et pl st d) = et"
  "oe_PayloadJSON (outbox_row pg tid et pl st d) = pl"
  "oe_Status (outbox_row pg tid et pl st d) = st"
  "oe_AttemptCount (outbox_row pg tid et pl st d) = 0"
  "oe_AvailableAt (outbox_row pg tid et pl st d) = db_now d"
  by (simp_all add: request_row_def history_row_def outbox_row_def)

lemma sql_insert_transferD:
  assumes "sql_insert_transfer pg p d = Inr (t, d')"
  obtains wallet amount where "uuid_in pg (cp_SourceWalletID p) = Some wallet"
    and "numeric_78 (cp_Amount p) = Inr amount"
    and "t = scanTransfer (request_row pg p wallet amount d)"
    and "d' = d\<lparr>transfer_requests := transfer_requests d @ [request_row pg p wallet amount d],
                uuid_count := Suc (uuid_count d)\<rparr>"
    and "fresh_uuid pg d \<notin> tr_ID ` set (transfer_requests d)"
    and "cp_IdempotencyKey p \<notin> tr_IdempotencyKey ` set (transfer_requests d)"
    and "wallet \<in> wa_ID ` set (wallets d)"
  using assms
  unfolding sql_insert_transfer_def Let_def request_row_def [symmetric] notin_image_iff
  by (auto split: option.splits sum.splits if_splits)

lemma sql_insert_outboxD:
  assumes "sql_insert_outbox pg tid et pl st d = Inr (u, d')"
  shows "d' = d\<lparr>transfer_outbox := transfer_outbox d @ [outbox_row pg tid et pl st d],
                uuid_count := Suc (uuid_count d)\<rparr>"
  using assms by (auto simp: sql_insert_outbox_def outbox_row_def split: if_splits)

text \<open>The database after a committed \<open>Create\<close>.\<close>

definition created_db :: "pg \<Rightarrow> CreateParams \<Rightarrow> string \<Rightarrow> string \<Rightarrow> db \<Rightarrow> db" where
  "created_db pg p wallet amount d =
     (let tid = fresh_uuid pg d;
          d1 = d\<lparr>uuid_count := Suc (uuid_count d)\<rparr>;
          d2 = d\<lparr>uuid_count := Suc (Suc (uuid_count d))\<rparr>
      in d\<lparr>transfer_requests := transfer_requests d @ [request_row pg p wallet amount d],
           transfer_status_history := transfer_status_history d @ [history_row pg tid None (cp_Status p) d1],
           transfer_outbox := transfer_outbox d @
             [outbox_row pg tid OutboxEventTypeTransferRequested (requested_payload tid)
                OutboxStatusPending d2],
           uuid_count := Suc (Suc (Suc (uuid_count d)))\<rparr>)"

lemma tx_createD:
  assumes "tx_create pg p d = Inr (t, d')"
  obtains wallet amount where "uuid_in pg (cp_SourceWalletID p) = Some wallet"
    and "numeric_78 (cp_Amount p) = Inr amount"
    and "t = scanTransfer (request_row pg p wallet amount d)"
    and "d' = created_db pg p wallet amount d"
    and "fresh_uuid pg d \<notin> tr_ID ` set (transfer_requests d)"
    and "cp_IdempotencyKey p \<notin> tr_IdempotencyKey ` set (transfer_requests d)"
    and "wallet \<in> wa_ID ` set (wallets d)"
proof -
  from assms obtain d1 d2 where i: "sql_insert_transfer pg p d = Inr (t, d1)"
    and h: "sql_insert_history pg (tr_ID t) None (tr_Status t) d1 = Inr ((), d2)"
    and x: "sql_insert_outbox pg (tr_ID t) OutboxEventTypeTransferRequested
              (requested_payload (tr_ID t)) OutboxStatusPending d2 = Inr ((), d')"
    by (auto simp: tx_create_def split: sum.splits)
  from i obtain wallet amount where r: "uuid_in pg (cp_SourceWalletID p) = Some wallet"
      "numeric_78 (cp_Amount p) = Inr amount"
      "t = scanTransfer (request_row pg p wallet amount d)"
      "d1 = d\<lparr>transfer_requests := transfer_requests d @ [request_row pg p wallet amount d],
                uuid_count := Suc (uuid_count d)\<rparr>"
      "fresh_uuid pg d \<notin> tr_ID ` set (transfer_requests d)"
      "cp_IdempotencyKey p \<notin> tr_IdempotencyKey ` set (transfer_requests d)"
      "wallet \<in> wa_ID ` set (wallets d)"
    by (rule sql_insert_transferD)
  have "d' = created_db pg p wallet amount d"
    using sql_insert_historyD(1)[OF h] sql_insert_outboxD[OF x] r(3,4)
    by (simp add: created_db_def Let_def history_row_def outbox_row_def fresh_uuid_def)
  with r that show ?thesis by blast
qed

definition new_attempt_row :: "pg \<Rightarrow> CreateAttemptParams \<Rightarrow> string \<Rightarrow> db \<Rightarrow> TransactionAttempt" where
  "new_attempt_row pg p tid d =
     \<lparr>ta_ID = fresh_uuid pg d, ta_TransferID = tid, ta_Nonce = ca_Nonce p,
      ta_RawPayload = ca_RawPayload p, ta_TxHash = ca_TxHash p, ta_Status = ca_Status p,
      ta_ErrorMessage = ca_ErrorMessage p, ta_CreatedAt = db_now d, ta_UpdatedAt = db_now d\<rparr>"

lemma new_attempt_row_simps [simp]:
  "ta_ID (new_attempt_row pg p tid d) = fresh_uuid pg d"
  "ta_TransferID (new_attempt_row pg p tid d) = tid"
  "ta_TxHash (new_attempt_row pg p tid d) = ca_TxHash p"
  "ta_Status (new_attempt_row pg p tid d) = ca_Status p"
  "ta_RawPayload (new_attempt_row pg p tid d) = ca_RawPayload p"
  by (simp_all add: new_attempt_row_def)

lemma sql_insert_attemptD:
  assumes "sql_insert_attempt pg p d = Inr (a, d')"
  obtains k where "uuid_in pg (ca_TransferID p) = Some k" and "a = new_attempt_row pg p k d"
    and "d' = d\<lparr>transaction_attempts := transaction_attempts d @ [a], uuid_count := Suc (uuid_count d)\<rparr>"
    and "k \<in> tr_ID ` set (transfer_requests d)"
    and "ca_Status p \<in> set attempt_statuses"
    and "ta_ID a \<notin> ta_ID ` set (transaction_attempts d)"
    and "attempt_active a \<Longrightarrow> \<forall>x \<in> set (transaction_attempts d). attempt_active x \<longrightarrow> ta_TransferID x \<noteq> k"
    and "attempt_has_hash a \<Longrightarrow> \<forall>x \<in> set (transaction_attempts d). ta_TxHash x \<noteq> ta_TxHash a"
  using assms
  unfolding sql_insert_attempt_def Let_def new_attempt_row_def [symmetric] notin_image_iff
  by (auto split: option.splits if_splits)

lemma sql_update_attemptD:
  assumes "sql_update_attempt pg p d = Inr (a, d')"
  obtains r where "uuid_in pg (ua_AttemptID p) = Some (ta_ID r)"
    and "r \<in> set (transaction_attempts d)" and "ta_Status r = ua_ExpectedStatus p"
    and "a = attempt_row p d r"
    and "d' = d\<lparr>transaction_attempts :=
                  update_where (\<lambda>x. ta_ID x = ta_ID r \<and> ta_Status x = ua_ExpectedStatus p)
                    (attempt_row p d) (transaction_attempts d)\<rparr>"
    and "ua_Status p \<in> set attempt_statuses"
    and "attempt_active a \<Longrightarrow> \<forall>x \<in> set (transaction_attempts d).
           attempt_active x \<and> ta_ID x \<noteq> ta_ID r \<longrightarrow> ta_TransferID x \<noteq> ta_TransferID r"
proof -
  from assms obtain k r where k: "uuid_in pg (ua_AttemptID p) = Some k"
    and f: "find (\<lambda>a. ta_ID a = k \<and> ta_Status a = ua_ExpectedStatus p) (transaction_attempts d) = Some r"
    by (auto simp: sql_update_attempt_def split: option.splits)
  from find_SomeD[OF f] have "r \<in> set (transaction_attempts d)" "ta_ID r = k"
    "ta_Status r = ua_ExpectedStatus p" by auto
  with assms k f that[of r] show ?thesis
    by (auto simp: sql_update_attempt_def split: if_splits)
qed

end
