(* ===== verification/TransferInv.thy ===== *)
theory TransferInv
  imports TransferSteps
begin

text \<open>
  Every step keeps \<open>transfer_inv\<close>: one lemma per kind of step, then the step relation by its
  cases. The lemmas are stated for the databases the statements produce.
\<close>

lemma broadcast_on_record_keep:
  "transaction_attempts d' = transaction_attempts d \<Longrightarrow>
   broadcast_on_record tid h d' = broadcast_on_record tid h d"
  by (simp add: broadcast_on_record_def)

subsection \<open>Creating a transfer\<close>

lemma created_db_fields [simp]:
  "transfer_requests (created_db pg p wallet amount d) =
     transfer_requests d @ [request_row pg p wallet amount d]"
  "transaction_attempts (created_db pg p wallet amount d) = transaction_attempts d"
  "webhook_deliveries (created_db pg p wallet amount d) = webhook_deliveries d"
  "wallets (created_db pg p wallet amount d) = wallets d"
  "reconciliation_results (created_db pg p wallet amount d) = reconciliation_results d"
  "db_now (created_db pg p wallet amount d) = db_now d"
  by (simp_all add: created_db_def Let_def)

lemma history_of_created:
  "history_of tid (created_db pg p wallet amount d) =
     history_of tid d @
     (if tid = fresh_uuid pg d
      then [history_row pg tid None (cp_Status p) (d\<lparr>uuid_count := Suc (uuid_count d)\<rparr>)] else [])"
  by (simp add: history_of_def created_db_def Let_def)

lemma outbox_of_created:
  "outbox_of tid (created_db pg p wallet amount d) =
     outbox_of tid d @
     (if tid = fresh_uuid pg d
      then [outbox_row pg tid OutboxEventTypeTransferRequested (requested_payload tid)
              OutboxStatusPending (d\<lparr>uuid_count := Suc (Suc (uuid_count d))\<rparr>)] else [])"
  by (simp add: outbox_of_def created_db_def Let_def)

lemma no_rows_of_fresh:
  assumes "refs_inv d" and "tid \<notin> tr_ID ` set (transfer_requests d)"
  shows "history_of tid d = []" and "outbox_of tid d = []"
  using assms by (auto simp: refs_inv_def history_of_def outbox_of_def filter_empty_conv)

lemma created_inv:
  assumes inv: "transfer_inv d" and st: "cp_Status p = StatusCreated"
    and new: "fresh_uuid pg d \<notin> tr_ID ` set (transfer_requests d)"
    and key: "cp_IdempotencyKey p \<notin> tr_IdempotencyKey ` set (transfer_requests d)"
  shows "transfer_inv (created_db pg p wallet amount d)" (is "transfer_inv ?d")
proof -
  from inv have refs: "refs_inv d" by (simp add: transfer_inv_def)
  note fresh = no_rows_of_fresh[OF refs new]
  have keys: "keys_inv ?d"
    using inv new key by (simp add: transfer_inv_def keys_inv_def)
  have "refs_inv ?d"
    using refs by (auto simp: refs_inv_def created_db_def Let_def)
  moreover have "history_inv ?d"
    using inv new fresh(1) by (auto simp: transfer_inv_def history_inv_def history_of_created)
  moreover have "outbox_inv ?d"
    using inv new fresh(2) by (auto simp: transfer_inv_def outbox_inv_def outbox_of_created)
  moreover have "hash_inv ?d"
    using inv st by (auto simp: transfer_inv_def hash_inv_def broadcast_on_record_def on_chain_statuses_def)
  moreover have "attempts_inv ?d"
    using inv by (simp add: transfer_inv_def attempts_inv_def)
  ultimately show ?thesis using keys by (simp add: transfer_inv_def)
qed

subsection \<open>A status transition\<close>

definition transitioned_db :: "pg \<Rightarrow> TransitionParams \<Rightarrow> Transfer \<Rightarrow> db \<Rightarrow> db" where
  "transitioned_db pg p r d =
     d\<lparr>transfer_requests :=
         update_where (\<lambda>x. tr_ID x = tr_ID r \<and> tr_Status x = tp_FromStatus p)
           (transition_row p d) (transfer_requests d),
       transfer_status_history := transfer_status_history d @
         [history_row pg (tr_ID r) (Some (tp_FromStatus p)) (tp_ToStatus p) d],
       uuid_count := Suc (uuid_count d)\<rparr>"

lemma transitioned_db_fields [simp]:
  "transaction_attempts (transitioned_db pg p r d) = transaction_attempts d"
  "transfer_outbox (transitioned_db pg p r d) = transfer_outbox d"
  "webhook_deliveries (transitioned_db pg p r d) = webhook_deliveries d"
  "wallets (transitioned_db pg p r d) = wallets d"
  "reconciliation_results (transitioned_db pg p r d) = reconciliation_results d"
  "db_now (transitioned_db pg p r d) = db_now d"
  by (simp_all add: transitioned_db_def)

lemma transitioned_ids:
  "map tr_ID (transfer_requests (transitioned_db pg p r d)) = map tr_ID (transfer_requests d)"
  "map tr_IdempotencyKey (transfer_requests (transitioned_db pg p r d)) =
     map tr_IdempotencyKey (transfer_requests d)"
  by (simp_all add: transitioned_db_def map_update_where_keep)

lemma transitioned_id_set:
  "tr_ID ` set (transfer_requests (transitioned_db pg p r d)) = tr_ID ` set (transfer_requests d)"
  using transitioned_ids(1)[of pg p r d] by (metis list.set_map)

lemma transitioned_rows:
  assumes "keys_inv d" and "r \<in> set (transfer_requests d)" and "tr_Status r = tp_FromStatus p"
  shows "set (transfer_requests (transitioned_db pg p r d)) =
           insert (transition_row p d r) {x \<in> set (transfer_requests d). tr_ID x \<noteq> tr_ID r}"
  using assms set_update_key[of tr_ID _ r "\<lambda>x. tr_Status x = tp_FromStatus p"]
  by (simp add: transitioned_db_def keys_inv_def)

lemma history_of_transitioned:
  "history_of tid (transitioned_db pg p r d) =
     history_of tid d @
     (if tid = tr_ID r then [history_row pg tid (Some (tp_FromStatus p)) (tp_ToStatus p) d] else [])"
  by (simp add: history_of_def transitioned_db_def)

lemma outbox_of_transitioned [simp]: "outbox_of tid (transitioned_db pg p r d) = outbox_of tid d"
  by (simp add: outbox_of_def)

text \<open>Which transitions keep the hash invariant.\<close>

definition transition_fits :: "TransitionParams \<Rightarrow> Transfer \<Rightarrow> db \<Rightarrow> bool" where
  "transition_fits p r d \<longleftrightarrow>
     (tp_TxHash p = None \<and>
        ((tp_FromStatus p, tp_ToStatus p) \<in> set advance_pairs \<or> tp_ToStatus p = StatusFailed)) \<or>
     (tp_FromStatus p = StatusSigning \<and> tp_ToStatus p = StatusSubmitted \<and>
        (\<exists>h. tp_TxHash p = Some h \<and> h \<noteq> '''' \<and> broadcast_on_record (tr_ID r) h d))"

lemma transitioned_hash_inv:
  assumes "hash_inv d" and "keys_inv d" and "r \<in> set (transfer_requests d)"
    and "tr_Status r = tp_FromStatus p" and "transition_fits p r d"
  shows "hash_inv (transitioned_db pg p r d)"
proof -
  have rec: "broadcast_on_record tid h (transitioned_db pg p r d) = broadcast_on_record tid h d" for tid h
    by (simp add: broadcast_on_record_def)
  show ?thesis
    using assms(1,3-5)
    by (auto simp: hash_inv_def transitioned_rows[OF assms(2-4)] rec transition_fits_def
        advance_pairs_def on_chain_statuses_def)
qed

lemma transitioned_inv:
  assumes inv: "transfer_inv d" and r: "r \<in> set (transfer_requests d)"
    and st: "tr_Status r = tp_FromStatus p" and fits: "transition_fits p r d"
  shows "transfer_inv (transitioned_db pg p r d)" (is "transfer_inv ?d")
proof -
  from inv have ki: "keys_inv d" by (simp add: transfer_inv_def)
  have "keys_inv ?d" using ki by (simp add: keys_inv_def transitioned_ids)
  moreover have "refs_inv ?d"
    using inv r by (auto simp: transfer_inv_def refs_inv_def transitioned_id_set)
      (auto simp: transitioned_db_def)
  moreover have "history_inv ?d"
    using inv r st
    by (auto simp: transfer_inv_def history_inv_def transitioned_rows[OF ki r st]
        history_of_transitioned replay_append1)
  moreover have "outbox_inv ?d"
    using inv r by (auto simp: transfer_inv_def outbox_inv_def transitioned_rows[OF ki r st])
  moreover have "hash_inv ?d"
    using inv transitioned_hash_inv[OF _ ki r st fits] by (simp add: transfer_inv_def)
  moreover have "attempts_inv ?d"
    using inv by (simp add: transfer_inv_def attempts_inv_def)
  ultimately show ?thesis by (simp add: transfer_inv_def)
qed

subsection \<open>Attempts\<close>

lemma inserted_attempt_inv:
  assumes inv: "transfer_inv d" and ins: "sql_insert_attempt pg p d = Inr (a, d')"
    and st: "ca_Status p = AttemptStatusSigned" and h: "ca_TxHash p \<noteq> ''''"
    and pay: "ca_RawPayload p = newTransactionAttemptPayload raw" "raw \<noteq> ''''"
  shows "transfer_inv d'"
proof -
  from ins obtain k where k: "a = new_attempt_row pg p k d"
      "d' = d\<lparr>transaction_attempts := transaction_attempts d @ [a], uuid_count := Suc (uuid_count d)\<rparr>"
      "k \<in> tr_ID ` set (transfer_requests d)" "ca_Status p \<in> set attempt_statuses"
      "ta_ID a \<notin> ta_ID ` set (transaction_attempts d)"
      "attempt_active a \<Longrightarrow> \<forall>x \<in> set (transaction_attempts d). attempt_active x \<longrightarrow> ta_TransferID x \<noteq> k"
      "attempt_has_hash a \<Longrightarrow> \<forall>x \<in> set (transaction_attempts d). ta_TxHash x \<noteq> ta_TxHash a"
    by (rule sql_insert_attemptD) blast
  have act: "attempt_active a" using st k(1) by (simp add: attempt_active_def)
  have hash: "attempt_has_hash a" using h k(1) by (simp add: attempt_has_hash_def)
  have "keys_inv d'"
    using inv k(1,2,5) k(6)[OF act] k(7)[OF hash]
    by (simp add: transfer_inv_def keys_inv_def unique_on_append1)
  moreover have "refs_inv d'"
    using inv k(1-3) by (auto simp: transfer_inv_def refs_inv_def)
  moreover have "history_inv d'" "outbox_inv d'"
    using inv k(2) by (simp_all add: transfer_inv_def history_inv_def outbox_inv_def history_of_def outbox_of_def)
  moreover have "hash_inv d'"
    using inv k(2) by (auto simp: transfer_inv_def hash_inv_def broadcast_on_record_def)
  moreover have "attempts_inv d'"
    using inv k(1,2,4) h pay by (auto simp: transfer_inv_def attempts_inv_def)
  ultimately show ?thesis by (simp add: transfer_inv_def)
qed

lemma attempt_pairs_from:
  "(s, t) \<in> set attempt_pairs \<Longrightarrow> s = AttemptStatusSigned \<or> s = AttemptStatusBroadcasting"
  by (auto simp: attempt_pairs_def)

lemma broadcast_on_record_updated:
  assumes "sql_update_attempt pg p d = Inr (a, d')" and "(ua_ExpectedStatus p, ua_Status p) \<in> set attempt_pairs"
    and "broadcast_on_record tid h d"
  shows "broadcast_on_record tid h d'"
proof -
  from assms(1) obtain r :: TransactionAttempt where d': "d' = d\<lparr>transaction_attempts :=
        update_where (\<lambda>x. ta_ID x = ta_ID r \<and> ta_Status x = ua_ExpectedStatus p)
          (attempt_row p d) (transaction_attempts d)\<rparr>"
    by (rule sql_update_attemptD) (rule that)
  from assms(3) obtain x where x: "x \<in> set (transaction_attempts d)" "ta_TransferID x = tid"
      "ta_TxHash x = h" "ta_Status x = AttemptStatusBroadcasted"
    by (auto simp: broadcast_on_record_def)
  with attempt_pairs_from[OF assms(2)] have "x \<in> set (transaction_attempts d')"
    by (auto simp: d' intro!: update_where_keepI)
  with x show ?thesis by (auto simp: broadcast_on_record_def)
qed

lemma updated_attempt_inv:
  assumes inv: "transfer_inv d" and upd: "sql_update_attempt pg p d = Inr (a, d')"
    and pr: "(ua_ExpectedStatus p, ua_Status p) \<in> set attempt_pairs"
  shows "transfer_inv d'"
proof -
  from upd obtain r where r: "r \<in> set (transaction_attempts d)" "ta_Status r = ua_ExpectedStatus p"
      "d' = d\<lparr>transaction_attempts :=
        update_where (\<lambda>x. ta_ID x = ta_ID r \<and> ta_Status x = ua_ExpectedStatus p)
          (attempt_row p d) (transaction_attempts d)\<rparr>" "ua_Status p \<in> set attempt_statuses"
    by (rule sql_update_attemptD)
  from r(2) attempt_pairs_from[OF pr] have act: "attempt_active r" by (auto simp: attempt_active_def)
  have ids: "map ta_ID (transaction_attempts d') = map ta_ID (transaction_attempts d)"
    by (simp add: r(3) map_update_where_keep)
  have "unique_on attempt_active ta_TransferID (transaction_attempts d')"
    unfolding r(3) using inv attempt_pairs_from[OF pr]
    by (auto simp: transfer_inv_def keys_inv_def attempt_active_def intro!: unique_on_update_where)
  moreover have "unique_on attempt_has_hash ta_TxHash (transaction_attempts d')"
    unfolding r(3) using inv
    by (auto simp: transfer_inv_def keys_inv_def intro!: unique_on_update_where)
  ultimately have "keys_inv d'"
    using inv ids by (simp add: transfer_inv_def keys_inv_def r(3))
  moreover have "refs_inv d'"
    using inv by (auto simp: transfer_inv_def refs_inv_def r(3) in_update_where)
  moreover have "history_inv d'" "outbox_inv d'"
    using inv r(3) by (simp_all add: transfer_inv_def history_inv_def outbox_inv_def history_of_def outbox_of_def)
  moreover have "hash_inv d'"
    using inv broadcast_on_record_updated[OF upd pr] by (auto simp: transfer_inv_def hash_inv_def r(3))
  moreover have "attempts_inv d'"
    using inv r(4) by (auto simp: transfer_inv_def attempts_inv_def r(3) in_update_where split: if_splits)
  ultimately show ?thesis by (simp add: transfer_inv_def)
qed

subsection \<open>Every step\<close>

lemma tx_transition_inv:
  assumes inv: "transfer_inv d" and tx: "tx_transition pg p d = Inr (t, d')"
    and fits: "\<And>r. tr_ID r = tr_ID t \<Longrightarrow> transition_fits p r d"
  shows "transfer_inv d'"
proof -
  from tx obtain r where r: "r \<in> set (transfer_requests d)" "tr_Status r = tp_FromStatus p"
      "t = scanTransfer (transition_row p d r)"
      "d' = transitioned_db pg p r d"
    by (rule tx_transitionD) (simp add: transitioned_db_def)
  show ?thesis unfolding r(4)
    by (rule transitioned_inv[OF inv r(1,2) fits]) (simp add: r(3))
qed

theorem transfer_step_inv:
  assumes "transfer_step pg d d'" and "transfer_inv d"
  shows "transfer_inv d'"
  using assms
proof cases
  case (create p t)
  from create(1) obtain wallet amount where "d' = created_db pg p wallet amount d"
      "fresh_uuid pg d \<notin> tr_ID ` set (transfer_requests d)"
      "cp_IdempotencyKey p \<notin> tr_IdempotencyKey ` set (transfer_requests d)"
    by (rule tx_createD)
  with created_inv[OF assms(2) create(2)] show ?thesis by simp
next
  case (advance p t)
  show ?thesis
    by (rule tx_transition_inv[OF assms(2) advance(1)]) (simp add: transition_fits_def advance)
next
  case (submit p t h)
  show ?thesis
    by (rule tx_transition_inv[OF assms(2) submit(1)]) (simp add: transition_fits_def submit)
next
  case (fail p t)
  show ?thesis
    by (rule tx_transition_inv[OF assms(2) fail(1)]) (simp add: transition_fits_def fail)
next
  case (attempt_create p a raw)
  show ?thesis by (rule inserted_attempt_inv[OF assms(2) attempt_create])
next
  case (attempt_update p a)
  show ?thesis by (rule updated_attempt_inv[OF assms(2) attempt_update])
qed

lemma transfer_inv_empty: "transfer_inv empty_db"
  by (simp add: transfer_inv_def transfer_inv_defs empty_db_def)

subsection \<open>What no step changes\<close>

lemma broadcast_on_record_step:
  "transfer_step pg d d' \<Longrightarrow> broadcast_on_record tid h d \<Longrightarrow> broadcast_on_record tid h d'"
proof (induction rule: transfer_step.induct)
  case (create p d t d')
  from create(1) obtain wallet amount where "d' = created_db pg p wallet amount d"
    by (rule tx_createD)
  with create show ?case by (simp add: broadcast_on_record_def)
next
  case (attempt_create p d a d' raw)
  from attempt_create(1) show ?case
    by (rule sql_insert_attemptD) (use attempt_create in \<open>auto simp: broadcast_on_record_def\<close>)
next
  case (attempt_update p d a d')
  then show ?case by (rule broadcast_on_record_updated)
qed (auto elim!: tx_transitionD simp: broadcast_on_record_def)

text \<open>The fields of an attempt that a signature fixes.\<close>

definition same_attempt :: "TransactionAttempt \<Rightarrow> TransactionAttempt \<Rightarrow> bool" where
  "same_attempt a b \<longleftrightarrow>
     ta_ID a = ta_ID b \<and> ta_TransferID a = ta_TransferID b \<and> ta_Nonce a = ta_Nonce b \<and>
     ta_RawPayload a = ta_RawPayload b \<and> ta_TxHash a = ta_TxHash b"

lemma attempt_kept_step:
  assumes "transfer_step pg d d'" and "a \<in> set (transaction_attempts d)"
  shows "\<exists>b \<in> set (transaction_attempts d'). same_attempt a b"
  using assms
proof cases
  case (attempt_create p x raw)
  from attempt_create(1) show ?thesis
    by (rule sql_insert_attemptD) (use assms(2) in \<open>auto simp: same_attempt_def\<close>)
next
  case (attempt_update p x)
  from attempt_update(1) obtain r :: TransactionAttempt where d': "d' = d\<lparr>transaction_attempts :=
        update_where (\<lambda>x. ta_ID x = ta_ID r \<and> ta_Status x = ua_ExpectedStatus p)
          (attempt_row p d) (transaction_attempts d)\<rparr>"
    by (rule sql_update_attemptD) (rule that)
  let ?b = "if ta_ID a = ta_ID r \<and> ta_Status a = ua_ExpectedStatus p then attempt_row p d a else a"
  have "?b \<in> set (transaction_attempts d')"
    using assms(2) by (auto simp: d' in_update_where)
  moreover have "same_attempt a ?b" by (simp add: same_attempt_def)
  ultimately show ?thesis by blast
qed (use assms(2) in \<open>auto elim!: tx_transitionD tx_createD simp: same_attempt_def\<close>)

end
