(* ===== verification/RepoContract.thy ===== *)
theory RepoContract
  imports Processor TransferInv
begin

text \<open>
  The contract the processor relies on. A \<open>view\<close> names what the contract speaks of in a
  caller's world: the tables, whether the world is in order, a bound on the interference still
  to come, the calls made so far to broadcaster and signer, and the traffic with the queue. The locale
  \<open>transfer_repository\<close> states what the \<open>Repository\<close> interface promises: calls move the
  tables only in steps of \<open>step\<close>, a row that is returned is in the table, a conditional update
  of a row just read conflicts only when somebody interfered. The locale
  \<open>transfer_processor\<close> adds a processor whose signer and broadcaster leave the tables alone,
  and proves the processor correct once: it ends with enough fuel, moves the tables by lawful
  steps only, broadcasts durable attempts only, and signs only when there is no attempt.
\<close>

record 'w view =
  v_tables :: "'w \<Rightarrow> db"
  v_ok :: "'w \<Rightarrow> bool"
  v_rank :: "'w \<Rightarrow> nat"
  v_bcasts :: "'w \<Rightarrow> (Transfer \<times> TransactionAttempt \<times> db) list"
  v_signs :: "'w \<Rightarrow> (Transfer \<times> db) list"
  v_queue :: "'w \<Rightarrow> Publishing list \<times> settlement list"

text \<open>One call of the repository: lawful steps, no call to signer or broadcaster.\<close>

definition moved :: "'w view \<Rightarrow> (db \<Rightarrow> db \<Rightarrow> bool) \<Rightarrow> 'w \<Rightarrow> 'w \<Rightarrow> bool" where
  "moved V step w w' \<longleftrightarrow>
     v_ok V w' \<and> step\<^sup>*\<^sup>* (v_tables V w) (v_tables V w') \<and> v_rank V w' \<le> v_rank V w \<and>
     v_bcasts V w' = v_bcasts V w \<and> v_signs V w' = v_signs V w \<and> v_queue V w' = v_queue V w"

text \<open>The attempt is a row of the table, marked as being broadcast.\<close>

definition durable :: "TransactionAttempt \<Rightarrow> db \<Rightarrow> bool" where
  "durable a d \<longleftrightarrow> a \<in> set (transaction_attempts d) \<and> ta_Status a = AttemptStatusBroadcasting"

text \<open>The transfer has no attempt.\<close>

definition unattempted :: "(string \<Rightarrow> string option) \<Rightarrow> Transfer \<Rightarrow> db \<Rightarrow> bool" where
  "unattempted canon t d \<longleftrightarrow>
     (\<forall>a \<in> set (transaction_attempts d). canon (tr_ID t) \<noteq> Some (ta_TransferID a))"

text \<open>
  A run of the processor: lawful steps, and every call to the broadcaster or signer it made
  was one the durability protocol allows.
\<close>

definition traced ::
  "'w view \<Rightarrow> (db \<Rightarrow> db \<Rightarrow> bool) \<Rightarrow> (string \<Rightarrow> string option) \<Rightarrow> 'w \<Rightarrow> 'w \<Rightarrow> bool" where
  "traced V step canon w w' \<longleftrightarrow>
     v_ok V w' \<and> step\<^sup>*\<^sup>* (v_tables V w) (v_tables V w') \<and> v_rank V w' \<le> v_rank V w \<and>
     v_queue V w' = v_queue V w \<and>
     (\<exists>bs. v_bcasts V w' = v_bcasts V w @ bs \<and> (\<forall>(t, a, d) \<in> set bs. durable a d)) \<and>
     (\<exists>ss. v_signs V w' = v_signs V w @ ss \<and> (\<forall>(t, d) \<in> set ss. unattempted canon t d))"

text \<open>Transitions the processor may ask for, in the tables \<open>d\<close>.\<close>

definition lawful_transition :: "(string \<Rightarrow> string option) \<Rightarrow> TransitionParams \<Rightarrow> db \<Rightarrow> bool" where
  "lawful_transition canon p d \<longleftrightarrow>
     (tp_TxHash p = None \<and>
        ((tp_FromStatus p, tp_ToStatus p) \<in> set advance_pairs \<or>
         tp_ToStatus p = StatusFailed \<and> tp_FromStatus p \<noteq> StatusPendingOnChain \<and>
         tp_FromStatus p \<noteq> StatusFailed)) \<or>
     (tp_FromStatus p = StatusSigning \<and> tp_ToStatus p = StatusSubmitted \<and>
        (\<exists>h k. tp_TxHash p = Some h \<and> h \<noteq> '''' \<and> canon (tp_ID p) = Some k \<and> broadcast_on_record k h d))"

definition lawful_attempt :: "CreateAttemptParams \<Rightarrow> bool" where
  "lawful_attempt p \<longleftrightarrow> ca_Status p = AttemptStatusSigned \<and> ca_TxHash p \<noteq> '''' \<and>
     (\<exists>raw. raw \<noteq> '''' \<and> ca_RawPayload p = newTransactionAttemptPayload raw)"

lemma moved_traced: "moved V step w w' \<Longrightarrow> traced V step canon w w'"
  by (auto simp: moved_def traced_def)

lemma traced_refl: "v_ok V w \<Longrightarrow> traced V step canon w w"
  by (simp add: traced_def)

lemma traced_trans:
  assumes "traced V step canon a b" and "traced V step canon b c"
  shows "traced V step canon a c"
proof -
  from assms obtain bs1 ss1 bs2 ss2 where
    "v_bcasts V b = v_bcasts V a @ bs1" "\<forall>(t, x, d) \<in> set bs1. durable x d"
    "v_signs V b = v_signs V a @ ss1" "\<forall>(t, d) \<in> set ss1. unattempted canon t d"
    "v_bcasts V c = v_bcasts V b @ bs2" "\<forall>(t, x, d) \<in> set bs2. durable x d"
    "v_signs V c = v_signs V b @ ss2" "\<forall>(t, d) \<in> set ss2. unattempted canon t d"
    by (auto simp: traced_def)
  then have "v_bcasts V c = v_bcasts V a @ (bs1 @ bs2)" "\<forall>(t, x, d) \<in> set (bs1 @ bs2). durable x d"
    "v_signs V c = v_signs V a @ (ss1 @ ss2)" "\<forall>(t, d) \<in> set (ss1 @ ss2). unattempted canon t d"
    by auto
  moreover have "v_queue V c = v_queue V a" using assms by (simp add: traced_def)
  ultimately show ?thesis using assms unfolding traced_def by (meson le_trans rtranclp_trans)
qed

lemma moved_ok: "moved V step w w' \<Longrightarrow> v_ok V w'"
  by (simp add: moved_def)

lemma traced_ok: "traced V step canon w w' \<Longrightarrow> v_ok V w'"
  by (simp add: traced_def)

locale transfer_repository =
  fixes R :: "'w Repository"
    and V :: "'w view"
    and step :: "db \<Rightarrow> db \<Rightarrow> bool"
    and canon :: "string \<Rightarrow> string option"
  assumes get_moves: "v_ok V w \<Longrightarrow> repo_GetByID R tid w = (r, w') \<Longrightarrow> moved V step w w'"
    and latest_moves: "v_ok V w \<Longrightarrow> repo_GetLatestAttempt R tid w = (ra, w') \<Longrightarrow> moved V step w w'"
    and latest_found: "v_ok V w \<Longrightarrow> repo_GetLatestAttempt R tid w = (Inr a, w') \<Longrightarrow>
          a \<in> set (transaction_attempts (v_tables V w')) \<and> canon tid = Some (ta_TransferID a)"
    and latest_missing: "v_ok V w \<Longrightarrow> repo_GetLatestAttempt R tid w = (Inl e, w') \<Longrightarrow>
          errors_is e ErrTransactionAttemptNotFound \<Longrightarrow>
          \<forall>a \<in> set (transaction_attempts (v_tables V w')). canon tid \<noteq> Some (ta_TransferID a)"
    and transition_moves: "v_ok V w \<Longrightarrow> lawful_transition canon p (v_tables V w) \<Longrightarrow>
          repo_TransitionStatus R p w = (r, w') \<Longrightarrow> moved V step w w'"
    and transition_result: "repo_TransitionStatus R p w = (Inr t, w') \<Longrightarrow>
          tr_Status t = tp_ToStatus p"
    and create_moves: "v_ok V w \<Longrightarrow> lawful_attempt ap \<Longrightarrow>
          repo_CreateAttempt R ap w = (ra, w') \<Longrightarrow> moved V step w w'"
    and create_result: "v_ok V w \<Longrightarrow> repo_CreateAttempt R ap w = (Inr a, w') \<Longrightarrow>
          a \<in> set (transaction_attempts (v_tables V w')) \<and>
          canon (ca_TransferID ap) = Some (ta_TransferID a)"
    and update_moves: "v_ok V w \<Longrightarrow> (ua_ExpectedStatus up, ua_Status up) \<in> set attempt_pairs \<Longrightarrow>
          repo_UpdateAttempt R up w = (ra, w') \<Longrightarrow> moved V step w w'"
    and update_result: "v_ok V w \<Longrightarrow> (ua_ExpectedStatus up, ua_Status up) \<in> set attempt_pairs \<Longrightarrow>
          repo_UpdateAttempt R up w = (Inr b, w') \<Longrightarrow>
          a \<in> set (transaction_attempts (v_tables V w)) \<Longrightarrow> ua_AttemptID up = ta_ID a \<Longrightarrow>
          b \<in> set (transaction_attempts (v_tables V w')) \<and> ta_Status b = ua_Status up \<and> same_attempt a b"
    and update_conflict: "v_ok V w \<Longrightarrow> (ua_ExpectedStatus up, ua_Status up) \<in> set attempt_pairs \<Longrightarrow>
          repo_UpdateAttempt R up w = (Inl e, w') \<Longrightarrow> errors_is e ErrTransactionAttemptConflict \<Longrightarrow>
          a \<in> set (transaction_attempts (v_tables V w)) \<Longrightarrow> ua_AttemptID up = ta_ID a \<Longrightarrow>
          ta_Status a = ua_ExpectedStatus up \<Longrightarrow> v_rank V w' < v_rank V w"

locale transfer_processor = transfer_repository R V step canon
  for R :: "'w Repository" and V :: "'w view" and step :: "db \<Rightarrow> db \<Rightarrow> bool"
    and canon :: "string \<Rightarrow> string option" +
  fixes P :: "'w Processor"
  assumes repository: "p_repository P = R"
    and signs: "v_ok V w \<Longrightarrow> p_signer P t w = (rs, w') \<Longrightarrow>
          v_ok V w' \<and> v_tables V w' = v_tables V w \<and> v_rank V w' = v_rank V w \<and>
          v_queue V w' = v_queue V w \<and>
          v_bcasts V w' = v_bcasts V w \<and> v_signs V w' = v_signs V w @ [(t, v_tables V w)]"
    and broadcasts: "v_ok V w \<Longrightarrow> p_broadcaster P t a w = (rb, w') \<Longrightarrow>
          v_ok V w' \<and> v_tables V w' = v_tables V w \<and> v_rank V w' = v_rank V w \<and>
          v_queue V w' = v_queue V w \<and>
          v_signs V w' = v_signs V w \<and> v_bcasts V w' = v_bcasts V w @ [(t, a, v_tables V w)]"
begin

text \<open>An attempt the processor holds: a row it has just read or written, of this transfer.\<close>

definition holds_attempt :: "Transfer \<Rightarrow> TransactionAttempt \<Rightarrow> 'w \<Rightarrow> bool" where
  "holds_attempt t a w \<longleftrightarrow>
     v_ok V w \<and> a \<in> set (transaction_attempts (v_tables V w)) \<and> canon (tr_ID t) = Some (ta_TransferID a)"

lemma submit_traced:
  assumes "holds_attempt t a w" and "ta_Status a = AttemptStatusBroadcasted"
    and "tr_Status t = StatusSigning" and "submitBroadcastedAttempt P t a w = (r, w')"
  shows "traced V step canon w w'"
proof (cases "ta_TxHash a = ''''")
  case True
  with assms show ?thesis
    by (auto simp: submitBroadcastedAttempt_def holds_attempt_def intro: traced_refl)
next
  case False
  let ?p = "\<lparr>tp_ID = tr_ID t, tp_FromStatus = tr_Status t, tp_ToStatus = StatusSubmitted,
             tp_TxHash = Some (ta_TxHash a)\<rparr>"
  have "lawful_transition canon ?p (v_tables V w)"
    using assms(1-3) False
    by (auto simp: lawful_transition_def holds_attempt_def broadcast_on_record_def)
  with False assms show ?thesis
    by (auto simp: submitBroadcastedAttempt_def transition_def repository holds_attempt_def
        intro: moved_traced transition_moves)
qed

lemma submit_result:
  "submitBroadcastedAttempt P t a w = (Inr t', w') \<Longrightarrow> tr_Status t' = StatusSubmitted"
  by (auto simp: submitBroadcastedAttempt_def transition_def repository dest: transition_result
      split: if_splits)

lemma broadcast_traced:
  assumes "holds_attempt t a w" and "ta_Status a = AttemptStatusBroadcasting"
    and "p_broadcaster P t a w = (rb, w')"
  shows "traced V step canon w w'" and "holds_attempt t a w'" and "v_rank V w' = v_rank V w"
  using assms broadcasts[of w t a rb w'] by (auto simp: traced_def durable_def holds_attempt_def)

definition submitted :: "'w \<Rightarrow> (go_error + Transfer) \<times> 'w \<Rightarrow> bool" where
  "submitted w out \<longleftrightarrow>
     traced V step canon w (snd out) \<and> (\<forall>t'. fst out = Inr t' \<longrightarrow> tr_Status t' = StatusSubmitted)"

lemma submitted_after:
  "traced V step canon w w1 \<Longrightarrow> submitted w1 out \<Longrightarrow> submitted w out"
  by (auto simp: submitted_def intro: traced_trans)

lemma submitted_error: "traced V step canon w w1 \<Longrightarrow> submitted w (Inl e, w1)"
  by (simp add: submitted_def)

lemma submitted_submit:
  assumes "holds_attempt t a w" and "ta_Status a = AttemptStatusBroadcasted" and "tr_Status t = StatusSigning"
  shows "submitted w (submitBroadcastedAttempt P t a w)"
  using submit_traced[OF assms] submit_result by (metis prod.collapse submitted_def)

text \<open>One conditional update of a held attempt, followed by its two continuations.\<close>

lemma update_held:
  assumes "holds_attempt t a w" and "(s, s') \<in> set attempt_pairs"
    and "repo_UpdateAttempt R \<lparr>ua_AttemptID = ta_ID a, ua_ExpectedStatus = s, ua_Status = s',
           ua_ErrorMessage = m\<rparr> w = (ra, w1)"
  shows "traced V step canon w w1"
    and "ra = Inr b \<Longrightarrow> holds_attempt t b w1 \<and> ta_Status b = s'"
    and "ra = Inl e \<Longrightarrow> errors_is e ErrTransactionAttemptConflict \<Longrightarrow> ta_Status a = s \<Longrightarrow>
           v_rank V w1 < v_rank V w"
proof -
  let ?up = "\<lparr>ua_AttemptID = ta_ID a, ua_ExpectedStatus = s, ua_Status = s', ua_ErrorMessage = m\<rparr>"
  from assms(1) have w: "v_ok V w" "a \<in> set (transaction_attempts (v_tables V w))"
      "canon (tr_ID t) = Some (ta_TransferID a)"
    by (simp_all add: holds_attempt_def)
  have mv: "moved V step w w1" using update_moves[OF w(1) _ assms(3)] assms(2) by simp
  show "traced V step canon w w1" by (rule moved_traced[OF mv])
  show "holds_attempt t b w1 \<and> ta_Status b = s'" if "ra = Inr b"
    using update_result[OF w(1) _ _ w(2), of ?up b w1] assms(2,3) that w(3) moved_ok[OF mv]
    by (auto simp: holds_attempt_def same_attempt_def)
  show "v_rank V w1 < v_rank V w" if "ra = Inl e" "errors_is e ErrTransactionAttemptConflict" "ta_Status a = s"
    using update_conflict[OF w(1) _ _ that(2) w(2), of ?up w1] assms(2,3) that by simp
qed

lemma attempt_pairs_mem:
  "(AttemptStatusSigned, AttemptStatusBroadcasting) \<in> set attempt_pairs"
  "(AttemptStatusBroadcasting, AttemptStatusSigned) \<in> set attempt_pairs"
  "(AttemptStatusBroadcasting, AttemptStatusFailed) \<in> set attempt_pairs"
  "(AttemptStatusBroadcasting, AttemptStatusBroadcasted) \<in> set attempt_pairs"
  by (simp_all add: attempt_pairs_def)

lemma broadcastAttempt_submitted:
  assumes latest: "\<And>w out. v_ok V w \<Longrightarrow> resumeLatestAttempt n P t w = Some out \<Longrightarrow> submitted w out"
    and held: "holds_attempt t a w" and st: "ta_Status a = AttemptStatusBroadcasting"
    and tst: "tr_Status t = StatusSigning"
    and run: "broadcastAttempt n P t a w = Some out"
  shows "submitted w out"
proof -
  obtain rb w1 where b: "p_broadcaster P t a w = (rb, w1)" by force
  note bt = broadcast_traced[OF held st b]
  define s' where "s' = (case rb of
      Inl e \<Rightarrow> if errors_is e ErrTransient then AttemptStatusSigned else AttemptStatusFailed
    | Inr _ \<Rightarrow> AttemptStatusBroadcasted)"
  define m where "m = (case rb of Inl e \<Rightarrow> error_text e | Inr _ \<Rightarrow> '''')"
  obtain ru w2 where u: "repo_UpdateAttempt R \<lparr>ua_AttemptID = ta_ID a,
      ua_ExpectedStatus = AttemptStatusBroadcasting, ua_Status = s', ua_ErrorMessage = m\<rparr> w1 = (ru, w2)"
    by force
  have pr: "(AttemptStatusBroadcasting, s') \<in> set attempt_pairs"
    by (auto simp: s'_def attempt_pairs_mem split: sum.splits)
  note up = update_held[OF bt(2) pr u]
  from traced_trans[OF bt(1) up(1)] have t2: "traced V step canon w w2" .
  show ?thesis
  proof (cases ru)
    case (Inl e)
    have "submitted w out" if "resumeLatestAttempt n P t w2 = Some out"
      by (rule submitted_after[OF t2 latest[OF traced_ok[OF t2] that]])
    with Inl run b u submitted_error[OF t2] show ?thesis
      by (auto simp: broadcastAttempt.simps repository s'_def m_def Let_def
          split: sum.splits if_splits)
  next
    case (Inr b')
    note h = up(2)[OF this]
    show ?thesis
    proof (cases rb)
      case (Inl e)
      with Inr run b u t2 show ?thesis
        by (auto simp: broadcastAttempt.simps repository s'_def m_def Let_def intro: submitted_error)
    next
      case Inr2: (Inr x)
      then have "ta_Status b' = AttemptStatusBroadcasted" using h by (simp add: s'_def)
      from submitted_submit[OF _ this tst] h have "submitted w2 (submitBroadcastedAttempt P t b' w2)"
        by simp
      with Inr Inr2 run b u t2 show ?thesis
        by (auto simp: broadcastAttempt.simps repository s'_def m_def intro: submitted_after)
    qed
  qed
qed

lemma resumeSubmission_submitted:
  assumes latest: "\<And>w out. v_ok V w \<Longrightarrow> resumeLatestAttempt n P t w = Some out \<Longrightarrow> submitted w out"
    and held: "holds_attempt t a w" and tst: "tr_Status t = StatusSigning"
    and run: "resumeSubmission n P t a w = Some out"
  shows "submitted w out"
proof -
  from held have ok: "v_ok V w" by (simp add: holds_attempt_def)
  consider (signed) "ta_Status a = AttemptStatusSigned"
    | (bcing) "ta_Status a = AttemptStatusBroadcasting"
    | (bced) "ta_Status a = AttemptStatusBroadcasted"
    | (other) "ta_Status a \<notin> set [AttemptStatusSigned, AttemptStatusBroadcasting, AttemptStatusBroadcasted]"
    by auto
  then show ?thesis
  proof cases
    case signed
    obtain ru w1 where u: "repo_UpdateAttempt R \<lparr>ua_AttemptID = ta_ID a,
        ua_ExpectedStatus = AttemptStatusSigned, ua_Status = AttemptStatusBroadcasting,
        ua_ErrorMessage = ''''\<rparr> w = (ru, w1)" by force
    note up = update_held[OF held attempt_pairs_mem(1) u]
    show ?thesis
    proof (cases ru)
      case (Inl e)
      have "submitted w out" if "resumeLatestAttempt n P t w1 = Some out"
        by (rule submitted_after[OF up(1) latest[OF traced_ok[OF up(1)] that]])
      with Inl run signed u submitted_error[OF up(1)] show ?thesis
        by (auto simp: resumeSubmission.simps repository split: if_splits)
    next
      case (Inr b)
      with up(2) have h: "holds_attempt t b w1" "ta_Status b = AttemptStatusBroadcasting" by auto
      from Inr run signed u have "broadcastAttempt n P t b w1 = Some out"
        by (simp add: resumeSubmission.simps repository)
      from broadcastAttempt_submitted[OF latest h tst this] show ?thesis
        by (blast intro: submitted_after up(1))
    qed
  next
    case bcing
    with run have "broadcastAttempt n P t a w = Some out" by (simp add: resumeSubmission.simps)
    from broadcastAttempt_submitted[OF latest held bcing tst this] show ?thesis by blast
  next
    case bced
    with submitted_submit[OF held bced tst] run show ?thesis
      by (auto simp: resumeSubmission.simps)
  next
    case other
    with run show ?thesis
      by (auto simp: resumeSubmission.simps intro!: submitted_error traced_refl[OF ok] split: if_splits)
  qed
qed

lemma latest_held:
  assumes "v_ok V w" and "repo_GetLatestAttempt R (tr_ID t) w = (Inr a, w1)"
  shows "holds_attempt t a w1" and "traced V step canon w w1"
  using assms latest_found[OF assms] latest_moves[OF assms]
  by (auto simp: holds_attempt_def moved_ok intro: moved_traced)

lemma resumeLatestAttempt_submitted:
  assumes "tr_Status t = StatusSigning"
  shows "v_ok V w \<Longrightarrow> resumeLatestAttempt n P t w = Some out \<Longrightarrow> submitted w out"
proof (induction n arbitrary: w out)
  case (Suc n)
  obtain ra w1 where l: "repo_GetLatestAttempt R (tr_ID t) w = (ra, w1)" by force
  note mv = moved_traced[OF latest_moves[OF Suc.prems(1) l]]
  show ?case
  proof (cases ra)
    case (Inl e)
    with Suc.prems l mv show ?thesis by (auto simp: repository intro: submitted_error)
  next
    case (Inr a)
    with Suc.prems l have "resumeSubmission n P t a w1 = Some out" by (simp add: repository)
    from resumeSubmission_submitted[OF Suc.IH latest_held(1)[OF Suc.prems(1)] assms this] Inr l mv
    show ?thesis by (blast intro: submitted_after)
  qed
qed simp

lemmas resume_submitted =
  resumeSubmission_submitted[OF resumeLatestAttempt_submitted]

lemma signs_traced:
  assumes "v_ok V w" and "unattempted canon t (v_tables V w)" and "p_signer P t w = (rs, w1)"
  shows "traced V step canon w w1"
  using assms signs[OF assms(1,3)] by (auto simp: traced_def)

lemma createAttemptAndSubmit_submitted:
  assumes ok: "v_ok V w" and un: "unattempted canon t (v_tables V w)"
    and tst: "tr_Status t = StatusSigning" and run: "createAttemptAndSubmit n P t w = Some out"
  shows "submitted w out"
proof -
  obtain rs w1 where sg: "p_signer P t w = (rs, w1)" by force
  note t1 = signs_traced[OF ok un sg]
  show ?thesis
  proof (cases "\<exists>s. rs = Inr s \<and> st_RawTransaction s \<noteq> '''' \<and> st_TxHash s \<noteq> ''''")
    case False
    with run sg submitted_error[OF t1] show ?thesis
      by (auto simp: createAttemptAndSubmit_def split: sum.splits if_splits)
  next
    case True
    then obtain s where s: "rs = Inr s" "st_RawTransaction s \<noteq> ''''" "st_TxHash s \<noteq> ''''" by auto
    let ?ap = "\<lparr>ca_TransferID = tr_ID t, ca_Nonce = st_Nonce s,
       ca_RawPayload = newTransactionAttemptPayload (st_RawTransaction s), ca_TxHash = st_TxHash s,
       ca_Status = AttemptStatusSigned, ca_ErrorMessage = ''''\<rparr>"
    have lw: "lawful_attempt ?ap" using s by (auto simp: lawful_attempt_def)
    obtain ra w2 where c: "repo_CreateAttempt R ?ap w1 = (ra, w2)" by force
    note t2 = traced_trans[OF t1 moved_traced[OF create_moves[OF traced_ok[OF t1] lw c]]]
    have latest: "submitted w out" if "resumeLatestAttempt n P t w2 = Some out"
      by (rule submitted_after[OF t2 resumeLatestAttempt_submitted[OF tst traced_ok[OF t2] that]])
    have resume: "submitted w out" if "ra = Inr a" "resumeSubmission n P t a w2 = Some out" for a
    proof -
      have "holds_attempt t a w2"
        using create_result[OF traced_ok[OF t1], of ?ap a w2] c that(1) traced_ok[OF t2]
        by (simp add: holds_attempt_def)
      from submitted_after[OF t2 resume_submitted[OF tst _ _ this tst that(2)]] show ?thesis by simp
    qed
    from run sg s c latest resume submitted_error[OF t2] show ?thesis
      by (auto simp: createAttemptAndSubmit_def repository split: sum.splits if_splits)
  qed
qed

lemma submitTransfer_submitted:
  assumes ok: "v_ok V w" and tst: "tr_Status t = StatusSigning" and run: "submitTransfer n P t w = Some out"
  shows "submitted w out"
proof -
  obtain ra w1 where l: "repo_GetLatestAttempt R (tr_ID t) w = (ra, w1)" by force
  note t1 = moved_traced[OF latest_moves[OF ok l]]
  show ?thesis
  proof (cases ra)
    case (Inr a)
    with run l have "resumeSubmission n P t a w1 = Some out" by (simp add: submitTransfer_def repository)
    from submitted_after[OF t1 resume_submitted[OF tst _ _ latest_held(1)[OF ok] tst this]] l Inr
    show ?thesis by simp
  next
    case (Inl e)
    have "submitted w out" if "errors_is e ErrTransactionAttemptNotFound"
        "createAttemptAndSubmit n P t w1 = Some out"
    proof -
      have "unattempted canon t (v_tables V w1)"
        using latest_missing[OF ok _ that(1)] l Inl by (simp add: unattempted_def)
      from submitted_after[OF t1 createAttemptAndSubmit_submitted[OF traced_ok[OF t1] this tst that(2)]]
      show ?thesis .
    qed
    with run l Inl submitted_error[OF t1] show ?thesis
      by (auto simp: submitTransfer_def repository split: if_splits)
  qed
qed

subsection \<open>The loop of \<open>ProcessTransfer\<close>\<close>

lemma transition_traced:
  assumes "v_ok V w" and "tr_Status t \<noteq> StatusPendingOnChain" and "tr_Status t \<noteq> StatusFailed"
    and "to = StatusFailed \<or> (tr_Status t, to) \<in> set advance_pairs"
    and "transition P t to None w = (r, w1)"
  shows "traced V step canon w w1" and "r = Inr t' \<Longrightarrow> tr_Status t' = to"
proof -
  let ?p = "\<lparr>tp_ID = tr_ID t, tp_FromStatus = tr_Status t, tp_ToStatus = to, tp_TxHash = None\<rparr>"
  have "lawful_transition canon ?p (v_tables V w)" using assms(2-4) by (auto simp: lawful_transition_def)
  with transition_moves[OF assms(1)] assms(5) show "traced V step canon w w1"
    by (auto simp: transition_def repository intro: moved_traced)
  show "tr_Status t' = to" if "r = Inr t'"
    using transition_result[of ?p w t' w1] assms(5) that by (simp add: transition_def repository)
qed

text \<open>The status a pass of the loop leads to.\<close>

fun next_status :: "string \<Rightarrow> string" where
  "next_status s =
     (if s = StatusCreated then StatusValidated else if s = StatusValidated then StatusQueued
      else if s = StatusQueued then StatusSigning else if s = StatusSigning then StatusSubmitted
      else StatusPendingOnChain)"

lemma process_step_traced:
  assumes ok: "v_ok V w" and st: "tr_Status t \<noteq> StatusPendingOnChain" "tr_Status t \<noteq> StatusFailed"
    and run: "process_step n P t w = Some (r, w1)"
  shows "traced V step canon w w1"
    and "r = Inr t' \<Longrightarrow> tr_Status t \<in> set [StatusCreated, StatusValidated, StatusQueued, StatusSigning, StatusSubmitted]
           \<and> tr_Status t' = next_status (tr_Status t)"
proof -
  consider (work) "(tr_Status t, next_status (tr_Status t)) \<in> set advance_pairs"
      and "transition P t (next_status (tr_Status t)) None w = (r, w1)"
      and "tr_Status t \<in> set [StatusCreated, StatusValidated, StatusQueued, StatusSubmitted]"
    | (sign) "tr_Status t = StatusSigning" "submitTransfer n P t w = Some (r, w1)"
    | (bad) "\<exists>e. r = Inl e" "w1 = w"
    using run by (auto simp: process_step_def advance_pairs_def split: if_splits)
  then have "traced V step canon w w1 \<and> (r = Inr t' \<longrightarrow>
      tr_Status t \<in> set [StatusCreated, StatusValidated, StatusQueued, StatusSigning, StatusSubmitted]
      \<and> tr_Status t' = next_status (tr_Status t))"
  proof cases
    case work
    note tr = transition_traced[OF ok st disjI2[OF work(1)] work(2)]
    show ?thesis
    proof (intro conjI impI)
      assume "r = Inr t'"
      then show "tr_Status t' = next_status (tr_Status t)" by (rule tr(2))
    qed (use tr(1) work(3) in auto)
  next
    case sign
    with submitTransfer_submitted[OF ok sign] show ?thesis by (auto simp: submitted_def)
  next
    case bad
    with traced_refl[OF ok] show ?thesis by auto
  qed
  then show "traced V step canon w w1"
    and "r = Inr t' \<Longrightarrow> tr_Status t \<in> set [StatusCreated, StatusValidated, StatusQueued, StatusSigning, StatusSubmitted]
           \<and> tr_Status t' = next_status (tr_Status t)"
    by blast+
qed

lemma process_loop_traced:
  "v_ok V w \<Longrightarrow> process_loop n P t w = Some (r, w') \<Longrightarrow>
   traced V step canon w w' \<and>
   (\<forall>t'. r = Inr t' \<longrightarrow> tr_Status t' = StatusPendingOnChain \<or> tr_Status t' = StatusFailed)"
proof (induction n arbitrary: t w)
  case (Suc n)
  show ?case
  proof (cases "tr_Status t = StatusPendingOnChain \<or> tr_Status t = StatusFailed")
    case True
    with Suc.prems traced_refl show ?thesis by auto
  next
    case False
    with Suc.prems(2) obtain r1 w1 where s: "process_step n P t w = Some (r1, w1)"
      by (auto split: option.splits)
    from False have st: "tr_Status t \<noteq> StatusPendingOnChain" "tr_Status t \<noteq> StatusFailed" by auto
    note tr = process_step_traced(1)[OF Suc.prems(1) st s]
    show ?thesis
    proof (cases r1)
      case (Inl e)
      with False Suc.prems(2) s tr show ?thesis by auto
    next
      case (Inr t1)
      have "traced V step canon w1 w' \<and> (\<forall>t'. r = Inr t' \<longrightarrow>
          tr_Status t' = StatusPendingOnChain \<or> tr_Status t' = StatusFailed)"
        if "process_loop n P t1 w1 = Some (r, w')"
        by (rule Suc.IH[OF traced_ok[OF tr] that])
      with False Suc.prems(2) s tr Inr show ?thesis
        by (auto intro: traced_trans split: if_splits)
    qed
  qed
qed simp

lemma ProcessTransfer_traced:
  assumes ok: "v_ok V w" and run: "ProcessTransfer n P tid w = Some (r, w')"
  shows "traced V step canon w w'"
    and "r = Inr t' \<Longrightarrow> tr_Status t' = StatusPendingOnChain \<or> tr_Status t' = StatusFailed"
proof -
  obtain rg w1 where g: "repo_GetByID R tid w = (rg, w1)" by force
  note t1 = moved_traced[OF get_moves[OF ok g]]
  have "traced V step canon w w' \<and>
      (\<forall>t'. r = Inr t' \<longrightarrow> tr_Status t' = StatusPendingOnChain \<or> tr_Status t' = StatusFailed)"
  proof (cases rg)
    case (Inl e)
    with run g t1 show ?thesis by (auto simp: ProcessTransfer_def repository)
  next
    case (Inr t)
    with run g have "process_loop n P t w1 = Some (r, w')" by (simp add: ProcessTransfer_def repository)
    from process_loop_traced[OF traced_ok[OF t1] this] t1 show ?thesis
      by (blast intro: traced_trans)
  qed
  then show "traced V step canon w w'"
    and "r = Inr t' \<Longrightarrow> tr_Status t' = StatusPendingOnChain \<or> tr_Status t' = StatusFailed"
    by blast+
qed

lemma FailTransfer_traced:
  assumes ok: "v_ok V w" and run: "FailTransfer P tid w = (e, w')"
  shows "traced V step canon w w'"
proof -
  obtain rg w1 where g: "repo_GetByID R tid w = (rg, w1)" by force
  note t1 = moved_traced[OF get_moves[OF ok g]]
  show ?thesis
  proof (cases "\<exists>t. rg = Inr t \<and> tr_Status t \<noteq> StatusPendingOnChain \<and> tr_Status t \<noteq> StatusFailed")
    case False
    with run g t1 show ?thesis by (auto simp: FailTransfer_def repository split: sum.splits if_splits)
  next
    case True
    then obtain t where t: "rg = Inr t" "tr_Status t \<noteq> StatusPendingOnChain" "tr_Status t \<noteq> StatusFailed"
      by auto
    obtain rt w2 where "transition P t StatusFailed None w1 = (rt, w2)" by force
    with transition_traced(1)[OF traced_ok[OF t1] t(2,3) _ this] t1 t run g show ?thesis
      by (auto simp: FailTransfer_def repository intro: traced_trans split: sum.splits if_splits)
  qed
qed

subsection \<open>Enough fuel\<close>

text \<open>
  Another pass over the latest attempt happens only after a conflict, and a conflict on a row
  just read consumes interference: a bound on the interference to come bounds the passes.
\<close>

lemma broadcastAttempt_returns:
  assumes latest: "\<And>w1. v_ok V w1 \<Longrightarrow> v_rank V w1 < n \<Longrightarrow> resumeLatestAttempt n P t w1 \<noteq> None"
    and held: "holds_attempt t a w" and st: "ta_Status a = AttemptStatusBroadcasting"
    and rank: "v_rank V w \<le> n"
  shows "broadcastAttempt n P t a w \<noteq> None"
proof -
  obtain rb w1 where b: "p_broadcaster P t a w = (rb, w1)" by force
  note bt = broadcast_traced[OF held st b]
  have again: "resumeLatestAttempt n P t w2 \<noteq> None"
    if pr: "(AttemptStatusBroadcasting, s') \<in> set attempt_pairs"
      and u: "repo_UpdateAttempt R \<lparr>ua_AttemptID = ta_ID a, ua_ExpectedStatus = AttemptStatusBroadcasting,
          ua_Status = s', ua_ErrorMessage = m\<rparr> w1 = (Inl e, w2)"
      and c: "errors_is e ErrTransactionAttemptConflict" for s' m e w2
    using update_held(1,3)[OF bt(2) pr u] c st rank bt(3) latest traced_ok by fastforce
  show ?thesis
    using b again attempt_pairs_mem
    by (auto simp: broadcastAttempt.simps repository Let_def split: sum.splits prod.splits)
qed

lemma resumeSubmission_returns:
  assumes latest: "\<And>w1. v_ok V w1 \<Longrightarrow> v_rank V w1 < n \<Longrightarrow> resumeLatestAttempt n P t w1 \<noteq> None"
    and held: "holds_attempt t a w" and rank: "v_rank V w \<le> n"
  shows "resumeSubmission n P t a w \<noteq> None"
proof (cases "ta_Status a = AttemptStatusSigned")
  case False
  with broadcastAttempt_returns[OF latest held _ rank] show ?thesis
    by (auto simp: resumeSubmission.simps)
next
  case True
  obtain ru w1 where u: "repo_UpdateAttempt R \<lparr>ua_AttemptID = ta_ID a,
      ua_ExpectedStatus = AttemptStatusSigned, ua_Status = AttemptStatusBroadcasting,
      ua_ErrorMessage = ''''\<rparr> w = (ru, w1)" by force
  note up = update_held[OF held attempt_pairs_mem(1) u]
  from up(1) rank have r1: "v_ok V w1" "v_rank V w1 \<le> n" by (auto simp: traced_def)
  show ?thesis
  proof (cases ru)
    case (Inl e)
    with up(3) True rank r1(1) latest u show ?thesis
      by (auto simp: resumeSubmission.simps repository)
  next
    case (Inr b)
    with up(2) have "holds_attempt t b w1" "ta_Status b = AttemptStatusBroadcasting" by auto
    from broadcastAttempt_returns[OF latest this r1(2)] Inr True u show ?thesis
      by (simp add: resumeSubmission.simps repository)
  qed
qed

lemma resumeLatestAttempt_returns:
  "v_ok V w \<Longrightarrow> v_rank V w < n \<Longrightarrow> resumeLatestAttempt n P t w \<noteq> None"
proof (induction n arbitrary: w)
  case (Suc n)
  obtain ra w1 where l: "repo_GetLatestAttempt R (tr_ID t) w = (ra, w1)" by force
  from latest_moves[OF Suc.prems(1) l] Suc.prems have r1: "v_rank V w1 \<le> n" by (simp add: moved_def)
  have "resumeSubmission n P t a w1 \<noteq> None" if "ra = Inr a" for a
    using resumeSubmission_returns[OF Suc.IH latest_held(1)[OF Suc.prems(1) l[unfolded that]] r1] .
  with l show ?case by (simp add: repository split: sum.splits)
qed simp

lemma create_returns:
  assumes ok: "v_ok V w" and rank: "v_rank V w < n" and lw: "lawful_attempt ap"
    and c: "repo_CreateAttempt R ap w = (ra, w1)"
  shows "resumeLatestAttempt n P t w1 \<noteq> None"
    and "ra = Inr a \<Longrightarrow> ca_TransferID ap = tr_ID t \<Longrightarrow> resumeSubmission n P t a w1 \<noteq> None"
proof -
  from create_moves[OF ok lw c] rank have r1: "v_ok V w1" "v_rank V w1 < n" by (auto simp: moved_def)
  show "resumeLatestAttempt n P t w1 \<noteq> None" by (rule resumeLatestAttempt_returns[OF r1])
  assume "ra = Inr a" and "ca_TransferID ap = tr_ID t"
  with create_result[OF ok, of ap a w1] c r1(1) have "holds_attempt t a w1" by (simp add: holds_attempt_def)
  from resumeSubmission_returns[OF resumeLatestAttempt_returns this] r1(2)
  show "resumeSubmission n P t a w1 \<noteq> None" by simp
qed

lemma createAttemptAndSubmit_returns:
  assumes ok: "v_ok V w" and rank: "v_rank V w < n"
  shows "createAttemptAndSubmit n P t w \<noteq> None"
proof -
  obtain rs w1 where sg: "p_signer P t w = (rs, w1)" by force
  with signs[OF ok sg] rank have r1: "v_ok V w1" "v_rank V w1 < n" by auto
  show ?thesis
  proof (cases "\<exists>s. rs = Inr s \<and> st_RawTransaction s \<noteq> '''' \<and> st_TxHash s \<noteq> ''''")
    case False
    with sg show ?thesis by (auto simp: createAttemptAndSubmit_def split: sum.splits)
  next
    case True
    then obtain s where s: "rs = Inr s" "st_RawTransaction s \<noteq> ''''" "st_TxHash s \<noteq> ''''" by auto
    let ?ap = "\<lparr>ca_TransferID = tr_ID t, ca_Nonce = st_Nonce s,
       ca_RawPayload = newTransactionAttemptPayload (st_RawTransaction s), ca_TxHash = st_TxHash s,
       ca_Status = AttemptStatusSigned, ca_ErrorMessage = ''''\<rparr>"
    obtain ra w2 where c: "repo_CreateAttempt R ?ap w1 = (ra, w2)" by force
    have "lawful_attempt ?ap" using s by (auto simp: lawful_attempt_def)
    from create_returns[OF r1 this c] sg s c show ?thesis
      by (auto simp: createAttemptAndSubmit_def repository split: sum.splits)
  qed
qed

lemma submitTransfer_returns:
  assumes ok: "v_ok V w" and rank: "v_rank V w < n"
  shows "submitTransfer n P t w \<noteq> None"
proof -
  obtain ra w1 where l: "repo_GetLatestAttempt R (tr_ID t) w = (ra, w1)" by force
  from latest_moves[OF ok l] rank have r1: "v_ok V w1" "v_rank V w1 < n" by (auto simp: moved_def)
  have "resumeSubmission n P t a w1 \<noteq> None" if "ra = Inr a" for a
    by (rule resumeSubmission_returns[OF resumeLatestAttempt_returns latest_held(1)[OF ok l[unfolded that]]])
      (use r1(2) in auto)
  with l createAttemptAndSubmit_returns[OF r1] show ?thesis
    by (auto simp: submitTransfer_def repository split: sum.splits)
qed

fun passes_left :: "string \<Rightarrow> nat" where
  "passes_left s =
     (if s = StatusCreated then 5 else if s = StatusValidated then 4 else if s = StatusQueued then 3
      else if s = StatusSigning then 2 else 1)"

lemma process_loop_returns:
  "v_ok V w \<Longrightarrow> v_rank V w + passes_left (tr_Status t) \<le> n \<Longrightarrow> process_loop n P t w \<noteq> None"
proof (induction n arbitrary: t w)
  case (Suc n)
  show ?case
  proof (cases "tr_Status t = StatusPendingOnChain \<or> tr_Status t = StatusFailed")
    case False
    then have st: "tr_Status t \<noteq> StatusPendingOnChain" "tr_Status t \<noteq> StatusFailed" by auto
    have "submitTransfer n P t w \<noteq> None" if "tr_Status t = StatusSigning"
      using submitTransfer_returns[OF Suc.prems(1)] Suc.prems(2) that by simp
    then have "process_step n P t w \<noteq> None" by (auto simp: process_step_def)
    then obtain r1 w1 where s: "process_step n P t w = Some (r1, w1)" by auto
    note tr = process_step_traced[OF Suc.prems(1) st s]
    have "process_loop n P t1 w1 \<noteq> None"
      if "r1 = Inr t1" "tr_Status t1 \<noteq> StatusPendingOnChain" for t1
    proof (rule Suc.IH[OF traced_ok[OF tr(1)]])
      from tr(1) have "v_rank V w1 \<le> v_rank V w" by (simp add: traced_def)
      with tr(2)[OF that(1)] that(2) Suc.prems(2) show "v_rank V w1 + passes_left (tr_Status t1) \<le> n"
        by auto
    qed
    with False s show ?thesis by (simp split: sum.splits)
  qed simp
qed (simp split: if_splits)

lemma ProcessTransfer_returns:
  assumes ok: "v_ok V w" and fuel: "v_rank V w + 5 \<le> n"
  shows "\<exists>out. ProcessTransfer n P tid w = Some out"
proof -
  obtain rg w1 where g: "repo_GetByID R tid w = (rg, w1)" by force
  from get_moves[OF ok g] fuel have r1: "v_ok V w1" "v_rank V w1 + 5 \<le> n" by (auto simp: moved_def)
  then have "process_loop n P t w1 \<noteq> None" for t by (intro process_loop_returns) (auto split: if_splits)
  with g show ?thesis by (auto simp: ProcessTransfer_def repository split: sum.splits)
qed

end

end
