(* ===== verification/SystemSteps.thy ===== *)
theory SystemSteps
  imports TransferInv
begin

text \<open>
  Steps of the whole system: a step of the transfer pipeline, or a side step, which is what
  every other session does (claim or settle outbox events and deliveries, register wallets,
  record reconciliations, let time pass). Side steps leave the transfer tables alone and keep
  what identifies an outbox event.
\<close>

definition outbox_identity :: "OutboxEvent \<Rightarrow> string \<times> string \<times> string \<times> raw_json" where
  "outbox_identity x = (oe_ID x, oe_TransferID x, oe_EventType x, oe_PayloadJSON x)"

definition side_step :: "db \<Rightarrow> db \<Rightarrow> bool" where
  "side_step d d' \<longleftrightarrow>
     transfer_requests d' = transfer_requests d \<and>
     transfer_status_history d' = transfer_status_history d \<and>
     transaction_attempts d' = transaction_attempts d \<and>
     map outbox_identity (transfer_outbox d') = map outbox_identity (transfer_outbox d)"

inductive sys_step :: "pg \<Rightarrow> db \<Rightarrow> db \<Rightarrow> bool" for pg where
  transfer: "transfer_step pg d d' \<Longrightarrow> sys_step pg d d'"
| side: "side_step d d' \<Longrightarrow> sys_step pg d d'"

lemma side_step_refl [simp]: "side_step d d"
  by (simp add: side_step_def)

lemma side_step_trans: "side_step a b \<Longrightarrow> side_step b c \<Longrightarrow> side_step a c"
  by (simp add: side_step_def)

lemma outbox_of_identity:
  assumes "map outbox_identity xs = map outbox_identity ys"
  shows "map outbox_identity (filter (\<lambda>x. oe_TransferID x = tid) xs) =
         map outbox_identity (filter (\<lambda>x. oe_TransferID x = tid) ys)"
  using assms
proof (induction xs ys rule: list_induct2')
  case (4 x xs y ys)
  then show ?case by (auto simp: outbox_identity_def)
qed auto

lemma side_step_inv:
  assumes s: "side_step d d'" and inv: "transfer_inv d"
  shows "transfer_inv d'"
proof -
  note eqs = s[unfolded side_step_def]
  have ids: "oe_TransferID ` set (transfer_outbox d') = oe_TransferID ` set (transfer_outbox d)"
  proof -
    have "oe_TransferID ` set (transfer_outbox x) = (fst \<circ> snd) ` set (map outbox_identity (transfer_outbox x))" for x
      by (force simp: outbox_identity_def)
    with eqs show ?thesis by (metis (no_types))
  qed
  then have refs: "refs_inv d'" using inv eqs by (simp add: transfer_inv_def refs_inv_def) (metis imageI image_iff)
  have "\<exists>x. outbox_of (tr_ID t) d' = [x] \<and> oe_EventType x = OutboxEventTypeTransferRequested \<and>
        oe_PayloadJSON x = requested_payload (tr_ID t)" if t: "t \<in> set (transfer_requests d')" for t
  proof -
    from inv t eqs obtain x where x: "outbox_of (tr_ID t) d = [x]"
        "oe_EventType x = OutboxEventTypeTransferRequested" "oe_PayloadJSON x = requested_payload (tr_ID t)"
      by (auto simp: transfer_inv_def outbox_inv_def)
    have "map outbox_identity (outbox_of (tr_ID t) d') = map outbox_identity (outbox_of (tr_ID t) d)"
      unfolding outbox_of_def by (rule outbox_of_identity) (use eqs in simp)
    with x show ?thesis by (auto simp: outbox_identity_def)
  qed
  then have "outbox_inv d'" by (simp add: outbox_inv_def)
  with inv eqs refs show ?thesis
    by (simp add: transfer_inv_def keys_inv_def history_inv_def history_of_def hash_inv_def
        attempts_inv_def broadcast_on_record_def)
qed

lemma sys_step_inv: "sys_step pg d d' \<Longrightarrow> transfer_inv d \<Longrightarrow> transfer_inv d'"
  by (induction rule: sys_step.induct) (auto intro: transfer_step_inv side_step_inv)

lemma sys_steps_inv: "(sys_step pg)\<^sup>*\<^sup>* d d' \<Longrightarrow> transfer_inv d \<Longrightarrow> transfer_inv d'"
  by (induction rule: rtranclp_induct) (auto intro: sys_step_inv)

lemma broadcast_on_record_sys:
  "(sys_step pg)\<^sup>*\<^sup>* d d' \<Longrightarrow> broadcast_on_record tid h d \<Longrightarrow> broadcast_on_record tid h d'"
proof (induction rule: rtranclp_induct)
  case (step y z)
  from step(2) show ?case
  proof cases
    case transfer
    with step.IH[OF step.prems] show ?thesis by (rule broadcast_on_record_step[rotated])
  next
    case side
    with step.IH[OF step.prems] show ?thesis by (simp add: side_step_def broadcast_on_record_def)
  qed
qed

lemma same_attempt_trans: "same_attempt a b \<Longrightarrow> same_attempt b c \<Longrightarrow> same_attempt a c"
  by (simp add: same_attempt_def)

lemma attempt_kept_sys:
  "(sys_step pg)\<^sup>*\<^sup>* d d' \<Longrightarrow> a \<in> set (transaction_attempts d) \<Longrightarrow>
   \<exists>b \<in> set (transaction_attempts d'). same_attempt a b"
proof (induction rule: rtranclp_induct)
  case base
  then show ?case by (auto simp: same_attempt_def)
next
  case (step y z)
  then obtain b where b: "b \<in> set (transaction_attempts y)" "same_attempt a b" by blast
  from step(2) show ?case
  proof cases
    case transfer
    from attempt_kept_step[OF transfer b(1)] b(2) show ?thesis by (blast intro: same_attempt_trans)
  next
    case side
    with b show ?thesis by (auto simp: side_step_def)
  qed
qed

subsection \<open>Canonical identifiers\<close>

text \<open>
  \<open>uuid_laws\<close>: what PostgreSQL documents of \<open>uuid\<close> values, that the text it prints for a
  generated one is read back as itself.
\<close>

definition uuid_laws :: "pg \<Rightarrow> bool" where
  "uuid_laws pg \<longleftrightarrow> (\<forall>n. uuid_in pg (gen_random_uuid pg n) = Some (gen_random_uuid pg n))"

definition canonical_ids :: "pg \<Rightarrow> db \<Rightarrow> bool" where
  "canonical_ids pg d \<longleftrightarrow>
     (\<forall>t \<in> set (transfer_requests d). uuid_in pg (tr_ID t) = Some (tr_ID t)) \<and>
     (\<forall>a \<in> set (transaction_attempts d). uuid_in pg (ta_ID a) = Some (ta_ID a))"

lemma canonical_ids_step:
  assumes "transfer_step pg d d'" and "uuid_laws pg" and "canonical_ids pg d"
  shows "canonical_ids pg d'"
  using assms
proof cases
  case (create p t)
  from create(1) obtain wallet amount where "d' = created_db pg p wallet amount d" by (rule tx_createD)
  with assms show ?thesis by (auto simp: canonical_ids_def uuid_laws_def fresh_uuid_def)
next
  case (attempt_create p a raw)
  from attempt_create(1) show ?thesis
    by (rule sql_insert_attemptD) (use assms in \<open>auto simp: canonical_ids_def uuid_laws_def fresh_uuid_def\<close>)
next
  case (attempt_update p a)
  from attempt_update(1) show ?thesis
    by (rule sql_update_attemptD)
      (use assms in \<open>auto simp: canonical_ids_def in_update_where split: if_splits\<close>)
qed (use assms in \<open>auto elim!: tx_transitionD simp: canonical_ids_def in_update_where split: if_splits\<close>)

lemma canonical_ids_sys:
  "(sys_step pg)\<^sup>*\<^sup>* d d' \<Longrightarrow> uuid_laws pg \<Longrightarrow> canonical_ids pg d \<Longrightarrow> canonical_ids pg d'"
proof (induction rule: rtranclp_induct)
  case (step y z)
  from step(2) show ?case
  proof cases
    case transfer
    with step show ?thesis by (blast intro: canonical_ids_step)
  next
    case side
    with step show ?thesis by (simp add: side_step_def canonical_ids_def)
  qed
qed

end
