(* ===== verification/PostgresContract.thy ===== *)
theory PostgresContract
  imports RepoContract SystemSteps
begin

text \<open>
  The \<open>PostgresRepository\<close> keeps the contract of \<^verbatim>\<open>RepoContract\<close> while other sessions commit
  any lawful work between its round trips, connections fail and contexts are cancelled. The
  interpretations \<open>pgr\<close> (repository) and \<open>pgp\<close> (processor over it) carry the processor's
  theorems to the model of the code.
\<close>

definition pg_ok :: "pg \<Rightarrow> world \<Rightarrow> bool" where
  "pg_ok pg w \<longleftrightarrow>
     uuid_laws pg \<and> relies (sys_step pg) w \<and> transfer_inv (w_db w) \<and> canonical_ids pg (w_db w)"

definition pg_view :: "pg \<Rightarrow> world view" where
  "pg_view pg = \<lparr>v_tables = w_db, v_ok = pg_ok pg, v_rank = \<lambda>w. length (w_sched w),
     v_bcasts = w_broadcasts, v_signs = w_signed, v_queue = \<lambda>w. (w_published w, w_settled w)\<rparr>"

lemma pg_view_simps [simp]:
  "v_tables (pg_view pg) = w_db" "v_ok (pg_view pg) = pg_ok pg"
  "v_rank (pg_view pg) w = length (w_sched w)" "v_bcasts (pg_view pg) = w_broadcasts"
  "v_signs (pg_view pg) = w_signed" "v_queue (pg_view pg) w = (w_published w, w_settled w)"
  by (simp_all add: pg_view_def)

text \<open>What a round trip finds: still in order, after lawful steps of the others.\<close>

lemma pg_enter:
  assumes "pg_ok pg w" and "enter w = (f, w1)"
  shows "pg_ok pg w1" and "(sys_step pg)\<^sup>*\<^sup>* (w_db w) (w_db w1)" and "same_outside w w1"
    and "length (w_sched w1) = length (w_sched w) - 1"
    and "fails_at k f = Some e \<Longrightarrow> driver_failure e"
  using assms relies_enter(1,2)[of "sys_step pg" w f w1] relies_enter(3)[of "sys_step pg" w f w1 k e] same_outside_enter[of w] length_sched_enter[of w]
  by (auto simp: pg_ok_def intro: sys_steps_inv canonical_ids_sys)

lemma pg_moved_enter:
  assumes "pg_ok pg w" and "enter w = (f, w1)"
  shows "moved (pg_view pg) (sys_step pg) w w1"
  using pg_enter[OF assms] by (simp add: moved_def same_outside_def)

text \<open>A step this session commits.\<close>

lemma pg_moved_commit:
  assumes "pg_ok pg w" and "moved (pg_view pg) (sys_step pg) w w1" and "sys_step pg (w_db w1) d"
  shows "moved (pg_view pg) (sys_step pg) w (w1\<lparr>w_db := d\<rparr>)"
  using assms
  by (auto simp: moved_def pg_ok_def intro: sys_step_inv canonical_ids_sys rtranclp.rtrancl_into_rtrancl)

lemma moved_trans:
  "moved V step a b \<Longrightarrow> moved V step b c \<Longrightarrow> moved V step a c"
  by (auto simp: moved_def)

lemma query_moved:
  assumes "pg_ok pg w" and "query q w = (r, w1)"
  shows "moved (pg_view pg) (sys_step pg) w w1"
    and "r = Inr x \<Longrightarrow> q (w_db w1) = Inr x"
    and "r = Inl e \<Longrightarrow> q (w_db w1) = Inl e \<or> driver_failure e"
proof -
  obtain f w2 where e: "enter w = (f, w2)" by force
  with assms(2) have w2: "w2 = w1" and r: "r = driver 0 f (q (w_db w1))" by (auto simp: query_def)
  from pg_moved_enter[OF assms(1) e] w2 show "moved (pg_view pg) (sys_step pg) w w1" by simp
  show "q (w_db w1) = Inr x" if "r = Inr x" using r that by (simp add: driver_def split: option.splits)
  show "q (w_db w1) = Inl e \<or> driver_failure e" if "r = Inl e"
    using r that pg_enter(5)[OF assms(1) \<open>enter w = (f, w2)\<close>, of 0 e] by (auto simp: driver_def split: option.splits)
qed

lemma autocommit_result: "autocommit f q w1 = (Inr x, w2) \<Longrightarrow> q = Inr (x, w_db w2)"
  by (auto simp: autocommit_def driver_def split: sum.splits prod.splits option.splits)

lemma autocommit_moved:
  assumes ok: "pg_ok pg w" and e: "enter w = (f, w1)"
    and step: "\<forall>x d. q = Inr (x, d) \<longrightarrow> sys_step pg (w_db w1) d"
    and run: "autocommit f q w1 = (r, w2)"
  shows "moved (pg_view pg) (sys_step pg) w w2"
    and "r = Inl err \<Longrightarrow> q = Inl err \<or> driver_failure err"
proof -
  note m1 = pg_moved_enter[OF ok e]
  show "moved (pg_view pg) (sys_step pg) w w2"
    using run m1 step pg_moved_commit[OF ok m1]
    by (auto simp: autocommit_def split: sum.splits prod.splits option.splits if_splits)
  show "q = Inl err \<or> driver_failure err" if "r = Inl err"
    using run that pg_enter(5)[OF ok e, of 0 err]
    by (auto simp: autocommit_def driver_def split: sum.splits prod.splits option.splits if_splits)
qed

subsection \<open>Errors\<close>

lemma driver_failure_is: "driver_failure e \<Longrightarrow> k \<noteq> Canceled \<Longrightarrow> \<not> errors_is e k"
  by (auto simp: driver_failure_def)

lemma driver_failure_map:
  "driver_failure e \<Longrightarrow> k \<noteq> Canceled \<Longrightarrow> \<not> errors_is (mapTransferWriteError op e) k"
  by (auto simp: driver_failure_def mapTransferWriteError_def)

subsection \<open>The methods the processor calls\<close>

lemma GetByID_moved:
  "pg_ok pg w \<Longrightarrow> GetByID pg tid w = (r, w1) \<Longrightarrow> moved (pg_view pg) (sys_step pg) w w1"
  using query_moved(1)[of pg w "sql_select_transfer pg tid"]
  by (auto simp: GetByID_def split: prod.splits sum.splits)

lemma getAttemptByID_moved:
  "pg_ok pg w \<Longrightarrow> getAttemptByID pg aid w = (r, w1) \<Longrightarrow> moved (pg_view pg) (sys_step pg) w w1"
  using query_moved(1)[of pg w "sql_select_attempt pg aid"]
  by (auto simp: getAttemptByID_def split: prod.splits sum.splits)

lemma sql_latest_attemptD:
  "sql_latest_attempt pg tid d = Inr a \<Longrightarrow>
     a \<in> set (transaction_attempts d) \<and> uuid_in pg tid = Some (ta_TransferID a)"
  "sql_latest_attempt pg tid d = Inl e \<Longrightarrow> errors_is e ErrNoRows \<Longrightarrow>
     \<forall>a \<in> set (transaction_attempts d). uuid_in pg tid \<noteq> Some (ta_TransferID a)"
proof -
  have in_sorted: "a \<in> set xs" if "sort_key f xs = a # ys" for a and f :: "'b \<Rightarrow> int" and xs ys
    using that set_sort[of f xs] by (metis list.set_intros(1))
  show "sql_latest_attempt pg tid d = Inr a \<Longrightarrow>
     a \<in> set (transaction_attempts d) \<and> uuid_in pg tid = Some (ta_TransferID a)"
    by (auto simp: sql_latest_attempt_def split: option.splits list.splits dest: in_sorted)
  have empty: "filter P xs = []" if "sort_key f (filter P xs) = []" for f :: "TransactionAttempt \<Rightarrow> int" and P xs
    using that by (metis set_sort set_empty)
  show "sql_latest_attempt pg tid d = Inl e \<Longrightarrow> errors_is e ErrNoRows \<Longrightarrow>
     \<forall>a \<in> set (transaction_attempts d). uuid_in pg tid \<noteq> Some (ta_TransferID a)"
    by (auto simp: sql_latest_attempt_def filter_empty_conv split: option.splits list.splits dest!: empty)
qed

lemma GetLatestAttempt_contract:
  assumes ok: "pg_ok pg w" and run: "GetLatestAttempt pg tid w = (r, w1)"
  shows "moved (pg_view pg) (sys_step pg) w w1"
    and "r = Inr a \<Longrightarrow> a \<in> set (transaction_attempts (w_db w1)) \<and> uuid_in pg tid = Some (ta_TransferID a)"
    and "r = Inl e \<Longrightarrow> errors_is e ErrTransactionAttemptNotFound \<Longrightarrow>
           \<forall>a \<in> set (transaction_attempts (w_db w1)). uuid_in pg tid \<noteq> Some (ta_TransferID a)"
proof -
  obtain q where q: "query (sql_latest_attempt pg tid) w = (q, w1)"
    and r: "r = (case q of Inl e \<Rightarrow> Inl (if errors_is e ErrNoRows then Sentinel ErrTransactionAttemptNotFound
                else Errorf ''get latest transaction attempt'' e) | Inr a \<Rightarrow> Inr a)"
    using run by (auto simp: GetLatestAttempt_def split: prod.splits sum.splits)
  note m = query_moved[OF ok q]
  show "moved (pg_view pg) (sys_step pg) w w1" by (rule m(1))
  show "a \<in> set (transaction_attempts (w_db w1)) \<and> uuid_in pg tid = Some (ta_TransferID a)" if "r = Inr a"
    using r that m(2) sql_latest_attemptD(1) by (auto split: sum.splits)
  assume e: "r = Inl e" "errors_is e ErrTransactionAttemptNotFound"
  then obtain e0 where e0: "q = Inl e0" and nf: "errors_is e0 ErrNoRows \<or> errors_is e0 ErrTransactionAttemptNotFound"
    using r by (auto split: sum.splits if_splits)
  with m(3)[OF e0] driver_failure_is have q0: "sql_latest_attempt pg tid (w_db w1) = Inl e0" by blast
  moreover have "errors_is e0 ErrNoRows"
    using q0 nf by (auto simp: sql_latest_attempt_def split: option.splits list.splits)
  ultimately show "\<forall>a \<in> set (transaction_attempts (w_db w1)). uuid_in pg tid \<noteq> Some (ta_TransferID a)"
    by (rule sql_latest_attemptD(2))
qed

text \<open>\<open>TransitionStatus\<close> commits nothing, or the transaction \<open>tx_transition\<close>.\<close>

lemma TransitionStatus_cases:
  assumes "TransitionStatus pg p w = (r, w')" and "enter w = (f, w1)"
  obtains (none) e where "r = Inl e" and "w' = w1"
  | (read) rg where "GetByID pg (tp_ID p) w1 = (rg, w')" and "\<exists>e. r = Inl e"
  | (commit) t d where "tx_transition pg p (w_db w1) = Inr (t, d)" and "w' = w1\<lparr>w_db := d\<rparr>"
      and "r = Inr t \<or> (\<exists>e. r = Inl e)"
proof -
  note run = assms(1)[unfolded TransitionStatus_def assms(2) Let_def prod.case]
  show thesis
  proof (cases "fails_at 0 f")
    case (Some e)
    with run none show thesis by (auto simp: driver_def)
  next
    case ok0: None
    show thesis
    proof (cases "driver 1 f (sql_update_transfer pg p (w_db w1))")
      case (Inl e)
      obtain rg w2 where g: "GetByID pg (tp_ID p) w1 = (rg, w2)" by force
      with ok0 Inl run none read show thesis by (auto simp: driver_def split: sum.splits if_splits)
    next
      case (Inr td)
      obtain t d1 where td: "td = (t, d1)" by force
      with Inr have u: "sql_update_transfer pg p (w_db w1) = Inr (t, d1)"
        by (simp add: driver_def split: option.splits)
      show thesis
      proof (cases "driver 2 f (sql_insert_history pg (tr_ID t) (Some (tp_FromStatus p)) (tp_ToStatus p) d1)")
        case hist: (Inl e)
        with ok0 Inr td run none show thesis by (auto simp: driver_def[of 0])
      next
        case hist: (Inr ud)
        obtain d2 where ud: "ud = ((), d2)" by (cases ud) auto
        with hist have h: "sql_insert_history pg (tr_ID t) (Some (tp_FromStatus p)) (tp_ToStatus p) d1 = Inr ((), d2)"
          by (simp add: driver_def split: option.splits)
        then have "tx_transition pg p (w_db w1) = Inr (t, d2)" using u by (simp add: tx_transition_def)
        with ok0 Inr td hist ud run none commit show thesis
          by (auto simp: driver_def[of 0] split: option.splits if_splits)
      qed
    qed
  qed
qed

lemma lawful_transition_step:
  assumes law: "lawful_transition (uuid_in pg) p d" and tx: "tx_transition pg p d = Inr (t, d')"
  shows "sys_step pg d d'"
proof -
  from tx have "uuid_in pg (tp_ID p) = Some (tr_ID t)" by (auto elim!: tx_transitionD)
  with law show ?thesis
    by (auto simp: lawful_transition_def intro!: sys_step.transfer
        intro: transfer_step.advance[OF tx] transfer_step.fail[OF tx] transfer_step.submit[OF tx])
qed

lemma lawful_transition_kept:
  "(sys_step pg)\<^sup>*\<^sup>* d d' \<Longrightarrow> lawful_transition canon p d \<Longrightarrow> lawful_transition canon p d'"
  by (auto simp: lawful_transition_def intro: broadcast_on_record_sys)

lemma TransitionStatus_moved:
  assumes ok: "pg_ok pg w" and law: "lawful_transition (uuid_in pg) p (w_db w)"
    and run: "TransitionStatus pg p w = (r, w')"
  shows "moved (pg_view pg) (sys_step pg) w w'"
proof -
  obtain f w1 where e: "enter w = (f, w1)" by force
  note m1 = pg_moved_enter[OF ok e]
  from run e show ?thesis
  proof (cases rule: TransitionStatus_cases)
    case none
    with m1 show ?thesis by simp
  next
    case (read rg)
    from GetByID_moved[OF pg_enter(1)[OF ok e] read(1)] m1 show ?thesis by (blast intro: moved_trans)
  next
    case (commit t d)
    have "sys_step pg (w_db w1) d"
      by (rule lawful_transition_step[OF lawful_transition_kept[OF pg_enter(2)[OF ok e] law] commit(1)])
    from pg_moved_commit[OF ok m1 this] commit(2) show ?thesis by simp
  qed
qed

lemma TransitionStatus_result:
  assumes run: "TransitionStatus pg p w = (Inr t, w')"
  shows "tr_Status t = tp_ToStatus p"
proof -
  obtain f w1 where e: "enter w = (f, w1)" by force
  from run e show ?thesis
    by (cases rule: TransitionStatus_cases) (auto elim!: tx_transitionD)
qed

lemma CreateAttempt_moved:
  assumes ok: "pg_ok pg w" and law: "lawful_attempt p" and run: "CreateAttempt pg p w = (r, w')"
  shows "moved (pg_view pg) (sys_step pg) w w'"
proof -
  obtain f w1 where e: "enter w = (f, w1)" by force
  obtain q where q: "autocommit f (sql_insert_attempt pg p (w_db w1)) w1 = (q, w')"
    using run e by (auto simp: CreateAttempt_def split: prod.splits sum.splits)
  have "\<forall>x d. sql_insert_attempt pg p (w_db w1) = Inr (x, d) \<longrightarrow> sys_step pg (w_db w1) d"
    using law by (auto simp: lawful_attempt_def intro: sys_step.transfer transfer_step.attempt_create)
  then show ?thesis by (rule autocommit_moved(1)[OF ok e _ q])
qed

lemma CreateAttempt_result:
  assumes "CreateAttempt pg p w = (Inr a, w')"
  shows "a \<in> set (transaction_attempts (w_db w')) \<and>
         uuid_in pg (ca_TransferID p) = Some (ta_TransferID a)"
  using assms
  by (auto simp: CreateAttempt_def split: prod.splits sum.splits dest!: autocommit_result
      elim!: sql_insert_attemptD)

text \<open>An \<open>UPDATE\<close> of an attempt row that is in the table with the expected status succeeds.\<close>

lemma sql_update_attempt_hit:
  assumes inv: "transfer_inv d" and ids: "canonical_ids pg d" and a: "a \<in> set (transaction_attempts d)"
    and st: "ta_Status a = ua_ExpectedStatus p" and id: "ua_AttemptID p = ta_ID a"
    and pr: "(ua_ExpectedStatus p, ua_Status p) \<in> set attempt_pairs"
  shows "\<exists>b d'. sql_update_attempt pg p d = Inr (b, d')"
proof -
  have uid: "uuid_in pg (ua_AttemptID p) = Some (ta_ID a)" using ids a id by (simp add: canonical_ids_def)
  from a st obtain r where f: "find (\<lambda>x. ta_ID x = ta_ID a \<and> ta_Status x = ua_ExpectedStatus p)
      (transaction_attempts d) = Some r"
    by (cases "find (\<lambda>x. ta_ID x = ta_ID a \<and> ta_Status x = ua_ExpectedStatus p) (transaction_attempts d)")
      (auto dest: find_NoneD)
  then have r: "r \<in> set (transaction_attempts d)" "ta_ID r = ta_ID a" "ta_Status r = ua_ExpectedStatus p"
    by (auto dest: find_SomeD)
  have act: "attempt_active r" using r(3) pr by (auto simp: attempt_active_def attempt_pairs_def)
  have "ta_ID x = ta_ID r" if "x \<in> set (transaction_attempts d)" "attempt_active x" "ta_TransferID x = ta_TransferID r" for x
    using inv that r(1) act unique_on_inj[of attempt_active ta_TransferID "transaction_attempts d" x r]
    by (auto simp: transfer_inv_def keys_inv_def)
  moreover have "ua_Status p \<in> set attempt_statuses" using pr by (auto simp: attempt_pairs_def attempt_statuses_def)
  ultimately show ?thesis using uid f r(2) by (auto simp: sql_update_attempt_def)
qed

lemma UpdateAttempt_cases:
  assumes "UpdateAttempt pg p w = (r, w')" and "enter w = (f, w1)"
  obtains q w2 where "autocommit f (sql_update_attempt pg p (w_db w1)) w1 = (q, w2)"
    and "(\<exists>a. q = Inr a \<and> r = Inr a \<and> w' = w2) \<or>
         (\<exists>e. q = Inl e \<and> \<not> errors_is e ErrNoRows \<and>
            r = Inl (mapTransferWriteError ''update transaction attempt'' e) \<and> w' = w2) \<or>
         (\<exists>e rg ge. q = Inl e \<and> errors_is e ErrNoRows \<and> r = Inl ge \<and>
            getAttemptByID pg (ua_AttemptID p) w2 = (rg, w'))"
proof -
  obtain q w2 where q: "autocommit f (sql_update_attempt pg p (w_db w1)) w1 = (q, w2)" by force
  show thesis
    by (rule that[OF q]) (use assms q in \<open>auto simp: UpdateAttempt_def split: prod.splits sum.splits if_splits\<close>)
qed

lemma UpdateAttempt_moved:
  assumes ok: "pg_ok pg w" and pr: "(ua_ExpectedStatus p, ua_Status p) \<in> set attempt_pairs"
    and run: "UpdateAttempt pg p w = (r, w')"
  shows "moved (pg_view pg) (sys_step pg) w w'"
proof -
  obtain f w1 where e: "enter w = (f, w1)" by force
  from run e obtain q w2 where q: "autocommit f (sql_update_attempt pg p (w_db w1)) w1 = (q, w2)"
    and w': "w' = w2 \<or> (\<exists>rg. getAttemptByID pg (ua_AttemptID p) w2 = (rg, w'))"
    by (rule UpdateAttempt_cases) blast
  have "\<forall>x d. sql_update_attempt pg p (w_db w1) = Inr (x, d) \<longrightarrow> sys_step pg (w_db w1) d"
    using pr by (auto intro: sys_step.transfer transfer_step.attempt_update)
  note m = autocommit_moved(1)[OF ok e this q]
  have "pg_ok pg w2" using moved_ok[OF m] by simp
  with w' m getAttemptByID_moved show ?thesis by (blast intro: moved_trans)
qed

lemma UpdateAttempt_result:
  assumes ok: "pg_ok pg w" and run: "UpdateAttempt pg p w = (Inr b, w')"
    and a: "a \<in> set (transaction_attempts (w_db w))" "ua_AttemptID p = ta_ID a"
  shows "b \<in> set (transaction_attempts (w_db w')) \<and> ta_Status b = ua_Status p \<and> same_attempt a b"
proof -
  obtain f w1 where e: "enter w = (f, w1)" by force
  from run e obtain w2 where q: "autocommit f (sql_update_attempt pg p (w_db w1)) w1 = (Inr b, w2)" "w' = w2"
    by (rule UpdateAttempt_cases) auto
  then have sql: "sql_update_attempt pg p (w_db w1) = Inr (b, w_db w')"
    by (auto dest: autocommit_result)
  from pg_enter(1)[OF ok e] have inv: "transfer_inv (w_db w1)" by (simp add: pg_ok_def)
  from attempt_kept_sys[OF pg_enter(2)[OF ok e] a(1)] obtain a1
    where a1: "a1 \<in> set (transaction_attempts (w_db w1))" "same_attempt a a1" by blast
  from ok a have uid: "uuid_in pg (ua_AttemptID p) = Some (ta_ID a)" by (simp add: pg_ok_def canonical_ids_def)
  from sql obtain r :: TransactionAttempt where r: "uuid_in pg (ua_AttemptID p) = Some (ta_ID r)"
      "r \<in> set (transaction_attempts (w_db w1))" "ta_Status r = ua_ExpectedStatus p"
      "b = attempt_row p (w_db w1) r"
      "w_db w' = (w_db w1)\<lparr>transaction_attempts :=
         update_where (\<lambda>x. ta_ID x = ta_ID r \<and> ta_Status x = ua_ExpectedStatus p)
           (attempt_row p (w_db w1)) (transaction_attempts (w_db w1))\<rparr>"
    by (rule sql_update_attemptD) (rule that)
  have "r = a1"
    using inv r(1,2) a1 uid distinct_map_inj[of ta_ID "transaction_attempts (w_db w1)" r a1]
    by (auto simp: transfer_inv_def keys_inv_def same_attempt_def)
  then show ?thesis
    using r a1(2) by (auto simp: in_update_where same_attempt_def)
qed

lemma UpdateAttempt_conflict:
  assumes ok: "pg_ok pg w" and pr: "(ua_ExpectedStatus p, ua_Status p) \<in> set attempt_pairs"
    and run: "UpdateAttempt pg p w = (Inl err, w')" and c: "errors_is err ErrTransactionAttemptConflict"
    and a: "a \<in> set (transaction_attempts (w_db w))" "ua_AttemptID p = ta_ID a"
      "ta_Status a = ua_ExpectedStatus p"
  shows "length (w_sched w') < length (w_sched w)"
proof -
  obtain f w1 where e: "enter w = (f, w1)" by force
  have "w_sched w \<noteq> []"
  proof
    assume "w_sched w = []"
    with e have w1: "w1 = w" by (simp add: enter_def)
    from ok have "transfer_inv (w_db w)" "canonical_ids pg (w_db w)" by (simp_all add: pg_ok_def)
    from sql_update_attempt_hit[OF this a(1,3,2) pr] obtain x d where
      hit: "sql_update_attempt pg p (w_db w) = Inr (x, d)" by blast
    have "driver_failure e0" if "autocommit f (sql_update_attempt pg p (w_db w1)) w1 = (Inl e0, w2)" for e0 w2
      using that hit w1 pg_enter(5)[OF ok e, of 0 e0] by (auto simp: autocommit_def split: option.splits)
    with run e c show False
      by (elim UpdateAttempt_cases) (auto dest: driver_failure_is driver_failure_map)
  qed
  moreover have "length (w_sched w') \<le> length (w_sched w1)"
  proof -
    from run e obtain q w2 where q: "autocommit f (sql_update_attempt pg p (w_db w1)) w1 = (q, w2)"
      and w': "w' = w2 \<or> (\<exists>rg. getAttemptByID pg (ua_AttemptID p) w2 = (rg, w'))"
      by (rule UpdateAttempt_cases) blast
    have "w_sched w2 = w_sched w1"
      using q by (auto simp: autocommit_def split: sum.splits prod.splits option.splits if_splits)
    with w' length_sched_enter[of w2] show ?thesis
      by (auto simp: getAttemptByID_def query_def split: prod.splits sum.splits)
  qed
  ultimately show ?thesis using pg_enter(4)[OF ok e] by (cases "w_sched w") auto
qed

subsection \<open>The interpretations\<close>

lemma PostgresRepository_simps [simp]:
  "repo_Create (PostgresRepository pg) = Create pg"
  "repo_GetByID (PostgresRepository pg) = GetByID pg"
  "repo_List (PostgresRepository pg) = List_transfers"
  "repo_TransitionStatus (PostgresRepository pg) = TransitionStatus pg"
  "repo_GetLatestAttempt (PostgresRepository pg) = GetLatestAttempt pg"
  "repo_CreateAttempt (PostgresRepository pg) = CreateAttempt pg"
  "repo_UpdateAttempt (PostgresRepository pg) = UpdateAttempt pg"
  by (simp_all add: PostgresRepository_def)

interpretation pgr: transfer_repository "PostgresRepository pg" "pg_view pg" "sys_step pg" "uuid_in pg"
  for pg
proof (unfold_locales, goal_cases)
  case 1 then show ?case by (auto intro: GetByID_moved)
next
  case 2 then show ?case by (auto intro: GetLatestAttempt_contract(1))
next
  case 3 then show ?case using GetLatestAttempt_contract(2) by fastforce
next
  case 4 then show ?case using GetLatestAttempt_contract(3) by fastforce
next
  case 5 then show ?case by (auto intro: TransitionStatus_moved)
next
  case 6 then show ?case by (auto intro: TransitionStatus_result)
next
  case 7 then show ?case by (auto intro: CreateAttempt_moved)
next
  case 8 then show ?case using CreateAttempt_result by simp
next
  case 9 then show ?case by (auto intro: UpdateAttempt_moved)
next
  case 10 then show ?case using UpdateAttempt_result by simp
next
  case 11 then show ?case using UpdateAttempt_conflict by simp
qed

interpretation pgp: transfer_processor "PostgresRepository pg" "pg_view pg" "sys_step pg" "uuid_in pg"
    "NewProcessor pg sign bcast"
  for pg sign bcast
proof (unfold_locales, goal_cases)
  case 1 then show ?case by (simp add: NewProcessor_def)
next
  case 2 then show ?case by (auto simp: NewProcessor_def LoggedSigner_def pg_ok_def relies_def)
next
  case 3 then show ?case by (auto simp: NewProcessor_def LoggedBroadcaster_def pg_ok_def relies_def)
qed

end
