(* ===== verification/RepoBehaviour.thy ===== *)
theory RepoBehaviour
  imports PostgresContract
begin

text \<open>
  What single calls of the transfer repository do on every branch: \<open>Create\<close> commits the whole
  transaction or nothing and is idempotent in its key, a conditional transition has one winner,
  and the submission functions end in the happy path.
\<close>

subsection \<open>Create\<close>

lemma Create_cases:
  assumes run: "Create pg p w = (r, w')" and e: "enter w = (f, w1)"
  obtains (rejected) err where "r = Inl err" and "w' = w1"
  | (taken) rg where "sql_insert_transfer pg p (w_db w1) = Inl (Sentinel ErrNoRows) \<or> (\<exists>k. fails_at k f \<noteq> None)"
      and "getByIdempotencyKey (cp_IdempotencyKey p) w1 = (rg, w')"
      and "r = (case rg of Inl ge \<Rightarrow> Inl ge | Inr t \<Rightarrow> Inr (t, False))"
  | (commit) t d where "tx_create pg p (w_db w1) = Inr (t, d)" and "w' = w1\<lparr>w_db := d\<rparr>"
      and "r = Inr (t, True) \<or> (\<exists>err. r = Inl err)"
proof -
  note run = run[unfolded Create_def e Let_def prod.case]
  show thesis
  proof (cases "fails_at 0 f")
    case (Some err)
    with run have "r = Inl (Errorf ''begin transfer create transaction'' err)" "w' = w1" by (auto simp: driver_def)
    then show thesis by (rule rejected)
  next
    case ok0: None
    show thesis
    proof (cases "driver 1 f (sql_insert_transfer pg p (w_db w1))")
      case (Inl err)
      obtain rg w2 where g: "getByIdempotencyKey (cp_IdempotencyKey p) w1 = (rg, w2)" by force
      show thesis
      proof (cases "errors_is err ErrNoRows")
        case False
        with ok0 Inl run have "r = Inl (mapTransferWriteError ''insert transfer request'' err)" "w' = w1"
          by (auto simp: driver_def[of 0])
        then show thesis by (rule rejected)
      next
        case True
        have "sql_insert_transfer pg p (w_db w1) = Inl (Sentinel ErrNoRows) \<or> (\<exists>k. fails_at k f \<noteq> None)"
        proof (cases "fails_at 1 f")
          case None
          with Inl have "sql_insert_transfer pg p (w_db w1) = Inl err" by (simp add: driver_def)
          with True show ?thesis
            by (auto simp: sql_insert_transfer_def numeric_78_def Let_def split: option.splits sum.splits if_splits)
        next
          case (Some x)
          then show ?thesis by (metis option.distinct(1))
        qed
        moreover have "w' = w2" "r = (case rg of Inl ge \<Rightarrow> Inl ge | Inr t \<Rightarrow> Inr (t, False))"
          using ok0 Inl run g True by (auto simp: driver_def split: sum.splits)
        ultimately show thesis using g taken by blast
      qed
    next
      case (Inr td)
      obtain t d1 where td: "td = (t, d1)" by force
      with Inr have i: "sql_insert_transfer pg p (w_db w1) = Inr (t, d1)"
        by (simp add: driver_def split: option.splits)
      show thesis
      proof (cases "driver 2 f (sql_insert_history pg (tr_ID t) None (tr_Status t) d1)")
        case hist: (Inl err)
        with ok0 Inr td run have "r = Inl (Errorf ''insert transfer status history'' err)" "w' = w1"
          by (auto simp: driver_def[of 0])
        then show thesis by (rule rejected)
      next
        case hist: (Inr ud)
        obtain d2 where ud: "ud = ((), d2)" by (cases ud) auto
        with hist have h: "sql_insert_history pg (tr_ID t) None (tr_Status t) d1 = Inr ((), d2)"
          by (simp add: driver_def split: option.splits)
        show thesis
        proof (cases "driver 3 f (sql_insert_outbox pg (tr_ID t) OutboxEventTypeTransferRequested
                   (requested_payload (tr_ID t)) OutboxStatusPending d2)")
          case ob: (Inl err)
          with ok0 Inr td hist ud run have "r = Inl (Errorf ''insert transfer outbox event'' err)" "w' = w1"
            by (auto simp: driver_def[of 0] requested_payload_def)
          then show thesis by (rule rejected)
        next
          case ob: (Inr vd)
          obtain d3 where vd: "vd = ((), d3)" by (cases vd) auto
          with ob have "sql_insert_outbox pg (tr_ID t) OutboxEventTypeTransferRequested
               (requested_payload (tr_ID t)) OutboxStatusPending d2 = Inr ((), d3)"
            by (simp add: driver_def split: option.splits)
          with i h have tx: "tx_create pg p (w_db w1) = Inr (t, d3)" by (simp add: tx_create_def)
          have "w' = w1 \<and> (\<exists>err. r = Inl err) \<or> w' = w1\<lparr>w_db := d3\<rparr> \<and> (r = Inr (t, True) \<or> (\<exists>err. r = Inl err))"
            using ok0 Inr td hist ud ob vd run
            by (auto simp: driver_def[of 0] requested_payload_def split: option.splits if_splits)
          with tx rejected commit show thesis by blast
        qed
      qed
    qed
  qed
qed

lemma created_row_found:
  assumes "tx_create pg p d = Inr (t, d')"
  shows "sql_select_by_key (cp_IdempotencyKey p) d' = Inr t"
    and "sql_insert_transfer pg p d' = Inl (Sentinel ErrNoRows)"
proof -
  from assms obtain wallet amount where k: "uuid_in pg (cp_SourceWalletID p) = Some wallet"
      "numeric_78 (cp_Amount p) = Inr amount"
      "t = scanTransfer (request_row pg p wallet amount d)" "d' = created_db pg p wallet amount d"
      "cp_IdempotencyKey p \<notin> tr_IdempotencyKey ` set (transfer_requests d)"
    by (rule tx_createD)
  have st: "cp_Status p \<in> set transfer_statuses"
    using assms by (auto simp: tx_create_def sql_insert_transfer_def split: option.splits sum.splits if_splits)
  have rows: "transfer_requests d' = transfer_requests d @ [request_row pg p wallet amount d]"
    by (simp add: k(4))
  have "find (\<lambda>r. tr_IdempotencyKey r = cp_IdempotencyKey p) (transfer_requests d) = None"
    using k(5) by (auto simp: find_None_iff notin_image_iff)
  then show "sql_select_by_key (cp_IdempotencyKey p) d' = Inr t"
    by (simp add: sql_select_by_key_def rows find_append k(3))
  show "sql_insert_transfer pg p d' = Inl (Sentinel ErrNoRows)"
    using k(1,2) st by (auto simp: sql_insert_transfer_def rows)
qed

lemma Create_quiet_taken:
  assumes "quiet w" and "sql_insert_transfer pg p (w_db w) = Inl (Sentinel ErrNoRows)"
    and "sql_select_by_key (cp_IdempotencyKey p) (w_db w) = Inr t"
  shows "Create pg p w = (Inr (t, False), w)"
  using assms by (simp add: Create_def getByIdempotencyKey_def)

lemma Create_idempotent_quiet:
  assumes q: "quiet w" and run: "Create pg p w = (Inr (t, b), w1)"
  shows "Create pg p w1 = (Inr (t, False), w1)"
proof -
  from q have e: "enter w = (None, w)" by simp
  from run e show ?thesis
  proof (cases rule: Create_cases)
    case (rejected err)
    then show ?thesis by simp
  next
    case (taken rg)
    from taken(1) have i: "sql_insert_transfer pg p (w_db w) = Inl (Sentinel ErrNoRows)" by simp
    from taken(3) have "rg = Inr t" by (simp split: sum.splits)
    with taken(2) q have "sql_select_by_key (cp_IdempotencyKey p) (w_db w) = Inr t" "w1 = w"
      by (auto simp: getByIdempotencyKey_def split: sum.splits)
    with Create_quiet_taken[OF q i] show ?thesis by simp
  next
    case (commit t' d)
    then have "t' = t" "w1 = w\<lparr>w_db := d\<rparr>" by auto
    with created_row_found[OF commit(1)] q show ?thesis by (intro Create_quiet_taken) simp_all
  qed
qed

subsection \<open>Conditional transitions\<close>

lemma transition_loser:
  assumes tx: "tx_transition pg p d = Inr (t, d')" and keys: "distinct (map tr_ID (transfer_requests d))"
    and same: "uuid_in pg (tp_ID q) = uuid_in pg (tp_ID p)" "tp_FromStatus q = tp_FromStatus p"
    and moves: "tp_ToStatus p \<noteq> tp_FromStatus p"
  shows "sql_update_transfer pg q d' = Inl (Sentinel ErrNoRows)"
    and "sql_select_transfer pg (tp_ID q) d' = Inr t"
proof -
  from tx obtain r where r: "uuid_in pg (tp_ID p) = Some (tr_ID r)" "r \<in> set (transfer_requests d)"
      "tr_Status r = tp_FromStatus p" "t = scanTransfer (transition_row p d r)"
      "d' = transitioned_db pg p r d"
    by (rule tx_transitionD) (simp add: transitioned_db_def)
  have ids: "distinct (map tr_ID (transfer_requests d'))" using keys r by (simp add: transitioned_ids)
  have mem: "transition_row p d r \<in> set (transfer_requests d')"
    using r(2,3) by (auto simp: r(5) transitioned_db_def in_update_where intro!: bexI[of _ r])
  have f: "find (\<lambda>x. tr_ID x = tr_ID r) (transfer_requests d') = Some (transition_row p d r)"
    using find_unique_key[OF ids mem] by simp
  show "sql_select_transfer pg (tp_ID q) d' = Inr t"
    using same r f by (simp add: sql_select_transfer_def)
  have "find (\<lambda>x. tr_ID x = tr_ID r \<and> tr_Status x = tp_FromStatus q) (transfer_requests d') = None"
  proof (unfold find_None_iff, rule notI, elim exE conjE)
    fix x assume x: "x \<in> set (transfer_requests d')" "tr_ID x = tr_ID r" "tr_Status x = tp_FromStatus q"
    have "x = transition_row p d r" using distinct_map_inj[OF ids x(1) mem] x(2) by simp
    with x(3) same moves show False by simp
  qed
  then show "sql_update_transfer pg q d' = Inl (Sentinel ErrNoRows)"
    using same r by (simp add: sql_update_transfer_def)
qed

lemma TransitionStatus_loses:
  assumes "quiet w" and "sql_update_transfer pg q (w_db w) = Inl (Sentinel ErrNoRows)"
    and "sql_select_transfer pg (tp_ID q) (w_db w) = Inr t"
  shows "TransitionStatus pg q w = (Inl (InvalidStateError (tr_ID t) (tp_FromStatus q) (tr_Status t)), w)"
  using assms by (simp add: TransitionStatus_def GetByID_def)

end
