(* ===== verification/Progress.thy ===== *)
theory Progress
  imports RepoBehaviour
begin

text \<open>
  Progress: while nothing else happens, a requested transfer reaches \<open>PENDING_ON_CHAIN\<close>, with
  one signature, one broadcast and the hash of the signed transaction.
\<close>

text \<open>What PostgreSQL documents of \<open>gen_random_uuid()\<close>: values to come are new and differ.\<close>

definition uuid_fresh :: "pg \<Rightarrow> db \<Rightarrow> bool" where
  "uuid_fresh pg d \<longleftrightarrow> inj (gen_random_uuid pg) \<and>
     (\<forall>n \<ge> uuid_count d. gen_random_uuid pg n \<notin> sh_ID ` set (transfer_status_history d) \<and>
        gen_random_uuid pg n \<notin> ta_ID ` set (transaction_attempts d))"

text \<open>The transfer \<open>tid\<close> has this status, hash and these attempts, in a world at rest.\<close>

definition rests :: "pg \<Rightarrow> string \<Rightarrow> string \<Rightarrow> string \<Rightarrow> TransactionAttempt list \<Rightarrow> world \<Rightarrow> bool" where
  "rests pg tid st hash as w \<longleftrightarrow>
     quiet w \<and> uuid_laws pg \<and> transfer_inv (w_db w) \<and> canonical_ids pg (w_db w) \<and> uuid_fresh pg (w_db w) \<and>
     (\<exists>r \<in> set (transfer_requests (w_db w)). tr_ID r = tid \<and> tr_Status r = st \<and> tr_TxHash r = hash) \<and>
     filter (\<lambda>a. ta_TransferID a = tid) (transaction_attempts (w_db w)) = as"

text \<open>What was asked for: the columns no transition changes.\<close>

definition request_of :: "Transfer \<Rightarrow> string \<times> string \<times> string \<times> string \<times> string \<times> string \<times> string \<times> string" where
  "request_of t = (tr_ID t, tr_IdempotencyKey t, tr_Chain t, tr_AssetType t, tr_SourceWalletID t, tr_DestinationAddress t,
     tr_Amount t, tr_CallbackURL t)"

definition requests :: "string \<Rightarrow> db \<Rightarrow> (string \<times> string \<times> string \<times> string \<times> string \<times> string \<times> string \<times> string) set" where
  "requests tid d = {q \<in> request_of ` set (transfer_requests d). fst q = tid}"

lemma request_of_row [simp]:
  "request_of (transition_row p d r) = request_of r" "request_of (scanTransfer r) = request_of r"
  by (simp_all add: request_of_def transition_row_def scanTransfer_def)

lemma requests_transition [simp]: "requests tid (transitioned_db pg p r d) = requests tid d"
proof -
  have "request_of ` set (transfer_requests (transitioned_db pg p r d)) = request_of ` set (transfer_requests d)"
    unfolding set_map[symmetric] transitioned_db_def by (simp add: map_update_where_keep)
  then show ?thesis by (simp add: requests_def)
qed

lemma in_requests: "r \<in> set (transfer_requests d) \<Longrightarrow> tr_ID r = tid \<Longrightarrow> request_of r \<in> requests tid d"
  unfolding requests_def by (auto simp: request_of_def)

lemma tx_transition_succeeds:
  assumes keys: "distinct (map tr_ID (transfer_requests d))" and fresh: "uuid_fresh pg d"
    and id: "uuid_in pg (tp_ID p) = Some (tr_ID r)" and r: "r \<in> set (transfer_requests d)" "tr_Status r = tp_FromStatus p"
    and st: "tp_FromStatus p \<in> set transfer_statuses" "tp_ToStatus p \<in> set transfer_statuses"
  shows "tx_transition pg p d = Inr (scanTransfer (transition_row p d r), transitioned_db pg p r d)"
proof -
  have only: "x = r" if "x \<in> set (transfer_requests d)" "tr_ID x = tr_ID r" for x
    using distinct_map_inj[OF keys that(1) r(1) that(2)] .
  have f: "find (\<lambda>x. tr_ID x = tr_ID r \<and> tr_Status x = tp_FromStatus p) (transfer_requests d) = Some r"
  proof (cases "find (\<lambda>x. tr_ID x = tr_ID r \<and> tr_Status x = tp_FromStatus p) (transfer_requests d)")
    case None
    with r show ?thesis by (auto simp: find_None_iff)
  next
    case (Some x)
    then have "x \<in> set (transfer_requests d)" "tr_ID x = tr_ID r" by (auto dest: find_SomeD)
    with only Some show ?thesis by simp
  qed
  have "fresh_uuid pg d \<notin> sh_ID ` set (transfer_status_history d)"
    using fresh by (simp add: uuid_fresh_def fresh_uuid_def)
  then have nf: "\<not> (\<exists>h \<in> set (transfer_status_history d). sh_ID h = fresh_uuid pg d)"
    by (simp add: notin_image_iff)
  have "transition_row p d r \<in> set (update_where (\<lambda>x. tr_ID x = tr_ID r \<and> tr_Status x = tp_FromStatus p)
          (transition_row p d) (transfer_requests d))"
    using r by (auto intro!: update_where_hitI)
  then have ex: "\<exists>x \<in> set (update_where (\<lambda>x. tr_ID x = tr_ID r \<and> tr_Status x = tp_FromStatus p)
          (transition_row p d) (transfer_requests d)). tr_ID x = tr_ID r"
    by (rule bexI[rotated]) simp
  show ?thesis
    using id f st nf ex
    by (simp add: tx_transition_def sql_update_transfer_def sql_insert_history_def fresh_uuid_def
        transitioned_db_def history_row_def)
qed

lemma TransitionStatus_quiet:
  "quiet w \<Longrightarrow> tx_transition pg p (w_db w) = Inr (t, d) \<Longrightarrow>
   TransitionStatus pg p w = (Inr t, w\<lparr>w_db := d\<rparr>)"
  by (auto simp: TransitionStatus_def tx_transition_def split: sum.splits)

lemma uuid_fresh_transition:
  assumes "uuid_fresh pg d"
  shows "uuid_fresh pg (transitioned_db pg p r d)"
  using assms by (auto simp: uuid_fresh_def transitioned_db_def history_row_def fresh_uuid_def dest: injD)

text \<open>One conditional transition that succeeds.\<close>

lemma transition_progress:
  assumes rest: "rests pg tid s hash as w" and t: "tr_ID t = tid" "tr_Status t = s"
    and law: "lawful_transition (uuid_in pg) \<lparr>tp_ID = tid, tp_FromStatus = s, tp_ToStatus = to, tp_TxHash = h\<rparr> (w_db w)"
    and to: "s \<in> set transfer_statuses" "to \<in> set transfer_statuses"
    and hash': "hash' = (case h of None \<Rightarrow> hash | Some x \<Rightarrow> x)"
  shows "\<exists>t' d. transition (NewProcessor pg sign bcast) t to h w = (Inr t', w\<lparr>w_db := d\<rparr>) \<and>
           tr_ID t' = tid \<and> tr_Status t' = to \<and> tr_TxHash t' = hash' \<and> rests pg tid to hash' as (w\<lparr>w_db := d\<rparr>) \<and>
           transaction_attempts d = transaction_attempts (w_db w) \<and>
           request_of t' \<in> requests tid (w_db w) \<and> requests tid d = requests tid (w_db w)"
proof -
  let ?d = "w_db w" and ?p = "\<lparr>tp_ID = tid, tp_FromStatus = s, tp_ToStatus = to, tp_TxHash = h\<rparr>"
  from rest obtain r where r: "r \<in> set (transfer_requests ?d)" "tr_ID r = tid" "tr_Status r = s" "tr_TxHash r = hash"
    and q: "quiet w" and inv: "transfer_inv ?d" and can: "canonical_ids pg ?d" and fr: "uuid_fresh pg ?d"
    and laws: "uuid_laws pg" and as: "filter (\<lambda>a. ta_TransferID a = tid) (transaction_attempts ?d) = as"
    by (auto simp: rests_def)
  have keys: "distinct (map tr_ID (transfer_requests ?d))" using inv by (simp add: transfer_inv_def keys_inv_def)
  have id: "uuid_in pg (tp_ID ?p) = Some (tr_ID r)" using can r by (auto simp: canonical_ids_def)
  let ?r' = "transition_row ?p ?d r" and ?d' = "transitioned_db pg ?p r ?d"
  have tx: "tx_transition pg ?p ?d = Inr (scanTransfer ?r', ?d')"
    by (rule tx_transition_succeeds[OF keys fr id r(1)]) (use r to in simp_all)
  have step: "sys_step pg ?d ?d'" by (rule lawful_transition_step[OF law tx])
  have mem: "?r' \<in> set (transfer_requests ?d')"
    using r by (auto simp: transitioned_db_def intro!: update_where_hitI)
  have new: "tr_ID ?r' = tid" "tr_Status ?r' = to" "tr_TxHash ?r' = hash'"
    using r hash' by (simp_all split: option.splits)
  have ex: "\<exists>x \<in> set (transfer_requests ?d'). tr_ID x = tid \<and> tr_Status x = to \<and> tr_TxHash x = hash'"
    by (rule bexI[OF _ mem]) (use new in simp)
  have "rests pg tid to hash' as (w\<lparr>w_db := ?d'\<rparr>)"
    unfolding rests_def using q laws sys_step_inv[OF step inv] canonical_ids_sys[OF r_into_rtranclp[of "sys_step pg", OF step] laws can]
      uuid_fresh_transition[OF fr] ex as by simp
  moreover have "transition (NewProcessor pg sign bcast) t to h w = (Inr (scanTransfer ?r'), w\<lparr>w_db := ?d'\<rparr>)"
    using TransitionStatus_quiet[OF q tx] t by (simp add: transition_def NewProcessor_def)
  moreover have "transaction_attempts ?d' = transaction_attempts ?d" by simp
  moreover have "request_of (scanTransfer ?r') \<in> requests tid ?d" using in_requests[OF r(1,2)] by simp
  moreover have "requests tid ?d' = requests tid ?d" by simp
  ultimately show ?thesis using new
    by (intro exI[of _ "scanTransfer ?r'"] exI[of _ ?d']) simp
qed

subsection \<open>Attempts\<close>

lemma rests_step:
  assumes rest: "rests pg tid st hash as w" and step: "sys_step pg (w_db w) d" and fr: "uuid_fresh pg d"
    and rows: "transfer_requests d = transfer_requests (w_db w)"
    and as': "filter (\<lambda>a. ta_TransferID a = tid) (transaction_attempts d) = as'"
  shows "rests pg tid st hash as' (w\<lparr>w_db := d\<rparr>)"
  using assms sys_step_inv[OF step] canonical_ids_sys[OF r_into_rtranclp[of "sys_step pg", OF step]]
  by (simp add: rests_def)

lemma create_attempt_progress:
  assumes rest: "rests pg tid st hash [] w" and law: "lawful_attempt ap" and tid: "ca_TransferID ap = tid"
    and new: "\<forall>a \<in> set (transaction_attempts (w_db w)). ta_TxHash a \<noteq> ca_TxHash ap"
  shows "\<exists>a d. CreateAttempt pg ap w = (Inr a, w\<lparr>w_db := d\<rparr>) \<and> rests pg tid st hash [a] (w\<lparr>w_db := d\<rparr>) \<and>
           ta_Status a = AttemptStatusSigned \<and> ta_TxHash a = ca_TxHash ap \<and> ta_RawPayload a = ca_RawPayload ap"
proof -
  let ?d = "w_db w"
  let ?a = "new_attempt_row pg ap tid ?d"
  let ?d' = "?d\<lparr>transaction_attempts := transaction_attempts ?d @ [?a], uuid_count := Suc (uuid_count ?d)\<rparr>"
  from rest obtain r where r: "r \<in> set (transfer_requests ?d)" "tr_ID r = tid"
    and q: "quiet w" and can: "canonical_ids pg ?d" and fr: "uuid_fresh pg ?d"
    and as: "filter (\<lambda>a. ta_TransferID a = tid) (transaction_attempts ?d) = []"
    by (auto simp: rests_def)
  have id: "uuid_in pg (ca_TransferID ap) = Some tid" using can r tid by (auto simp: canonical_ids_def)
  have none: "\<not> (\<exists>x \<in> set (transaction_attempts ?d). attempt_active x \<and> ta_TransferID x = tid)"
    using as by (auto simp: filter_empty_conv)
  have "fresh_uuid pg ?d \<notin> ta_ID ` set (transaction_attempts ?d)"
    using fr by (simp add: uuid_fresh_def fresh_uuid_def)
  then have nid: "\<not> (\<exists>x \<in> set (transaction_attempts ?d). ta_ID x = fresh_uuid pg ?d)"
    by (simp add: notin_image_iff)
  from law have "ca_Status ap = AttemptStatusSigned" "ca_TxHash ap \<noteq> ''''" by (simp_all add: lawful_attempt_def)
  then have sql: "sql_insert_attempt pg ap ?d = Inr (?a, ?d')"
    using id none nid new r
    by (auto simp: sql_insert_attempt_def Let_def new_attempt_row_def attempt_statuses_def)
  have step: "sys_step pg ?d ?d'"
    using law by (auto simp: lawful_attempt_def intro!: sys_step.transfer transfer_step.attempt_create[OF sql])
  have fr': "uuid_fresh pg ?d'" using fr by (auto simp: uuid_fresh_def fresh_uuid_def dest: injD)
  have "rests pg tid st hash [?a] (w\<lparr>w_db := ?d'\<rparr>)"
    by (rule rests_step[OF rest step fr']) (use as in simp_all)
  moreover have "CreateAttempt pg ap w = (Inr ?a, w\<lparr>w_db := ?d'\<rparr>)"
    using q sql by (simp add: CreateAttempt_def)
  ultimately show ?thesis using law by (intro exI[of _ ?a] exI[of _ ?d']) (simp add: lawful_attempt_def)
qed

lemma update_attempt_progress:
  assumes rest: "rests pg tid st hash [a] w" and pr: "(ua_ExpectedStatus p, ua_Status p) \<in> set attempt_pairs"
    and a: "ta_Status a = ua_ExpectedStatus p" "ua_AttemptID p = ta_ID a"
  shows "\<exists>b d. UpdateAttempt pg p w = (Inr b, w\<lparr>w_db := d\<rparr>) \<and> rests pg tid st hash [b] (w\<lparr>w_db := d\<rparr>) \<and>
           ta_Status b = ua_Status p \<and> same_attempt a b"
proof -
  let ?d = "w_db w"
  from rest have q: "quiet w" and inv: "transfer_inv ?d" and can: "canonical_ids pg ?d" and fr: "uuid_fresh pg ?d"
    and as: "filter (\<lambda>a. ta_TransferID a = tid) (transaction_attempts ?d) = [a]"
    by (auto simp: rests_def)
  have "a \<in> set (filter (\<lambda>a. ta_TransferID a = tid) (transaction_attempts ?d))" by (simp add: as)
  then have mem: "a \<in> set (transaction_attempts ?d)" "ta_TransferID a = tid" by auto
  from sql_update_attempt_hit[OF inv can mem(1) a pr] obtain b d where
    sql: "sql_update_attempt pg p ?d = Inr (b, d)" by blast
  from sql obtain r :: TransactionAttempt where r: "uuid_in pg (ua_AttemptID p) = Some (ta_ID r)"
      "r \<in> set (transaction_attempts ?d)" "b = attempt_row p ?d r"
      "d = ?d\<lparr>transaction_attempts := update_where (\<lambda>x. ta_ID x = ta_ID r \<and> ta_Status x = ua_ExpectedStatus p)
           (attempt_row p ?d) (transaction_attempts ?d)\<rparr>"
    by (rule sql_update_attemptD) (rule that)
  have ids: "distinct (map ta_ID (transaction_attempts ?d))" using inv by (simp add: transfer_inv_def keys_inv_def)
  have ra: "r = a"
    using r(1,2) mem(1) can a(2) distinct_map_inj[OF ids r(2) mem(1)] by (simp add: canonical_ids_def)
  have "filter (\<lambda>x. ta_TransferID x = tid) (update_where pr (attempt_row p ?d) xs) =
        update_where pr (attempt_row p ?d) (filter (\<lambda>x. ta_TransferID x = tid) xs)" for pr xs
    by (induction xs) auto
  with as a r(3,4) ra have as': "filter (\<lambda>x. ta_TransferID x = tid) (transaction_attempts d) = [b]" by simp
  have step: "sys_step pg ?d d" by (intro sys_step.transfer transfer_step.attempt_update[OF sql] pr)
  have same_ids: "ta_ID ` set (transaction_attempts d) = ta_ID ` set (transaction_attempts ?d)"
    unfolding r(4) set_map[symmetric] by (simp add: map_update_where_keep)
  have fr': "uuid_fresh pg d" using fr same_ids by (simp add: uuid_fresh_def r(4))
  have "rests pg tid st hash [b] (w\<lparr>w_db := d\<rparr>)"
    by (rule rests_step[OF rest step fr' _ as']) (simp add: r(4))
  moreover have "UpdateAttempt pg p w = (Inr b, w\<lparr>w_db := d\<rparr>)" using q sql by (simp add: UpdateAttempt_def)
  ultimately show ?thesis using r(3) ra by (auto simp: same_attempt_def)
qed

subsection \<open>The whole way\<close>

lemma rests_beside [simp]:
  "rests pg tid st hash as (w\<lparr>w_signed := x\<rparr>) = rests pg tid st hash as w"
  "rests pg tid st hash as (w\<lparr>w_broadcasts := y\<rparr>) = rests pg tid st hash as w"
  by (simp_all add: rests_def quiet_def)

lemma latest_none:
  assumes "rests pg tid st hash [] w" and "tr_ID t = tid"
  shows "GetLatestAttempt pg (tr_ID t) w = (Inl (Sentinel ErrTransactionAttemptNotFound), w)"
proof -
  from assms have "uuid_in pg tid = Some tid" by (auto simp: rests_def canonical_ids_def)
  with assms show ?thesis by (simp add: GetLatestAttempt_def sql_latest_attempt_def rests_def)
qed

text \<open>Signer (for this transfer) and broadcaster work, and the hash is new.\<close>

definition works ::
  "(nat \<Rightarrow> Transfer \<Rightarrow> go_error + SignedTransfer) \<Rightarrow> (nat \<Rightarrow> Transfer \<Rightarrow> TransactionAttempt \<Rightarrow> go_error option) \<Rightarrow>
   SignedTransfer \<Rightarrow> string \<Rightarrow> world \<Rightarrow> bool" where
  "works sign bcast s tid w \<longleftrightarrow>
     (\<forall>t. request_of t \<in> requests tid (w_db w) \<longrightarrow> sign (length (w_signed w)) t = Inr s) \<and> (\<forall>t a. bcast (length (w_broadcasts w)) t a = None) \<and>
     st_RawTransaction s \<noteq> '''' \<and> st_TxHash s \<noteq> '''' \<and>
     (\<forall>a \<in> set (transaction_attempts (w_db w)). ta_TxHash a \<noteq> st_TxHash s)"

lemma submit_lawful:
  assumes "rests pg tid StatusSigning hash [b] w" and "ta_Status b = AttemptStatusBroadcasted"
    and "ta_TxHash b \<noteq> ''''"
  shows "lawful_transition (uuid_in pg) \<lparr>tp_ID = tid, tp_FromStatus = StatusSigning,
      tp_ToStatus = StatusSubmitted, tp_TxHash = Some (ta_TxHash b)\<rparr> (w_db w)"
proof -
  have "b \<in> set (filter (\<lambda>a. ta_TransferID a = tid) (transaction_attempts (w_db w)))"
    using assms(1) by (simp add: rests_def)
  then have "broadcast_on_record tid (ta_TxHash b) (w_db w)"
    using assms(2) by (auto simp: broadcast_on_record_def)
  moreover have "uuid_in pg tid = Some tid" using assms(1) by (auto simp: rests_def canonical_ids_def)
  ultimately show ?thesis using assms(3) by (auto simp: lawful_transition_def)
qed

text \<open>A signed attempt is broadcast, recorded and submitted.\<close>

lemma resume_progress:
  assumes rest: "rests pg tid StatusSigning hash [a] w" and t: "tr_ID t = tid" "tr_Status t = StatusSigning"
    and a: "ta_Status a = AttemptStatusSigned" "ta_TxHash a \<noteq> ''''"
    and bc: "\<forall>x. bcast (length (w_broadcasts w)) t x = None"
  shows "\<exists>t' d a3 d3 b. resumeSubmission n (NewProcessor pg sign bcast) t a w =
             Some (Inr t', w\<lparr>w_broadcasts := w_broadcasts w @ [(t, a3, d3)], w_db := d\<rparr>) \<and> tr_ID t' = tid \<and>
           tr_Status t' = StatusSubmitted \<and> tr_TxHash t' = ta_TxHash a \<and> same_attempt a a3 \<and>
           rests pg tid StatusSubmitted (ta_TxHash a) [b] (w\<lparr>w_broadcasts := w_broadcasts w @ [(t, a3, d3)], w_db := d\<rparr>) \<and>
           ta_Status b = AttemptStatusBroadcasted"
proof -
  let ?P = "NewProcessor pg sign bcast"
  have P [simp]: "p_repository ?P = PostgresRepository pg" "p_broadcaster ?P = LoggedBroadcaster bcast"
    by (simp_all add: NewProcessor_def)
  let ?u3 = "\<lparr>ua_AttemptID = ta_ID a, ua_ExpectedStatus = AttemptStatusSigned,
     ua_Status = AttemptStatusBroadcasting, ua_ErrorMessage = ''''\<rparr>"
  from update_attempt_progress[OF rest, of ?u3] a obtain a3 d3 where
    u3: "UpdateAttempt pg ?u3 w = (Inr a3, w\<lparr>w_db := d3\<rparr>)"
      "rests pg tid StatusSigning hash [a3] (w\<lparr>w_db := d3\<rparr>)" "ta_Status a3 = AttemptStatusBroadcasting"
      "same_attempt a a3"
    by (auto simp: attempt_pairs_def)
  let ?w4 = "w\<lparr>w_db := d3, w_broadcasts := w_broadcasts w @ [(t, a3, d3)]\<rparr>"
  have b: "LoggedBroadcaster bcast t a3 (w\<lparr>w_db := d3\<rparr>) = (Inr (), ?w4)"
    using bc by (simp add: LoggedBroadcaster_def)
  let ?u5 = "\<lparr>ua_AttemptID = ta_ID a3, ua_ExpectedStatus = AttemptStatusBroadcasting,
     ua_Status = AttemptStatusBroadcasted, ua_ErrorMessage = ''''\<rparr>"
  have r4: "rests pg tid StatusSigning hash [a3] ?w4" using u3(2) by simp
  from update_attempt_progress[OF r4, of ?u5] u3(3) obtain a5 d5 where
    u5: "UpdateAttempt pg ?u5 ?w4 = (Inr a5, ?w4\<lparr>w_db := d5\<rparr>)"
      "rests pg tid StatusSigning hash [a5] (?w4\<lparr>w_db := d5\<rparr>)" "ta_Status a5 = AttemptStatusBroadcasted"
      "same_attempt a3 a5"
    by (auto simp: attempt_pairs_def)
  let ?w5 = "?w4\<lparr>w_db := d5\<rparr>"
  have h5: "ta_TxHash a5 = ta_TxHash a" using u5(4) u3(4) by (simp add: same_attempt_def)
  have lw: "lawful_transition (uuid_in pg) \<lparr>tp_ID = tid, tp_FromStatus = StatusSigning,
      tp_ToStatus = StatusSubmitted, tp_TxHash = Some (ta_TxHash a)\<rparr> (w_db ?w5)"
    using submit_lawful[OF u5(2,3)] h5 a(2) by simp
  from transition_progress[OF u5(2) t lw _ _ refl, where sign = sign and bcast = bcast] obtain t' d6 where
    tr: "transition ?P t StatusSubmitted (Some (ta_TxHash a)) ?w5 = (Inr t', ?w5\<lparr>w_db := d6\<rparr>)" "tr_ID t' = tid"
      "tr_Status t' = StatusSubmitted" "tr_TxHash t' = ta_TxHash a"
      "rests pg tid StatusSubmitted (ta_TxHash a) [a5] (?w5\<lparr>w_db := d6\<rparr>)"
    by (auto simp: transfer_statuses_def)
  have "broadcastAttempt n ?P t a3 (w\<lparr>w_db := d3\<rparr>) = Some (Inr t', ?w5\<lparr>w_db := d6\<rparr>)"
    using b u5(1) tr(1) h5 a(2) by (simp add: broadcastAttempt.simps submitBroadcastedAttempt_def)
  then have "resumeSubmission n ?P t a w = Some (Inr t', ?w5\<lparr>w_db := d6\<rparr>)"
    using a(1) u3(1) by (simp add: resumeSubmission.simps)
  with tr u5(3) u3(4) show ?thesis
    by (intro exI[of _ t'] exI[of _ d6] exI[of _ a3] exI[of _ d3] exI[of _ a5]) simp
qed

lemma submit_progress:
  assumes rest: "rests pg tid StatusSigning hash [] w" and t: "tr_ID t = tid" "tr_Status t = StatusSigning"
    and q: "request_of t \<in> requests tid (w_db w)" and wk: "works sign bcast s tid w"
  shows "\<exists>t' w' a b. submitTransfer n (NewProcessor pg sign bcast) t w = Some (Inr t', w') \<and> tr_ID t' = tid \<and>
           tr_Status t' = StatusSubmitted \<and> tr_TxHash t' = st_TxHash s \<and>
           rests pg tid StatusSubmitted (st_TxHash s) [b] w' \<and> ta_Status b = AttemptStatusBroadcasted \<and>
           w_signed w' = w_signed w @ [(t, w_db w)] \<and>
           (\<exists>d. w_broadcasts w' = w_broadcasts w @ [(t, a, d)]) \<and> ta_TxHash a = st_TxHash s \<and>
           ta_RawPayload a = newTransactionAttemptPayload (st_RawTransaction s)"
proof -
  let ?P = "NewProcessor pg sign bcast"
  let ?w1 = "w\<lparr>w_signed := w_signed w @ [(t, w_db w)]\<rparr>"
  let ?ap = "\<lparr>ca_TransferID = tr_ID t, ca_Nonce = st_Nonce s,
     ca_RawPayload = newTransactionAttemptPayload (st_RawTransaction s), ca_TxHash = st_TxHash s,
     ca_Status = AttemptStatusSigned, ca_ErrorMessage = ''''\<rparr>"
  have P [simp]: "p_repository ?P = PostgresRepository pg" "p_signer ?P = LoggedSigner sign"
    by (simp_all add: NewProcessor_def)
  have sg: "LoggedSigner sign t w = (Inr s, ?w1)" using wk q by (simp add: LoggedSigner_def works_def)
  have law: "lawful_attempt ?ap" using wk by (auto simp: lawful_attempt_def works_def)
  have r1: "rests pg tid StatusSigning hash [] ?w1" using rest by simp
  from create_attempt_progress[OF r1 law] wk t obtain a d2 where
    c: "CreateAttempt pg ?ap ?w1 = (Inr a, ?w1\<lparr>w_db := d2\<rparr>)"
      "rests pg tid StatusSigning hash [a] (?w1\<lparr>w_db := d2\<rparr>)" "ta_Status a = AttemptStatusSigned"
      "ta_TxHash a = st_TxHash s" "ta_RawPayload a = newTransactionAttemptPayload (st_RawTransaction s)"
    by (auto simp: works_def)
  let ?w2 = "?w1\<lparr>w_db := d2\<rparr>"
  have "ta_TxHash a \<noteq> ''''" "\<forall>x. bcast (length (w_broadcasts ?w2)) t x = None"
    using wk c(4) by (simp_all add: works_def)
  from resume_progress[where bcast = bcast and n = n and sign = sign, OF c(2) t c(3) this] obtain t' d a3 d3 b where
    r: "resumeSubmission n ?P t a ?w2 = Some (Inr t', ?w2\<lparr>w_broadcasts := w_broadcasts ?w2 @ [(t, a3, d3)], w_db := d\<rparr>)"
      "tr_ID t' = tid" "tr_Status t' = StatusSubmitted" "tr_TxHash t' = ta_TxHash a" "same_attempt a a3"
      "rests pg tid StatusSubmitted (ta_TxHash a) [b] (?w2\<lparr>w_broadcasts := w_broadcasts ?w2 @ [(t, a3, d3)], w_db := d\<rparr>)"
      "ta_Status b = AttemptStatusBroadcasted"
    by blast
  have "submitTransfer n ?P t w = Some (Inr t', ?w2\<lparr>w_broadcasts := w_broadcasts ?w2 @ [(t, a3, d3)], w_db := d\<rparr>)"
    using latest_none[OF rest t(1)] sg wk q c(1) r(1)
    by (simp add: submitTransfer_def createAttemptAndSubmit_def works_def)
  with r c(4,5) show ?thesis
    by (intro exI[of _ t'] exI[of _ "?w2\<lparr>w_broadcasts := w_broadcasts ?w2 @ [(t, a3, d3)], w_db := d\<rparr>"]
        exI[of _ a3] exI[of _ b]) (auto simp: same_attempt_def)
qed

definition reached :: "pg \<Rightarrow> string \<Rightarrow> SignedTransfer \<Rightarrow> world \<Rightarrow> (go_error + Transfer) \<times> world \<Rightarrow> bool" where
  "reached pg tid s w out \<longleftrightarrow>
     (\<exists>t' w' b. out = (Inr t', w') \<and> tr_ID t' = tid \<and> tr_Status t' = StatusPendingOnChain \<and> tr_TxHash t' = st_TxHash s \<and>
        rests pg tid StatusPendingOnChain (st_TxHash s) [b] w' \<and> ta_Status b = AttemptStatusBroadcasted \<and>
        (\<exists>t d. w_signed w' = w_signed w @ [(t, d)]) \<and>
        (\<exists>t a d. w_broadcasts w' = w_broadcasts w @ [(t, a, d)] \<and> ta_TxHash a = st_TxHash s \<and>
           ta_RawPayload a = newTransactionAttemptPayload (st_RawTransaction s)))"

lemma signing_progress:
  assumes rest: "rests pg tid StatusSigning hash [] w" and t: "tr_ID t = tid" "tr_Status t = StatusSigning"
    and q: "request_of t \<in> requests tid (w_db w)" and wk: "works sign bcast s tid w"
  shows "\<exists>out. process_loop (Suc (Suc n)) (NewProcessor pg sign bcast) t w = Some out \<and> reached pg tid s w out"
proof -
  from submit_progress[OF rest t q wk, where n = "Suc n"] obtain t1 w1 a b where
    s1: "submitTransfer (Suc n) (NewProcessor pg sign bcast) t w = Some (Inr t1, w1)" "tr_ID t1 = tid"
      "tr_Status t1 = StatusSubmitted" "tr_TxHash t1 = st_TxHash s"
      "rests pg tid StatusSubmitted (st_TxHash s) [b] w1" "ta_Status b = AttemptStatusBroadcasted"
      "w_signed w1 = w_signed w @ [(t, w_db w)]"
      "\<exists>d. w_broadcasts w1 = w_broadcasts w @ [(t, a, d)]" "ta_TxHash a = st_TxHash s"
      "ta_RawPayload a = newTransactionAttemptPayload (st_RawTransaction s)"
    by blast
  have lw: "lawful_transition (uuid_in pg) \<lparr>tp_ID = tid, tp_FromStatus = StatusSubmitted,
      tp_ToStatus = StatusPendingOnChain, tp_TxHash = None\<rparr> (w_db w1)"
    by (simp add: lawful_transition_def advance_pairs_def)
  from transition_progress[OF s1(5,2,3) lw _ _ refl, where sign = sign and bcast = bcast] obtain t2 d2 where
    tr: "transition (NewProcessor pg sign bcast) t1 StatusPendingOnChain None w1 = (Inr t2, w1\<lparr>w_db := d2\<rparr>)"
      "tr_ID t2 = tid" "tr_Status t2 = StatusPendingOnChain" "tr_TxHash t2 = st_TxHash s"
      "rests pg tid StatusPendingOnChain (st_TxHash s) [b] (w1\<lparr>w_db := d2\<rparr>)"
    by (auto simp: transfer_statuses_def)
  have "process_loop (Suc (Suc n)) (NewProcessor pg sign bcast) t w = Some (Inr t2, w1\<lparr>w_db := d2\<rparr>)"
    using s1(1,3) tr(1,3) t(2) by (simp add: process_step_def)
  with tr s1 show ?thesis unfolding reached_def by (auto intro!: exI[of _ b])
qed

lemma advance_progress:
  assumes rest: "rests pg tid st hash [] w" and t: "tr_ID t = tid" "tr_Status t = st"
    and wk: "works sign bcast s tid w"
    and st: "(st, to) \<in> set [(StatusCreated, StatusValidated), (StatusValidated, StatusQueued), (StatusQueued, StatusSigning)]"
  shows "\<exists>t' d. tr_ID t' = tid \<and> tr_Status t' = to \<and> request_of t' \<in> requests tid d \<and> rests pg tid to hash [] (w\<lparr>w_db := d\<rparr>) \<and>
           works sign bcast s tid (w\<lparr>w_db := d\<rparr>) \<and>
           process_loop (Suc n) (NewProcessor pg sign bcast) t w =
             process_loop n (NewProcessor pg sign bcast) t' (w\<lparr>w_db := d\<rparr>)"
proof -
  have lw: "lawful_transition (uuid_in pg) \<lparr>tp_ID = tid, tp_FromStatus = st, tp_ToStatus = to, tp_TxHash = None\<rparr> (w_db w)"
    using st by (auto simp: lawful_transition_def advance_pairs_def)
  have known: "st \<in> set transfer_statuses" "to \<in> set transfer_statuses" using st by (auto simp: transfer_statuses_def)
  from transition_progress[OF rest t lw known refl, where sign = sign and bcast = bcast] obtain t' d where
    tr: "transition (NewProcessor pg sign bcast) t to None w = (Inr t', w\<lparr>w_db := d\<rparr>)" "tr_ID t' = tid" "tr_Status t' = to"
      "rests pg tid to hash [] (w\<lparr>w_db := d\<rparr>)" "transaction_attempts d = transaction_attempts (w_db w)"
      "request_of t' \<in> requests tid d" "requests tid d = requests tid (w_db w)"
    by auto
  have "works sign bcast s tid (w\<lparr>w_db := d\<rparr>)" using wk tr(5,7) by (simp add: works_def)
  moreover have "process_loop (Suc n) (NewProcessor pg sign bcast) t w =
      process_loop n (NewProcessor pg sign bcast) t' (w\<lparr>w_db := d\<rparr>)"
    using st tr(1,3) t(2) by (auto simp: process_step_def)
  ultimately show ?thesis using tr by blast
qed

lemma reached_db: "reached pg tid s (w\<lparr>w_db := d\<rparr>) out = reached pg tid s w out"
  by (simp add: reached_def)

lemma process_progress:
  assumes rest: "rests pg tid StatusCreated hash [] w" and wk: "works sign bcast s tid w"
  shows "\<exists>out. ProcessTransfer (n + 5) (NewProcessor pg sign bcast) tid w = Some out \<and> reached pg tid s w out"
proof -
  let ?P = "NewProcessor pg sign bcast"
  from rest obtain r where r: "r \<in> set (transfer_requests (w_db w))" "tr_ID r = tid" "tr_Status r = StatusCreated"
    and q: "quiet w" and can: "uuid_in pg tid = Some tid" and ids: "distinct (map tr_ID (transfer_requests (w_db w)))"
    by (auto simp: rests_def canonical_ids_def transfer_inv_def keys_inv_def)
  have "sql_select_transfer pg tid (w_db w) = Inr (scanTransfer r)"
    using find_unique_key[OF ids r(1)] r(2) can by (simp add: sql_select_transfer_def)
  then have g: "GetByID pg tid w = (Inr (scanTransfer r), w)" using q by (simp add: GetByID_def)
  have t0: "tr_ID (scanTransfer r) = tid" "tr_Status (scanTransfer r) = StatusCreated" using r by simp_all
  from advance_progress[OF rest t0 wk, of StatusValidated "n + 4"] obtain t1 d1 where
    a1: "request_of t1 \<in> requests tid d1" "tr_ID t1 = tid" "tr_Status t1 = StatusValidated" "rests pg tid StatusValidated hash [] (w\<lparr>w_db := d1\<rparr>)"
      "works sign bcast s tid (w\<lparr>w_db := d1\<rparr>)"
      "process_loop (Suc (n + 4)) ?P (scanTransfer r) w = process_loop (n + 4) ?P t1 (w\<lparr>w_db := d1\<rparr>)" by auto
  from advance_progress[OF a1(4,2,3,5), of StatusQueued "n + 3"] obtain t2 d2 where
    a2: "request_of t2 \<in> requests tid d2" "tr_ID t2 = tid" "tr_Status t2 = StatusQueued" "rests pg tid StatusQueued hash [] (w\<lparr>w_db := d2\<rparr>)"
      "works sign bcast s tid (w\<lparr>w_db := d2\<rparr>)"
      "process_loop (Suc (n + 3)) ?P t1 (w\<lparr>w_db := d1\<rparr>) = process_loop (n + 3) ?P t2 (w\<lparr>w_db := d2\<rparr>)" by auto
  from advance_progress[OF a2(4,2,3,5), of StatusSigning "n + 2"] obtain t3 d3 where
    a3: "request_of t3 \<in> requests tid d3" "tr_ID t3 = tid" "tr_Status t3 = StatusSigning" "rests pg tid StatusSigning hash [] (w\<lparr>w_db := d3\<rparr>)"
      "works sign bcast s tid (w\<lparr>w_db := d3\<rparr>)"
      "process_loop (Suc (n + 2)) ?P t2 (w\<lparr>w_db := d2\<rparr>) = process_loop (n + 2) ?P t3 (w\<lparr>w_db := d3\<rparr>)" by auto
  have q3: "request_of t3 \<in> requests tid (w_db (w\<lparr>w_db := d3\<rparr>))" using a3(1) by simp
  from signing_progress[OF a3(4,2,3) q3 a3(5), where n = n] obtain out where
    o: "process_loop (Suc (Suc n)) ?P t3 (w\<lparr>w_db := d3\<rparr>) = Some out" "reached pg tid s (w\<lparr>w_db := d3\<rparr>) out" by blast
  have n: "n + 5 = Suc (n + 4)" "n + 4 = Suc (n + 3)" "n + 3 = Suc (n + 2)" "n + 2 = Suc (Suc n)" by simp_all
  have "ProcessTransfer (n + 5) ?P tid w = process_loop (n + 5) ?P (scanTransfer r) w"
    using g by (simp add: ProcessTransfer_def NewProcessor_def del: process_loop.simps)
  also have "\<dots> = Some out" by (simp only: n(1) a1(6), simp only: n(2) a2(6), simp only: n(3) a3(6), simp only: n(4) o(1))
  finally show ?thesis using o(2) by (simp add: reached_db)
qed

end
