(* ===== verification/GoText.thy ===== *)
theory GoText
  imports Json
begin

text \<open>
  What the source uses of Go's \<open>strings\<close> package, on texts of ASCII characters (a text is the
  list of its bytes): \<open>TrimSpace\<close>, \<open>ToLower\<close>, \<open>ToUpper\<close>, \<open>HasSuffix\<close>, \<open>TrimSuffix\<close>.
\<close>

definition is_space :: "char \<Rightarrow> bool" where
  "is_space c \<longleftrightarrow> (of_char c :: nat) \<in> {9, 10, 11, 12, 13, 32}"

definition TrimSpace :: "string \<Rightarrow> string" where
  "TrimSpace s = rev (dropWhile is_space (rev (dropWhile is_space s)))"

definition ToLower :: "string \<Rightarrow> string" where
  "ToLower s = map ascii_lower s"

definition ascii_upper :: "char \<Rightarrow> char" where
  "ascii_upper c = (if 97 \<le> (of_char c :: nat) \<and> (of_char c :: nat) \<le> 122
                    then char_of ((of_char c :: nat) - 32) else c)"

definition ToUpper :: "string \<Rightarrow> string" where
  "ToUpper s = map ascii_upper s"

definition HasSuffix :: "string \<Rightarrow> string \<Rightarrow> bool" where
  "HasSuffix s suffix \<longleftrightarrow> length suffix \<le> length s \<and> drop (length s - length suffix) s = suffix"

definition TrimSuffix :: "string \<Rightarrow> string \<Rightarrow> string" where
  "TrimSuffix s suffix = (if HasSuffix s suffix then take (length s - length suffix) s else s)"

subsection \<open>Facts\<close>

lemma HasSuffix_append [simp]: "HasSuffix (xs @ ys) ys"
  by (simp add: HasSuffix_def)

lemma HasSuffix_iff: "HasSuffix s t \<longleftrightarrow> (\<exists>p. s = p @ t)"
  by (auto simp: HasSuffix_def) (metis append_take_drop_id)

lemma hd_dropWhile_not: "dropWhile p xs \<noteq> [] \<Longrightarrow> \<not> p (hd (dropWhile p xs))"
  by (rule hd_dropWhile)

lemma dropWhile_rev_hd:
  "xs \<noteq> [] \<Longrightarrow> \<not> p (hd xs) \<Longrightarrow> rev (dropWhile p (rev xs)) \<noteq> [] \<and> hd (rev (dropWhile p (rev xs))) = hd xs"
  by (cases xs) (auto simp: dropWhile_append split: if_splits)

text \<open>A trimmed text neither starts nor ends with a space, and trimming it again changes nothing.\<close>

lemma TrimSpace_ends:
  assumes "TrimSpace s \<noteq> ''''"
  shows "\<not> is_space (hd (TrimSpace s))" and "\<not> is_space (last (TrimSpace s))"
proof -
  let ?d = "dropWhile is_space s"
  have d: "?d \<noteq> []" using assms unfolding TrimSpace_def by (metis dropWhile.simps(1) rev.simps(1))
  then show "\<not> is_space (hd (TrimSpace s))"
    unfolding TrimSpace_def using dropWhile_rev_hd[where p = is_space, OF d hd_dropWhile_not[OF d]] hd_dropWhile_not[OF d] by simp
  have "dropWhile is_space (rev ?d) \<noteq> []" using assms by (simp add: TrimSpace_def)
  then show "\<not> is_space (last (TrimSpace s))"
    unfolding TrimSpace_def by (simp add: last_rev hd_dropWhile_not)
qed

lemma TrimSpace_id:
  assumes "s \<noteq> ''''" and "\<not> is_space (hd s)" and "\<not> is_space (last s)"
  shows "TrimSpace s = s"
proof -
  have "dropWhile is_space s = s" using assms(1,2) by (cases s) auto
  moreover have "dropWhile is_space (rev s) = rev s"
    using assms(1,3) by (cases "rev s") (auto simp: hd_rev[symmetric])
  ultimately show ?thesis by (simp add: TrimSpace_def)
qed

lemma TrimSpace_idem [simp]: "TrimSpace (TrimSpace s) = TrimSpace s"
proof (cases "TrimSpace s = ''''")
  case True
  show ?thesis unfolding True by (simp add: TrimSpace_def)
next
  case False
  then show ?thesis using TrimSpace_ends[OF False] by (rule TrimSpace_id)
qed

lemma ascii_lower_idem [simp]: "ascii_lower (ascii_lower c) = ascii_lower c"
  by (simp add: ascii_lower_def of_char_of) 

lemma ToLower_idem [simp]: "ToLower (ToLower s) = ToLower s"
  by (simp add: ToLower_def)

lemma length_ToLower [simp]: "length (ToLower s) = length s"
  by (simp add: ToLower_def)

end
