(* ===== verification/IPAddr.thy ===== *)
theory IPAddr
  imports GoText
begin

text \<open>
  \<open>net.IP\<close>, \<open>net.ParseIP\<close> and the address classes of Go 1.20 (the version the image is built
  with), as the callback and target policies use them. An address is the list of its bytes, 16
  for a parsed one. The classes are compared with lists of CIDR blocks: an address is in a block
  when it agrees with the block's address on its leading bits.
\<close>

unbundle bit_operations_syntax

type_synonym ip = "8 word list"

subsection \<open>Parsing\<close>

definition is_digit :: "char \<Rightarrow> bool" where
  "is_digit c \<longleftrightarrow> 48 \<le> (of_char c :: nat) \<and> (of_char c :: nat) \<le> 57"

definition hex_value :: "char \<Rightarrow> nat option" where
  "hex_value c =
     (let n = (of_char c :: nat) in
      if 48 \<le> n \<and> n \<le> 57 then Some (n - 48)
      else if 97 \<le> n \<and> n \<le> 102 then Some (n - 87)
      else if 65 \<le> n \<and> n \<le> 70 then Some (n - 55) else None)"

definition dtoi :: "string \<Rightarrow> nat" where
  "dtoi ds = foldl (\<lambda>n c. n * 10 + (of_char c - 48)) 0 ds"

definition xtoi :: "string \<Rightarrow> nat" where
  "xtoi ds = foldl (\<lambda>n c. n * 16 + the (hex_value c)) 0 ds"

text \<open>\<open>parseIPv4\<close>: \<open>k\<close> octets are still to come.\<close>

fun v4_loop :: "nat \<Rightarrow> string \<Rightarrow> ip \<Rightarrow> ip option" where
  "v4_loop 0 s acc = (if s = '''' then Some acc else None)"
| "v4_loop (Suc k) s acc =
     (if s = '''' \<or> (acc \<noteq> [] \<and> hd s \<noteq> CHR ''.'') then None
      else (let t = (if acc = [] then s else tl s);
                ds = takeWhile is_digit t
            in if ds = '''' \<or> 255 < dtoi ds \<or> (1 < length ds \<and> hd ds = CHR ''0'') then None
               else v4_loop k (drop (length ds) t) (acc @ [of_nat (dtoi ds)])))"

definition parseIPv4 :: "string \<Rightarrow> ip option" where
  "parseIPv4 s = v4_loop 4 s []"

definition v4_in_v6 :: "ip \<Rightarrow> ip" where
  "v4_in_v6 b = replicate 10 0 @ [0xFF, 0xFF] @ b"

text \<open>The loop of \<open>parseIPv6\<close>: \<open>k\<close> groups may follow; the rest of the text, the place of the \<open>::\<close> and the bytes.\<close>

fun v6_loop :: "nat \<Rightarrow> string \<Rightarrow> nat option \<Rightarrow> ip \<Rightarrow> (string \<times> nat option \<times> ip) option" where
  "v6_loop 0 s ellipsis acc = Some (s, ellipsis, acc)"
| "v6_loop (Suc k) s ellipsis acc =
     (let ds = takeWhile (\<lambda>c. hex_value c \<noteq> None) s;
          rest = drop (length ds) s;
          n = xtoi ds
      in if ds = '''' \<or> 0xFFFF < n then None
         else if rest \<noteq> '''' \<and> hd rest = CHR ''.''
         then (if (ellipsis = None \<and> length acc \<noteq> 12) \<or> 12 < length acc then None
               else map_option (\<lambda>b. ('''', ellipsis, acc @ b)) (parseIPv4 s))
         else (let acc1 = acc @ [of_nat (n div 256), of_nat (n mod 256)] in
               case rest of
                 [] \<Rightarrow> Some ('''', ellipsis, acc1)
               | c # s1 \<Rightarrow>
                   if c \<noteq> CHR '':'' \<or> s1 = '''' then None
                   else if hd s1 = CHR '':''
                   then (if ellipsis \<noteq> None then None
                         else if tl s1 = '''' then Some ('''', Some (length acc1), acc1)
                         else v6_loop k (tl s1) (Some (length acc1)) acc1)
                   else v6_loop k s1 ellipsis acc1))"

definition v6_finish :: "string \<times> nat option \<times> ip \<Rightarrow> ip option" where
  "v6_finish r =
     (case r of (s, ellipsis, acc) \<Rightarrow>
        if s \<noteq> '''' then None
        else if length acc < 16
        then (case ellipsis of
                None \<Rightarrow> None
              | Some p \<Rightarrow> Some (take p acc @ replicate (16 - length acc) 0 @ drop p acc))
        else if ellipsis \<noteq> None then None else Some acc)"

definition parseIPv6 :: "string \<Rightarrow> ip option" where
  "parseIPv6 s =
     (if take 2 s = ''::''
      then (if drop 2 s = '''' then Some (replicate 16 0)
            else Option.bind (v6_loop 8 (drop 2 s) (Some 0) []) v6_finish)
      else Option.bind (v6_loop 8 s None []) v6_finish)"

definition ParseIP :: "string \<Rightarrow> ip option" where
  "ParseIP s =
     (case find (\<lambda>c. c = CHR ''.'' \<or> c = CHR '':'') s of
        None \<Rightarrow> None
      | Some c \<Rightarrow> if c = CHR ''.'' then map_option v4_in_v6 (parseIPv4 s) else parseIPv6 s)"

subsection \<open>Classes\<close>

definition To4 :: "ip \<Rightarrow> ip option" where
  "To4 ip =
     (if length ip = 4 then Some ip
      else if length ip = 16 \<and> take 12 ip = replicate 10 0 @ [0xFF, 0xFF] then Some (drop 12 ip)
      else None)"

text \<open>\<open>ip.Equal\<close> to a 16-byte address: an IPv4 address equals its mapped form.\<close>

definition ip_equal :: "ip \<Rightarrow> ip \<Rightarrow> bool" where
  "ip_equal ip x \<longleftrightarrow> ip = x \<or> (length ip = 4 \<and> length x = 16 \<and> v4_in_v6 ip = x)"

definition IsUnspecified :: "ip \<Rightarrow> bool" where
  "IsUnspecified ip \<longleftrightarrow> ip_equal ip (v4_in_v6 (replicate 4 0)) \<or> ip_equal ip (replicate 16 0)"

definition IsLoopback :: "ip \<Rightarrow> bool" where
  "IsLoopback ip \<longleftrightarrow> (case To4 ip of Some b \<Rightarrow> b ! 0 = 127 | None \<Rightarrow> ip_equal ip (replicate 15 0 @ [1]))"

definition IsPrivate :: "ip \<Rightarrow> bool" where
  "IsPrivate ip \<longleftrightarrow>
     (case To4 ip of
        Some b \<Rightarrow> b ! 0 = 10 \<or> (b ! 0 = 172 \<and> b ! 1 AND 0xF0 = 16) \<or> (b ! 0 = 192 \<and> b ! 1 = 168)
      | None \<Rightarrow> length ip = 16 \<and> ip ! 0 AND 0xFE = 0xFC)"

definition IsMulticast :: "ip \<Rightarrow> bool" where
  "IsMulticast ip \<longleftrightarrow>
     (case To4 ip of Some b \<Rightarrow> b ! 0 AND 0xF0 = 0xE0 | None \<Rightarrow> length ip = 16 \<and> ip ! 0 = 0xFF)"

definition IsLinkLocalMulticast :: "ip \<Rightarrow> bool" where
  "IsLinkLocalMulticast ip \<longleftrightarrow>
     (case To4 ip of
        Some b \<Rightarrow> b ! 0 = 224 \<and> b ! 1 = 0 \<and> b ! 2 = 0
      | None \<Rightarrow> length ip = 16 \<and> ip ! 0 = 0xFF \<and> ip ! 1 AND 0x0F = 0x02)"

definition IsLinkLocalUnicast :: "ip \<Rightarrow> bool" where
  "IsLinkLocalUnicast ip \<longleftrightarrow>
     (case To4 ip of
        Some b \<Rightarrow> b ! 0 = 169 \<and> b ! 1 = 254
      | None \<Rightarrow> length ip = 16 \<and> ip ! 0 = 0xFE \<and> ip ! 1 AND 0xC0 = 0x80)"

subsection \<open>Printing\<close>

text \<open>\<open>ip.String()\<close>: dotted decimal, or groups of hex digits with the first longest run of zero groups compressed.\<close>

fun hex_text :: "nat \<Rightarrow> string" where
  "hex_text n = (if n < 16 then [hex_digit n] else hex_text (n div 16) @ [hex_digit (n mod 16)])"

declare hex_text.simps [simp del]

definition dotted :: "ip \<Rightarrow> string" where
  "dotted b = nat_text (unat (b ! 0)) @ ''.'' @ nat_text (unat (b ! 1)) @ ''.'' @ nat_text (unat (b ! 2)) @
              ''.'' @ nat_text (unat (b ! 3))"

fun groups :: "ip \<Rightarrow> nat list" where
  "groups (a # b # bs) = (unat a * 256 + unat b) # groups bs"
| "groups _ = []"

fun colon_groups :: "nat list \<Rightarrow> string" where
  "colon_groups [] = []"
| "colon_groups [n] = hex_text n"
| "colon_groups (n # ns) = hex_text n @ '':'' @ colon_groups ns"

definition zero_run :: "nat list \<Rightarrow> nat \<Rightarrow> nat" where
  "zero_run gs i = length (takeWhile (\<lambda>n. n = 0) (drop i gs))"

definition longest_run :: "nat list \<Rightarrow> nat \<times> nat" where
  "longest_run gs =
     foldl (\<lambda>(at, best) i. if best < zero_run gs i then (i, zero_run gs i) else (at, best)) (0, 1) [0..<length gs]"

definition IP_String :: "ip \<Rightarrow> string" where
  "IP_String ip =
     (if ip = [] then ''<nil>''
      else if length ip \<noteq> 4 \<and> length ip \<noteq> 16
      then ''?'' @ concat (map (\<lambda>b. [hex_digit (unat b div 16), hex_digit (unat b mod 16)]) ip)
      else (case To4 ip of
          Some b \<Rightarrow> dotted b
        | None \<Rightarrow>
            (let gs = groups ip; (at, n) = longest_run gs in
             if n < 2 then colon_groups gs
             else colon_groups (take at gs) @ ''::'' @ colon_groups (drop (at + n) gs))))"

subsection \<open>Blocks\<close>

definition byte_bits :: "8 word \<Rightarrow> bool list" where
  "byte_bits b = map (bit b) [7, 6, 5, 4, 3, 2, 1, 0]"

definition in_block :: "ip \<Rightarrow> ip \<times> nat \<Rightarrow> bool" where
  "in_block ip block \<longleftrightarrow>
     (case block of (base, n) \<Rightarrow> length ip = length base \<and>
        take n (concat (map byte_bits ip)) = take n (concat (map byte_bits base)))"

text \<open>127/8, 10/8, 172.16/12, 192.168/16, 169.254/16, 224/4 and 0.0.0.0 itself.\<close>

definition local_blocks4 :: "(ip \<times> nat) list" where
  "local_blocks4 = [([127, 0, 0, 0], 8), ([10, 0, 0, 0], 8), ([172, 16, 0, 0], 12), ([192, 168, 0, 0], 16),
     ([169, 254, 0, 0], 16), ([224, 0, 0, 0], 4), ([0, 0, 0, 0], 32)]"

text \<open>\<open>::1\<close>, \<open>fc00::/7\<close>, \<open>fe80::/10\<close>, \<open>ff00::/8\<close> and \<open>::\<close> itself.\<close>

definition local_blocks6 :: "(ip \<times> nat) list" where
  "local_blocks6 = [(replicate 15 0 @ [1], 128), (0xFC # replicate 15 0, 7), (0xFE # 0x80 # replicate 14 0, 10),
     (0xFF # replicate 15 0, 8), (replicate 16 0, 128)]"

subsection \<open>A parsed address has 16 bytes\<close>

lemma v4_loop_length: "v4_loop k s acc = Some b \<Longrightarrow> length b = length acc + k"
  by (induction k s acc rule: v4_loop.induct) (auto simp: Let_def split: if_splits)

lemma parseIPv4_length: "parseIPv4 s = Some b \<Longrightarrow> length b = 4"
  by (auto simp: parseIPv4_def dest: v4_loop_length)

lemma v6_loop_length:
  "v6_loop k s e acc = Some (s', e', acc') \<Longrightarrow> length acc + 2 * k = 16 \<Longrightarrow> (\<forall>p. e = Some p \<longrightarrow> p \<le> length acc) \<Longrightarrow>
   length acc' \<le> 16 \<and> (\<forall>p. e' = Some p \<longrightarrow> p \<le> length acc')"
proof (induction k s e acc rule: v6_loop.induct)
  case (2 k s e acc)
  show ?case
    using "2.prems" "2.IH"[OF refl refl refl]
    by (fastforce simp: Let_def dest: parseIPv4_length split: if_splits list.splits)
qed auto

lemma v6_finish_length:
  assumes "v6_finish (s, e, acc) = Some ip" and "length acc \<le> 16" and "\<forall>p. e = Some p \<longrightarrow> p \<le> length acc"
  shows "length ip = 16"
  using assms by (auto simp: v6_finish_def split: if_splits option.splits)

lemma ParseIP_length:
  assumes "ParseIP s = Some ip"
  shows "length ip = 16"
proof -
  have loop: "length ip = 16" if bound: "Option.bind (v6_loop 8 t e []) v6_finish = Some ip" and start: "\<forall>p. e = Some p \<longrightarrow> p = 0" for t e
  proof -
    obtain r where r: "v6_loop 8 t e [] = Some r" "v6_finish r = Some ip"
      using bound by (auto simp: bind_eq_Some_conv)
    obtain s' e' acc' where split: "r = (s', e', acc')" by (cases r)
    show ?thesis
      using v6_loop_length[OF r(1)[unfolded split]] v6_finish_length[OF r(2)[unfolded split]] start by auto
  qed
  show ?thesis
    using assms
    by (auto simp: ParseIP_def parseIPv6_def v4_in_v6_def intro: loop dest: parseIPv4_length split: option.splits if_splits)
qed

subsection \<open>Classes as blocks\<close>

lemma byte_eq_bits: "(a :: 8 word) = b \<longleftrightarrow> byte_bits a = byte_bits b"
proof
  assume "byte_bits a = byte_bits b"
  then have "bit a n = bit b n" if "n < 8" for n
    using that by (auto simp: byte_bits_def less_Suc_eq numeral_eq_Suc)
  then show "a = b" by (intro bit_word_eqI) simp
qed simp

lemma length_byte_bits [simp]: "length (byte_bits b) = 8"
  by (simp add: byte_bits_def)

text \<open>The masks of the source, as leading bits of a byte.\<close>

lemma byte_masks:
  "(b :: 8 word) AND 0xF0 = 16 \<longleftrightarrow> take 4 (byte_bits b) = take 4 (byte_bits 16)"
  "b AND 0xF0 = 0xE0 \<longleftrightarrow> take 4 (byte_bits b) = take 4 (byte_bits 224)"
  "b AND 0xFE = 0xFC \<longleftrightarrow> take 7 (byte_bits b) = take 7 (byte_bits 0xFC)"
  "b AND 0xC0 = 0x80 \<longleftrightarrow> take 2 (byte_bits b) = take 2 (byte_bits 0x80)"
  unfolding byte_eq_bits[of "_ AND _"] byte_bits_def
  by (simp_all add: bit_and_iff)


subsection \<open>Reading a printed IPv4 address\<close>

lemma char_digit: "n < 10 \<Longrightarrow> of_char (char_of (48 + n) :: char) = (48 + n :: nat)"
  by simp

lemma nat_text_digits: "list_all is_digit (nat_text n)"
proof (induction n rule: nat_text.induct)
  case (1 n)
  show ?case
  proof (cases "n < 10")
    case True
    then show ?thesis by (simp add: nat_text.simps[of n] is_digit_def)
  next
    case False
    have "is_digit (char_of (48 + n mod 10))" by (simp add: is_digit_def)
    with 1 False show ?thesis by (simp add: nat_text.simps[of n])
  qed
qed

lemma nat_text_not_Nil [simp]: "nat_text n \<noteq> []"
  by (subst nat_text.simps) simp

lemma dtoi_append: "dtoi (xs @ [c]) = dtoi xs * 10 + (of_char c - 48)"
  by (simp add: dtoi_def)

lemma dtoi_nat_text: "dtoi (nat_text n) = n"
proof (induction n rule: nat_text.induct)
  case (1 n)
  show ?case
  proof (cases "n < 10")
    case True
    then show ?thesis by (simp add: nat_text.simps[of n] dtoi_def)
  next
    case False
    with 1 show ?thesis by (simp add: nat_text.simps[of n] dtoi_append)
  qed
qed

lemma nat_text_hd: "0 < n \<Longrightarrow> hd (nat_text n) \<noteq> CHR ''0''"
proof (induction n rule: nat_text.induct)
  case (1 n)
  show ?case
  proof (cases "n < 10")
    case True
    have "of_char (char_of (48 + n) :: char) \<noteq> (of_char (CHR ''0'') :: nat)" using True 1(2) by simp
    then have "char_of (48 + n) \<noteq> CHR ''0''" by (rule contrapos_nn) (rule arg_cong)
    then show ?thesis using True by (simp add: nat_text.simps[of n])
  next
    case False
    with 1 show ?thesis by (simp add: nat_text.simps[of n])
  qed
qed

lemma nat_text_leading: "1 < length (nat_text n) \<Longrightarrow> hd (nat_text n) \<noteq> CHR ''0''"
  using nat_text_hd[of n] by (cases "n = 0") (simp_all add: nat_text.simps[of 0])

lemma takeWhile_nat_text:
  "rest = [] \<or> \<not> is_digit (hd rest) \<Longrightarrow> takeWhile is_digit (nat_text n @ rest) = nat_text n"
  using nat_text_digits[of n] by (cases rest) (auto simp: takeWhile_append list_all_iff takeWhile_eq_all_conv)

lemma v4_loop_first:
  assumes "n < 256" and "rest = [] \<or> \<not> is_digit (hd rest)"
  shows "v4_loop (Suc k) (nat_text n @ rest) [] = v4_loop k rest [of_nat n]"
  using assms takeWhile_nat_text[OF assms(2), of n] nat_text_leading[of n] by (auto simp: Let_def dtoi_nat_text)

lemma v4_loop_next:
  assumes "n < 256" and "rest = [] \<or> \<not> is_digit (hd rest)" and "acc \<noteq> []"
  shows "v4_loop (Suc k) (CHR ''.'' # nat_text n @ rest) acc = v4_loop k rest (acc @ [of_nat n])"
  using assms takeWhile_nat_text[OF assms(2), of n] nat_text_leading[of n] by (auto simp: Let_def dtoi_nat_text)

lemma dot_no_digit [simp]: "\<not> is_digit CHR ''.''"
  by (simp add: is_digit_def)

lemma find_first: "\<forall>c \<in> set xs. \<not> p c \<Longrightarrow> p y \<Longrightarrow> find p (xs @ y # ys) = Some y"
  by (induction xs) auto

lemma ParseIP_dotted:
  assumes "length b = 4"
  shows "ParseIP (dotted b) = Some (v4_in_v6 b)"
proof -
  obtain a c d e where b: "b = [a, c, d, e]" using assms by (auto simp: numeral_eq_Suc length_Suc_conv)
  have small: "unat x < 256" for x :: "8 word" using unsigned_less[of x] by simp
  have no: "\<forall>x \<in> set (nat_text n). \<not> (x = CHR ''.'' \<or> x = CHR '':'')" for n
    using nat_text_digits[of n] by (auto simp: list_all_iff is_digit_def)
  have "parseIPv4 (dotted b) =
      v4_loop (Suc (Suc (Suc (Suc 0)))) (nat_text (unat a) @ CHR ''.'' # nat_text (unat c) @ CHR ''.'' # nat_text (unat d) @
        CHR ''.'' # nat_text (unat e) @ []) []"
    by (simp add: parseIPv4_def dotted_def b numeral_eq_Suc del: v4_loop.simps)
  also have "\<dots> = Some b"
    by (subst v4_loop_first v4_loop_next, simp add: small, simp, (simp; fail)?)+ (simp add: b)
  finally have "parseIPv4 (dotted b) = Some b" .
  then show ?thesis
    using find_first[OF no, of "CHR ''.''" "unat a"] by (simp add: ParseIP_def dotted_def b)
qed

end
