(* ===== verification/GoUrl.thy ===== *)
theory GoUrl
  imports IPAddr
begin

text \<open>
  What the source uses of \<open>net/url\<close> and of the host and port functions of \<open>net\<close>. A parsed URL
  keeps its scheme, its user part and its host as written; parsing itself is a parameter of the
  definitions that need it, so that their properties hold for every parser.
\<close>

record url =
  u_Scheme :: string
  u_User :: "string option"
  u_Host :: string

definition colon_free :: "string \<Rightarrow> bool" where
  "colon_free s \<longleftrightarrow> CHR '':'' \<notin> set s"

text \<open>The text before the last colon and the text after it.\<close>

definition last_colon :: "string \<Rightarrow> (string \<times> string) option" where
  "last_colon s =
     (if colon_free s then None
      else (let port = rev (takeWhile (\<lambda>c. c \<noteq> CHR '':'') (rev s))
            in Some (take (length s - length port - 1) s, port)))"

definition strip_brackets :: "string \<Rightarrow> string" where
  "strip_brackets h = (if 2 \<le> length h \<and> hd h = CHR ''['' \<and> last h = CHR '']'' then butlast (tl h) else h)"

text \<open>\<open>splitHostPort\<close> of \<open>net/url\<close>: a port is a possibly empty run of digits after the last colon.\<close>

definition url_split :: "string \<Rightarrow> string \<times> string" where
  "url_split host_port =
     (case last_colon host_port of
        None \<Rightarrow> (strip_brackets host_port, '''')
      | Some (h, p) \<Rightarrow> if list_all is_digit p then (strip_brackets h, p) else (strip_brackets host_port, ''''))"

definition Hostname :: "url \<Rightarrow> string" where
  "Hostname u = fst (url_split (u_Host u))"

definition Port :: "url \<Rightarrow> string" where
  "Port u = snd (url_split (u_Host u))"

definition JoinHostPort :: "string \<Rightarrow> string \<Rightarrow> string" where
  "JoinHostPort host port =
     (if colon_free host then host @ '':'' @ port else ''['' @ host @ '']:'' @ port)"

text \<open>\<open>net.SplitHostPort\<close>: the brackets of the host are mandatory when it has a colon.\<close>

definition SplitHostPort :: "string \<Rightarrow> go_error + string \<times> string" where
  "SplitHostPort s =
     (case last_colon s of
        None \<Rightarrow> Inl (Opaque ''missing port in address'')
      | Some (h, p) \<Rightarrow>
          if hd s = CHR ''[''
          then (let inner = takeWhile (\<lambda>c. c \<noteq> CHR '']'') (tl s);
                    rest = drop (Suc (length inner)) s
                in if rest = '''' then Inl (Opaque ''missing ']' in address'')
                   else if tl rest = '''' then Inl (Opaque ''missing port in address'')
                   else if tl rest \<noteq> CHR '':'' # p
                   then Inl (Opaque (if hd (tl rest) = CHR '':'' then ''too many colons in address''
                                     else ''missing port in address''))
                   else if CHR ''['' \<in> set (tl s) then Inl (Opaque ''unexpected '[' in address'')
                   else if CHR '']'' \<in> set (tl rest) then Inl (Opaque ''unexpected ']' in address'')
                   else Inr (inner, p))
          else if \<not> colon_free h then Inl (Opaque ''too many colons in address'')
          else if CHR ''['' \<in> set s then Inl (Opaque ''unexpected '[' in address'')
          else if CHR '']'' \<in> set s then Inl (Opaque ''unexpected ']' in address'')
          else Inr (h, p))"

subsection \<open>Facts\<close>

lemma last_colon_join: "colon_free p \<Longrightarrow> last_colon (h @ CHR '':'' # p) = Some (h, p)"
  by (auto simp: last_colon_def colon_free_def takeWhile_append Let_def)

text \<open>Splitting a joined address gives the host and the port back.\<close>

lemma SplitHostPort_join:
  assumes "colon_free port" and "CHR ''['' \<notin> set (host @ port)" and "CHR '']'' \<notin> set (host @ port)"
  shows "SplitHostPort (JoinHostPort host port) = Inr (host, port)"
proof (cases "colon_free host")
  case True
  then show ?thesis
    using assms last_colon_join[OF assms(1), of host]
    by (cases host) (auto simp: JoinHostPort_def SplitHostPort_def)
next
  case False
  have "takeWhile (\<lambda>c. c \<noteq> CHR '']'') (host @ CHR '']'' # CHR '':'' # port) = host"
    using assms(3) by (simp add: takeWhile_append)
  then show ?thesis
    using False assms last_colon_join[OF assms(1), of "''['' @ host @ '']''"]
    by (simp add: JoinHostPort_def SplitHostPort_def)
qed

end
