(* ===== verification/TargetPolicy.thy ===== *)
theory TargetPolicy
  imports GoUrl
begin

text \<open>
  \<^verbatim>\<open>webhooks/target_policy.go\<close>: which hosts a webhook may be sent to, and the addresses a
  permitted host resolves to. The resolver is a parameter: it may answer anything, and
  something else each time it is asked.
\<close>

record TargetPolicy =
  tp_AllowedHosts :: "string list"
  tp_AllowPrivateTargets :: bool

record IPAddr =
  ia_IP :: ip
  ia_Zone :: string

type_synonym resolver = "string \<Rightarrow> go_error + IPAddr list"

definition normalizeHostname :: "string \<Rightarrow> string" where
  "normalizeHostname hostname = TrimSuffix (ToLower (TrimSpace hostname)) ''.''"

fun isAllowedTargetHost :: "string \<Rightarrow> string list \<Rightarrow> bool" where
  "isAllowedTargetHost hostname [] = False"
| "isAllowedTargetHost hostname (candidate # allowedHosts) =
     (let normalizedHost = normalizeHostname hostname;
          allowed = normalizeHostname candidate
      in if allowed = '''' then isAllowedTargetHost hostname allowedHosts
         else if normalizedHost = allowed \<or> HasSuffix normalizedHost (''.'' @ allowed) then True
         else isAllowedTargetHost hostname allowedHosts)"

definition isPrivateHostnameLabel :: "string \<Rightarrow> bool" where
  "isPrivateHostnameLabel hostname \<longleftrightarrow>
     hostname = ''localhost'' \<or> HasSuffix hostname ''.localhost'' \<or> HasSuffix hostname ''.local'' \<or>
     HasSuffix hostname ''.internal''"

definition isPrivateOrLocalIP :: "ip \<Rightarrow> bool" where
  "isPrivateOrLocalIP ip \<longleftrightarrow>
     IsLoopback ip \<or> IsPrivate ip \<or> IsLinkLocalMulticast ip \<or> IsLinkLocalUnicast ip \<or> IsMulticast ip \<or>
     IsUnspecified ip"

definition resolveTargetPort :: "url \<Rightarrow> go_error + string" where
  "resolveTargetPort targetURL =
     (if Port targetURL \<noteq> '''' then Inr (Port targetURL)
      else if ToLower (u_Scheme targetURL) = ''http'' then Inr ''80''
      else if ToLower (u_Scheme targetURL) = ''https'' then Inr ''443''
      else Inl (Opaque (''target URL scheme '' @ go_quote (u_Scheme targetURL) @ '' is not supported'')))"

definition resolveTargetIPAddrs :: "resolver \<Rightarrow> string \<Rightarrow> go_error + IPAddr list" where
  "resolveTargetIPAddrs lookupIPAddrs hostname =
     (case lookupIPAddrs hostname of
        Inl e \<Rightarrow> Inl (Errorf (''resolve target host '' @ go_quote hostname) e)
      | Inr ipAddrs \<Rightarrow>
          if ipAddrs = []
          then Inl (Opaque (''resolve target host '' @ go_quote hostname @ '': no IP addresses returned''))
          else Inr ipAddrs)"

definition extractIPs :: "IPAddr list \<Rightarrow> ip list" where
  "extractIPs ipAddrs = map ia_IP ipAddrs"

definition resolveDispatchTarget ::
  "url \<Rightarrow> TargetPolicy \<Rightarrow> resolver \<Rightarrow> go_error + string \<times> string \<times> ip list" where
  "resolveDispatchTarget targetURL policy lookupIPAddrs =
     (let hostname = normalizeHostname (Hostname targetURL) in
      if hostname = '''' then Inl (Opaque ''target URL must include a valid hostname'')
      else if tp_AllowedHosts policy \<noteq> [] \<and> \<not> isAllowedTargetHost hostname (tp_AllowedHosts policy)
      then Inl (Opaque (''target host '' @ go_quote hostname @ '' is not in the allowed callback host list''))
      else (case resolveTargetPort targetURL of
          Inl e \<Rightarrow> Inl e
        | Inr port \<Rightarrow>
            if tp_AllowPrivateTargets policy
            then (case ParseIP hostname of
                    Some ip \<Rightarrow> Inr (hostname, port, [ip])
                  | None \<Rightarrow>
                      (case resolveTargetIPAddrs lookupIPAddrs hostname of
                         Inl e \<Rightarrow> Inl e
                       | Inr ipAddrs \<Rightarrow> Inr (hostname, port, extractIPs ipAddrs)))
            else if isPrivateHostnameLabel hostname
            then Inl (Opaque (''target host '' @ go_quote hostname @ '' points to localhost or a private network label''))
            else (case ParseIP hostname of
                    Some ip \<Rightarrow>
                      if isPrivateOrLocalIP ip
                      then Inl (Opaque (''target host '' @ go_quote hostname @ '' resolves to a private or local IP''))
                      else Inr (hostname, port, [ip])
                  | None \<Rightarrow>
                      (case resolveTargetIPAddrs lookupIPAddrs hostname of
                         Inl e \<Rightarrow> Inl e
                       | Inr ipAddrs \<Rightarrow>
                           (case find (\<lambda>ipAddr. isPrivateOrLocalIP (ia_IP ipAddr)) ipAddrs of
                              Some ipAddr \<Rightarrow>
                                Inl (Opaque (''target host '' @ go_quote hostname @ '' resolved to disallowed IP '' @
                                             IP_String (ia_IP ipAddr)))
                            | None \<Rightarrow> Inr (hostname, port, extractIPs ipAddrs))))))"

definition validateDispatchTarget :: "url \<Rightarrow> TargetPolicy \<Rightarrow> resolver \<Rightarrow> go_error option" where
  "validateDispatchTarget targetURL policy lookupIPAddrs =
     (case resolveDispatchTarget targetURL policy lookupIPAddrs of Inl e \<Rightarrow> Some e | Inr _ \<Rightarrow> None)"

subsection \<open>The policy, declaratively\<close>

text \<open>
  A host is covered by an allowed entry when it is the entry or one of its subdomains; the
  policy permits a host and the addresses it resolves to.
\<close>

definition covers :: "string \<Rightarrow> string \<Rightarrow> bool" where
  "covers allowed host \<longleftrightarrow> allowed \<noteq> '''' \<and> (host = allowed \<or> (\<exists>sub. host = sub @ ''.'' @ allowed))"

definition host_permitted :: "TargetPolicy \<Rightarrow> string \<Rightarrow> bool" where
  "host_permitted policy host \<longleftrightarrow> host \<noteq> '''' \<and>
     (tp_AllowedHosts policy = [] \<or>
        (\<exists>a \<in> set (tp_AllowedHosts policy). covers (normalizeHostname a) (normalizeHostname host)))"

definition public_ip :: "ip \<Rightarrow> bool" where
  "public_ip ip \<longleftrightarrow>
     (case To4 ip of
        Some b \<Rightarrow> \<not> list_ex (in_block b) local_blocks4
      | None \<Rightarrow> \<not> list_ex (in_block ip) local_blocks6)"

definition ip_permitted :: "TargetPolicy \<Rightarrow> ip \<Rightarrow> bool" where
  "ip_permitted policy ip \<longleftrightarrow> tp_AllowPrivateTargets policy \<or> public_ip ip"

lemma isAllowedTargetHost_iff:
  "isAllowedTargetHost host allowed \<longleftrightarrow>
     (\<exists>a \<in> set allowed. covers (normalizeHostname a) (normalizeHostname host))"
  by (induction allowed) (auto simp: Let_def covers_def HasSuffix_iff)

subsection \<open>The address test is membership in the local blocks\<close>

lemma in_block_Cons:
  "in_block (b # bs) (c # cs, n) \<longleftrightarrow>
     take n (byte_bits b) = take n (byte_bits c) \<and> (n \<le> 8 \<and> length bs = length cs \<or> 8 < n \<and> in_block bs (cs, n - 8))"
  by (auto simp: in_block_def)

lemma in_block_Nil [simp]: "in_block [] ([], n)"
  by (simp add: in_block_def)

lemma take_byte_bits: "8 \<le> n \<Longrightarrow> take n (byte_bits b) = byte_bits b"
  by simp

lemma IsUnspecified4: "IsUnspecified [a, b, c, d] \<longleftrightarrow> [a, b, c, d] = [0, 0, 0, 0]"
  by (auto simp: IsUnspecified_def ip_equal_def v4_in_v6_def numeral_eq_Suc)

lemma private4:
  "isPrivateOrLocalIP [a, b, c, d] \<longleftrightarrow> list_ex (in_block [a, b, c, d]) local_blocks4"
proof -
  have lhs: "isPrivateOrLocalIP [a, b, c, d] \<longleftrightarrow>
      a = 127 \<or> a = 10 \<or> a = 172 \<and> b AND 0xF0 = 16 \<or> a = 192 \<and> b = 168 \<or> a = 169 \<and> b = 254 \<or>
      a AND 0xF0 = 0xE0 \<or> [a, b, c, d] = [0, 0, 0, 0]"
    by (auto simp: isPrivateOrLocalIP_def IsLoopback_def IsPrivate_def IsLinkLocalMulticast_def
        IsLinkLocalUnicast_def IsMulticast_def IsUnspecified4 To4_def)
  have rhs: "list_ex (in_block [a, b, c, d]) local_blocks4 \<longleftrightarrow>
      a = 127 \<or> a = 10 \<or> a = 172 \<and> b AND 0xF0 = 16 \<or> a = 192 \<and> b = 168 \<or> a = 169 \<and> b = 254 \<or>
      a AND 0xF0 = 0xE0 \<or> [a, b, c, d] = [0, 0, 0, 0]"
    unfolding local_blocks4_def
    by (simp add: in_block_Cons take_byte_bits byte_eq_bits[symmetric] byte_masks)
  show ?thesis unfolding lhs rhs ..
qed

lemma in_block_full: "n = 8 * length base \<Longrightarrow> in_block ip (base, n) \<longleftrightarrow> ip = base"
proof (induction base arbitrary: ip n)
  case Nil
  then show ?case by (auto simp: in_block_def)
next
  case (Cons c cs)
  show ?case
  proof (cases ip)
    case Nil
    then show ?thesis by (simp add: in_block_def)
  next
    case (Cons b bs)
    then show ?thesis
      using Cons.IH[of "n - 8" bs] Cons.prems
      by (cases cs) (auto simp: in_block_Cons take_byte_bits byte_eq_bits[symmetric] in_block_def)
  qed
qed

lemma private6:
  assumes "length ip = 16" and "To4 ip = None"
  shows "isPrivateOrLocalIP ip \<longleftrightarrow> list_ex (in_block ip) local_blocks6"
proof -
  obtain a b bs where ip: "ip = a # b # bs" "length bs = 14"
    using assms(1) by (auto simp: numeral_eq_Suc length_Suc_conv)
  have mapped: "ip \<noteq> v4_in_v6 (replicate 4 0)"
    using assms(2) by (auto simp: To4_def v4_in_v6_def)
  have lhs: "isPrivateOrLocalIP ip \<longleftrightarrow>
      ip = replicate 15 0 @ [1] \<or> a AND 0xFE = 0xFC \<or> a = 0xFE \<and> b AND 0xC0 = 0x80 \<or> a = 0xFF \<or> ip = replicate 16 0"
    using assms mapped
    by (auto simp: isPrivateOrLocalIP_def IsLoopback_def IsPrivate_def IsLinkLocalMulticast_def
        IsLinkLocalUnicast_def IsMulticast_def IsUnspecified_def ip_equal_def ip)
  have blocks: "in_block ip (0xFC # replicate 15 0, 7) \<longleftrightarrow> a AND 0xFE = 0xFC"
    "in_block ip (0xFE # 0x80 # replicate 14 0, 10) \<longleftrightarrow> a = 0xFE \<and> b AND 0xC0 = 0x80"
    "in_block ip (0xFF # replicate 15 0, 8) \<longleftrightarrow> a = 0xFF"
    by (simp_all add: ip in_block_Cons take_byte_bits byte_eq_bits[symmetric] byte_masks)
  show ?thesis
    unfolding lhs local_blocks6_def by (simp add: blocks in_block_full)
qed

lemma To4_cases:
  assumes "To4 ip = Some b"
  obtains "ip = b" "length b = 4" | "ip = v4_in_v6 b" "length b = 4"
proof (cases "length ip = 4")
  case True
  with assms show ?thesis by (intro that(1)) (auto simp: To4_def)
next
  case False
  with assms have "length ip = 16" "take 12 ip = replicate 10 0 @ [0xFF, 0xFF]" "b = drop 12 ip"
    by (auto simp: To4_def split: if_splits)
  then show ?thesis
    by (intro that(2)) (metis append_assoc append_take_drop_id v4_in_v6_def, simp)
qed

lemma To4_mapped [simp]: "length b = 4 \<Longrightarrow> To4 (v4_in_v6 b) = Some b"
  by (simp add: To4_def v4_in_v6_def)

lemma To4_short [simp]: "length b = 4 \<Longrightarrow> To4 b = Some b"
  by (simp add: To4_def)

lemma v4_in_v6_eq [simp]: "v4_in_v6 a = v4_in_v6 b \<longleftrightarrow> a = b"
  by (simp add: v4_in_v6_def)

lemma mapped_not_zero [simp]: "v4_in_v6 b \<noteq> replicate 16 0"
proof
  assume "v4_in_v6 b = replicate 16 0"
  then have "v4_in_v6 b ! 10 = replicate 16 0 ! 10" by simp
  then show False by (simp add: v4_in_v6_def nth_append)
qed

lemma length_v4_in_v6 [simp]: "length (v4_in_v6 b) = 12 + length b"
  by (simp add: v4_in_v6_def)

lemma IsUnspecified_mapped: "length b = 4 \<Longrightarrow> IsUnspecified (v4_in_v6 b) \<longleftrightarrow> IsUnspecified b"
  by (auto simp: IsUnspecified_def ip_equal_def)

lemma private_mapped: "length b = 4 \<Longrightarrow> isPrivateOrLocalIP (v4_in_v6 b) \<longleftrightarrow> isPrivateOrLocalIP b"
  by (simp add: isPrivateOrLocalIP_def IsLoopback_def IsPrivate_def IsLinkLocalMulticast_def
        IsLinkLocalUnicast_def IsMulticast_def IsUnspecified_mapped)

lemma private_iff_blocks: "isPrivateOrLocalIP ip \<longleftrightarrow> \<not> public_ip ip"
proof (cases "To4 ip")
  case None
  show ?thesis
  proof (cases "length ip = 16")
    case True
    then show ?thesis using private6[OF True None] None by (simp add: public_ip_def)
  next
    case False
    have "\<not> isPrivateOrLocalIP ip"
      using None False
      by (auto simp: isPrivateOrLocalIP_def IsLoopback_def IsPrivate_def IsLinkLocalMulticast_def To4_def v4_in_v6_def
        IsLinkLocalUnicast_def IsMulticast_def IsUnspecified_def ip_equal_def)
    moreover have "public_ip ip"
      using None False by (auto simp: public_ip_def in_block_def local_blocks6_def)
    ultimately show ?thesis by simp
  qed
next
  case (Some b)
  then have len: "length b = 4" and same: "isPrivateOrLocalIP ip = isPrivateOrLocalIP b"
    by (auto elim: To4_cases simp: private_mapped)
  obtain w x y z where b: "b = [w, x, y, z]" using len by (auto simp: numeral_eq_Suc length_Suc_conv)
  show ?thesis unfolding same public_ip_def Some by (simp add: b private4)
qed

subsection \<open>What a resolved target satisfies\<close>

lemma resolveDispatchTarget_permits:
  assumes "resolveDispatchTarget u policy lookup = Inr (hostname, port, ips)"
  shows "hostname = normalizeHostname (Hostname u)" and "host_permitted policy hostname"
    and "ips \<noteq> []" and "\<forall>ip \<in> set ips. ip_permitted policy ip"
    and "\<not> tp_AllowPrivateTargets policy \<Longrightarrow> \<not> isPrivateHostnameLabel hostname"
  using assms
  by (auto simp: resolveDispatchTarget_def Let_def host_permitted_def isAllowedTargetHost_iff ip_permitted_def
      private_iff_blocks extractIPs_def resolveTargetIPAddrs_def find_None_iff
      split: if_splits sum.splits option.splits)

end
