(* ===== verification/TransferService.thy ===== *)
theory TransferService
  imports RepoBehaviour TargetPolicy "HOL-Library.List_Lexorder" "HOL-Library.Char_ord"
begin

text \<open>
  \<^verbatim>\<open>transfers/service.go\<close>: validation and normalisation of the API's requests before they reach
  the repository. The record \<open>libs\<close> holds what the source takes from elsewhere: \<open>uuid.Parse\<close>,
  \<open>common.IsHexAddress\<close>, \<open>url.Parse\<close>, and the number a JSON number becomes when it is read
  into a \<open>float64\<close> and printed again (none when it does not fit).
\<close>

record libs =
  lib_uuid :: "string \<Rightarrow> bool"
  lib_IsHexAddress :: "string \<Rightarrow> bool"
  lib_url :: "string \<Rightarrow> url option"
  lib_float64 :: "json \<Rightarrow> json option"

record CallbackURLPolicy =
  cb_AllowedHosts :: "string list"
  cb_AllowPrivateTargets :: bool

record CreateInput =
  ci_IdempotencyKey :: string
  ci_Chain :: string
  ci_AssetType :: string
  ci_SourceWalletID :: string
  ci_DestinationAddress :: string
  ci_Amount :: string
  ci_CallbackURL :: string
  ci_MetadataJSON :: raw_json

record ListInput =
  li_Limit :: int
  li_Offset :: int

record ListResult =
  lr_Items :: "Transfer list"
  lr_Limit :: int
  lr_Offset :: int

record 'w TransferService =
  svc_repository :: "'w Repository"
  svc_callbackURLPolicy :: CallbackURLPolicy

definition NewService :: "'w Repository \<Rightarrow> CallbackURLPolicy \<Rightarrow> 'w TransferService" where
  "NewService repository callbackURLPolicy =
     \<lparr>svc_repository = repository, svc_callbackURLPolicy = callbackURLPolicy\<rparr>"

subsection \<open>Callback targets\<close>

definition callback_normalizeHostname :: "string \<Rightarrow> string" where
  "callback_normalizeHostname hostname = TrimSuffix (ToLower (TrimSpace hostname)) ''.''"

fun isAllowedCallbackHost :: "string \<Rightarrow> string list \<Rightarrow> bool" where
  "isAllowedCallbackHost hostname [] = False"
| "isAllowedCallbackHost hostname (candidate # allowedHosts) =
     (let normalizedHost = callback_normalizeHostname hostname;
          allowed = callback_normalizeHostname candidate
      in if allowed = '''' then isAllowedCallbackHost hostname allowedHosts
         else if normalizedHost = allowed \<or> HasSuffix normalizedHost (''.'' @ allowed) then True
         else isAllowedCallbackHost hostname allowedHosts)"

definition isLocalOrPrivateCallbackHost :: "string \<Rightarrow> bool" where
  "isLocalOrPrivateCallbackHost hostname =
     (let normalizedHost = callback_normalizeHostname hostname in
      if normalizedHost = ''localhost'' \<or> HasSuffix normalizedHost ''.localhost'' \<or>
         HasSuffix normalizedHost ''.local'' \<or> HasSuffix normalizedHost ''.internal''
      then True
      else (case ParseIP normalizedHost of
              None \<Rightarrow> False
            | Some ip \<Rightarrow> IsLoopback ip \<or> IsPrivate ip \<or> IsLinkLocalMulticast ip \<or> IsLinkLocalUnicast ip \<or>
                         IsMulticast ip \<or> IsUnspecified ip))"

definition validateCallbackURLTarget :: "url \<Rightarrow> CallbackURLPolicy \<Rightarrow> go_error option" where
  "validateCallbackURLTarget parsedURL policy =
     (let hostname = callback_normalizeHostname (Hostname parsedURL) in
      if hostname = '''' then Some (ValidationError ''callback_url'' ''must include a valid hostname'')
      else if cb_AllowedHosts policy \<noteq> [] \<and> \<not> isAllowedCallbackHost hostname (cb_AllowedHosts policy)
      then Some (ValidationError ''callback_url'' ''host is not in the allowed callback host list'')
      else if cb_AllowPrivateTargets policy then None
      else if isLocalOrPrivateCallbackHost hostname
      then Some (ValidationError ''callback_url'' ''must not target localhost or private network addresses'')
      else None)"

subsection \<open>Metadata\<close>

text \<open>
  \<open>json.Unmarshal\<close> into \<open>map[string]any\<close> and \<open>json.Marshal\<close> of the map: of members with the
  same name the last one counts, names come out sorted, numbers pass through \<open>float64\<close>.
\<close>

definition object_of :: "(string \<times> json) list \<Rightarrow> (string \<times> json) list" where
  "object_of ms = map (\<lambda>k. (k, the (map_of (rev ms) k))) (sort (remdups (map fst ms)))"

lemma size_member: "(k, v) \<in> set ms \<Longrightarrow> size v < Suc (size_list (size_prod (\<lambda>_. 0) size) ms)"
  by (induction ms) (auto simp: less_Suc_eq)

fun numbers_fit :: "(json \<Rightarrow> json option) \<Rightarrow> json \<Rightarrow> bool" where
  "numbers_fit num (JInt i) = (num (JInt i) \<noteq> None)"
| "numbers_fit num (JNumber s) = (num (JNumber s) \<noteq> None)"
| "numbers_fit num (JArray vs) = (\<forall>v \<in> set vs. numbers_fit num v)"
| "numbers_fit num (JObject ms) = (\<forall>v \<in> snd ` set ms. numbers_fit num v)"
| "numbers_fit num v = True"

fun normal_json :: "(json \<Rightarrow> json option) \<Rightarrow> json \<Rightarrow> json" where
  "normal_json num (JInt i) = the (num (JInt i))"
| "normal_json num (JNumber s) = the (num (JNumber s))"
| "normal_json num (JArray vs) = JArray (map (normal_json num) vs)"
| "normal_json num (JObject ms) = JObject (object_of (map (\<lambda>m. (fst m, normal_json num (snd m))) ms))"
| "normal_json num v = v"

definition normalize_metadata :: "(json \<Rightarrow> json option) \<Rightarrow> raw_json \<Rightarrow> go_error + raw_json" where
  "normalize_metadata num raw =
     (case (if raw = RawText '''' then RawJson (JObject []) else raw) of
        RawJson (JObject ms) \<Rightarrow>
          if numbers_fit num (JObject ms) then Inr (RawJson (normal_json num (JObject ms)))
          else Inl (ValidationError ''metadata_json'' ''must be a valid JSON object'')
      | _ \<Rightarrow> Inl (ValidationError ''metadata_json'' ''must be a valid JSON object''))"

subsection \<open>Requests\<close>

definition normalizeCreateInput :: "libs \<Rightarrow> CreateInput \<Rightarrow> CallbackURLPolicy \<Rightarrow> go_error + CreateParams" where
  "normalizeCreateInput L input callbackURLPolicy =
     (let params = \<lparr>cp_IdempotencyKey = TrimSpace (ci_IdempotencyKey input), cp_Chain = TrimSpace (ci_Chain input),
            cp_AssetType = TrimSpace (ci_AssetType input), cp_SourceWalletID = TrimSpace (ci_SourceWalletID input),
            cp_DestinationAddress = TrimSpace (ci_DestinationAddress input), cp_Amount = TrimSpace (ci_Amount input),
            cp_CallbackURL = TrimSpace (ci_CallbackURL input), cp_MetadataJSON = ci_MetadataJSON input,
            cp_Status = StatusCreated\<rparr>
      in
      if cp_IdempotencyKey params = '''' then Inl (ValidationError ''idempotency_key'' ''is required'')
      else if cp_Chain params = '''' then Inl (ValidationError ''chain'' ''is required'')
      else if cp_AssetType params = '''' then Inl (ValidationError ''asset_type'' ''is required'')
      else if cp_SourceWalletID params = '''' then Inl (ValidationError ''source_wallet_id'' ''is required'')
      else if \<not> lib_uuid L (cp_SourceWalletID params)
      then Inl (ValidationError ''source_wallet_id'' ''must be a valid UUID'')
      else if cp_DestinationAddress params = '''' then Inl (ValidationError ''destination_address'' ''is required'')
      else if \<not> lib_IsHexAddress L (cp_DestinationAddress params)
      then Inl (ValidationError ''destination_address'' ''must be a valid EVM address'')
      else if cp_Amount params = '''' then Inl (ValidationError ''amount'' ''is required'')
      else if (case decimal_value (cp_Amount params) of None \<Rightarrow> True | Some amount \<Rightarrow> amount \<le> 0)
      then Inl (ValidationError ''amount'' ''must be a positive integer string'')
      else (case (if cp_CallbackURL params = '''' then None
                  else (case lib_url L (cp_CallbackURL params) of
                      None \<Rightarrow> Some (ValidationError ''callback_url'' ''must be a valid URL'')
                    | Some parsedURL \<Rightarrow>
                        if u_Scheme parsedURL = '''' \<or> u_Host parsedURL = ''''
                        then Some (ValidationError ''callback_url'' ''must be a valid URL'')
                        else if u_Scheme parsedURL \<noteq> ''http'' \<and> u_Scheme parsedURL \<noteq> ''https''
                        then Some (ValidationError ''callback_url'' ''must use http or https'')
                        else if u_User parsedURL \<noteq> None
                        then Some (ValidationError ''callback_url'' ''must not include user credentials'')
                        else validateCallbackURLTarget parsedURL callbackURLPolicy)) of
          Some e \<Rightarrow> Inl e
        | None \<Rightarrow>
            (case normalize_metadata (lib_float64 L) (cp_MetadataJSON params) of
               Inl e \<Rightarrow> Inl e
             | Inr normalizedMetadata \<Rightarrow> Inr (params\<lparr>cp_MetadataJSON := normalizedMetadata\<rparr>))))"

definition CreateTransfer :: "libs \<Rightarrow> 'w TransferService \<Rightarrow> CreateInput \<Rightarrow> ('w, Transfer \<times> bool) act" where
  "CreateTransfer L s input w =
     (case normalizeCreateInput L input (svc_callbackURLPolicy s) of
        Inl e \<Rightarrow> (Inl e, w)
      | Inr params \<Rightarrow>
          (case repo_Create (svc_repository s) params w of
             (Inl e, w1) \<Rightarrow> (Inl e, w1)
           | (Inr (transfer, created), w1) \<Rightarrow> (Inr (transfer, created), w1)))"

definition GetTransfer :: "libs \<Rightarrow> 'w TransferService \<Rightarrow> string \<Rightarrow> ('w, Transfer) act" where
  "GetTransfer L s id0 w =
     (let tid = TrimSpace id0 in
      if tid = '''' then (Inl (ValidationError ''id'' ''is required''), w)
      else if \<not> lib_uuid L tid then (Inl (ValidationError ''id'' ''must be a valid UUID''), w)
      else repo_GetByID (svc_repository s) tid w)"

definition ListTransfers :: "'w TransferService \<Rightarrow> ListInput \<Rightarrow> ('w, ListResult) act" where
  "ListTransfers s input w =
     (let limit = (if li_Limit input \<le> 0 then 20 else if 100 < li_Limit input then 100 else li_Limit input);
          offset = li_Offset input
      in if offset < 0 then (Inl (ValidationError ''offset'' ''must be greater than or equal to 0''), w)
         else (case repo_List (svc_repository s) \<lparr>lp_Limit = limit, lp_Offset = offset\<rparr> w of
                 (Inl e, w1) \<Rightarrow> (Inl e, w1)
               | (Inr items, w1) \<Rightarrow> (Inr \<lparr>lr_Items = items, lr_Limit = limit, lr_Offset = offset\<rparr>, w1)))"

subsection \<open>Rejections\<close>

lemma validateCallbackURLTarget_error:
  "validateCallbackURLTarget u policy = Some e \<Longrightarrow> errors_is e ErrValidation"
  by (auto simp: validateCallbackURLTarget_def Let_def split: if_splits)

lemma normalize_metadata_error: "normalize_metadata num raw = Inl e \<Longrightarrow> errors_is e ErrValidation"
  by (auto simp: normalize_metadata_def split: if_splits raw_json.splits json.splits)

text \<open>Every refusal of a request is a validation error; the marshalling error of the source cannot occur.\<close>

lemma normalizeCreateInput_error: "normalizeCreateInput L input policy = Inl e \<Longrightarrow> errors_is e ErrValidation"
  by (auto simp: normalizeCreateInput_def Let_def dest: validateCallbackURLTarget_error normalize_metadata_error
      split: if_split_asm option.split_asm sum.split_asm)

subsection \<open>Accepted requests\<close>

definition callback_ok :: "libs \<Rightarrow> CallbackURLPolicy \<Rightarrow> string \<Rightarrow> bool" where
  "callback_ok L policy callback \<longleftrightarrow> callback = '''' \<or>
     (\<exists>u. lib_url L callback = Some u \<and> u_Scheme u \<in> {''http'', ''https''} \<and> u_Host u \<noteq> '''' \<and> u_User u = None \<and>
        validateCallbackURLTarget u policy = None)"

definition trimmed :: "string \<Rightarrow> bool" where
  "trimmed s \<longleftrightarrow> s \<noteq> '''' \<and> TrimSpace s = s"

text \<open>An object whose members are sorted by name, each name once.\<close>

definition canonical_members :: "(string \<times> json) list \<Rightarrow> bool" where
  "canonical_members ms \<longleftrightarrow> sorted (map fst ms) \<and> distinct (map fst ms)"

definition params_ok :: "libs \<Rightarrow> CallbackURLPolicy \<Rightarrow> CreateParams \<Rightarrow> bool" where
  "params_ok L policy p \<longleftrightarrow>
     trimmed (cp_IdempotencyKey p) \<and> trimmed (cp_Chain p) \<and> trimmed (cp_AssetType p) \<and>
     trimmed (cp_SourceWalletID p) \<and> lib_uuid L (cp_SourceWalletID p) \<and>
     trimmed (cp_DestinationAddress p) \<and> lib_IsHexAddress L (cp_DestinationAddress p) \<and>
     trimmed (cp_Amount p) \<and> (\<exists>amount. decimal_value (cp_Amount p) = Some amount \<and> 0 < amount) \<and>
     TrimSpace (cp_CallbackURL p) = cp_CallbackURL p \<and> callback_ok L policy (cp_CallbackURL p) \<and>
     (\<exists>ms. cp_MetadataJSON p = RawJson (JObject ms) \<and> canonical_members ms) \<and>
     cp_Status p = StatusCreated"

lemma TrimSpace_empty [simp]: "TrimSpace [] = []"
  by (simp add: TrimSpace_def)

lemma map_fst_object_of [simp]: "map fst (object_of ms) = sort (remdups (map fst ms))"
  by (simp add: object_of_def comp_def)

lemma canonical_object_of: "canonical_members (object_of ms)"
  by (simp add: canonical_members_def)

lemma map_of_object_of: "map_of (object_of ms) k = map_of (rev ms) k"
proof -
  have "map_of (map (\<lambda>k. (k, f k)) ks) k = (if k \<in> set ks then Some (f k) else None)" for f :: "string \<Rightarrow> json" and ks
    by (induction ks) auto
  moreover have "k \<in> set (map fst ms) \<longleftrightarrow> map_of (rev ms) k \<noteq> None"
    by (simp add: map_of_eq_None_iff)
  ultimately show ?thesis by (auto simp: object_of_def)
qed

lemma object_of_canonical: "canonical_members ms \<Longrightarrow> object_of ms = ms"
proof -
  assume c: "canonical_members ms"
  then have keys: "sort (remdups (map fst ms)) = map fst ms"
    by (simp add: canonical_members_def distinct_remdups_id sorted_sort_id)
  have dist: "distinct (map fst ms)" using c by (simp add: canonical_members_def)
  have last: "the (map_of (rev ms) (fst m)) = snd m" if "m \<in> set ms" for m
  proof -
    have "distinct (map fst (rev ms))" using dist by (metis distinct_rev rev_map)
    moreover have "(fst m, snd m) \<in> set (rev ms)" using that by simp
    ultimately have "map_of (rev ms) (fst m) = Some (snd m)" by (rule map_of_is_SomeI)
    then show ?thesis by simp
  qed
  have "object_of ms = map (\<lambda>m. (fst m, the (map_of (rev ms) (fst m)))) ms"
    unfolding object_of_def keys by simp
  also have "\<dots> = map id ms" by (rule map_cong) (auto simp: last)
  finally show ?thesis by simp
qed

lemma normalizeCreateInput_ok:
  assumes "normalizeCreateInput L input policy = Inr p"
  shows "params_ok L policy p"
proof -
  have "\<exists>ms. cp_MetadataJSON p = RawJson (JObject ms) \<and> canonical_members ms"
    using assms
    by (auto simp: normalizeCreateInput_def normalize_metadata_def Let_def canonical_object_of
        split: if_split_asm option.split_asm sum.split_asm raw_json.split_asm json.split_asm)
  moreover have "callback_ok L policy (cp_CallbackURL p)"
    using assms
    by (auto simp: normalizeCreateInput_def Let_def callback_ok_def split: if_split_asm option.split_asm sum.split_asm)
  ultimately show ?thesis
    using assms unfolding params_ok_def
    by (auto simp: normalizeCreateInput_def Let_def trimmed_def split: if_split_asm option.split_asm sum.split_asm)
qed

subsection \<open>Normalising twice\<close>

text \<open>
  What \<open>encoding/json\<close> promises of numbers: the printed form of a \<open>float64\<close> is a number that
  reads as the same \<open>float64\<close>.
\<close>

definition float64_law :: "(json \<Rightarrow> json option) \<Rightarrow> bool" where
  "float64_law num \<longleftrightarrow>
     (\<forall>v r. num v = Some r \<longrightarrow> num r = Some r \<and> ((\<exists>i. r = JInt i) \<or> (\<exists>s. r = JNumber s)))"

lemma float64_twice:
  assumes "float64_law num" and "num v = Some r"
  shows "numbers_fit num r" and "normal_json num r = r"
proof -
  have "num r = Some r" "(\<exists>i. r = JInt i) \<or> (\<exists>s. r = JNumber s)"
    using assms by (auto simp: float64_law_def)
  then show "numbers_fit num r" and "normal_json num r = r" by auto
qed

lemma object_of_members: "(k, v) \<in> set (object_of ms) \<Longrightarrow> (k, v) \<in> set ms"
proof -
  assume "(k, v) \<in> set (object_of ms)"
  then have "k \<in> set (map fst ms)" and v: "v = the (map_of (rev ms) k)" by (auto simp: object_of_def)
  then obtain v' where "map_of (rev ms) k = Some v'"
    using map_of_eq_None_iff[of "rev ms" k] by (cases "map_of (rev ms) k") auto
  with v show ?thesis by (auto dest: map_of_SomeD)
qed

lemma normal_json_fixed:
  "float64_law num \<Longrightarrow> numbers_fit num v \<Longrightarrow>
   numbers_fit num (normal_json num v) \<and> normal_json num (normal_json num v) = normal_json num v"
proof (induction num v rule: normal_json.induct)
  case (4 num ms)
  let ?ms = "object_of (map (\<lambda>m. (fst m, normal_json num (snd m))) ms)"
  have fixed: "numbers_fit num v \<and> normal_json num v = v" if "(k, v) \<in> set ?ms" for k v
  proof -
    obtain m where "m \<in> set ms" "v = normal_json num (snd m)" using object_of_members[OF \<open>(k, v) \<in> set ?ms\<close>] by auto
    then show ?thesis using 4 by simp
  qed
  have "map (\<lambda>m. (fst m, normal_json num (snd m))) ?ms = map id ?ms"
    by (rule map_cong) (use fixed in auto)
  then show ?case using fixed object_of_canonical[OF canonical_object_of] by auto
qed (auto dest: float64_twice)

lemma normalize_metadata_twice:
  assumes "float64_law num" and "normalize_metadata num raw = Inr m"
  shows "normalize_metadata num m = Inr m"
proof -
  obtain ms where "numbers_fit num (JObject ms)" and m: "m = RawJson (normal_json num (JObject ms))"
    using assms(2)
    by (auto simp: normalize_metadata_def intro: that[of "[]"] split: if_split_asm raw_json.split_asm json.split_asm)
  from normal_json_fixed[OF assms(1) this(1)] show ?thesis
    by (simp add: normalize_metadata_def m)
qed

definition input_of :: "CreateParams \<Rightarrow> CreateInput" where
  "input_of p =
     \<lparr>ci_IdempotencyKey = cp_IdempotencyKey p, ci_Chain = cp_Chain p, ci_AssetType = cp_AssetType p,
      ci_SourceWalletID = cp_SourceWalletID p, ci_DestinationAddress = cp_DestinationAddress p, ci_Amount = cp_Amount p,
      ci_CallbackURL = cp_CallbackURL p, ci_MetadataJSON = cp_MetadataJSON p\<rparr>"

lemma normalizeCreateInput_twice:
  assumes "float64_law (lib_float64 L)" and "normalizeCreateInput L input policy = Inr p"
  shows "normalizeCreateInput L (input_of p) policy = Inr p"
  using assms(2) normalize_metadata_twice[OF assms(1)]
  by (auto simp: normalizeCreateInput_def input_of_def Let_def split: if_split_asm option.split_asm sum.split_asm)

subsection \<open>The two policies agree\<close>

text \<open>
  The API checks a callback when it is requested and the dispatcher when it is sent, with code
  of their own; \<open>policy_of\<close> is the dispatcher's policy for the same configuration.
\<close>

definition policy_of :: "CallbackURLPolicy \<Rightarrow> TargetPolicy" where
  "policy_of policy = \<lparr>tp_AllowedHosts = cb_AllowedHosts policy, tp_AllowPrivateTargets = cb_AllowPrivateTargets policy\<rparr>"

lemma callback_normalizeHostname_eq: "callback_normalizeHostname = normalizeHostname"
  by (rule ext) (simp add: callback_normalizeHostname_def normalizeHostname_def)

lemma isAllowedCallbackHost_eq: "isAllowedCallbackHost host allowed = isAllowedTargetHost host allowed"
  by (induction allowed) (simp_all add: callback_normalizeHostname_eq)

lemma isLocalOrPrivateCallbackHost_eq:
  "isLocalOrPrivateCallbackHost host \<longleftrightarrow>
     isPrivateHostnameLabel (normalizeHostname host) \<or>
     (\<exists>ip. ParseIP (normalizeHostname host) = Some ip \<and> isPrivateOrLocalIP ip)"
  by (auto simp: isLocalOrPrivateCallbackHost_def isPrivateHostnameLabel_def isPrivateOrLocalIP_def Let_def
      callback_normalizeHostname_eq split: option.splits)

text \<open>
  \<open>Hostname\<close> never keeps a space at its ends or a trailing dot twice in practice; where it does,
  the API normalises once more than the dispatcher. For a host that one pass normalises, the
  dispatcher accepts what the API accepts, as far as the resolver lets it.
\<close>

lemma dispatch_accepts_callback:
  assumes "validateCallbackURLTarget u policy = None" and "u_Scheme u \<in> {''http'', ''https''}"
    and "normalizeHostname (normalizeHostname (Hostname u)) = normalizeHostname (Hostname u)"
    and "lookup (normalizeHostname (Hostname u)) = Inr addrs" and "addrs \<noteq> []"
    and "cb_AllowPrivateTargets policy \<or> (\<forall>a \<in> set addrs. \<not> isPrivateOrLocalIP (ia_IP a))"
  shows "validateDispatchTarget u (policy_of policy) lookup = None"
proof -
  have "\<exists>port. resolveTargetPort u = Inr port"
    using assms(2) by (auto simp: resolveTargetPort_def ToLower_def ascii_lower_def)
  then obtain port where port: "resolveTargetPort u = Inr port" ..
  have "find (\<lambda>a. isPrivateOrLocalIP (ia_IP a)) addrs = None" if "\<not> cb_AllowPrivateTargets policy"
    using assms(6) that by (auto simp: find_None_iff)
  then show ?thesis
    using assms(1,3-5) port
    by (auto simp: validateCallbackURLTarget_def validateDispatchTarget_def resolveDispatchTarget_def Let_def policy_of_def
        isAllowedCallbackHost_eq isLocalOrPrivateCallbackHost_eq callback_normalizeHostname_eq resolveTargetIPAddrs_def
        split: if_splits option.splits)
qed

lemma callback_accepts_dispatch:
  assumes "validateDispatchTarget u (policy_of policy) lookup = None"
    and "normalizeHostname (normalizeHostname (Hostname u)) = normalizeHostname (Hostname u)"
  shows "validateCallbackURLTarget u policy = None"
  using assms
  by (auto simp: validateCallbackURLTarget_def validateDispatchTarget_def resolveDispatchTarget_def Let_def policy_of_def
      isAllowedCallbackHost_eq isLocalOrPrivateCallbackHost_eq callback_normalizeHostname_eq
      split: if_splits option.splits sum.splits)

end
