(* ===== verification/Wallets.thy ===== *)
theory Wallets
  imports SystemSteps GoText
begin

text \<open>
  \<^verbatim>\<open>wallets/repository.go\<close>, \<^verbatim>\<open>wallets/postgres_repository.go\<close> and \<^verbatim>\<open>wallets/service.go\<close>:
  registration and reading of wallets. \<open>common.IsHexAddress\<close>, the checksummed form of an address
  (\<open>common.HexToAddress(a).Hex()\<close>) and \<open>uuid.Parse\<close> are parameters.
\<close>

record WalletCreateParams =
  wc_Chain :: string
  wc_Address :: string
  wc_Label :: string
  wc_SigningType :: string
  wc_Status :: string

record 'w WalletRepository =
  wal_Create :: "WalletCreateParams \<Rightarrow> ('w, Wallet) act"
  wal_GetByID :: "string \<Rightarrow> ('w, Wallet) act"
  wal_List :: "('w, Wallet list) act"

subsection \<open>Repository\<close>

definition wallet_active :: "Wallet \<Rightarrow> bool" where
  "wallet_active x \<longleftrightarrow> wa_Status x = WalletStatusActive"

text \<open>The key of the unique index on active wallets: chain and address in lower case.\<close>

definition wallet_key :: "Wallet \<Rightarrow> string \<times> string" where
  "wallet_key x = (wa_Chain x, ToLower (wa_Address x))"

definition wallet_row :: "pg \<Rightarrow> WalletCreateParams \<Rightarrow> db \<Rightarrow> Wallet" where
  "wallet_row pg p d =
     \<lparr>wa_ID = fresh_uuid pg d, wa_Chain = wc_Chain p, wa_Address = wc_Address p, wa_Label = wc_Label p,
      wa_SigningType = wc_SigningType p, wa_Status = wc_Status p, wa_CreatedAt = db_now d, wa_UpdatedAt = db_now d\<rparr>"

definition sql_insert_wallet :: "pg \<Rightarrow> WalletCreateParams \<Rightarrow> db \<Rightarrow> go_error + Wallet \<times> db" where
  "sql_insert_wallet pg p d =
     (let r = wallet_row pg p d in
      if wa_Status r \<notin> set [WalletStatusActive, WalletStatusInactive]
      then Inl (PgError ''23514'' ''chk_wallets_status'')
      else if \<exists>x \<in> set (wallets d). wa_ID x = wa_ID r then Inl (PgError ''23505'' ''wallets_pkey'')
      else if wallet_active r \<and> (\<exists>x \<in> set (wallets d). wallet_active x \<and> wallet_key x = wallet_key r)
      then Inl (PgError ''23505'' ''uq_wallets_active_chain_address'')
      else Inr (r, d\<lparr>wallets := wallets d @ [r], uuid_count := Suc (uuid_count d)\<rparr>))"

definition CreateWalletRow :: "pg \<Rightarrow> WalletCreateParams \<Rightarrow> (world, Wallet) act" where
  "CreateWalletRow pg p w =
     (let (f, w1) = enter w in
      case autocommit f (sql_insert_wallet pg p (w_db w1)) w1 of
        (Inl e, w2) \<Rightarrow>
          (case as_pg_error e of
             Some (code, _) \<Rightarrow>
               (Inl (if code = ''23505'' then Sentinel ErrDuplicateActiveWallet else Errorf ''create wallet'' e), w2)
           | None \<Rightarrow> (Inl (Errorf ''create wallet'' e), w2))
      | (Inr wallet, w2) \<Rightarrow> (Inr wallet, w2))"

definition sql_select_wallet :: "pg \<Rightarrow> string \<Rightarrow> db \<Rightarrow> go_error + Wallet" where
  "sql_select_wallet pg wid d =
     (case uuid_in pg wid of
        None \<Rightarrow> Inl (PgError ''22P02'' '''')
      | Some k \<Rightarrow>
          (case find (\<lambda>x. wa_ID x = k) (wallets d) of
             None \<Rightarrow> Inl (Sentinel ErrNoRows)
           | Some x \<Rightarrow> Inr x))"

definition GetWalletByID :: "pg \<Rightarrow> string \<Rightarrow> (world, Wallet) act" where
  "GetWalletByID pg wid w =
     (case query (sql_select_wallet pg wid) w of
        (Inl e, w1) \<Rightarrow>
          (Inl (if errors_is e ErrNoRows then Sentinel ErrWalletNotFound else Errorf ''get wallet by id'' e), w1)
      | (Inr x, w1) \<Rightarrow> (Inr x, w1))"

definition sql_list_wallets :: "db \<Rightarrow> go_error + Wallet list" where
  "sql_list_wallets d = Inr (sort_key (\<lambda>x. - wa_CreatedAt x) (wallets d))"

text \<open>The rows are read in a second driver call, whose error the loop reports.\<close>

definition List_wallets :: "(world, Wallet list) act" where
  "List_wallets w =
     (let (f, w1) = enter w in
      case driver 0 f (sql_list_wallets (w_db w1)) of
        Inl e \<Rightarrow> (Inl (Errorf ''list wallets'' e), w1)
      | Inr xs \<Rightarrow>
          (case fails_at 1 f of
             Some e \<Rightarrow> (Inl (Errorf ''iterate listed wallets'' e), w1)
           | None \<Rightarrow> (Inr xs, w1)))"

definition PostgresWallets :: "pg \<Rightarrow> world WalletRepository" where
  "PostgresWallets pg = \<lparr>wal_Create = CreateWalletRow pg, wal_GetByID = GetWalletByID pg, wal_List = List_wallets\<rparr>"

subsection \<open>Service\<close>

record wallet_libs =
  wl_uuid :: "string \<Rightarrow> bool"
  wl_IsHexAddress :: "string \<Rightarrow> bool"
  wl_Hex :: "string \<Rightarrow> string"

record WalletCreateInput =
  wi_Chain :: string
  wi_Address :: string
  wi_Label :: string
  wi_SigningType :: string
  wi_Status :: string

definition normalizeWalletInput :: "wallet_libs \<Rightarrow> WalletCreateInput \<Rightarrow> go_error + WalletCreateParams" where
  "normalizeWalletInput L input =
     (let chain = ToLower (TrimSpace (wi_Chain input)); address = TrimSpace (wi_Address input);
          label = TrimSpace (wi_Label input); signingType = ToLower (TrimSpace (wi_SigningType input));
          status0 = ToUpper (TrimSpace (wi_Status input));
          status = (if status0 = '''' then WalletStatusActive else status0)
      in
      if chain = '''' then Inl (WalletsValidationError ''chain'' ''is required'')
      else if address = '''' then Inl (WalletsValidationError ''address'' ''is required'')
      else if \<not> wl_IsHexAddress L address
      then Inl (WalletsValidationError ''address'' ''must be a valid EVM address'')
      else if label = '''' then Inl (WalletsValidationError ''label'' ''is required'')
      else if signingType = '''' then Inl (WalletsValidationError ''signing_type'' ''is required'')
      else if status \<noteq> WalletStatusActive \<and> status \<noteq> WalletStatusInactive
      then Inl (WalletsValidationError ''status'' ''must be ACTIVE or INACTIVE'')
      else Inr \<lparr>wc_Chain = chain, wc_Address = wl_Hex L address, wc_Label = label, wc_SigningType = signingType,
                wc_Status = status\<rparr>)"

definition CreateWallet :: "wallet_libs \<Rightarrow> 'w WalletRepository \<Rightarrow> WalletCreateInput \<Rightarrow> ('w, Wallet) act" where
  "CreateWallet L repository input w =
     (case normalizeWalletInput L input of
        Inl e \<Rightarrow> (Inl e, w)
      | Inr params \<Rightarrow> wal_Create repository params w)"

definition GetWallet :: "wallet_libs \<Rightarrow> 'w WalletRepository \<Rightarrow> string \<Rightarrow> ('w, Wallet) act" where
  "GetWallet L repository id0 w =
     (let wid = TrimSpace id0 in
      if wid = '''' then (Inl (WalletsValidationError ''id'' ''is required''), w)
      else if \<not> wl_uuid L wid then (Inl (WalletsValidationError ''id'' ''must be a valid UUID''), w)
      else wal_GetByID repository wid w)"

definition ListWallets :: "'w WalletRepository \<Rightarrow> ('w, Wallet list) act" where
  "ListWallets repository = wal_List repository"

subsection \<open>Invariant\<close>

definition wallets_inv :: "db \<Rightarrow> bool" where
  "wallets_inv d \<longleftrightarrow> distinct (map wa_ID (wallets d)) \<and> unique_on wallet_active wallet_key (wallets d) \<and>
     (\<forall>x \<in> set (wallets d). wa_Status x = WalletStatusActive \<or> wa_Status x = WalletStatusInactive)"

lemma sql_insert_walletD:
  assumes "sql_insert_wallet pg p d = Inr (x, d')"
  shows "x = wallet_row pg p d" and "d' = d\<lparr>wallets := wallets d @ [x], uuid_count := Suc (uuid_count d)\<rparr>"
    and "wallets_inv d \<Longrightarrow> wallets_inv d'"
  using assms
  by (auto simp: sql_insert_wallet_def Let_def wallets_inv_def unique_on_append1 notin_image_iff split: if_split_asm)

text \<open>A registration changes nothing but the wallets, and a wallet never leaves or changes.\<close>

lemma sql_insert_wallet_side: "sql_insert_wallet pg p d = Inr (x, d') \<Longrightarrow> side_step d d'"
  by (auto dest!: sql_insert_walletD(2) simp: side_step_def)

lemma CreateWalletRow_commits:
  assumes run: "CreateWalletRow pg p w = (r, w')"
  shows "w_db w' = seen_db w \<and> (\<exists>e. r = Inl e) \<or>
    sql_insert_wallet pg p (seen_db w) = Inr (wallet_row pg p (seen_db w), w_db w') \<and>
      (r = Inr (wallet_row pg p (seen_db w)) \<or> (\<exists>e. r = Inl e))"
proof -
  obtain f w1 where e: "enter w = (f, w1)" by (rule prod.exhaust)
  have seen: "seen_db w = w_db w1" by (simp add: seen_db_def e)
  show ?thesis
  proof (cases "sql_insert_wallet pg p (w_db w1)")
    case (Inl err)
    then show ?thesis
      using run e seen by (auto simp: CreateWalletRow_def autocommit_def driver_def split: sum.splits option.splits)
  next
    case (Inr xd)
    then obtain d where d: "sql_insert_wallet pg p (w_db w1) = Inr (wallet_row pg p (w_db w1), d)"
      using sql_insert_walletD(1)[of pg p "w_db w1"] by (cases xd) auto
    then show ?thesis
      using run e seen
      by (auto simp: CreateWalletRow_def autocommit_def split: sum.splits option.splits if_splits)
  qed
qed

lemma CreateWalletRow_duplicate:
  assumes "quiet w" and "\<exists>x \<in> set (wallets (w_db w)). wallet_active x \<and> wallet_key x = (wc_Chain p, ToLower (wc_Address p))"
    and "wc_Status p = WalletStatusActive"
  shows "CreateWalletRow pg p w = (Inl (Sentinel ErrDuplicateActiveWallet), w)"
proof -
  have "\<exists>constraint. sql_insert_wallet pg p (w_db w) = Inl (PgError ''23505'' constraint)"
    using assms(2,3) by (auto simp: sql_insert_wallet_def wallet_row_def wallet_active_def wallet_key_def Let_def)
  then show ?thesis using assms(1) by (auto simp: CreateWalletRow_def autocommit_def driver_def fails_at_def)
qed

end
