(* ===== verification/Reconciliation.thy ===== *)
theory Reconciliation
  imports SystemSteps
begin

text \<open>
  \<^verbatim>\<open>reconciliation/\<close>: the candidates are the transfers with a transaction hash; each is compared
  with the receipt its checker reports, and the verdict is stored. SHA-256 is a parameter of the
  placeholder checker. The locale \<open>reconciliation_store\<close> states what the service relies on; the
  interpretation \<open>pgr\<close> shows that PostgreSQL provides it. The stored results are an abstract map
  from transfers to their latest verdict (\<open>verdicts\<close>), which \<open>CreateResult\<close> updates and
  \<open>ListLatestMismatches\<close> reads.
\<close>

record CandidateTransfer =
  ct_TransferID :: string
  ct_Chain :: string
  ct_TxHash :: string
  ct_InternalStatus :: string

record RunResult =
  rn_CheckedCount :: int
  rn_MismatchCount :: int
  rn_MatchedCount :: int

record CreateResultParams =
  cr_TransferRequestID :: string
  cr_TxHash :: string
  cr_InternalStatus :: string
  cr_BlockchainStatus :: string
  cr_IsMismatch :: bool
  cr_Notes :: string
  cr_TriggerSource :: string

record 'w ReconciliationRepository =
  rec_ListCandidates :: "('w, CandidateTransfer list) act"
  rec_CreateResult :: "CreateResultParams \<Rightarrow> ('w, ReconciliationResult) act"
  rec_ListLatestMismatches :: "('w, ReconciliationResult list) act"

subsection \<open>checker.go\<close>

definition PlaceholderReceiptChecker :: "(string \<Rightarrow> 8 word list) \<Rightarrow> string \<Rightarrow> string \<Rightarrow> ('w, string) act" where
  "PlaceholderReceiptChecker sha256 chain txHash w =
     (if txHash = '''' then (Inr ReceiptStatusNotFound, w)
      else (let sum = sha256 txHash in
            if unat (sum ! 0) mod 3 = 0 then (Inr ReceiptStatusPending, w)
            else if unat (sum ! 0) mod 3 = 1 then (Inr ReceiptStatusConfirmed, w)
            else (Inr ReceiptStatusFailed, w)))"

subsection \<open>Repository\<close>

definition candidate_statuses :: "string list" where
  "candidate_statuses = [StatusSubmitted, StatusPendingOnChain, StatusConfirmed, StatusFailed]"

definition candidate_of :: "Transfer \<Rightarrow> CandidateTransfer" where
  "candidate_of t = \<lparr>ct_TransferID = tr_ID t, ct_Chain = tr_Chain t, ct_TxHash = tr_TxHash t, ct_InternalStatus = tr_Status t\<rparr>"

definition sql_list_candidates :: "db \<Rightarrow> CandidateTransfer list" where
  "sql_list_candidates d =
     map candidate_of (sort_key (\<lambda>t. - tr_UpdatedAt t)
       (filter (\<lambda>t. tr_TxHash t \<noteq> '''' \<and> tr_Status t \<in> set candidate_statuses) (transfer_requests d)))"

definition ListCandidates :: "(world, CandidateTransfer list) act" where
  "ListCandidates w =
     (let (f, w1) = enter w in
      case driver 0 f (Inr (sql_list_candidates (w_db w1))) of
        Inl e \<Rightarrow> (Inl (Errorf ''list reconciliation candidates'' e), w1)
      | Inr candidates \<Rightarrow>
          (case fails_at 1 f of
             Some e \<Rightarrow> (Inl (Errorf ''iterate reconciliation candidates'' e), w1)
           | None \<Rightarrow> (Inr candidates, w1)))"

definition result_row :: "pg \<Rightarrow> CreateResultParams \<Rightarrow> string \<Rightarrow> db \<Rightarrow> ReconciliationResult" where
  "result_row pg p tid d =
     \<lparr>rr_ID = fresh_uuid pg d, rr_TransferRequestID = tid, rr_TxHash = cr_TxHash p,
      rr_InternalStatus = cr_InternalStatus p, rr_BlockchainStatus = cr_BlockchainStatus p,
      rr_IsMismatch = cr_IsMismatch p, rr_Notes = cr_Notes p, rr_CheckedAt = db_now d,
      rr_TriggerSource = cr_TriggerSource p\<rparr>"

definition sql_insert_result :: "pg \<Rightarrow> CreateResultParams \<Rightarrow> db \<Rightarrow> go_error + ReconciliationResult \<times> db" where
  "sql_insert_result pg p d =
     (case uuid_in pg (cr_TransferRequestID p) of
        None \<Rightarrow> Inl (PgError ''22P02'' '''')
      | Some tid \<Rightarrow>
          if \<exists>x \<in> set (reconciliation_results d). rr_ID x = fresh_uuid pg d
          then Inl (PgError ''23505'' ''reconciliation_results_pkey'')
          else if \<not> (\<exists>t \<in> set (transfer_requests d). tr_ID t = tid)
          then Inl (PgError ''23503'' ''reconciliation_results_transfer_request_id_fkey'')
          else (let r = result_row pg p tid d
                in Inr (r, d\<lparr>reconciliation_results := reconciliation_results d @ [r],
                             uuid_count := Suc (uuid_count d)\<rparr>)))"

definition CreateResult :: "pg \<Rightarrow> CreateResultParams \<Rightarrow> (world, ReconciliationResult) act" where
  "CreateResult pg p w =
     (let (f, w1) = enter w in
      case autocommit f (sql_insert_result pg p (w_db w1)) w1 of
        (Inl e, w2) \<Rightarrow> (Inl (Errorf ''create reconciliation result'' e), w2)
      | (Inr r, w2) \<Rightarrow> (Inr r, w2))"

text \<open>
  \<open>SELECT DISTINCT ON (transfer_request_id) ... ORDER BY checked_at DESC\<close>: the latest result of
  each transfer. \<open>created_at\<close> is set with \<open>checked_at\<close>, so it decides nothing; among results of
  the same instant the server may choose, here it takes the first.
\<close>

definition latest_result :: "string \<Rightarrow> ReconciliationResult list \<Rightarrow> ReconciliationResult option" where
  "latest_result tid rs =
     (case sort_key (\<lambda>r. - rr_CheckedAt r) (filter (\<lambda>r. rr_TransferRequestID r = tid) rs) of
        [] \<Rightarrow> None
      | r # _ \<Rightarrow> Some r)"

definition sql_latest_mismatches :: "db \<Rightarrow> ReconciliationResult list" where
  "sql_latest_mismatches d =
     sort_key (\<lambda>r. - rr_CheckedAt r) (filter rr_IsMismatch
       (List.map_filter (\<lambda>tid. latest_result tid (reconciliation_results d))
          (remdups (map rr_TransferRequestID (reconciliation_results d)))))"

definition ListLatestMismatches :: "(world, ReconciliationResult list) act" where
  "ListLatestMismatches w =
     (let (f, w1) = enter w in
      case driver 0 f (Inr (sql_latest_mismatches (w_db w1))) of
        Inl e \<Rightarrow> (Inl (Errorf ''list reconciliation mismatches'' e), w1)
      | Inr results \<Rightarrow>
          (case fails_at 1 f of
             Some e \<Rightarrow> (Inl (Errorf ''iterate reconciliation mismatches'' e), w1)
           | None \<Rightarrow> (Inr results, w1)))"

definition PostgresReconciliation :: "pg \<Rightarrow> world ReconciliationRepository" where
  "PostgresReconciliation pg =
     \<lparr>rec_ListCandidates = ListCandidates, rec_CreateResult = CreateResult pg,
      rec_ListLatestMismatches = ListLatestMismatches\<rparr>"

subsection \<open>Service\<close>

definition compareStatuses :: "string \<Rightarrow> string \<Rightarrow> bool \<times> string" where
  "compareStatuses internalStatus blockchainStatus =
     (if internalStatus = StatusSubmitted \<or> internalStatus = StatusPendingOnChain
      then (if blockchainStatus = ReceiptStatusPending \<or> blockchainStatus = ReceiptStatusNotFound then (False, '''')
            else if blockchainStatus = ReceiptStatusConfirmed
            then (True, ''internal status '' @ internalStatus @ '' but blockchain receipt is CONFIRMED'')
            else if blockchainStatus = ReceiptStatusFailed
            then (True, ''internal status '' @ internalStatus @ '' but blockchain receipt is FAILED'')
            else (False, ''''))
      else if internalStatus = StatusConfirmed
      then (if blockchainStatus = ReceiptStatusConfirmed then (False, '''')
            else (True, ''internal status CONFIRMED but blockchain receipt is '' @ blockchainStatus))
      else if internalStatus = StatusFailed
      then (if blockchainStatus = ReceiptStatusFailed \<or> blockchainStatus = ReceiptStatusNotFound then (False, '''')
            else if blockchainStatus = ReceiptStatusPending \<or> blockchainStatus = ReceiptStatusConfirmed
            then (True, ''internal status FAILED but blockchain receipt is '' @ blockchainStatus)
            else (False, ''''))
      else (False, ''''))"

definition result_params :: "string \<Rightarrow> CandidateTransfer \<Rightarrow> string \<Rightarrow> CreateResultParams" where
  "result_params triggerSource candidate receiptStatus =
     \<lparr>cr_TransferRequestID = ct_TransferID candidate, cr_TxHash = ct_TxHash candidate,
      cr_InternalStatus = ct_InternalStatus candidate, cr_BlockchainStatus = receiptStatus,
      cr_IsMismatch = fst (compareStatuses (ct_InternalStatus candidate) receiptStatus),
      cr_Notes = snd (compareStatuses (ct_InternalStatus candidate) receiptStatus),
      cr_TriggerSource = triggerSource\<rparr>"

fun check_candidates ::
  "'w ReconciliationRepository \<Rightarrow> (string \<Rightarrow> string \<Rightarrow> ('w, string) act) \<Rightarrow> string \<Rightarrow> CandidateTransfer list \<Rightarrow> RunResult \<Rightarrow>
   ('w, RunResult) act" where
  "check_candidates R checker triggerSource [] result w = (Inr result, w)"
| "check_candidates R checker triggerSource (candidate # candidates) result w =
     (case checker (ct_Chain candidate) (ct_TxHash candidate) w of
        (Inl e, w1) \<Rightarrow> (Inl (Errorf (''check receipt for transfer '' @ ct_TransferID candidate) e), w1)
      | (Inr receiptStatus, w1) \<Rightarrow>
          (let params = result_params triggerSource candidate receiptStatus in
           case rec_CreateResult R params w1 of
             (Inl e, w2) \<Rightarrow> (Inl e, w2)
           | (Inr _, w2) \<Rightarrow>
               check_candidates R checker triggerSource candidates
                 (if cr_IsMismatch params
                  then result\<lparr>rn_CheckedCount := rn_CheckedCount result + 1, rn_MismatchCount := rn_MismatchCount result + 1\<rparr>
                  else result\<lparr>rn_CheckedCount := rn_CheckedCount result + 1, rn_MatchedCount := rn_MatchedCount result + 1\<rparr>)
                 w2))"

definition Run ::
  "'w ReconciliationRepository \<Rightarrow> (string \<Rightarrow> string \<Rightarrow> ('w, string) act) \<Rightarrow> string \<Rightarrow> ('w, RunResult) act" where
  "Run R checker triggerSource0 w =
     (let triggerSource = (if triggerSource0 = '''' then ''manual'' else triggerSource0) in
      case rec_ListCandidates R w of
        (Inl e, w1) \<Rightarrow> (Inl e, w1)
      | (Inr candidates, w1) \<Rightarrow>
          check_candidates R checker triggerSource candidates
            \<lparr>rn_CheckedCount = 0, rn_MismatchCount = 0, rn_MatchedCount = 0\<rparr> w1)"

definition Service_ListLatestMismatches :: "'w ReconciliationRepository \<Rightarrow> ('w, ReconciliationResult list) act" where
  "Service_ListLatestMismatches R = rec_ListLatestMismatches R"

subsection \<open>What the service relies on\<close>

text \<open>The row a request to store a result asks for.\<close>

definition records :: "CreateResultParams \<Rightarrow> ReconciliationResult \<Rightarrow> bool" where
  "records p r \<longleftrightarrow>
     rr_TransferRequestID r = cr_TransferRequestID p \<and> rr_TxHash r = cr_TxHash p \<and>
     rr_InternalStatus r = cr_InternalStatus p \<and> rr_BlockchainStatus r = cr_BlockchainStatus p \<and>
     rr_IsMismatch r = cr_IsMismatch p \<and> rr_Notes r = cr_Notes p \<and> rr_TriggerSource r = cr_TriggerSource p"

definition counted :: "ReconciliationResult list \<Rightarrow> RunResult" where
  "counted rs =
     \<lparr>rn_CheckedCount = int (length rs), rn_MismatchCount = int (length (filter rr_IsMismatch rs)),
      rn_MatchedCount = int (length (filter (\<lambda>r. \<not> rr_IsMismatch r) rs))\<rparr>"

locale reconciliation_store =
  fixes R :: "'w ReconciliationRepository"
    and ok :: "'w \<Rightarrow> bool"
    and candidates :: "'w \<Rightarrow> CandidateTransfer list"
    and results :: "'w \<Rightarrow> ReconciliationResult list"
  assumes lists: "ok w \<Longrightarrow> rec_ListCandidates R w = (Inr (candidates w), w)"
    and creates: "ok w \<Longrightarrow> cr_TransferRequestID p \<in> ct_TransferID ` set (candidates w) \<Longrightarrow>
          \<exists>r w'. rec_CreateResult R p w = (Inr r, w') \<and> ok w' \<and> candidates w' = candidates w \<and>
             results w' = results w @ [r] \<and> records p r"
begin

lemma check_all:
  assumes "ok w" and "set cs \<subseteq> set (candidates w)" and "\<And>chain h w. checker chain h w = (Inr (receipt chain h), w)"
  shows "\<exists>new w'. check_candidates R checker trigger cs (counted seen) w = (Inr (counted (seen @ new)), w') \<and>
    ok w' \<and> results w' = results w @ new \<and>
    list_all2 (\<lambda>c r. records (result_params trigger c (receipt (ct_Chain c) (ct_TxHash c))) r) cs new"
  using assms(1,2)
proof (induction cs arbitrary: seen w)
  case Nil
  then show ?case by (intro exI[of _ "[]"] exI[of _ w]) simp
next
  case (Cons c cs)
  let ?p = "result_params trigger c (receipt (ct_Chain c) (ct_TxHash c))"
  have "cr_TransferRequestID ?p \<in> ct_TransferID ` set (candidates w)"
    using Cons.prems(2) by (simp add: result_params_def)
  from creates[OF Cons.prems(1) this] obtain r w1 where r: "rec_CreateResult R ?p w = (Inr r, w1)" "ok w1"
    "candidates w1 = candidates w" "results w1 = results w @ [r]" "records ?p r" by blast
  have "set cs \<subseteq> set (candidates w1)" using Cons.prems(2) r(3) by simp
  from Cons.IH[OF r(2) this, of "seen @ [r]"] obtain new w' where
    new: "check_candidates R checker trigger cs (counted (seen @ [r])) w1 = (Inr (counted ((seen @ [r]) @ new)), w')"
      "ok w'" "results w' = results w1 @ new"
      "list_all2 (\<lambda>c r. records (result_params trigger c (receipt (ct_Chain c) (ct_TxHash c))) r) cs new" by blast
  have count: "counted (seen @ [r]) =
      (if cr_IsMismatch ?p
       then (counted seen)\<lparr>rn_CheckedCount := rn_CheckedCount (counted seen) + 1, rn_MismatchCount := rn_MismatchCount (counted seen) + 1\<rparr>
       else (counted seen)\<lparr>rn_CheckedCount := rn_CheckedCount (counted seen) + 1, rn_MatchedCount := rn_MatchedCount (counted seen) + 1\<rparr>)"
    using r(5) by (simp add: counted_def records_def)
  show ?case
    by (intro exI[of _ "r # new"] exI[of _ w']) (use new r assms(3)[of "ct_Chain c" "ct_TxHash c" w] in \<open>simp add: Let_def count[symmetric]\<close>)
qed

lemma Run_checks_all:
  assumes "ok w" and "\<And>chain h w. checker chain h w = (Inr (receipt chain h), w)"
    and "trigger = (if trigger0 = '''' then ''manual'' else trigger0)"
  shows "\<exists>new w'. Run R checker trigger0 w = (Inr (counted new), w') \<and> ok w' \<and> results w' = results w @ new \<and>
    list_all2 (\<lambda>c r. records (result_params trigger c (receipt (ct_Chain c) (ct_TxHash c))) r) (candidates w) new"
proof -
  have "counted [] = \<lparr>rn_CheckedCount = 0, rn_MismatchCount = 0, rn_MatchedCount = 0\<rparr>" by (simp add: counted_def)
  with check_all[OF assms(1) order.refl assms(2), where trigger = trigger and seen = "[]"] lists[OF assms(1)] show ?thesis
    by (auto simp: Run_def Let_def assms(3))
qed

end

subsection \<open>The checker that ships\<close>

text \<open>It never fails, does not depend on the chain, and touches no state.\<close>

definition placeholder_receipt :: "(string \<Rightarrow> 8 word list) \<Rightarrow> string \<Rightarrow> string" where
  "placeholder_receipt sha256 h =
     (if h = '''' then ReceiptStatusNotFound
      else [ReceiptStatusPending, ReceiptStatusConfirmed, ReceiptStatusFailed] ! (unat (sha256 h ! 0) mod 3))"

lemma PlaceholderReceiptChecker_eq: "PlaceholderReceiptChecker sha256 chain h w = (Inr (placeholder_receipt sha256 h), w)"
proof -
  have "unat (sha256 h ! 0) mod 3 \<in> {0, 1, 2}" by auto
  then show ?thesis by (auto simp: PlaceholderReceiptChecker_def placeholder_receipt_def Let_def)
qed

subsection \<open>PostgreSQL provides it\<close>

text \<open>No other session is at work, and generated identifiers are new.\<close>

definition reconciliation_ready :: "pg \<Rightarrow> world \<Rightarrow> bool" where
  "reconciliation_ready pg w \<longleftrightarrow> quiet w \<and> canonical_ids pg (w_db w) \<and> inj (gen_random_uuid pg) \<and>
     (\<forall>r \<in> set (reconciliation_results (w_db w)). rr_ID r \<in> gen_random_uuid pg ` {..<uuid_count (w_db w)})"

lemma CreateResult_quiet:
  assumes "reconciliation_ready pg w" and "cr_TransferRequestID p \<in> ct_TransferID ` set (sql_list_candidates (w_db w))"
  shows "CreateResult pg p w =
      (Inr (result_row pg p (cr_TransferRequestID p) (w_db w)),
       w\<lparr>w_db := (w_db w)\<lparr>reconciliation_results := reconciliation_results (w_db w) @
           [result_row pg p (cr_TransferRequestID p) (w_db w)], uuid_count := Suc (uuid_count (w_db w))\<rparr>\<rparr>)"
proof -
  let ?d = "w_db w" and ?tid = "cr_TransferRequestID p"
  have t: "\<exists>t \<in> set (transfer_requests ?d). tr_ID t = ?tid"
    using assms(2) by (auto simp: sql_list_candidates_def candidate_of_def)
  then have "uuid_in pg ?tid = Some ?tid"
    using assms(1) by (auto simp: reconciliation_ready_def canonical_ids_def)
  moreover have "\<not> (\<exists>x \<in> set (reconciliation_results ?d). rr_ID x = fresh_uuid pg ?d)"
    using assms(1) by (fastforce simp: reconciliation_ready_def fresh_uuid_def inj_def)
  ultimately show ?thesis
    using assms(1) t by (simp add: CreateResult_def sql_insert_result_def reconciliation_ready_def Let_def)
qed

interpretation pgr: reconciliation_store "PostgresReconciliation pg" "reconciliation_ready pg"
  "\<lambda>w. sql_list_candidates (w_db w)" "\<lambda>w. reconciliation_results (w_db w)"
proof (unfold_locales, goal_cases)
  case (1 w)
  then show ?case by (simp add: PostgresReconciliation_def ListCandidates_def reconciliation_ready_def)
next
  case (2 w p)
  let ?r = "result_row pg p (cr_TransferRequestID p) (w_db w)"
  let ?w = "w\<lparr>w_db := (w_db w)\<lparr>reconciliation_results := reconciliation_results (w_db w) @ [?r], uuid_count := Suc (uuid_count (w_db w))\<rparr>\<rparr>"
  have "reconciliation_ready pg ?w"
    using 2(1) by (fastforce simp: reconciliation_ready_def canonical_ids_def result_row_def fresh_uuid_def lessThan_Suc)
  then show ?case
    using CreateResult_quiet[OF 2]
    by (intro exI[of _ ?r] exI[of _ ?w])
      (simp add: PostgresReconciliation_def records_def result_row_def sql_list_candidates_def)
qed

subsection \<open>Results as a map of verdicts\<close>

definition verdicts :: "db \<Rightarrow> string \<Rightarrow> ReconciliationResult option" where
  "verdicts d = (\<lambda>tid. latest_result tid (reconciliation_results d))"

text \<open>Every earlier result of the transfer was checked before now.\<close>

definition clock_advanced :: "string \<Rightarrow> db \<Rightarrow> bool" where
  "clock_advanced tid d \<longleftrightarrow>
     (\<forall>r \<in> set (reconciliation_results d). rr_TransferRequestID r = tid \<longrightarrow> rr_CheckedAt r < db_now d)"

lemma insort_key_first: "\<forall>y \<in> set xs. f x < f y \<Longrightarrow> insort_key f x xs = x # xs"
  by (cases xs) auto

lemma sort_key_append_least:
  "\<forall>y \<in> set xs. f x < f y \<Longrightarrow> sort_key f (xs @ [x]) = x # sort_key f xs"
proof (induction xs)
  case (Cons y xs)
  then show ?case by (auto simp: not_le)
qed simp

lemma latest_result_append:
  assumes "rr_TransferRequestID r = k" and "\<forall>x \<in> set rs. rr_TransferRequestID x = k \<longrightarrow> rr_CheckedAt x < rr_CheckedAt r"
  shows "latest_result tid (rs @ [r]) = (if tid = k then Some r else latest_result tid rs)"
  using assms sort_key_append_least[of "filter (\<lambda>x. rr_TransferRequestID x = k) rs" "\<lambda>x. - rr_CheckedAt x" r]
  by (auto simp: latest_result_def)

lemma insert_result_updates_verdicts:
  assumes "sql_insert_result pg p d = Inr (r, d')" and "clock_advanced (rr_TransferRequestID r) d"
  shows "verdicts d' = (verdicts d)(rr_TransferRequestID r \<mapsto> r)"
proof -
  have r: "reconciliation_results d' = reconciliation_results d @ [r]" and now: "rr_CheckedAt r = db_now d"
    using assms(1) by (auto simp: sql_insert_result_def result_row_def Let_def split: option.splits if_split_asm)
  then show ?thesis
    using latest_result_append[of r "rr_TransferRequestID r" "reconciliation_results d"] assms(2)
    by (auto simp: verdicts_def clock_advanced_def)
qed

lemma latest_result_in:
  assumes "latest_result tid rs = Some r"
  shows "r \<in> set rs \<and> rr_TransferRequestID r = tid"
proof -
  obtain ys where "sort_key (\<lambda>r. - rr_CheckedAt r) (filter (\<lambda>r. rr_TransferRequestID r = tid) rs) = r # ys"
    using assms by (auto simp: latest_result_def split: list.splits)
  then have "r \<in> set (sort_key (\<lambda>r. - rr_CheckedAt r) (filter (\<lambda>r. rr_TransferRequestID r = tid) rs))" by simp
  then show ?thesis unfolding set_sort by simp
qed

lemma latest_mismatches_verdicts:
  "set (sql_latest_mismatches d) = {r. verdicts d (rr_TransferRequestID r) = Some r \<and> rr_IsMismatch r}"
proof -
  let ?rs = "reconciliation_results d"
  have "r \<in> set (List.map_filter (\<lambda>tid. latest_result tid ?rs) (remdups (map rr_TransferRequestID ?rs))) \<longleftrightarrow>
      latest_result (rr_TransferRequestID r) ?rs = Some r" (is "?in \<longleftrightarrow> ?latest") for r
  proof
    assume ?in
    then obtain tid where "latest_result tid ?rs = Some r" by (auto simp: List.map_filter_def)
    with latest_result_in[OF this] show ?latest by simp
  next
    assume ?latest
    with latest_result_in[OF this] show ?in by (force simp: List.map_filter_def)
  qed
  then show ?thesis by (auto simp: sql_latest_mismatches_def verdicts_def)
qed

end
