(* ===== verification/Lock.thy ===== *)
theory Lock
  imports Driver
begin

text \<open>
  \<^verbatim>\<open>transfers/lock.go\<close>: the processing lock in Redis. A key holds a token until it expires; the
  two scripts compare the token before they delete the key or extend its life, in one atomic
  command. A command fails when the context is done or as \<open>w_redis_outcomes\<close> says (the flag
  tells whether the server ran it although the reply was lost). Tokens come from
  \<open>uuid.NewString\<close>, a parameter. The locale \<open>processing_locker\<close> is the contract of the
  \<open>ProcessingLocker\<close> and \<open>ProcessingLock\<close> interfaces.
\<close>

record ProcessingLock =
  pl_key :: string
  pl_token :: string

record ProcessingLocker =
  lk_Acquire :: "string \<Rightarrow> duration \<Rightarrow> (world, ProcessingLock option \<times> bool) act"
  lk_Refresh :: "ProcessingLock \<Rightarrow> duration \<Rightarrow> (world, unit) act"
  lk_Release :: "ProcessingLock \<Rightarrow> (world, unit) act"

definition defaultProcessingLockPrefix :: string where
  "defaultProcessingLockPrefix = ''aegis:transfers:processing:''"

text \<open>The token a key holds now.\<close>

definition redis_get :: "string \<Rightarrow> world \<Rightarrow> string option" where
  "redis_get key w =
     (case w_redis w key of
        Some (token, expiry) \<Rightarrow> if w_clock w < expiry then Some token else None
      | None \<Rightarrow> None)"

text \<open>One command: \<open>f\<close> is what the server does.\<close>

definition redis_command :: "(world \<Rightarrow> 'a \<times> (string \<Rightarrow> (string \<times> go_time) option)) \<Rightarrow> (world, 'a) act" where
  "redis_command f w =
     (case w_ctx w of
        Some e \<Rightarrow> (Inl e, w)
      | None \<Rightarrow>
          (let (x, keys) = f w in
           case w_redis_outcomes w of
             [] \<Rightarrow> (Inr x, w\<lparr>w_redis := keys\<rparr>)
           | None # os \<Rightarrow> (Inr x, w\<lparr>w_redis := keys, w_redis_outcomes := os\<rparr>)
           | Some (e, applied) # os \<Rightarrow>
               (Inl e, w\<lparr>w_redis := (if applied then keys else w_redis w), w_redis_outcomes := os\<rparr>)))"

definition milliseconds :: "duration \<Rightarrow> int" where
  "milliseconds d = (if sint d < 0 then - (- sint d div 1000000) else sint d div 1000000)"

text \<open>\<open>SET key token NX\<close> with a life of at least a millisecond (the client rounds up).\<close>

definition redis_setnx :: "string \<Rightarrow> string \<Rightarrow> duration \<Rightarrow> (world, bool) act" where
  "redis_setnx key token ttl =
     redis_command (\<lambda>w. if redis_get key w = None
       then (True, (w_redis w)(key \<mapsto> (token, w_clock w + max 1 (milliseconds ttl) * 1000000)))
       else (False, w_redis w))"

definition releaseProcessingLockScript :: "string \<Rightarrow> string \<Rightarrow> (world, int) act" where
  "releaseProcessingLockScript key token =
     redis_command (\<lambda>w. if redis_get key w = Some token then (1, (w_redis w)(key := None)) else (0, w_redis w))"

text \<open>\<open>PEXPIRE\<close> with a life that is not positive deletes the key.\<close>

definition refreshProcessingLockScript :: "string \<Rightarrow> string \<Rightarrow> int \<Rightarrow> (world, int) act" where
  "refreshProcessingLockScript key token ms =
     redis_command (\<lambda>w. if redis_get key w = Some token
       then (1, (w_redis w)(key := if ms \<le> 0 then None else Some (token, w_clock w + ms * 1000000)))
       else (0, w_redis w))"

record RedisProcessingLocker =
  rl_client :: bool
  rl_prefix :: string

definition NewRedisProcessingLocker :: "bool \<Rightarrow> string \<Rightarrow> RedisProcessingLocker" where
  "NewRedisProcessingLocker client prefix =
     \<lparr>rl_client = client, rl_prefix = (if prefix = '''' then defaultProcessingLockPrefix else prefix)\<rparr>"

definition lock_ttl :: "duration \<Rightarrow> duration" where
  "lock_ttl ttl = (if sint ttl \<le> 0 then 30 * Second else ttl)"

definition Acquire ::
  "(nat \<Rightarrow> string) \<Rightarrow> RedisProcessingLocker option \<Rightarrow> string \<Rightarrow> duration \<Rightarrow>
   (world, ProcessingLock option \<times> bool) act" where
  "Acquire new_uuid l transferID ttl w =
     (case l of
        None \<Rightarrow> (Inr (None, True), w)
      | Some lk \<Rightarrow>
          if \<not> rl_client lk then (Inr (None, True), w)
          else
            (let key = rl_prefix lk @ transferID;
                 token = new_uuid (w_uuids w);
                 w0 = w\<lparr>w_uuids := Suc (w_uuids w)\<rparr>
             in case redis_setnx key token (lock_ttl ttl) w0 of
                  (Inl e, w1) \<Rightarrow> (Inl (Errorf ''acquire redis processing lock'' e), w1)
                | (Inr acquired, w1) \<Rightarrow>
                    (Inr (if acquired then (Some \<lparr>pl_key = key, pl_token = token\<rparr>, True) else (None, False)), w1)))"

definition Release :: "ProcessingLock \<Rightarrow> (world, unit) act" where
  "Release l w =
     (case releaseProcessingLockScript (pl_key l) (pl_token l) w of
        (Inl e, w1) \<Rightarrow> (Inl (Errorf ''release redis processing lock'' e), w1)
      | (Inr _, w1) \<Rightarrow> (Inr (), w1))"

definition Refresh :: "ProcessingLock \<Rightarrow> duration \<Rightarrow> (world, unit) act" where
  "Refresh l ttl w =
     (case refreshProcessingLockScript (pl_key l) (pl_token l) (milliseconds (lock_ttl ttl)) w of
        (Inl e, w1) \<Rightarrow> (Inl (Errorf ''refresh redis processing lock'' e), w1)
      | (Inr result, w1) \<Rightarrow>
          if result = 0 then (Inl (Sentinel ErrProcessingLockLost), w1) else (Inr (), w1))"

definition RedisLocker :: "(nat \<Rightarrow> string) \<Rightarrow> RedisProcessingLocker option \<Rightarrow> ProcessingLocker" where
  "RedisLocker new_uuid l =
     \<lparr>lk_Acquire = Acquire new_uuid l, lk_Refresh = Refresh, lk_Release = Release\<rparr>"

subsection \<open>The contract\<close>

text \<open>Everything but Redis and the token counter.\<close>

definition same_but_redis :: "world \<Rightarrow> world \<Rightarrow> bool" where
  "same_but_redis w w' \<longleftrightarrow>
     w_db w' = w_db w \<and> w_sched w' = w_sched w \<and> w_ctx w' = w_ctx w \<and> w_clock w' = w_clock w \<and>
     w_signed w' = w_signed w \<and> w_broadcasts w' = w_broadcasts w \<and> w_published w' = w_published w \<and>
     w_amqp_outcomes w' = w_amqp_outcomes w \<and> w_amqp_closed w' = w_amqp_closed w \<and>
     w_channels w' = w_channels w \<and> w_settled w' = w_settled w \<and> w_heartbeat w' = w_heartbeat w \<and>
     w_waits w' = w_waits w \<and> w_posted w' = w_posted w"

text \<open>Whatever a worker does with a lock it was given once.\<close>

datatype lock_op = RefreshLock duration | ReleaseLock

fun lock_ops :: "ProcessingLocker \<Rightarrow> ProcessingLock \<Rightarrow> lock_op list \<Rightarrow> world \<Rightarrow> world" where
  "lock_ops L l [] w = w"
| "lock_ops L l (RefreshLock ttl # ops) w = lock_ops L l ops (snd (lk_Refresh L l ttl w))"
| "lock_ops L l (ReleaseLock # ops) w = lock_ops L l ops (snd (lk_Release L l w))"

locale processing_locker =
  fixes L :: ProcessingLocker
  assumes acquire_frame: "lk_Acquire L tid ttl w = (ra, w') \<Longrightarrow> same_but_redis w w'"
    and refresh_frame: "lk_Refresh L l ttl w = (ru, w') \<Longrightarrow> same_but_redis w w'"
    and release_frame: "lk_Release L l w = (ru, w') \<Longrightarrow> same_but_redis w w'"
    and acquired_holds: "lk_Acquire L tid ttl w = (Inr (Some l, b), w') \<Longrightarrow>
          b \<and> redis_get (pl_key l) w = None \<and> redis_get (pl_key l) w' = Some (pl_token l)"
    and refused_held: "lk_Acquire L tid ttl w = (Inr (None, False), w') \<Longrightarrow> w_redis w' = w_redis w"
    and refresh_fenced: "redis_get (pl_key l) w \<noteq> Some (pl_token l) \<Longrightarrow>
          lk_Refresh L l ttl w = (ru, w') \<Longrightarrow> w_redis w' = w_redis w \<and> (\<exists>e. ru = Inl e)"
    and release_fenced: "redis_get (pl_key l) w \<noteq> Some (pl_token l) \<Longrightarrow>
          lk_Release L l w = (ru, w') \<Longrightarrow> w_redis w' = w_redis w"
    and release_frees: "lk_Release L l w = (Inr (), w') \<Longrightarrow> redis_get (pl_key l) w' \<noteq> Some (pl_token l)"
begin

lemma holder_kept:
  assumes "redis_get key w = Some tok" and "w_redis w' = w_redis w" and "same_but_redis w w'"
  shows "redis_get key w' = Some tok"
  using assms by (auto simp: redis_get_def same_but_redis_def split: option.splits if_splits)

lemma lost_lock_powerless:
  "redis_get (pl_key l) w = Some tok \<Longrightarrow> tok \<noteq> pl_token l \<Longrightarrow>
   redis_get (pl_key l) (lock_ops L l ops w) = Some tok"
proof (induction ops arbitrary: w)
  case (Cons op ops)
  show ?case
  proof (cases op)
    case (RefreshLock ttl)
    obtain ru w' where r: "lk_Refresh L l ttl w = (ru, w')" by force
    with Cons.prems refresh_fenced[of l w ttl ru w'] have "w_redis w' = w_redis w" by auto
    from holder_kept[OF Cons.prems(1) this refresh_frame[OF r]] Cons RefreshLock r show ?thesis by simp
  next
    case ReleaseLock
    obtain ru w' where r: "lk_Release L l w = (ru, w')" by force
    with Cons.prems release_fenced[of l w ru w'] have "w_redis w' = w_redis w" by auto
    from holder_kept[OF Cons.prems(1) this release_frame[OF r]] Cons ReleaseLock r show ?thesis by simp
  qed
qed simp

end

lemma redis_command_frame: "redis_command f w = (r, w') \<Longrightarrow> same_but_redis w w'"
  by (auto simp: redis_command_def same_but_redis_def Let_def split: option.splits prod.splits list.splits)

lemma redis_command_result:
  "redis_command f w = (Inr x, w') \<Longrightarrow> x = fst (f w) \<and> w_redis w' = snd (f w) \<and> w_clock w' = w_clock w"
  by (auto simp: redis_command_def Let_def split: option.splits prod.splits list.splits)

lemma redis_command_idle: "snd (f w) = w_redis w \<Longrightarrow> redis_command f w = (r, w') \<Longrightarrow> w_redis w' = w_redis w"
  by (auto simp: redis_command_def Let_def split: option.splits prod.splits list.splits)

interpretation rl: processing_locker "RedisLocker new_uuid l" for new_uuid l
proof (unfold_locales, goal_cases)
  case (1 tid ttl w ra w')
  then show ?case
    by (auto simp: RedisLocker_def Acquire_def redis_setnx_def Let_def same_but_redis_def
        split: option.splits prod.splits sum.splits if_splits dest!: redis_command_frame)
next
  case (2 lk ttl w ru w')
  then show ?case
    by (auto simp: RedisLocker_def Refresh_def refreshProcessingLockScript_def
        split: prod.splits sum.splits if_splits dest!: redis_command_frame)
next
  case (3 lk w ru w')
  then show ?case
    by (auto simp: RedisLocker_def Release_def releaseProcessingLockScript_def
        split: prod.splits sum.splits dest!: redis_command_frame)
next
  case (4 tid ttl w lk b w')
  then show ?case
    by (auto simp: RedisLocker_def Acquire_def redis_setnx_def Let_def redis_get_def
        split: option.splits prod.splits sum.splits if_splits dest!: redis_command_result)
next
  case (5 tid ttl w w')
  then show ?case
    by (auto simp: RedisLocker_def Acquire_def redis_setnx_def Let_def
        split: option.splits prod.splits sum.splits if_splits dest!: redis_command_result)
next
  case (6 lk w ttl ru w')
  then show ?case
    by (auto simp: RedisLocker_def Refresh_def refreshProcessingLockScript_def
        split: prod.splits sum.splits if_splits dest: redis_command_idle[rotated] redis_command_result)
next
  case (7 lk w ru w')
  then show ?case
    by (auto simp: RedisLocker_def Release_def releaseProcessingLockScript_def
        split: prod.splits sum.splits dest: redis_command_idle[rotated])
next
  case (8 lk w w')
  then show ?case
    by (auto simp: RedisLocker_def Release_def releaseProcessingLockScript_def redis_get_def
        split: prod.splits sum.splits option.splits if_splits dest!: redis_command_result)
qed

lemma redis_get_cong: "w_redis w' = w_redis w \<Longrightarrow> w_clock w' = w_clock w \<Longrightarrow> redis_get key w' = redis_get key w"
  by (simp add: redis_get_def split: option.splits)

lemma setnx_held:
  assumes "redis_get key w = Some tok" and "redis_setnx key token ttl w = (r, w')"
  shows "(r = Inr False \<or> (\<exists>e. r = Inl e)) \<and> redis_get key w' = Some tok"
proof -
  note cmd = assms(2)[unfolded redis_setnx_def]
  have "w_redis w' = w_redis w" by (rule redis_command_idle[OF _ cmd]) (simp add: assms(1))
  moreover have "w_clock w' = w_clock w" using redis_command_frame[OF cmd] by (simp add: same_but_redis_def)
  moreover have "\<not> x" if "r = Inr x" for x
    using redis_command_result[OF cmd[unfolded that]] assms(1) by simp
  ultimately show ?thesis using assms(1) redis_get_cong[of w' w key] by (cases r) auto
qed

end
