(* ===== verification/Broker.thy ===== *)
theory Broker
  imports Driver
begin

text \<open>
  \<^verbatim>\<open>platform/rabbitmq/rabbitmq.go\<close> and \<^verbatim>\<open>transfers/publisher.go\<close>. Each call of the AMQP library
  ends as the next entry of \<open>w_amqp_outcomes\<close> says (past its end, calls succeed); the broker's
  view is the list of messages published and of deliveries settled, and the number of
  channels open on the connection. \<open>Client\<close> has \<open>cl_Conn = False\<close> for a nil connection.
\<close>

record Client =
  cl_Conn :: bool
  cl_PrefetchCount :: int

record RabbitMQConfig =
  rc_Exchange :: string
  rc_TransferQueue :: string
  rc_TransferRoutingKey :: string

definition amqp_call :: "(world, unit) act" where
  "amqp_call w =
     (case w_amqp_outcomes w of
        [] \<Rightarrow> (Inr (), w)
      | o1 # os \<Rightarrow> ((case o1 of None \<Rightarrow> Inr () | Some e \<Rightarrow> Inl e), w\<lparr>w_amqp_outcomes := os\<rparr>))"

definition openChannel :: "(world, unit) act" where
  "openChannel w =
     (case amqp_call w of
        (Inl e, w1) \<Rightarrow> (Inl (Errorf ''open rabbitmq channel'' e), w1)
      | (Inr _, w1) \<Rightarrow> (Inr (), w1\<lparr>w_channels := w_channels w1 + 1\<rparr>))"

text \<open>\<open>channel.Close()\<close>: the channel is gone whatever the call reports, which the source ignores.\<close>

definition closeChannel :: "world \<Rightarrow> world" where
  "closeChannel w = (snd (amqp_call w))\<lparr>w_channels := w_channels w - 1\<rparr>"

definition Status :: "Client option \<Rightarrow> (world, unit) act" where
  "Status c w =
     (case c of
        None \<Rightarrow> (Inl (Opaque ''rabbitmq client is not initialized''), w)
      | Some cl \<Rightarrow>
          if \<not> cl_Conn cl then (Inl (Opaque ''rabbitmq client is not initialized''), w)
          else if w_amqp_closed w then (Inl (Opaque ''rabbitmq connection is closed''), w)
          else (case openChannel w of
                  (Inl e, w1) \<Rightarrow> (Inl e, w1)
                | (Inr _, w1) \<Rightarrow> (Inr (), closeChannel w1)))"

text \<open>The three declarations and \<open>Publish\<close> share their shape: status, channel, one call, close.\<close>

definition on_channel :: "Client option \<Rightarrow> (go_error \<Rightarrow> go_error) \<Rightarrow> (world \<Rightarrow> world) \<Rightarrow> (world, unit) act" where
  "on_channel c wrap commit w =
     (case Status c w of
        (Inl e, w1) \<Rightarrow> (Inl e, w1)
      | (Inr _, w1) \<Rightarrow>
          (case openChannel w1 of
             (Inl e, w2) \<Rightarrow> (Inl e, w2)
           | (Inr _, w2) \<Rightarrow>
               (case amqp_call w2 of
                  (Inl e, w3) \<Rightarrow> (Inl (wrap e), closeChannel w3)
                | (Inr _, w3) \<Rightarrow> (Inr (), closeChannel (commit w3)))))"

definition DeclareExchange :: "Client option \<Rightarrow> string \<Rightarrow> (world, unit) act" where
  "DeclareExchange c name w =
     (if name = '''' then (Inr (), w)
      else on_channel c (Errorf (''declare exchange '' @ go_quote name)) id w)"

definition DeclareQueue :: "Client option \<Rightarrow> string \<Rightarrow> (world, unit) act" where
  "DeclareQueue c name w =
     (if name = '''' then (Inr (), w)
      else on_channel c (Errorf (''declare queue '' @ go_quote name)) id w)"

definition BindQueue :: "Client option \<Rightarrow> string \<Rightarrow> string \<Rightarrow> string \<Rightarrow> (world, unit) act" where
  "BindQueue c queueName routingKey exchange w =
     (if queueName = '''' \<or> exchange = '''' then (Inr (), w)
      else on_channel c (Errorf (''bind queue '' @ go_quote queueName)) id w)"

definition Publish :: "Client option \<Rightarrow> Publishing \<Rightarrow> (world, unit) act" where
  "Publish c p = on_channel c (Errorf ''publish message'') (\<lambda>w. w\<lparr>w_published := w_published w @ [p]\<rparr>)"

definition Consume :: "Client option \<Rightarrow> string \<Rightarrow> (world, unit) act" where
  "Consume c queueName w =
     (case Status c w of
        (Inl e, w1) \<Rightarrow> (Inl e, w1)
      | (Inr _, w1) \<Rightarrow>
          (case openChannel w1 of
             (Inl e, w2) \<Rightarrow> (Inl e, w2)
           | (Inr _, w2) \<Rightarrow>
               (case (if (case c of Some cl \<Rightarrow> 0 < cl_PrefetchCount cl | None \<Rightarrow> False)
                      then amqp_call w2 else (Inr (), w2)) of
                  (Inl e, w3) \<Rightarrow> (Inl (Errorf ''configure rabbitmq qos'' e), closeChannel w3)
                | (Inr _, w3) \<Rightarrow>
                    (case amqp_call w3 of
                       (Inl e, w4) \<Rightarrow> (Inl (Errorf (''consume queue '' @ go_quote queueName) e), closeChannel w4)
                     | (Inr _, w4) \<Rightarrow> (Inr (), w4)))))"

text \<open>
  Opening and closing: \<open>New\<close> leaves no channel behind and closes the connection when the
  probe channel fails; closing reports anything but \<open>amqp.ErrClosed\<close>. A subscription is
  \<open>False\<close> when it is nil or has no channel.
\<close>

definition ignoreClosed :: "go_error + unit \<Rightarrow> go_error option" where
  "ignoreClosed r = (case r of Inr _ \<Rightarrow> None | Inl e \<Rightarrow> if errors_is e ErrClosed then None else Some e)"

definition New_client :: "int \<Rightarrow> (world, Client) act" where
  "New_client prefetchCount w =
     (case amqp_call w of
        (Inl e, w1) \<Rightarrow> (Inl (Errorf ''connect rabbitmq'' e), w1)
      | (Inr _, w1) \<Rightarrow>
          (case openChannel (w1\<lparr>w_amqp_closed := False, w_channels := 0\<rparr>) of
             (Inl e, w2) \<Rightarrow> (Inl e, (snd (amqp_call w2))\<lparr>w_amqp_closed := True\<rparr>)
           | (Inr _, w2) \<Rightarrow> (Inr \<lparr>cl_Conn = True, cl_PrefetchCount = prefetchCount\<rparr>, closeChannel w2)))"

definition Client_Close :: "Client option \<Rightarrow> world \<Rightarrow> go_error option \<times> world" where
  "Client_Close c w =
     (case c of
        None \<Rightarrow> (None, w)
      | Some cl \<Rightarrow>
          if cl_Conn cl
          then (let (r, w1) = amqp_call w in (ignoreClosed r, w1\<lparr>w_amqp_closed := True, w_channels := 0\<rparr>))
          else (None, w))"

definition Consumer_Close :: "bool \<Rightarrow> world \<Rightarrow> go_error option \<times> world" where
  "Consumer_Close subscribed w =
     (if subscribed
      then (let (r, w1) = amqp_call w in (ignoreClosed r, w1\<lparr>w_channels := w_channels w1 - 1\<rparr>))
      else (None, w))"

definition job_publishing :: "RabbitMQConfig \<Rightarrow> TransferJob \<Rightarrow> Publishing" where
  "job_publishing cfg job =
     \<lparr>pub_Exchange = rc_Exchange cfg, pub_RoutingKey = rc_TransferRoutingKey cfg,
      pub_ContentType = ''application/json'', pub_Persistent = True, pub_Body = marshal_job job,
      pub_Type = OutboxEventTypeTransferRequested\<rparr>"

definition PublishTransferRequested ::
  "Client option \<Rightarrow> RabbitMQConfig \<Rightarrow> TransferJob \<Rightarrow> (world, unit) act" where
  "PublishTransferRequested c cfg job w =
     (case Publish c (job_publishing cfg job) w of
        (Inl e, w1) \<Rightarrow> (Inl (Errorf ''publish transfer job'' e), w1)
      | (Inr _, w1) \<Rightarrow> (Inr (), w1))"

subsection \<open>Channels\<close>

lemma amqp_call_keeps:
  "amqp_call w = (r, w1) \<Longrightarrow>
     w_channels w1 = w_channels w \<and> w_published w1 = w_published w \<and> w_db w1 = w_db w \<and>
     w_sched w1 = w_sched w \<and> w_ctx w1 = w_ctx w \<and> w_settled w1 = w_settled w"
  by (auto simp: amqp_call_def split: list.splits)

lemma on_channel_channels:
  assumes "\<And>w. w_channels (commit w) = w_channels w"
  shows "w_channels (snd (on_channel c wrap commit w)) = w_channels w"
  using assms
  by (auto simp: on_channel_def Status_def openChannel_def closeChannel_def
      split: option.splits sum.splits prod.splits dest!: amqp_call_keeps)

text \<open>What a call on a channel leaves alone: the database side and the rest of the broker's log.\<close>

definition same_db_side :: "world \<Rightarrow> world \<Rightarrow> bool" where
  "same_db_side w w' \<longleftrightarrow> w_db w' = w_db w \<and> w_sched w' = w_sched w \<and> w_ctx w' = w_ctx w \<and>
     w_clock w' = w_clock w \<and> w_settled w' = w_settled w \<and> w_redis w' = w_redis w \<and>
     w_signed w' = w_signed w \<and> w_broadcasts w' = w_broadcasts w \<and> w_posted w' = w_posted w"

lemma same_db_side_refl [simp]: "same_db_side w w"
  by (simp add: same_db_side_def)

lemma same_db_side_trans: "same_db_side a b \<Longrightarrow> same_db_side b c \<Longrightarrow> same_db_side a c"
  by (simp add: same_db_side_def)

lemma amqp_call_side: "amqp_call w = (r, w1) \<Longrightarrow> same_db_side w w1 \<and> w_published w1 = w_published w"
  by (auto simp: amqp_call_def same_db_side_def split: list.splits)

lemma openChannel_side: "openChannel w = (r, w1) \<Longrightarrow> same_db_side w w1 \<and> w_published w1 = w_published w"
  by (auto simp: openChannel_def same_db_side_def split: prod.splits sum.splits dest!: amqp_call_side)

lemma closeChannel_side: "same_db_side w (closeChannel w) \<and> w_published (closeChannel w) = w_published w"
  using amqp_call_side[of w "fst (amqp_call w)" "snd (amqp_call w)"]
  by (simp add: closeChannel_def same_db_side_def)

lemma Status_side: "Status c w = (r, w1) \<Longrightarrow> same_db_side w w1 \<and> w_published w1 = w_published w"
  using closeChannel_side
  by (auto simp: Status_def split: option.splits prod.splits sum.splits if_splits
      dest!: openChannel_side intro: same_db_side_trans)

text \<open>\<open>Publish\<close> puts the message on the broker exactly when it returns no error.\<close>

lemma Publish_spec:
  assumes "Publish c p w = (r, w1)"
  shows "same_db_side w w1"
    and "w_published w1 = (case r of Inl _ \<Rightarrow> w_published w | Inr _ \<Rightarrow> w_published w @ [p])"
proof -
  obtain r1 wa where s: "Status c w = (r1, wa)" by force
  obtain r2 wb where o: "openChannel wa = (r2, wb)" by force
  obtain r3 wc where a: "amqp_call wb = (r3, wc)" by force
  note k = Status_side[OF s] openChannel_side[OF o] amqp_call_side[OF a] closeChannel_side[of wc]
    closeChannel_side[of "wc\<lparr>w_published := w_published wc @ [p]\<rparr>"]
  from assms s o a have "(r1 = Inr () \<and> r2 = Inr () \<and> r3 = Inr () \<and> r = Inr () \<and>
        w1 = closeChannel (wc\<lparr>w_published := w_published wc @ [p]\<rparr>)) \<or>
      (\<exists>e. r = Inl e \<and> (w1 = wa \<or> w1 = wb \<or> w1 = closeChannel wc))"
    by (cases r1; cases r2; cases r3) (auto simp: Publish_def on_channel_def)
  then show "same_db_side w w1"
    and "w_published w1 = (case r of Inl _ \<Rightarrow> w_published w | Inr _ \<Rightarrow> w_published w @ [p])"
    using k by (auto simp: same_db_side_def)
qed

lemma PublishTransferRequested_spec:
  assumes "PublishTransferRequested c cfg job w = (r, w1)"
  shows "same_db_side w w1"
    and "w_published w1 =
           (case r of Inl _ \<Rightarrow> w_published w | Inr _ \<Rightarrow> w_published w @ [job_publishing cfg job])"
proof -
  obtain r0 w0 where p: "Publish c (job_publishing cfg job) w = (r0, w0)" by force
  from Publish_spec[OF p] assms p show "same_db_side w w1"
    and "w_published w1 =
           (case r of Inl _ \<Rightarrow> w_published w | Inr _ \<Rightarrow> w_published w @ [job_publishing cfg job])"
    by (cases r0; auto simp: PublishTransferRequested_def)+
qed

lemma PublishTransferRequested_channels:
  "PublishTransferRequested c cfg job w = (r, w1) \<Longrightarrow> w_channels w1 = w_channels w"
  using on_channel_channels[of "\<lambda>w. w\<lparr>w_published := w_published w @ [job_publishing cfg job]\<rparr>" c
      "Errorf ''publish message''" w]
  by (simp add: PublishTransferRequested_def Publish_def split: prod.splits sum.splits)

text \<open>A client that was opened has no channel open, and can publish at once.\<close>

lemma New_client_channels:
  "New_client n w = (Inr c, w1) \<Longrightarrow> w_channels w1 = 0 \<and> \<not> w_amqp_closed w1 \<and> cl_Conn c"
  by (auto simp: New_client_def openChannel_def closeChannel_def amqp_call_def split: sum.splits prod.splits list.splits option.splits)

end
