(* ===== verification/Consumer.thy ===== *)
theory Consumer
  imports Lock Broker PostgresContract
begin

text \<open>
  \<^verbatim>\<open>transfers/consumer.go\<close>: one delivery from the queue is decoded, the transfer's lock is taken,
  the processor runs under a heartbeat that refreshes the lock, and the delivery is settled.
  The heartbeat goroutine touches Redis only and the processor the database only, so the model
  runs the heartbeat after the processor; a cancellation while the processor runs is a
  \<open>cancels\<close> entry of its schedule. The deferred release uses the variable \<open>ctx\<close>, which by then
  is the processing context.
\<close>

record Consumer =
  c_processor :: "world Processor"
  c_publisher :: "TransferJob \<Rightarrow> (world, unit) act"
  c_locker :: "ProcessingLocker option"
  c_maxRetries :: int
  c_retryDelay :: duration
  c_lockTTL :: duration

type_synonym handled = "(go_error option \<times> world) option"

definition settle :: "settlement \<Rightarrow> world \<Rightarrow> go_error option \<times> world" where
  "settle s w =
     (case amqp_call w of
        (Inl e, w1) \<Rightarrow> (Some e, w1)
      | (Inr _, w1) \<Rightarrow> (None, w1\<lparr>w_settled := w_settled w1 @ [s]\<rparr>))"

definition acquireProcessingLock :: "Consumer \<Rightarrow> string \<Rightarrow> (world, ProcessingLock option \<times> bool) act" where
  "acquireProcessingLock C transferID w =
     (case c_locker C of
        None \<Rightarrow> (Inr (None, True), w)
      | Some L \<Rightarrow>
          (case lk_Acquire L transferID (c_lockTTL C) w of
             (Inl e, w1) \<Rightarrow> (Inl (Errorf ''acquire transfer processing lock'' e), w1)
           | (Inr r, w1) \<Rightarrow> (Inr r, w1)))"

text \<open>The interval of the ticker: a third of the lock's life, at most five seconds.\<close>

definition heartbeat_interval :: "duration \<Rightarrow> duration" where
  "heartbeat_interval ttl =
     (let i = word_of_int (sint ttl div 3) in
      let j = (if sint (i :: duration) \<le> 0 then Second else i) in
      if 5 * sint Second < sint j then 5 * Second else j)"

fun heartbeat_loop :: "ProcessingLocker \<Rightarrow> ProcessingLock \<Rightarrow> duration \<Rightarrow> heartbeat_event list \<Rightarrow> world \<Rightarrow> go_error option \<times> world" where
  "heartbeat_loop L l ttl [] w = (None, w)"
| "heartbeat_loop L l ttl (HeartbeatTick ns # evs) w =
     (case lk_Refresh L l ttl (w\<lparr>w_clock := w_clock w + int ns\<rparr>) of
        (Inl e, w1) \<Rightarrow>
          (Some (TransientError ''refresh processing lock'' e),
           w1\<lparr>w_ctx := (case w_ctx w1 of None \<Rightarrow> Some (Sentinel Canceled) | Some c \<Rightarrow> Some c)\<rparr>)
      | (Inr _, w1) \<Rightarrow> heartbeat_loop L l ttl evs w1)"
| "heartbeat_loop L l ttl (ProcessingDone # evs) w = (None, w)"
| "heartbeat_loop L l ttl (HeartbeatStop # evs) w = (None, w)"

definition processingLockHeartbeat :: "Consumer \<Rightarrow> ProcessingLock option \<Rightarrow> world \<Rightarrow> go_error option \<times> world" where
  "processingLockHeartbeat C lock w =
     (case (lock, c_locker C) of
        (Some l, Some L) \<Rightarrow>
          if sint (c_lockTTL C) \<le> 0 then (None, w)
          else heartbeat_loop L l (c_lockTTL C) (w_heartbeat w) (w\<lparr>w_heartbeat := []\<rparr>)
      | _ \<Rightarrow> (None, w))"

text \<open>The timer of \<open>retryJob\<close> against the context.\<close>

definition wait_retry :: "duration \<Rightarrow> (world, unit) act" where
  "wait_retry d w =
     (case w_ctx w of
        Some e \<Rightarrow> (Inl e, w)
      | None \<Rightarrow>
          (case w_waits w of
             True # ws \<Rightarrow> (Inl (Sentinel Canceled), w\<lparr>w_waits := ws, w_ctx := Some (Sentinel Canceled)\<rparr>)
           | False # ws \<Rightarrow> (Inr (), w\<lparr>w_waits := ws, w_clock := time_add (w_clock w) d\<rparr>)
           | [] \<Rightarrow> (Inr (), w\<lparr>w_clock := time_add (w_clock w) d\<rparr>)))"

definition retryJob :: "Consumer \<Rightarrow> TransferJob \<Rightarrow> world \<Rightarrow> go_error option \<times> world" where
  "retryJob C job w =
     (if c_maxRetries C \<le> job_Attempt job
      then (let (_, w1) = FailTransfer (c_processor C) (job_TransferID job) w in settle AckDelivery w1)
      else
        (let nextJob = \<lparr>job_TransferID = job_TransferID job, job_Attempt = job_Attempt job + 1\<rparr> in
         case (if 0 < sint (c_retryDelay C) then wait_retry (c_retryDelay C) w else (Inr (), w)) of
           (Inl e, w1) \<Rightarrow> (Some e, w1)
         | (Inr _, w1) \<Rightarrow>
             (case c_publisher C nextJob w1 of
                (Inl e, w2) \<Rightarrow> (Some (Errorf ''republish transfer job'' e), w2)
              | (Inr _, w2) \<Rightarrow> settle AckDelivery w2)))"

text \<open>The error the switch of \<open>handleDelivery\<close> looks at.\<close>

definition effective_error :: "go_error option \<Rightarrow> go_error option \<Rightarrow> go_error option" where
  "effective_error err heartbeatErr =
     (case heartbeatErr of
        Some h \<Rightarrow> (if err = None \<or> (\<exists>e \<in> set_option err. errors_is e Canceled) then Some h else err)
      | None \<Rightarrow> err)"

definition conclude :: "Consumer \<Rightarrow> TransferJob \<Rightarrow> go_error option \<Rightarrow> world \<Rightarrow> go_error option \<times> world" where
  "conclude C job err w =
     (case err of
        None \<Rightarrow> settle AckDelivery w
      | Some e \<Rightarrow>
          if errors_is e ErrTransient then retryJob C job w
          else if errors_is e ErrTransferNotFound \<or> errors_is e ErrInvalidTransferState
          then settle AckDelivery w
          else (let (_, w1) = FailTransfer (c_processor C) (job_TransferID job) w in settle AckDelivery w1))"

definition handleDelivery :: "nat \<Rightarrow> Consumer \<Rightarrow> raw_json \<Rightarrow> world \<Rightarrow> handled" where
  "handleDelivery n C body w =
     (case unmarshal_job body of
        Inl _ \<Rightarrow> Some (settle RejectDrop w)
      | Inr job \<Rightarrow>
          (case acquireProcessingLock C (job_TransferID job) w of
             (Inl e, w1) \<Rightarrow> Some (Some e, w1)
           | (Inr (lock, acquired), w1) \<Rightarrow>
               if \<not> acquired then Some (settle NackRequeue w1)
               else (case ProcessTransfer n (c_processor C) (job_TransferID job) w1 of
                       None \<Rightarrow> None
                     | Some (result, w2) \<Rightarrow>
                         (let err = (case result of Inl e \<Rightarrow> Some e | Inr _ \<Rightarrow> None);
                              (heartbeatErr, w3) = processingLockHeartbeat C lock w2;
                              (out, w4) = conclude C job (effective_error err heartbeatErr) w3
                          in Some (out, case (lock, c_locker C) of
                                          (Some l, Some L) \<Rightarrow> snd (lk_Release L l w4)
                                        | _ \<Rightarrow> w4)))))"

text \<open>\<open>Run\<close>: the select of the loop, given what it receives; the subscription is closed on return.\<close>

datatype consumer_event = ContextDone | DeliveriesClosed | Delivered "go_error option" raw_json

datatype run_state = Running | Returned "go_error option"

fun Consumer_Run :: "nat \<Rightarrow> Consumer \<Rightarrow> consumer_event list \<Rightarrow> world \<Rightarrow> (run_state \<times> world) option" where
  "Consumer_Run n C [] w = Some (Running, w)"
| "Consumer_Run n C (ContextDone # evs) w = Some (Returned None, snd (Consumer_Close True w))"
| "Consumer_Run n C (DeliveriesClosed # evs) w =
     Some (Returned (Some (Opaque ''transfer consumer delivery channel closed'')), snd (Consumer_Close True w))"
| "Consumer_Run n C (Delivered ctx body # evs) w =
     (case handleDelivery n C body (w\<lparr>w_ctx := ctx\<rparr>) of
        None \<Rightarrow> None
      | Some (Some e, w1) \<Rightarrow> Some (Returned (Some e), snd (Consumer_Close True w1))
      | Some (None, w1) \<Rightarrow> Consumer_Run n C evs w1)"

subsection \<open>The worker's consumer\<close>

definition WorkerConsumer ::
  "pg \<Rightarrow> (nat \<Rightarrow> Transfer \<Rightarrow> go_error + SignedTransfer) \<Rightarrow>
   (nat \<Rightarrow> Transfer \<Rightarrow> TransactionAttempt \<Rightarrow> go_error option) \<Rightarrow> Client option \<Rightarrow> RabbitMQConfig \<Rightarrow>
   (nat \<Rightarrow> string) \<Rightarrow> RedisProcessingLocker option \<Rightarrow> int \<Rightarrow> duration \<Rightarrow> duration \<Rightarrow> Consumer" where
  "WorkerConsumer pg sign bcast cl cfg new_uuid locker maxRetries retryDelay lockTTL =
     \<lparr>c_processor = NewProcessor pg sign bcast, c_publisher = PublishTransferRequested cl cfg,
      c_locker = Some (RedisLocker new_uuid locker), c_maxRetries = maxRetries,
      c_retryDelay = retryDelay, c_lockTTL = lockTTL\<rparr>"

text \<open>
  \<open>served pg w w' Q S\<close>: from \<open>w\<close> to \<open>w'\<close> the tables moved by lawful steps, broadcasts were of
  durable attempts, signatures of transfers without an attempt; \<open>Q\<close> was published and \<open>S\<close>
  settled.
\<close>

definition served :: "pg \<Rightarrow> world \<Rightarrow> world \<Rightarrow> Publishing list \<Rightarrow> settlement list \<Rightarrow> bool" where
  "served pg w w' Q S \<longleftrightarrow>
     pg_ok pg w' \<and> (sys_step pg)\<^sup>*\<^sup>* (w_db w) (w_db w') \<and>
     length (w_sched w') \<le> length (w_sched w) \<and>
     (\<exists>bs. w_broadcasts w' = w_broadcasts w @ bs \<and> (\<forall>(t, a, d) \<in> set bs. durable a d)) \<and>
     (\<exists>ss. w_signed w' = w_signed w @ ss \<and> (\<forall>(t, d) \<in> set ss. unattempted (uuid_in pg) t d)) \<and>
     w_published w' = w_published w @ Q \<and> w_settled w' = w_settled w @ S"

lemma served_trans:
  assumes "served pg a b Q1 S1" and "served pg b c Q2 S2"
  shows "served pg a c (Q1 @ Q2) (S1 @ S2)"
proof -
  from assms obtain bs1 ss1 bs2 ss2 where
    "w_broadcasts b = w_broadcasts a @ bs1" "\<forall>(t, x, d) \<in> set bs1. durable x d"
    "w_signed b = w_signed a @ ss1" "\<forall>(t, d) \<in> set ss1. unattempted (uuid_in pg) t d"
    "w_broadcasts c = w_broadcasts b @ bs2" "\<forall>(t, x, d) \<in> set bs2. durable x d"
    "w_signed c = w_signed b @ ss2" "\<forall>(t, d) \<in> set ss2. unattempted (uuid_in pg) t d"
    by (auto simp: served_def)
  then have "w_broadcasts c = w_broadcasts a @ (bs1 @ bs2)" "\<forall>(t, x, d) \<in> set (bs1 @ bs2). durable x d"
    "w_signed c = w_signed a @ (ss1 @ ss2)" "\<forall>(t, d) \<in> set (ss1 @ ss2). unattempted (uuid_in pg) t d"
    by auto
  moreover have "w_published c = w_published a @ Q1 @ Q2" "w_settled c = w_settled a @ S1 @ S2"
    using assms by (simp_all add: served_def)
  ultimately show ?thesis using assms unfolding served_def by (meson le_trans rtranclp_trans)
qed

lemma served_traced:
  "traced (pg_view pg) (sys_step pg) (uuid_in pg) w w' \<Longrightarrow> served pg w w' [] []"
  by (simp add: traced_def served_def)

text \<open>A step that leaves the database side alone.\<close>

lemma served_beside:
  assumes "pg_ok pg w" and "w_db w' = w_db w" and "w_sched w' = w_sched w"
    and "w_ctx w' = w_ctx w \<or> w_ctx w' = Some (Sentinel Canceled)"
    and "w_broadcasts w' = w_broadcasts w" and "w_signed w' = w_signed w"
    and "w_published w' = w_published w @ Q" and "w_settled w' = w_settled w @ S"
  shows "served pg w w' Q S"
  using assms by (auto simp: served_def pg_ok_def relies_def)

lemma settle_served:
  assumes "pg_ok pg w" and "settle s w = (out, w')"
  shows "served pg w w' [] (if out = None then [s] else [])"
proof -
  obtain r w1 where a: "amqp_call w = (r, w1)" by force
  from amqp_call_side[OF a] amqp_call_keeps[OF a] assms a show ?thesis
    by (intro served_beside) (auto simp: settle_def same_db_side_def split: sum.splits)
qed

lemma redis_served: "pg_ok pg w \<Longrightarrow> same_but_redis w w' \<Longrightarrow> served pg w w' [] []"
  by (intro served_beside) (auto simp: same_but_redis_def)

context processing_locker begin

lemma heartbeat_loop_served:
  "pg_ok pg w \<Longrightarrow> heartbeat_loop L l ttl evs w = (e, w') \<Longrightarrow> served pg w w' [] []"
proof (induction evs arbitrary: w)
  case Nil
  then show ?case by (auto intro: served_beside)
next
  case (Cons ev evs)
  show ?case
  proof (cases ev)
    case (HeartbeatTick ns)
    let ?w = "w\<lparr>w_clock := w_clock w + int ns\<rparr>"
    obtain ru w1 where r: "lk_Refresh L l ttl ?w = (ru, w1)" by force
    have c: "served pg w ?w [] []" using Cons.prems(1) by (intro served_beside) auto
    then have "pg_ok pg ?w" by (simp add: served_def)
    from served_trans[OF c redis_served[OF this refresh_frame[OF r]]] have s1: "served pg w w1 [] []" by simp
    then have ok1: "pg_ok pg w1" by (simp add: served_def)
    show ?thesis
    proof (cases ru)
      case (Inr u)
      with Cons.prems(2) HeartbeatTick r have "heartbeat_loop L l ttl evs w1 = (e, w')" by simp
      from served_trans[OF s1 Cons.IH[OF ok1 this]] show ?thesis by simp
    next
      case (Inl err)
      with Cons.prems(2) HeartbeatTick r have
        "w' = w1\<lparr>w_ctx := (case w_ctx w1 of None \<Rightarrow> Some (Sentinel Canceled) | Some c \<Rightarrow> Some c)\<rparr>" by simp
      then have "served pg w1 w' [] []"
        using ok1 by (intro served_beside) (auto split: option.splits)
      from served_trans[OF s1 this] show ?thesis by simp
    qed
  qed (use Cons.prems in \<open>auto intro: served_beside\<close>)
qed

end

lemma processingLockHeartbeat_served:
  assumes ok: "pg_ok pg w" and C: "c_locker C = Some (RedisLocker new_uuid lo)"
    and run: "processingLockHeartbeat C lock w = (e, w')"
  shows "served pg w w' [] []"
proof (cases "lock = None \<or> sint (c_lockTTL C) \<le> 0")
  case True
  with run C have "w' = w" by (auto simp: processingLockHeartbeat_def split: option.splits)
  with ok show ?thesis by (auto intro: served_beside)
next
  case False
  then obtain l where "lock = Some l" by auto
  with run C False have h: "heartbeat_loop (RedisLocker new_uuid lo) l (c_lockTTL C) (w_heartbeat w) (w\<lparr>w_heartbeat := []\<rparr>) = (e, w')"
    by (simp add: processingLockHeartbeat_def)
  have s: "served pg w (w\<lparr>w_heartbeat := []\<rparr>) [] []" using ok by (intro served_beside) auto
  then have "pg_ok pg (w\<lparr>w_heartbeat := []\<rparr>)" by (simp add: served_def)
  from served_trans[OF s rl.heartbeat_loop_served[OF this h]] show ?thesis by simp
qed

lemma acquire_served:
  assumes ok: "pg_ok pg w" and C: "c_locker C = Some (RedisLocker new_uuid lo)"
    and run: "acquireProcessingLock C tid w = (r, w')"
  shows "served pg w w' [] []" and "w_db w' = w_db w"
proof -
  obtain ra w1 where a: "lk_Acquire (RedisLocker new_uuid lo) tid (c_lockTTL C) w = (ra, w1)" by force
  with run C have "w' = w1" by (auto simp: acquireProcessingLock_def split: sum.splits)
  with redis_served[OF ok rl.acquire_frame[OF a]] rl.acquire_frame[OF a]
  show "served pg w w' [] []" and "w_db w' = w_db w" by (simp_all add: same_but_redis_def)
qed

text \<open>What ends a delivery: an acknowledgement, after a publication when the job is retried.\<close>

lemma retryJob_served:
  assumes ok: "pg_ok pg w" and P: "c_processor C = NewProcessor pg sign bcast"
    and Q: "c_publisher C = PublishTransferRequested cl cfg" and run: "retryJob C job w = (out, w')"
  shows "served pg w w' [] (if out = None then [AckDelivery] else []) \<or>
         (job_Attempt job < c_maxRetries C \<and>
          served pg w w' [job_publishing cfg (job\<lparr>job_Attempt := job_Attempt job + 1\<rparr>)]
            (if out = None then [AckDelivery] else []))"
proof (cases "c_maxRetries C \<le> job_Attempt job")
  case True
  obtain e w1 where f: "FailTransfer (NewProcessor pg sign bcast) (job_TransferID job) w = (e, w1)" by force
  have s: "served pg w w1 [] []"
    using pgp.FailTransfer_traced[OF _ f] ok by (intro served_traced) simp
  have "settle AckDelivery w1 = (out, w')" using run True f P by (simp add: retryJob_def)
  from served_trans[OF s settle_served[OF _ this]] s show ?thesis by (simp add: served_def)
next
  case False
  let ?next = "\<lparr>job_TransferID = job_TransferID job, job_Attempt = job_Attempt job + 1\<rparr>"
  have eqn: "?next = job\<lparr>job_Attempt := job_Attempt job + 1\<rparr>" by simp
  obtain rw w1 where wt: "(if 0 < sint (c_retryDelay C) then wait_retry (c_retryDelay C) w else (Inr (), w)) = (rw, w1)"
    by force
  have s1: "served pg w w1 [] []"
    using wt ok by (intro served_beside) (auto simp: wait_retry_def split: if_splits option.splits list.splits bool.splits)
  then have ok1: "pg_ok pg w1" by (simp add: served_def)
  show ?thesis
  proof (cases rw)
    case (Inl e)
    with run False wt have "out = Some e" "w' = w1" by (auto simp: retryJob_def)
    with s1 show ?thesis by simp
  next
    case (Inr u)
    obtain rp w2 where p: "PublishTransferRequested cl cfg ?next w1 = (rp, w2)" by force
    note ps = PublishTransferRequested_spec[OF p]
    have s2: "served pg w1 w2 (case rp of Inl _ \<Rightarrow> [] | Inr _ \<Rightarrow> [job_publishing cfg ?next]) []"
      using ps ok1 by (intro served_beside) (auto simp: same_db_side_def split: sum.splits)
    show ?thesis
    proof (cases rp)
      case (Inl e)
      with run False wt Inr p Q have "out \<noteq> None" "w' = w2" by (auto simp: retryJob_def)
      with served_trans[OF s1 s2] Inl show ?thesis by auto
    next
      case Inr2: (Inr u2)
      with run False wt Inr p Q have st: "settle AckDelivery w2 = (out, w')" by (auto simp: retryJob_def)
      have "pg_ok pg w2" using s2 by (simp add: served_def)
      from served_trans[OF served_trans[OF s1 s2] settle_served[OF this st]] Inr2 False eqn
      show ?thesis by simp
    qed
  qed
qed

lemma fail_and_ack_served:
  assumes "pg_ok pg w" and "FailTransfer (NewProcessor pg sign bcast) tid w = (e, w1)"
    and "settle AckDelivery w1 = (out, w')"
  shows "served pg w w' [] (if out = None then [AckDelivery] else [])"
proof -
  have s: "served pg w w1 [] []"
    using pgp.FailTransfer_traced[OF _ assms(2)] assms(1) by (intro served_traced) simp
  then have "pg_ok pg w1" by (simp add: served_def)
  from served_trans[OF s settle_served[OF this assms(3)]] show ?thesis by simp
qed

lemma conclude_served:
  assumes ok: "pg_ok pg w" and P: "c_processor C = NewProcessor pg sign bcast"
    and Q: "c_publisher C = PublishTransferRequested cl cfg" and run: "conclude C job err w = (out, w')"
  shows "served pg w w' [] (if out = None then [AckDelivery] else []) \<or>
         (job_Attempt job < c_maxRetries C \<and> (\<exists>e. err = Some e \<and> errors_is e ErrTransient) \<and>
          served pg w w' [job_publishing cfg (job\<lparr>job_Attempt := job_Attempt job + 1\<rparr>)]
            (if out = None then [AckDelivery] else []))"
proof (cases err)
  case None
  with run settle_served[OF ok] show ?thesis by (simp add: conclude_def)
next
  case (Some e)
  obtain ef w1 where f: "FailTransfer (NewProcessor pg sign bcast) (job_TransferID job) w = (ef, w1)" by force
  show ?thesis
  proof (cases "errors_is e ErrTransient")
    case True
    with Some run have "retryJob C job w = (out, w')" by (simp add: conclude_def)
    from retryJob_served[OF ok P Q this] True Some show ?thesis by blast
  next
    case False
    with Some run f P have "settle AckDelivery w = (out, w') \<or> settle AckDelivery w1 = (out, w')"
      by (auto simp: conclude_def split: if_splits)
    with settle_served[OF ok] fail_and_ack_served[OF ok f] show ?thesis by blast
  qed
qed

lemma handleDelivery_served:
  assumes ok: "pg_ok pg w" and P: "c_processor C = NewProcessor pg sign bcast"
    and Q: "c_publisher C = PublishTransferRequested cl cfg" and L: "c_locker C = Some (RedisLocker new_uuid lo)"
    and run: "handleDelivery n C body w = Some (out, w')"
  shows "\<exists>pubs s. served pg w w' pubs (if out = None then [s] else []) \<and>
           (pubs = [] \<or> s = AckDelivery \<and> (\<exists>job. unmarshal_job body = Inr job \<and> job_Attempt job < c_maxRetries C \<and>
              pubs = [job_publishing cfg (job\<lparr>job_Attempt := job_Attempt job + 1\<rparr>)]))"
proof (cases "unmarshal_job body")
  case (Inl e)
  with run settle_served[OF ok] show ?thesis
    by (intro exI[of _ "[]"] exI[of _ RejectDrop]) (auto simp: handleDelivery_def)
next
  case job: (Inr job)
  obtain ra w1 where a: "acquireProcessingLock C (job_TransferID job) w = (ra, w1)" by force
  note s1 = acquire_served(1)[OF ok L a]
  then have ok1: "pg_ok pg w1" by (simp add: served_def)
  show ?thesis
  proof (cases "\<exists>lock. ra = Inr (lock, True)")
    case False
    with run job a have "out \<noteq> None \<and> w' = w1 \<or> settle NackRequeue w1 = (out, w')"
      by (auto simp: handleDelivery_def split: sum.splits prod.splits if_splits)
    with s1 served_trans[OF s1 settle_served[OF ok1, of NackRequeue out w']]
    have "served pg w w' [] (if out = None then [NackRequeue] else [])" by auto
    then show ?thesis by blast
  next
    case True
    then obtain lock where lk: "ra = Inr (lock, True)" by auto
    from run job a lk obtain result w2 where p: "ProcessTransfer n (NewProcessor pg sign bcast) (job_TransferID job) w1 = Some (result, w2)"
      by (auto simp: handleDelivery_def P split: option.splits)
    have s2: "served pg w1 w2 [] []" by (rule served_traced) (rule pgp.ProcessTransfer_traced[OF _ p], simp add: ok1)
    then have ok2: "pg_ok pg w2" by (simp add: served_def)
    obtain h w3 where hb: "processingLockHeartbeat C lock w2 = (h, w3)" by force
    note s3 = processingLockHeartbeat_served[OF ok2 L hb]
    then have ok3: "pg_ok pg w3" by (simp add: served_def)
    let ?err = "effective_error (case result of Inl e \<Rightarrow> Some e | Inr _ \<Rightarrow> None) h"
    obtain o4 w4 where c: "conclude C job ?err w3 = (o4, w4)" by force
    note s4 = conclude_served[OF ok3 P Q c]
    from run job a lk p hb c have out: "out = o4"
      and w': "w' = (case lock of Some l \<Rightarrow> snd (lk_Release (RedisLocker new_uuid lo) l w4) | None \<Rightarrow> w4)"
      by (auto simp: handleDelivery_def P L Let_def split: option.splits)
    have s5: "served pg w4 w' [] []" if "pg_ok pg w4"
    proof (cases lock)
      case None
      with that w' show ?thesis by (auto intro: served_beside)
    next
      case (Some l)
      obtain rr wr where "lk_Release (RedisLocker new_uuid lo) l w4 = (rr, wr)" by force
      with redis_served[OF that rl.release_frame[OF this]] Some w' show ?thesis by simp
    qed
    have all: "served pg w w' pubs S" if "served pg w3 w4 pubs S" for pubs S
    proof -
      have "pg_ok pg w4" using that by (simp add: served_def)
      from served_trans[OF served_trans[OF served_trans[OF served_trans[OF s1 s2] s3] that] s5[OF this]]
      show ?thesis by simp
    qed
    from s4 all out job show ?thesis by blast
  qed
qed

lemma handleDelivery_returns:
  assumes ok: "pg_ok pg w" and P: "c_processor C = NewProcessor pg sign bcast"
    and L: "c_locker C = Some (RedisLocker new_uuid lo)" and n: "length (w_sched w) + 5 \<le> n"
  shows "\<exists>out w'. handleDelivery n C body w = Some (out, w')"
proof (cases "unmarshal_job body")
  case (Inl e)
  then show ?thesis by (simp add: handleDelivery_def)
next
  case job: (Inr job)
  obtain ra w1 where a: "acquireProcessingLock C (job_TransferID job) w = (ra, w1)" by force
  note s1 = acquire_served(1)[OF ok L a]
  then have "v_ok (pg_view pg) w1" "v_rank (pg_view pg) w1 + 5 \<le> n" using n by (auto simp: served_def)
  from pgp.ProcessTransfer_returns[OF this, where sign = sign and bcast = bcast and tid = "job_TransferID job"]
    job a P show ?thesis
    by (auto simp: handleDelivery_def Let_def split: sum.splits prod.splits option.splits)
qed

end
