(* ===== verification/Outbox.thy ===== *)
theory Outbox
  imports Broker SystemSteps
begin

text \<open>
  The transactional outbox: the outbox statements and methods of \<^verbatim>\<open>postgres_repository.go\<close>,
  the interface of \<^verbatim>\<open>outbox_repository.go\<close> and the dispatcher of \<^verbatim>\<open>outbox_dispatcher.go\<close>.
  The locale \<open>outbox_store\<close> is what the dispatcher relies on: the marks change the rows as
  their \<open>UPDATE\<close> says, publishing changes none. Inside it the dispatcher settles every event
  it claimed; the interpretation \<open>pgo\<close> puts PostgreSQL and RabbitMQ under it.
\<close>

record 'w OutboxRepository =
  or_ClaimPendingOutbox :: "int \<Rightarrow> go_time \<Rightarrow> ('w, OutboxEvent list) act"
  or_MarkOutboxDispatched :: "string \<Rightarrow> int \<Rightarrow> ('w, unit) act"
  or_MarkOutboxRetry :: "string \<Rightarrow> int \<Rightarrow> go_time \<Rightarrow> string \<Rightarrow> ('w, unit) act"

subsection \<open>Statements and methods\<close>

definition outbox_due :: "go_time \<Rightarrow> go_time \<Rightarrow> OutboxEvent \<Rightarrow> bool" where
  "outbox_due staleBefore now x \<longleftrightarrow>
     (oe_Status x = OutboxStatusPending \<or> oe_Status x = OutboxStatusRetry) \<and> oe_AvailableAt x \<le> now \<or>
     oe_Status x = OutboxStatusProcessing \<and> (\<exists>l \<in> set_option (oe_LockedAt x). l \<le> staleBefore)"

definition outbox_candidates :: "nat \<Rightarrow> go_time \<Rightarrow> db \<Rightarrow> OutboxEvent list" where
  "outbox_candidates limit staleBefore d =
     take limit (sort_key oe_AvailableAt (sort_key oe_CreatedAt
       (filter (outbox_due staleBefore (db_now d)) (transfer_outbox d))))"

definition claimed_event :: "db \<Rightarrow> OutboxEvent \<Rightarrow> OutboxEvent" where
  "claimed_event d x = x\<lparr>oe_Status := OutboxStatusProcessing, oe_LockedAt := Some (db_now d),
                        oe_UpdatedAt := db_now d\<rparr>"

text \<open>
  One statement picks the candidates and updates them, so two sessions never claim one row
  (the rows come back in no particular order; here in the order of the candidates).
\<close>

definition sql_claim_outbox :: "nat \<Rightarrow> go_time \<Rightarrow> db \<Rightarrow> OutboxEvent list \<times> db" where
  "sql_claim_outbox limit staleBefore d =
     (let candidates = outbox_candidates limit staleBefore d in
      (map (claimed_event d) candidates,
       d\<lparr>transfer_outbox := update_where (\<lambda>x. oe_ID x \<in> oe_ID ` set candidates) (claimed_event d)
           (transfer_outbox d)\<rparr>))"

definition dispatched_event :: "int \<Rightarrow> go_time \<Rightarrow> OutboxEvent \<Rightarrow> OutboxEvent" where
  "dispatched_event n now x =
     x\<lparr>oe_Status := OutboxStatusDispatched, oe_AttemptCount := max (oe_AttemptCount x) n,
       oe_DispatchedAt := (case oe_DispatchedAt x of None \<Rightarrow> Some now | Some t \<Rightarrow> Some t),
       oe_LockedAt := None, oe_LastError := '''', oe_UpdatedAt := now\<rparr>"

definition retried_event :: "int \<Rightarrow> go_time \<Rightarrow> string \<Rightarrow> go_time \<Rightarrow> OutboxEvent \<Rightarrow> OutboxEvent" where
  "retried_event n nextAvailableAt lastError now x =
     x\<lparr>oe_Status := OutboxStatusRetry, oe_AttemptCount := max (oe_AttemptCount x) n,
       oe_AvailableAt := nextAvailableAt, oe_LockedAt := None, oe_LastError := lastError,
       oe_UpdatedAt := now\<rparr>"

definition fits_int4 :: "int \<Rightarrow> bool" where
  "fits_int4 n \<longleftrightarrow> - (2 ^ 31) \<le> n \<and> n < 2 ^ 31"

text \<open>An \<open>UPDATE\<close> of the event with this id, unless it is dispatched.\<close>

definition sql_mark_outbox ::
  "pg \<Rightarrow> string \<Rightarrow> int \<Rightarrow> (go_time \<Rightarrow> OutboxEvent \<Rightarrow> OutboxEvent) \<Rightarrow> db \<Rightarrow> go_error + unit \<times> db" where
  "sql_mark_outbox pg oid n f d =
     (if \<not> fits_int4 n then Inl (Opaque ''value is out of range for int4'')
      else case uuid_in pg oid of
        None \<Rightarrow> Inl (PgError ''22P02'' '''')
      | Some k \<Rightarrow>
          Inr ((), d\<lparr>transfer_outbox :=
                       update_where (\<lambda>x. oe_ID x = k \<and> oe_Status x \<noteq> OutboxStatusDispatched)
                         (f (db_now d)) (transfer_outbox d)\<rparr>))"

definition ClaimPendingOutbox :: "int \<Rightarrow> go_time \<Rightarrow> (world, OutboxEvent list) act" where
  "ClaimPendingOutbox batchSize0 staleBefore w =
     (let batchSize = (if batchSize0 \<le> 0 then 25 else batchSize0);
          (f, w1) = enter w;
          (events, d) = sql_claim_outbox (nat batchSize) staleBefore (w_db w1);
          lost = (if reply_lost f then w1\<lparr>w_db := d\<rparr> else w1)
      in case fails_at 0 f of
           Some e \<Rightarrow> (Inl (Errorf ''claim pending transfer outbox'' e), lost)
         | None \<Rightarrow>
             (case fails_at 1 f of
                Some e \<Rightarrow> (Inl (Errorf ''iterate claimed transfer outbox events'' e), lost)
              | None \<Rightarrow> (Inr events, w1\<lparr>w_db := d\<rparr>)))"

definition MarkOutboxDispatched :: "pg \<Rightarrow> string \<Rightarrow> int \<Rightarrow> (world, unit) act" where
  "MarkOutboxDispatched pg outboxID attemptCount w =
     (let (f, w1) = enter w in
      case autocommit f (sql_mark_outbox pg outboxID attemptCount (dispatched_event attemptCount) (w_db w1)) w1 of
        (Inl e, w2) \<Rightarrow> (Inl (Errorf ''mark transfer outbox dispatched'' e), w2)
      | (Inr _, w2) \<Rightarrow> (Inr (), w2))"

definition MarkOutboxRetry :: "pg \<Rightarrow> string \<Rightarrow> int \<Rightarrow> go_time \<Rightarrow> string \<Rightarrow> (world, unit) act" where
  "MarkOutboxRetry pg outboxID attemptCount nextAvailableAt lastError w =
     (let (f, w1) = enter w in
      case autocommit f (sql_mark_outbox pg outboxID attemptCount
                           (retried_event attemptCount nextAvailableAt lastError) (w_db w1)) w1 of
        (Inl e, w2) \<Rightarrow> (Inl (Errorf ''mark transfer outbox retry'' e), w2)
      | (Inr _, w2) \<Rightarrow> (Inr (), w2))"

definition PostgresOutbox :: "pg \<Rightarrow> world OutboxRepository" where
  "PostgresOutbox pg =
     \<lparr>or_ClaimPendingOutbox = ClaimPendingOutbox, or_MarkOutboxDispatched = MarkOutboxDispatched pg,
      or_MarkOutboxRetry = MarkOutboxRetry pg\<rparr>"

subsection \<open>The dispatcher\<close>

record 'w OutboxDispatcher =
  od_repository :: "'w OutboxRepository"
  od_publisher :: "TransferJob \<Rightarrow> ('w, unit) act"
  od_batchSize :: int
  od_pollInterval :: duration
  od_retryDelay :: duration
  od_processingTimeout :: duration
  od_now :: "'w \<Rightarrow> go_time"

definition NewOutboxDispatcher ::
  "'w OutboxRepository \<Rightarrow> (TransferJob \<Rightarrow> ('w, unit) act) \<Rightarrow> int \<Rightarrow> duration \<Rightarrow> duration \<Rightarrow> duration \<Rightarrow>
   ('w \<Rightarrow> go_time) \<Rightarrow> 'w OutboxDispatcher" where
  "NewOutboxDispatcher repository publisher batchSize pollInterval retryDelay processingTimeout now =
     \<lparr>od_repository = repository, od_publisher = publisher,
      od_batchSize = (if batchSize \<le> 0 then 25 else batchSize),
      od_pollInterval = (if sint pollInterval \<le> 0 then 2 * Second else pollInterval),
      od_retryDelay = (if sint retryDelay \<le> 0 then 2 * Second else retryDelay),
      od_processingTimeout = (if sint processingTimeout \<le> 0 then 30 * Second else processingTimeout),
      od_now = now\<rparr>"

fun retry_loop :: "nat \<Rightarrow> duration \<Rightarrow> duration" where
  "retry_loop 0 backoff = backoff"
| "retry_loop (Suc steps) backoff =
     (let backoff1 = backoff * 2 in
      if sint Minute \<le> sint backoff1 then Minute else retry_loop steps backoff1)"

definition retryBackoff :: "'w OutboxDispatcher \<Rightarrow> int \<Rightarrow> duration" where
  "retryBackoff D attemptCount =
     (if attemptCount \<le> 1 then od_retryDelay D
      else retry_loop (nat (attemptCount - 1)) (od_retryDelay D))"

definition scheduleRetry ::
  "'w OutboxDispatcher \<Rightarrow> OutboxEvent \<Rightarrow> int \<Rightarrow> go_error \<Rightarrow> 'w \<Rightarrow> go_error option \<times> 'w" where
  "scheduleRetry D event attemptCount dispatchErr w =
     (case or_MarkOutboxRetry (od_repository D) (oe_ID event) attemptCount
             (time_add (od_now D w) (retryBackoff D attemptCount)) (error_text dispatchErr) w of
        (Inl e, w1) \<Rightarrow> (Some (Errorf ''mark outbox retry after dispatch error'' e), w1)
      | (Inr _, w1) \<Rightarrow> (None, w1))"

definition dispatchEvent :: "'w OutboxDispatcher \<Rightarrow> OutboxEvent \<Rightarrow> 'w \<Rightarrow> go_error option \<times> 'w" where
  "dispatchEvent D event w =
     (let attemptCount = oe_AttemptCount event + 1 in
      if oe_EventType event = OutboxEventTypeTransferRequested
      then (case unmarshal_job (oe_PayloadJSON event) of
              Inl e \<Rightarrow> scheduleRetry D event attemptCount (Errorf ''decode transfer outbox payload'' e) w
            | Inr job \<Rightarrow>
                (case od_publisher D job w of
                   (Inl e, w1) \<Rightarrow> scheduleRetry D event attemptCount e w1
                 | (Inr _, w1) \<Rightarrow>
                     (case or_MarkOutboxDispatched (od_repository D) (oe_ID event) attemptCount w1 of
                        (Inl e, w2) \<Rightarrow> (Some (Errorf ''mark outbox dispatched'' e), w2)
                      | (Inr _, w2) \<Rightarrow> (None, w2))))
      else scheduleRetry D event attemptCount
             (Opaque (''unsupported outbox event type '' @ go_quote (oe_EventType event))) w)"

fun dispatch_events ::
  "'w OutboxDispatcher \<Rightarrow> OutboxEvent list \<Rightarrow> go_error option \<Rightarrow> 'w \<Rightarrow> go_error option \<times> 'w" where
  "dispatch_events D [] dispatchErr w = (dispatchErr, w)"
| "dispatch_events D (event # events) dispatchErr w =
     (case dispatchEvent D event w of
        (None, w1) \<Rightarrow> dispatch_events D events dispatchErr w1
      | (Some e, w1) \<Rightarrow> dispatch_events D events (Some (errors_join dispatchErr e)) w1)"

definition DispatchPending :: "'w OutboxDispatcher \<Rightarrow> 'w \<Rightarrow> go_error option \<times> 'w" where
  "DispatchPending D w =
     (let staleBefore = time_add (od_now D w) (- od_processingTimeout D) in
      case or_ClaimPendingOutbox (od_repository D) (od_batchSize D) staleBefore w of
        (Inl e, w1) \<Rightarrow> (Some (Errorf ''claim pending outbox'' e), w1)
      | (Inr events, w1) \<Rightarrow> dispatch_events D events None w1)"

text \<open>\<open>Run\<close>: one pass per tick until the context is done (\<open>False\<close>); errors are logged only.\<close>

fun OutboxDispatcher_Run :: "'w OutboxDispatcher \<Rightarrow> bool list \<Rightarrow> 'w \<Rightarrow> 'w" where
  "OutboxDispatcher_Run D [] w = snd (DispatchPending D w)"
| "OutboxDispatcher_Run D (ticked # events) w =
     (let w1 = snd (DispatchPending D w) in
      if ticked then OutboxDispatcher_Run D events w1 else w1)"

subsection \<open>What the dispatcher relies on\<close>

definition event_job :: "OutboxEvent \<Rightarrow> TransferJob" where
  "event_job x = (case unmarshal_job (oe_PayloadJSON x) of Inr job \<Rightarrow> job | Inl _ \<Rightarrow> \<lparr>job_TransferID = '''', job_Attempt = 0\<rparr>)"

text \<open>How an event leaves a pass: sent and dispatched, or not sent and due again.\<close>

definition settled_event :: "bool \<Rightarrow> OutboxEvent \<Rightarrow> OutboxEvent \<Rightarrow> bool" where
  "settled_event sent x y \<longleftrightarrow>
     outbox_identity y = outbox_identity x \<and> oe_LockedAt y = None \<and> oe_AttemptCount y = oe_AttemptCount x + 1 \<and>
     (if sent then oe_Status y = OutboxStatusDispatched \<and> oe_DispatchedAt y \<noteq> None
      else oe_Status y = OutboxStatusRetry)"

locale outbox_store =
  fixes D :: "'w OutboxDispatcher"
    and rows :: "'w \<Rightarrow> OutboxEvent list"
    and published :: "'w \<Rightarrow> 'm list"
    and ok :: "'w \<Rightarrow> bool"
    and message :: "TransferJob \<Rightarrow> 'm"
  assumes ids: "ok w \<Longrightarrow> distinct (map oe_ID (rows w))"
    and claims: "ok w \<Longrightarrow> or_ClaimPendingOutbox (od_repository D) n stale w = (rc, w') \<Longrightarrow>
          \<exists>evs. rc = Inr evs \<and> ok w' \<and> published w' = published w \<and> distinct (map oe_ID evs) \<and>
            set evs \<subseteq> set (rows w') \<and> (\<forall>x \<in> set evs. oe_Status x = OutboxStatusProcessing) \<and>
            (0 < n \<longrightarrow> int (length evs) \<le> n) \<and>
            (\<forall>y \<in> set (rows w). oe_ID y \<notin> oe_ID ` set evs \<longrightarrow> y \<in> set (rows w'))"
    and marks_dispatched: "ok w \<Longrightarrow> x \<in> set (rows w) \<Longrightarrow> fits_int4 n \<Longrightarrow>
          or_MarkOutboxDispatched (od_repository D) (oe_ID x) n w = (ru, w') \<Longrightarrow>
          \<exists>now. ru = Inr () \<and> ok w' \<and> published w' = published w \<and>
            rows w' = update_where (\<lambda>y. oe_ID y = oe_ID x \<and> oe_Status y \<noteq> OutboxStatusDispatched)
              (dispatched_event n now) (rows w)"
    and marks_retry: "ok w \<Longrightarrow> x \<in> set (rows w) \<Longrightarrow> fits_int4 n \<Longrightarrow>
          or_MarkOutboxRetry (od_repository D) (oe_ID x) n t m w = (ru, w') \<Longrightarrow>
          \<exists>now. ru = Inr () \<and> ok w' \<and> published w' = published w \<and>
            rows w' = update_where (\<lambda>y. oe_ID y = oe_ID x \<and> oe_Status y \<noteq> OutboxStatusDispatched)
              (retried_event n t m now) (rows w)"
    and publishes: "ok w \<Longrightarrow> od_publisher D job w = (ru, w') \<Longrightarrow>
          ok w' \<and> rows w' = rows w \<and>
          published w' = (case ru of Inl _ \<Rightarrow> published w | Inr _ \<Rightarrow> published w @ [message job])"
begin

lemma update_one:
  assumes "distinct (map oe_ID rs)" and "x \<in> set rs" and "oe_Status x \<noteq> OutboxStatusDispatched"
  shows "update_where (\<lambda>y. oe_ID y = oe_ID x \<and> oe_Status y \<noteq> OutboxStatusDispatched) f rs =
         update_where (\<lambda>y. oe_ID y = oe_ID x) (\<lambda>_. f x) rs"
proof -
  have "y = x" if "y \<in> set rs" "oe_ID y = oe_ID x" for y
    using assms(1,2) that by (auto dest: distinct_map_inj)
  then show ?thesis using assms(3) by (auto simp: update_where_def)
qed

lemma scheduleRetry_settles:
  assumes "ok w" and "x \<in> set (rows w)" and "oe_Status x = OutboxStatusProcessing"
    and "fits_int4 (oe_AttemptCount x + 1)" and "scheduleRetry D x (oe_AttemptCount x + 1) err w = (e, w')"
  shows "e = None \<and> ok w' \<and> published w' = published w \<and>
         (\<exists>y. settled_event False x y \<and> rows w' = update_where (\<lambda>z. oe_ID z = oe_ID x) (\<lambda>_. y) (rows w))"
proof -
  let ?n = "oe_AttemptCount x + 1"
  let ?t = "time_add (od_now D w) (retryBackoff D ?n)"
  obtain ru w1 where m: "or_MarkOutboxRetry (od_repository D) (oe_ID x) ?n ?t (error_text err) w = (ru, w1)"
    by force
  from marks_retry[OF assms(1,2,4) m] obtain now where k: "ru = Inr ()" "ok w1" "published w1 = published w"
      "rows w1 = update_where (\<lambda>y. oe_ID y = oe_ID x) (\<lambda>_. retried_event ?n ?t (error_text err) now x) (rows w)"
    using update_one[OF ids[OF assms(1)] assms(2)] assms(3) by auto
  have "settled_event False x (retried_event ?n ?t (error_text err) now x)"
    by (simp add: settled_event_def retried_event_def outbox_identity_def)
  with k m assms(5) show ?thesis by (auto simp: scheduleRetry_def)
qed

lemma dispatchEvent_settles:
  assumes ok: "ok w" and x: "x \<in> set (rows w)" "oe_Status x = OutboxStatusProcessing"
    and n: "fits_int4 (oe_AttemptCount x + 1)" and run: "dispatchEvent D x w = (e, w')"
  shows "\<exists>sent y. e = None \<and> ok w' \<and>
           published w' = published w @ (if sent then [message (event_job x)] else []) \<and>
           (sent \<longrightarrow> (\<exists>job. unmarshal_job (oe_PayloadJSON x) = Inr job)) \<and>
           settled_event sent x y \<and> rows w' = update_where (\<lambda>z. oe_ID z = oe_ID x) (\<lambda>_. y) (rows w)"
proof -
  let ?n = "oe_AttemptCount x + 1"
  have retry: ?thesis if "scheduleRetry D x ?n err w1 = (e, w')" "ok w1" "rows w1 = rows w"
      "published w1 = published w" for err w1
  proof -
    from scheduleRetry_settles[OF that(2) _ x(2) n that(1)] that(3) x(1) obtain y where
      "e = None" "ok w'" "published w' = published w1" "settled_event False x y"
      "rows w' = update_where (\<lambda>z. oe_ID z = oe_ID x) (\<lambda>_. y) (rows w1)" by auto
    with that(3,4) show ?thesis by (intro exI[of _ False] exI[of _ y]) simp
  qed
  show ?thesis
  proof (cases "oe_EventType x = OutboxEventTypeTransferRequested")
    case False
    with run ok retry show ?thesis by (simp add: dispatchEvent_def)
  next
    case ty: True
    show ?thesis
    proof (cases "unmarshal_job (oe_PayloadJSON x)")
      case (Inl err)
      with run ok ty retry show ?thesis by (simp add: dispatchEvent_def)
    next
      case job: (Inr job)
      obtain rp w1 where p: "od_publisher D job w = (rp, w1)" by force
      note pk = publishes[OF ok p]
      show ?thesis
      proof (cases rp)
        case (Inl err)
        with run ty job p pk retry show ?thesis by (simp add: dispatchEvent_def)
      next
        case (Inr u)
        obtain rm w2 where m: "or_MarkOutboxDispatched (od_repository D) (oe_ID x) ?n w1 = (rm, w2)" by force
        from pk Inr have w1: "ok w1" "rows w1 = rows w" "published w1 = published w @ [message job]" by auto
        from marks_dispatched[OF w1(1) _ n m] x(1) w1(2) obtain now where
          k: "rm = Inr ()" "ok w2" "published w2 = published w1"
            "rows w2 = update_where (\<lambda>y. oe_ID y = oe_ID x) (\<lambda>_. dispatched_event ?n now x) (rows w)"
          using update_one[OF ids[OF ok] x(1)] x(2) by auto
        have "settled_event True x (dispatched_event ?n now x)"
          by (simp add: settled_event_def dispatched_event_def outbox_identity_def split: option.splits)
        moreover from k m run ty job p Inr have "e = None" "w' = w2" by (auto simp: dispatchEvent_def)
        ultimately show ?thesis
          using k w1(3) job by (intro exI[of _ True] exI[of _ "dispatched_event ?n now x"]) (simp add: event_job_def)
      qed
    qed
  qed
qed

lemma dispatch_events_settles:
  assumes "ok w" and "distinct (map oe_ID evs)" and "set evs \<subseteq> set (rows w)"
    and "\<forall>x \<in> set evs. oe_Status x = OutboxStatusProcessing \<and> fits_int4 (oe_AttemptCount x + 1)"
    and "dispatch_events D evs err w = (err', w')"
  shows "\<exists>sent. err' = err \<and> ok w' \<and>
           published w' = published w @ map (\<lambda>x. message (event_job x)) (filter (\<lambda>x. sent (oe_ID x)) evs) \<and>
           (\<forall>x \<in> set evs. (sent (oe_ID x) \<longrightarrow> (\<exists>job. unmarshal_job (oe_PayloadJSON x) = Inr job)) \<and>
              (\<exists>y \<in> set (rows w'). settled_event (sent (oe_ID x)) x y)) \<and>
           (\<forall>y \<in> set (rows w). oe_ID y \<notin> oe_ID ` set evs \<longrightarrow> y \<in> set (rows w'))"
  using assms
proof (induction evs arbitrary: w)
  case Nil
  then show ?case by auto
next
  case (Cons x evs)
  obtain e w1 where d: "dispatchEvent D x w = (e, w1)" by force
  from dispatchEvent_settles[OF Cons.prems(1) _ _ _ d] Cons.prems(3,4) obtain s y where
    k: "e = None" "ok w1" "published w1 = published w @ (if s then [message (event_job x)] else [])"
      "s \<longrightarrow> (\<exists>job. unmarshal_job (oe_PayloadJSON x) = Inr job)" "settled_event s x y"
      "rows w1 = update_where (\<lambda>z. oe_ID z = oe_ID x) (\<lambda>_. y) (rows w)" by auto
  have fresh: "oe_ID x \<notin> oe_ID ` set evs" using Cons.prems(2) by simp
  have keep: "z \<in> set (rows w1)" if "z \<in> set (rows w)" "oe_ID z \<noteq> oe_ID x" for z
    using that by (force simp: k(6) in_update_where)
  have y1: "y \<in> set (rows w1)" using Cons.prems(3) by (force simp: k(6) in_update_where)
  have yid: "oe_ID y = oe_ID x" using k(5) by (simp add: settled_event_def outbox_identity_def)
  have "set evs \<subseteq> set (rows w1)"
  proof
    fix z assume z: "z \<in> set evs"
    with fresh have "oe_ID z \<noteq> oe_ID x" by (metis imageI)
    with z Cons.prems(3) show "z \<in> set (rows w1)" by (auto intro: keep)
  qed
  moreover have "dispatch_events D evs err w1 = (err', w')" using Cons.prems(5) d k(1) by simp
  ultimately obtain sent where s: "err' = err" "ok w'"
      "published w' = published w1 @ map (\<lambda>x. message (event_job x)) (filter (\<lambda>x. sent (oe_ID x)) evs)"
      "\<forall>x \<in> set evs. (sent (oe_ID x) \<longrightarrow> (\<exists>job. unmarshal_job (oe_PayloadJSON x) = Inr job)) \<and>
         (\<exists>y \<in> set (rows w'). settled_event (sent (oe_ID x)) x y)"
      "\<forall>y \<in> set (rows w1). oe_ID y \<notin> oe_ID ` set evs \<longrightarrow> y \<in> set (rows w')"
    using Cons.IH[OF k(2)] Cons.prems(2,4) by auto
  let ?sent = "sent(oe_ID x := s)"
  have other: "oe_ID z \<noteq> oe_ID x" if "z \<in> set evs" for z using that fresh by (metis imageI)
  then have same: "?sent (oe_ID z) = sent (oe_ID z)" if "z \<in> set evs" for z using that by simp
  then have fl: "filter (\<lambda>z. ?sent (oe_ID z)) evs = filter (\<lambda>z. sent (oe_ID z)) evs"
    by (intro filter_cong) auto
  show ?case
  proof (intro exI[of _ ?sent] conjI ballI)
    show "published w' = published w @
        map (\<lambda>x. message (event_job x)) (filter (\<lambda>x. ?sent (oe_ID x)) (x # evs))"
      using s(3) k(3) fl by simp
    fix z assume z: "z \<in> set (x # evs)"
    show "?sent (oe_ID z) \<longrightarrow> (\<exists>job. unmarshal_job (oe_PayloadJSON z) = Inr job)"
      using z s(4) k(4) other by (cases "z = x") auto
    show "\<exists>y \<in> set (rows w'). settled_event (?sent (oe_ID z)) z y"
    proof (cases "z = x")
      case True
      with y1 yid fresh s(5) k(5) show ?thesis by auto
    next
      case False
      with z s(4) other show ?thesis by auto
    qed
  qed (use s keep in auto)
qed

lemma DispatchPending_settles:
  assumes ok: "ok w" and run: "DispatchPending D w = (err, w')"
    and n: "\<forall>w1 evs. or_ClaimPendingOutbox (od_repository D) (od_batchSize D)
              (time_add (od_now D w) (- od_processingTimeout D)) w = (Inr evs, w1) \<longrightarrow>
              (\<forall>x \<in> set evs. fits_int4 (oe_AttemptCount x + 1))"
  shows "\<exists>evs w1 sent. or_ClaimPendingOutbox (od_repository D) (od_batchSize D)
              (time_add (od_now D w) (- od_processingTimeout D)) w = (Inr evs, w1) \<and> err = None \<and> ok w' \<and>
           published w' = published w @ map (\<lambda>x. message (event_job x)) (filter (\<lambda>x. sent (oe_ID x)) evs) \<and>
           (\<forall>x \<in> set evs. (sent (oe_ID x) \<longrightarrow> (\<exists>job. unmarshal_job (oe_PayloadJSON x) = Inr job)) \<and>
              (\<exists>y \<in> set (rows w'). settled_event (sent (oe_ID x)) x y)) \<and>
           (\<forall>y \<in> set (rows w). oe_ID y \<notin> oe_ID ` set evs \<longrightarrow> y \<in> set (rows w'))"
proof -
  obtain rc w1 where c: "or_ClaimPendingOutbox (od_repository D) (od_batchSize D)
      (time_add (od_now D w) (- od_processingTimeout D)) w = (rc, w1)" by force
  from claims[OF ok c] obtain evs where k: "rc = Inr evs" "ok w1" "published w1 = published w"
      "distinct (map oe_ID evs)" "set evs \<subseteq> set (rows w1)"
      "\<forall>x \<in> set evs. oe_Status x = OutboxStatusProcessing"
      "\<forall>y \<in> set (rows w). oe_ID y \<notin> oe_ID ` set evs \<longrightarrow> y \<in> set (rows w1)" by auto
  have "dispatch_events D evs None w1 = (err, w')" using run c k(1) by (simp add: DispatchPending_def)
  from dispatch_events_settles[OF k(2,4,5) _ this] k(6) n c k(1) obtain sent where
    "err = None" "ok w'"
    "published w' = published w1 @ map (\<lambda>x. message (event_job x)) (filter (\<lambda>x. sent (oe_ID x)) evs)"
    "\<forall>x \<in> set evs. (sent (oe_ID x) \<longrightarrow> (\<exists>job. unmarshal_job (oe_PayloadJSON x) = Inr job)) \<and>
       (\<exists>y \<in> set (rows w'). settled_event (sent (oe_ID x)) x y)"
    "\<forall>y \<in> set (rows w1). oe_ID y \<notin> oe_ID ` set evs \<longrightarrow> y \<in> set (rows w')" by auto
  with c k show ?thesis by (intro exI[of _ evs] exI[of _ w1] exI[of _ sent]) auto
qed

end

subsection \<open>PostgreSQL and RabbitMQ keep the contract\<close>

text \<open>The \<open>transfer_outbox\<close> rows have distinct ids in canonical form.\<close>

definition outbox_keys :: "pg \<Rightarrow> db \<Rightarrow> bool" where
  "outbox_keys pg d \<longleftrightarrow> distinct (map oe_ID (transfer_outbox d)) \<and>
     (\<forall>x \<in> set (transfer_outbox d). uuid_in pg (oe_ID x) = Some (oe_ID x))"

definition outbox_ready :: "pg \<Rightarrow> world \<Rightarrow> bool" where
  "outbox_ready pg w \<longleftrightarrow> quiet w \<and> outbox_keys pg (w_db w)"

lemma outbox_keys_ids:
  "map oe_ID (transfer_outbox d') = map oe_ID (transfer_outbox d) \<Longrightarrow> outbox_keys pg d' = outbox_keys pg d"
proof -
  assume eq: "map oe_ID (transfer_outbox d') = map oe_ID (transfer_outbox d)"
  have all: "(\<forall>x \<in> set (transfer_outbox e). P (oe_ID x)) = (\<forall>i \<in> set (map oe_ID (transfer_outbox e)). P i)" for P e
    by simp
  show ?thesis unfolding outbox_keys_def all[of _ "\<lambda>i. uuid_in pg i = Some i"] eq ..
qed

lemma event_ids [simp]:
  "oe_ID (claimed_event d x) = oe_ID x" "oe_ID (dispatched_event n now x) = oe_ID x"
  "oe_ID (retried_event n t m now x) = oe_ID x"
  by (simp_all add: claimed_event_def dispatched_event_def retried_event_def)

lemma candidates_subset: "set (outbox_candidates n st d) \<subseteq> set (transfer_outbox d)"
  by (auto simp: outbox_candidates_def dest!: in_set_takeD)

lemma candidates_distinct:
  assumes "distinct (map oe_ID (transfer_outbox d))"
  shows "distinct (map oe_ID (outbox_candidates n st d))"
proof -
  have dm: "distinct (map oe_ID (sort_key f xs)) = distinct (map oe_ID xs)" for f :: "OutboxEvent \<Rightarrow> int" and xs
    by (metis distinct_map distinct_sort set_sort)
  have "distinct (map oe_ID (filter (outbox_due st (db_now d)) (transfer_outbox d)))"
    using assms by (rule distinct_map_filter)
  then have "distinct (map oe_ID (sort_key oe_AvailableAt (sort_key oe_CreatedAt
       (filter (outbox_due st (db_now d)) (transfer_outbox d)))))" by (simp add: dm)
  then show ?thesis unfolding outbox_candidates_def take_map[symmetric] by (rule distinct_take)
qed

lemma sql_claim_outbox_spec:
  assumes keys: "distinct (map oe_ID (transfer_outbox d))" and run: "sql_claim_outbox n st d = (evs, d')"
  shows "map oe_ID (transfer_outbox d') = map oe_ID (transfer_outbox d)"
    and "distinct (map oe_ID evs)" and "set evs \<subseteq> set (transfer_outbox d')"
    and "\<forall>x \<in> set evs. oe_Status x = OutboxStatusProcessing" and "length evs \<le> n"
    and "\<forall>y \<in> set (transfer_outbox d). oe_ID y \<notin> oe_ID ` set evs \<longrightarrow> y \<in> set (transfer_outbox d')"
proof -
  let ?c = "outbox_candidates n st d"
  from run have e: "evs = map (claimed_event d) ?c"
    and d': "d' = d\<lparr>transfer_outbox := update_where (\<lambda>x. oe_ID x \<in> oe_ID ` set ?c) (claimed_event d) (transfer_outbox d)\<rparr>"
    by (auto simp: sql_claim_outbox_def Let_def)
  show "map oe_ID (transfer_outbox d') = map oe_ID (transfer_outbox d)"
    by (simp add: d' map_update_where_keep)
  show "distinct (map oe_ID evs)" using candidates_distinct[OF keys] by (simp add: e comp_def)
  show "set evs \<subseteq> set (transfer_outbox d')"
  proof
    fix x assume "x \<in> set evs"
    then obtain c where c: "c \<in> set ?c" "x = claimed_event d c" by (auto simp: e)
    then have "c \<in> set (transfer_outbox d)" "oe_ID c \<in> oe_ID ` set ?c" using candidates_subset by auto
    then show "x \<in> set (transfer_outbox d')" unfolding d' c(2) by (auto simp: in_update_where intro!: bexI[of _ c])
  qed
  show "\<forall>x \<in> set evs. oe_Status x = OutboxStatusProcessing" by (auto simp: e claimed_event_def)
  show "length evs \<le> n" by (simp add: e outbox_candidates_def)
  show "\<forall>y \<in> set (transfer_outbox d). oe_ID y \<notin> oe_ID ` set evs \<longrightarrow> y \<in> set (transfer_outbox d')"
    by (auto simp: e d' in_update_where image_image)
qed

text \<open>The worker's dispatcher (\<^verbatim>\<open>app/worker.go\<close>): PostgreSQL rows, RabbitMQ publisher, the process clock.\<close>

definition WorkerDispatcher ::
  "pg \<Rightarrow> Client option \<Rightarrow> RabbitMQConfig \<Rightarrow> int \<Rightarrow> duration \<Rightarrow> duration \<Rightarrow> duration \<Rightarrow> world OutboxDispatcher" where
  "WorkerDispatcher pg c cfg batchSize pollInterval retryDelay processingTimeout =
     NewOutboxDispatcher (PostgresOutbox pg) (PublishTransferRequested c cfg)
       batchSize pollInterval retryDelay processingTimeout w_clock"

lemma WorkerDispatcher_simps [simp]:
  "od_repository (WorkerDispatcher pg c cfg b p r t) = PostgresOutbox pg"
  "od_publisher (WorkerDispatcher pg c cfg b p r t) = PublishTransferRequested c cfg"
  "od_now (WorkerDispatcher pg c cfg b p r t) = w_clock"
  by (simp_all add: WorkerDispatcher_def NewOutboxDispatcher_def)

lemma mark_outbox_quiet:
  assumes "outbox_ready pg w" and "x \<in> set (transfer_outbox (w_db w))" and "fits_int4 n"
    and "\<And>t y. oe_ID (f t y) = oe_ID y"
  shows "\<exists>d. sql_mark_outbox pg (oe_ID x) n f (w_db w) = Inr ((), d) \<and> outbox_ready pg (w\<lparr>w_db := d\<rparr>) \<and>
           transfer_outbox d = update_where (\<lambda>y. oe_ID y = oe_ID x \<and> oe_Status y \<noteq> OutboxStatusDispatched)
             (f (db_now (w_db w))) (transfer_outbox (w_db w))"
  using assms
  by (auto simp: sql_mark_outbox_def outbox_ready_def outbox_keys_def map_update_where_keep
      in_update_where)

interpretation pgo: outbox_store "WorkerDispatcher pg c cfg b p r t" "\<lambda>w. transfer_outbox (w_db w)"
    w_published "outbox_ready pg" "job_publishing cfg"
  for pg c cfg b p r t
proof (unfold_locales, goal_cases)
  case (1 w)
  then show ?case by (simp add: outbox_ready_def outbox_keys_def)
next
  case (2 w n stale rc w')
  let ?n = "nat (if n \<le> 0 then 25 else n)"
  obtain evs d where s: "sql_claim_outbox ?n stale (w_db w) = (evs, d)" by force
  from 2 have q: "quiet w" "outbox_keys pg (w_db w)" by (simp_all add: outbox_ready_def)
  with 2 s have r: "rc = Inr evs" "w' = w\<lparr>w_db := d\<rparr>"
    by (auto simp: PostgresOutbox_def ClaimPendingOutbox_def Let_def split: if_splits)
  from q(2) have k: "distinct (map oe_ID (transfer_outbox (w_db w)))" by (simp add: outbox_keys_def)
  note spec = sql_claim_outbox_spec[OF k s]
  from outbox_keys_ids[OF spec(1)] q have "outbox_ready pg w'" by (simp add: r outbox_ready_def)
  moreover have "int (length evs) \<le> n" if "0 < n" using spec(5) that by simp
  ultimately show ?case using spec r by auto
next
  case (3 w x n ru w')
  from mark_outbox_quiet[OF 3(1-3), of "dispatched_event n"] 3 show ?case
    by (intro exI[of _ "db_now (w_db w)"])
      (auto simp: PostgresOutbox_def MarkOutboxDispatched_def outbox_ready_def)
next
  case (4 w x n t m ru w')
  from mark_outbox_quiet[OF 4(1-3), of "retried_event n t m"] 4 show ?case
    by (intro exI[of _ "db_now (w_db w)"])
      (auto simp: PostgresOutbox_def MarkOutboxRetry_def outbox_ready_def)
next
  case (5 w job ru w')
  from PublishTransferRequested_spec[OF 5(2)[simplified]] 5(1) show ?case
    by (auto simp: same_db_side_def outbox_ready_def quiet_def)
qed

subsection \<open>Backoff\<close>

lemma retry_loop_exact:
  assumes "0 < sint b" and "sint b < 2 ^ 62"
  shows "sint (retry_loop k b) = (if k = 0 then sint b else min (sint Minute) (sint b * 2 ^ k))"
  using assms
proof (induction k arbitrary: b)
  case (Suc k)
  have m: "sint (b * 2) = sint b * 2" using Suc.prems by (subst sint_mult_fits) auto
  have p: "sint b * 2 \<le> sint b * 2 ^ Suc k" using Suc.prems(1) by (simp add: mult_le_cancel_left1)
  show ?case
  proof (cases "sint Minute \<le> sint b * 2")
    case True
    with p have "min (sint Minute) (sint b * 2 ^ Suc k) = sint Minute" by (intro min_absorb1) linarith
    with True m show ?thesis by simp
  next
    case False
    then have "sint (retry_loop k (b * 2)) = (if k = 0 then sint (b * 2) else min (sint Minute) (sint (b * 2) * 2 ^ k))"
      using Suc.prems m by (intro Suc.IH) auto
    with False m show ?thesis by (auto simp: algebra_simps)
  qed
qed simp

subsection \<open>Steps on the outbox\<close>

inductive outbox_step :: "pg \<Rightarrow> db \<Rightarrow> db \<Rightarrow> bool" for pg where
  claim: "sql_claim_outbox n stale d = (evs, d') \<Longrightarrow> outbox_step pg d d'"
| dispatched: "sql_mark_outbox pg oid n (dispatched_event n) d = Inr ((), d') \<Longrightarrow> outbox_step pg d d'"
| retry: "sql_mark_outbox pg oid n (retried_event n t m) d = Inr ((), d') \<Longrightarrow> outbox_step pg d d'"

inductive_cases outbox_stepE: "outbox_step pg d d'"

lemma event_identity [simp]:
  "outbox_identity (claimed_event d x) = outbox_identity x"
  "outbox_identity (dispatched_event n now x) = outbox_identity x"
  "outbox_identity (retried_event n t m now x) = outbox_identity x"
  by (simp_all add: outbox_identity_def claimed_event_def dispatched_event_def retried_event_def)

lemma outbox_step_update:
  assumes "outbox_step pg d d'"
  obtains p f where "d' = d\<lparr>transfer_outbox := update_where p f (transfer_outbox d)\<rparr>"
    and "\<And>x. outbox_identity (f x) = outbox_identity x"
    and "\<And>x. oe_AttemptCount x \<le> oe_AttemptCount (f x)"
    and "\<And>x. distinct (map oe_ID (transfer_outbox d)) \<Longrightarrow> x \<in> set (transfer_outbox d) \<Longrightarrow>
           oe_Status x = OutboxStatusDispatched \<Longrightarrow> \<not> p x"
  using assms
proof cases
  case (claim n stale evs)
  let ?c = "outbox_candidates n stale d"
  show thesis
  proof (rule that)
    show "d' = d\<lparr>transfer_outbox := update_where (\<lambda>x. oe_ID x \<in> oe_ID ` set ?c) (claimed_event d) (transfer_outbox d)\<rparr>"
      using claim by (simp add: sql_claim_outbox_def Let_def)
    fix x assume k: "distinct (map oe_ID (transfer_outbox d))" "x \<in> set (transfer_outbox d)"
      "oe_Status x = OutboxStatusDispatched"
    show "\<not> oe_ID x \<in> oe_ID ` set ?c"
    proof
      assume "oe_ID x \<in> oe_ID ` set ?c"
      then obtain c where c: "c \<in> set ?c" "oe_ID x = oe_ID c" by auto
      from c(1) candidates_subset have "c \<in> set (transfer_outbox d)" by blast
      from distinct_map_inj[OF k(1,2) this c(2)] have "x = c" .
      with c(1) k(3) show False
        by (auto simp: outbox_candidates_def outbox_due_def dest!: in_set_takeD)
    qed
  qed (simp_all add: claimed_event_def outbox_identity_def)
qed (auto simp: sql_mark_outbox_def dispatched_event_def retried_event_def outbox_identity_def
     split: option.splits if_splits intro: that)

lemma outbox_step_side: "outbox_step pg d d' \<Longrightarrow> side_step d d'"
  by (elim outbox_step_update) (simp add: side_step_def map_update_where_keep)

lemma outbox_step_keys: "outbox_step pg d d' \<Longrightarrow> outbox_keys pg d' = outbox_keys pg d"
proof (elim outbox_step_update)
  fix p f assume "d' = d\<lparr>transfer_outbox := update_where p f (transfer_outbox d)\<rparr>"
    and "\<And>x. outbox_identity (f x) = outbox_identity x"
  then show ?thesis by (intro outbox_keys_ids) (simp add: map_update_where_keep outbox_identity_def)
qed

lemma outbox_steps_dispatched:
  "(outbox_step pg)\<^sup>*\<^sup>* d d' \<Longrightarrow> outbox_keys pg d \<Longrightarrow>
   outbox_keys pg d' \<and> (\<forall>x \<in> set (transfer_outbox d). oe_Status x = OutboxStatusDispatched \<longrightarrow> x \<in> set (transfer_outbox d'))"
proof (induction rule: rtranclp_induct)
  case (step y z)
  from step(2) show ?case
  proof (rule outbox_step_update)
    fix p f
    assume z: "z = y\<lparr>transfer_outbox := update_where p f (transfer_outbox y)\<rparr>"
      and k: "\<And>x. distinct (map oe_ID (transfer_outbox y)) \<Longrightarrow> x \<in> set (transfer_outbox y) \<Longrightarrow>
           oe_Status x = OutboxStatusDispatched \<Longrightarrow> \<not> p x"
    show ?thesis
    proof (intro conjI ballI impI)
      show "outbox_keys pg z" using step outbox_step_keys by blast
      fix x assume "x \<in> set (transfer_outbox d)" "oe_Status x = OutboxStatusDispatched"
      with step.IH[OF step.prems] have x: "x \<in> set (transfer_outbox y)" "\<not> p x"
        using k[of x] by (simp_all add: outbox_keys_def)
      then show "x \<in> set (transfer_outbox z)" by (auto simp: z in_update_where intro!: bexI[of _ x])
    qed
  qed
qed simp

lemma claimed_from_rows:
  assumes "quiet w" and "ClaimPendingOutbox n stale w = (Inr evs, w1)" and "x \<in> set evs"
  shows "\<exists>y \<in> set (transfer_outbox (w_db w)). x = claimed_event (w_db w) y"
proof -
  have "evs = map (claimed_event (w_db w)) (outbox_candidates (nat (if n \<le> 0 then 25 else n)) stale (w_db w))"
    using assms(1,2) by (simp add: ClaimPendingOutbox_def sql_claim_outbox_def Let_def)
  then show ?thesis using assms(3) candidates_subset by fastforce
qed

end
