(* ===== verification/Webhooks.thy ===== *)
theory Webhooks
  imports SystemSteps
begin

text \<open>
  \<^verbatim>\<open>webhooks/repository.go\<close>, \<^verbatim>\<open>webhooks/postgres_repository.go\<close>, \<^verbatim>\<open>webhooks/service.go\<close> and
  \<^verbatim>\<open>webhooks/worker.go\<close>: deliveries are scheduled from the status history, claimed under a
  lease, posted, and settled by updates that compare the lease. The locale \<open>delivery_store\<close>
  states what the service relies on; the interpretation \<open>pgd\<close> shows that PostgreSQL provides it.
\<close>

record MarkParams =
  mp_ID :: string
  mp_LeaseExpiresAt :: go_time
  mp_AttemptCount :: int
  mp_ResponseStatusCode :: int
  mp_ResponseBody :: string

record MarkFailedParams = MarkParams +
  mp_LastError :: string

record MarkRetryParams = MarkFailedParams +
  mp_NextAttemptAt :: go_time

record 'w WebhookRepository =
  wr_Schedule :: "int \<Rightarrow> ('w, nat) act"
  wr_Claim :: "int \<Rightarrow> duration \<Rightarrow> ('w, Delivery list) act"
  wr_MarkDelivered :: "MarkParams \<Rightarrow> ('w, unit) act"
  wr_MarkRetry :: "MarkRetryParams \<Rightarrow> ('w, unit) act"
  wr_MarkFailed :: "MarkFailedParams \<Rightarrow> ('w, unit) act"

subsection \<open>Statements\<close>

definition webhook_statuses :: "string list" where
  "webhook_statuses = [StatusSubmitted, StatusConfirmed, StatusFailed]"

text \<open>The join of history and requests that has a callback to tell.\<close>

definition notifiable :: "db \<Rightarrow> (StatusHistory \<times> Transfer) list" where
  "notifiable d =
     concat (map (\<lambda>h. map (\<lambda>t. (h, t))
       (filter (\<lambda>t. tr_ID t = sh_TransferID h \<and> tr_CallbackURL t \<noteq> '''') (transfer_requests d)))
       (filter (\<lambda>h. sh_ToStatus h \<in> set webhook_statuses) (transfer_status_history d)))"

definition delivery_payload :: "pg \<Rightarrow> StatusHistory \<Rightarrow> Transfer \<Rightarrow> raw_json" where
  "delivery_payload pg h t =
     RawJson (JObject
       [(''transfer_id'', JString (tr_ID t)), (''status'', JString (sh_ToStatus h)),
        (''chain'', JString (tr_Chain t)), (''tx_hash'', JString (tr_TxHash t)),
        (''idempotency_key'', JString (tr_IdempotencyKey t)), (''amount'', JString (tr_Amount t)),
        (''source_wallet_id'', JString (tr_SourceWalletID t)),
        (''destination_address'', JString (tr_DestinationAddress t)),
        (''updated_at'', JString (timestamptz_out pg (tr_UpdatedAt t))),
        (''status_changed_at'', JString (timestamptz_out pg (sh_CreatedAt h)))])"

definition new_delivery :: "pg \<Rightarrow> int \<Rightarrow> StatusHistory \<Rightarrow> Transfer \<Rightarrow> db \<Rightarrow> Delivery" where
  "new_delivery pg maxAttempts h t d =
     \<lparr>wd_ID = gen_random_uuid pg (uuid_count d), wd_TransferRequestID = tr_ID t,
      wd_TransferStatusHistoryID = sh_ID h, wd_TargetURL = tr_CallbackURL t,
      wd_EventType = ''transfer.status.updated'', wd_TransferStatus = sh_ToStatus h,
      wd_PayloadJSON = delivery_payload pg h t, wd_DeliveryStatus = DeliveryStatusPending,
      wd_AttemptCount = 0, wd_MaxAttempts = maxAttempts, wd_ResponseStatusCode = 0,
      wd_ResponseBody = '''', wd_LastError = '''', wd_NextAttemptAt = Some (db_now d),
      wd_LeaseExpiresAt = None, wd_DeliveredAt = None, wd_CreatedAt = db_now d, wd_UpdatedAt = db_now d\<rparr>"

text \<open>\<open>INSERT ... SELECT ... ON CONFLICT DO NOTHING\<close>, row by row, with the number of rows inserted.\<close>

fun insert_deliveries ::
  "pg \<Rightarrow> int \<Rightarrow> (StatusHistory \<times> Transfer) list \<Rightarrow> nat \<Rightarrow> db \<Rightarrow> go_error + nat \<times> db" where
  "insert_deliveries pg maxAttempts [] n d = Inr (n, d)"
| "insert_deliveries pg maxAttempts ((h, t) # rows) n d =
     (let r = new_delivery pg maxAttempts h t d;
          d1 = d\<lparr>uuid_count := Suc (uuid_count d)\<rparr>
      in if \<not> delivery_row_ok r then Inl (PgError ''23514'' ''chk_webhook_deliveries_max_attempts'')
         else if \<exists>x \<in> set (webhook_deliveries d).
             wd_ID x = wd_ID r \<or> wd_TransferStatusHistoryID x = wd_TransferStatusHistoryID r
         then insert_deliveries pg maxAttempts rows n d1
         else insert_deliveries pg maxAttempts rows (Suc n)
                (d1\<lparr>webhook_deliveries := webhook_deliveries d @ [r]\<rparr>))"

definition sql_schedule_deliveries :: "pg \<Rightarrow> int \<Rightarrow> db \<Rightarrow> go_error + nat \<times> db" where
  "sql_schedule_deliveries pg maxAttempts d =
     (if maxAttempts < - (2 ^ 31) \<or> 2 ^ 31 \<le> maxAttempts
      then Inl (Opaque ''value is out of range for int4'')
      else insert_deliveries pg maxAttempts (notifiable d) 0 d)"

definition delivery_due :: "go_time \<Rightarrow> Delivery \<Rightarrow> bool" where
  "delivery_due now x \<longleftrightarrow>
     (wd_DeliveryStatus x = DeliveryStatusPending \<or> wd_DeliveryStatus x = DeliveryStatusRetrying) \<and>
       (\<exists>t \<in> set_option (wd_NextAttemptAt x). t \<le> now) \<or>
     wd_DeliveryStatus x = DeliveryStatusInProgress \<and> (\<exists>t \<in> set_option (wd_LeaseExpiresAt x). t \<le> now)"

definition nulls_first :: "('a \<Rightarrow> int option) \<Rightarrow> 'a list \<Rightarrow> 'a list" where
  "nulls_first f xs = filter (\<lambda>x. f x = None) xs @
     sort_key (\<lambda>x. case f x of Some t \<Rightarrow> t | None \<Rightarrow> 0) (filter (\<lambda>x. f x \<noteq> None) xs)"

definition delivery_candidates :: "nat \<Rightarrow> db \<Rightarrow> Delivery list" where
  "delivery_candidates limit d =
     take limit (nulls_first wd_NextAttemptAt (sort_key wd_CreatedAt
       (filter (delivery_due (db_now d)) (webhook_deliveries d))))"

text \<open>
  \<open>formatPostgresInterval\<close> prints the seconds with six digits, so the lease is in whole
  microseconds (nearest; exact for durations of whole microseconds).
\<close>

definition formatPostgresInterval :: "duration \<Rightarrow> int" where
  "formatPostgresInterval d = (sint d + 500) div 1000 * 1000"

definition claimed_delivery :: "duration \<Rightarrow> db \<Rightarrow> Delivery \<Rightarrow> Delivery" where
  "claimed_delivery lease d x =
     x\<lparr>wd_DeliveryStatus := DeliveryStatusInProgress,
       wd_LeaseExpiresAt := Some (db_now d + formatPostgresInterval lease), wd_UpdatedAt := db_now d\<rparr>"

definition scanDelivery :: "Delivery \<Rightarrow> Delivery" where
  "scanDelivery r = r\<lparr>wd_PayloadJSON :=
     (if wd_PayloadJSON r = RawText '''' then RawJson (JObject []) else wd_PayloadJSON r)\<rparr>"

text \<open>
  The claim names its returned columns without their table, and \<open>id\<close> is a column of both
  \<open>deliveries\<close> and \<open>candidates\<close>: a server that does not accept the name refuses the statement.
\<close>

definition sql_claim_deliveries :: "pg \<Rightarrow> nat \<Rightarrow> duration \<Rightarrow> db \<Rightarrow> go_error + Delivery list \<times> db" where
  "sql_claim_deliveries pg limit lease d =
     (if \<not> accepts_ambiguous pg then Inl (PgError ''42702'' '''')
      else
        (let candidates = delivery_candidates limit d in
         Inr (map (scanDelivery \<circ> claimed_delivery lease d) candidates,
              d\<lparr>webhook_deliveries :=
                  update_where (\<lambda>x. wd_ID x \<in> wd_ID ` set candidates) (claimed_delivery lease d)
                    (webhook_deliveries d)\<rparr>)))"

definition delivered_row :: "MarkParams \<Rightarrow> go_time \<Rightarrow> Delivery \<Rightarrow> Delivery" where
  "delivered_row p now x =
     x\<lparr>wd_DeliveryStatus := DeliveryStatusDelivered, wd_AttemptCount := mp_AttemptCount p,
       wd_ResponseStatusCode := mp_ResponseStatusCode p, wd_ResponseBody := mp_ResponseBody p,
       wd_LastError := '''', wd_NextAttemptAt := None, wd_LeaseExpiresAt := None,
       wd_DeliveredAt := Some now, wd_UpdatedAt := now\<rparr>"

definition retry_row :: "MarkRetryParams \<Rightarrow> go_time \<Rightarrow> Delivery \<Rightarrow> Delivery" where
  "retry_row p now x =
     x\<lparr>wd_DeliveryStatus := DeliveryStatusRetrying, wd_AttemptCount := mp_AttemptCount p,
       wd_ResponseStatusCode := mp_ResponseStatusCode p, wd_ResponseBody := mp_ResponseBody p,
       wd_LastError := mp_LastError p, wd_NextAttemptAt := Some (mp_NextAttemptAt p),
       wd_LeaseExpiresAt := None, wd_DeliveredAt := None, wd_UpdatedAt := now\<rparr>"

definition failed_row :: "MarkFailedParams \<Rightarrow> go_time \<Rightarrow> Delivery \<Rightarrow> Delivery" where
  "failed_row p now x =
     x\<lparr>wd_DeliveryStatus := DeliveryStatusFailed, wd_AttemptCount := mp_AttemptCount p,
       wd_ResponseStatusCode := mp_ResponseStatusCode p, wd_ResponseBody := mp_ResponseBody p,
       wd_LastError := mp_LastError p, wd_NextAttemptAt := None, wd_LeaseExpiresAt := None,
       wd_DeliveredAt := None, wd_UpdatedAt := now\<rparr>"

definition leased :: "string \<Rightarrow> go_time \<Rightarrow> Delivery \<Rightarrow> bool" where
  "leased k lease x \<longleftrightarrow> wd_ID x = k \<and> wd_DeliveryStatus x = DeliveryStatusInProgress \<and>
     wd_LeaseExpiresAt x = Some lease"

text \<open>The three marks: an \<open>UPDATE\<close> of the leased row; the result is the number of rows affected.\<close>

definition sql_mark_delivery ::
  "pg \<Rightarrow> string \<Rightarrow> go_time \<Rightarrow> (go_time \<Rightarrow> Delivery \<Rightarrow> Delivery) \<Rightarrow> db \<Rightarrow> go_error + nat \<times> db" where
  "sql_mark_delivery pg did lease f d =
     (case uuid_in pg did of
        None \<Rightarrow> Inl (PgError ''22P02'' '''')
      | Some k \<Rightarrow>
          (let hit = filter (leased k lease) (webhook_deliveries d) in
           if \<exists>x \<in> set hit. \<not> delivery_row_ok (f (db_now d) x)
           then Inl (PgError ''23514'' ''chk_webhook_deliveries'')
           else Inr (length hit,
                     d\<lparr>webhook_deliveries := update_where (leased k lease) (f (db_now d)) (webhook_deliveries d)\<rparr>)))"

subsection \<open>Methods\<close>

definition ScheduleTransferStatusDeliveries :: "pg \<Rightarrow> int \<Rightarrow> (world, nat) act" where
  "ScheduleTransferStatusDeliveries pg maxAttempts w =
     (let (f, w1) = enter w in
      case autocommit f (sql_schedule_deliveries pg maxAttempts (w_db w1)) w1 of
        (Inl e, w2) \<Rightarrow> (Inl (Errorf ''schedule webhook deliveries'' e), w2)
      | (Inr n, w2) \<Rightarrow> (Inr n, w2))"

definition ClaimDueDeliveries :: "pg \<Rightarrow> int \<Rightarrow> duration \<Rightarrow> (world, Delivery list) act" where
  "ClaimDueDeliveries pg limit0 leaseDuration0 w =
     (let limit = (if limit0 \<le> 0 then 25 else limit0);
          leaseDuration = (if sint leaseDuration0 \<le> 0 then 30 * Second else leaseDuration0);
          (f, w1) = enter w
      in case autocommit f (sql_claim_deliveries pg (nat limit) leaseDuration (w_db w1)) w1 of
           (Inl e, w2) \<Rightarrow> (Inl (Errorf ''claim due webhook deliveries'' e), w2)
         | (Inr deliveries, w2) \<Rightarrow>
             (case fails_at 1 f of
                Some e \<Rightarrow> (Inl (Errorf ''iterate claimed webhook deliveries'' e), if reply_lost f then w2 else w1)
              | None \<Rightarrow> (Inr deliveries, w2)))"

definition mark_delivery ::
  "pg \<Rightarrow> string \<Rightarrow> string \<Rightarrow> go_time \<Rightarrow> (go_time \<Rightarrow> Delivery \<Rightarrow> Delivery) \<Rightarrow> (world, unit) act" where
  "mark_delivery pg operation did lease g w =
     (let (f, w1) = enter w in
      case autocommit f (sql_mark_delivery pg did lease g (w_db w1)) w1 of
        (Inl e, w2) \<Rightarrow> (Inl (Errorf operation e), w2)
      | (Inr n, w2) \<Rightarrow> if n = 0 then (Inl (Sentinel ErrDeliveryLeaseLost), w2) else (Inr (), w2))"

definition MarkDelivered :: "pg \<Rightarrow> MarkParams \<Rightarrow> (world, unit) act" where
  "MarkDelivered pg p = mark_delivery pg ''mark webhook delivered'' (mp_ID p) (mp_LeaseExpiresAt p) (delivered_row p)"

definition MarkRetry :: "pg \<Rightarrow> MarkRetryParams \<Rightarrow> (world, unit) act" where
  "MarkRetry pg p = mark_delivery pg ''mark webhook retry'' (mp_ID p) (mp_LeaseExpiresAt p) (retry_row p)"

definition MarkFailed :: "pg \<Rightarrow> MarkFailedParams \<Rightarrow> (world, unit) act" where
  "MarkFailed pg p = mark_delivery pg ''mark webhook failed'' (mp_ID p) (mp_LeaseExpiresAt p) (failed_row p)"

definition PostgresWebhooks :: "pg \<Rightarrow> world WebhookRepository" where
  "PostgresWebhooks pg =
     \<lparr>wr_Schedule = ScheduleTransferStatusDeliveries pg, wr_Claim = ClaimDueDeliveries pg,
      wr_MarkDelivered = MarkDelivered pg, wr_MarkRetry = MarkRetry pg, wr_MarkFailed = MarkFailed pg\<rparr>"

subsection \<open>The service\<close>

record DispatchResult =
  dr_StatusCode :: int
  dr_Body :: string

record 'w WebhookService =
  ws_repository :: "'w WebhookRepository"
  ws_dispatcher :: "Delivery \<Rightarrow> ('w, DispatchResult) act"
  ws_maxAttempts :: int
  ws_initialBackoff :: duration
  ws_batchSize :: int
  ws_leaseDuration :: duration
  ws_now :: "'w \<Rightarrow> go_time"

definition NewWebhookService ::
  "'w WebhookRepository \<Rightarrow> (Delivery \<Rightarrow> ('w, DispatchResult) act) \<Rightarrow> int \<Rightarrow> duration \<Rightarrow> int \<Rightarrow> duration \<Rightarrow>
   ('w \<Rightarrow> go_time) \<Rightarrow> 'w WebhookService" where
  "NewWebhookService repository dispatcher maxAttempts initialBackoff batchSize leaseDuration now =
     \<lparr>ws_repository = repository, ws_dispatcher = dispatcher,
      ws_maxAttempts = (if maxAttempts \<le> 0 then 5 else maxAttempts),
      ws_initialBackoff = (if sint initialBackoff \<le> 0 then 2 * Second else initialBackoff),
      ws_batchSize = (if batchSize \<le> 0 then 25 else batchSize),
      ws_leaseDuration = (if sint leaseDuration \<le> 0 then 30 * Second else leaseDuration),
      ws_now = now\<rparr>"

text \<open>The shift is one of a \<open>time.Duration\<close>: it is 0 from 64 on, and the product wraps.\<close>

definition backoffForAttempt :: "'w WebhookService \<Rightarrow> int \<Rightarrow> duration" where
  "backoffForAttempt s attempt =
     (if attempt \<le> 1 then ws_initialBackoff s
      else ws_initialBackoff s * push_bit (nat (attempt - 1)) 1)"

text \<open>A mark whose lease was lost is not an error of the cycle.\<close>

definition marked :: "(go_error + unit) \<times> 'w \<Rightarrow> go_error option \<times> 'w" where
  "marked r =
     (case r of
        (Inl e, w) \<Rightarrow> (if errors_is e ErrDeliveryLeaseLost then None else Some e, w)
      | (Inr _, w) \<Rightarrow> (None, w))"

text \<open>The delivery went through: no error and a status of the 2xx class.\<close>

definition accepted :: "go_error + DispatchResult \<Rightarrow> bool" where
  "accepted out = (case out of Inl _ \<Rightarrow> False | Inr r \<Rightarrow> 200 \<le> dr_StatusCode r \<and> dr_StatusCode r < 300)"

definition processDelivery :: "'w WebhookService \<Rightarrow> Delivery \<Rightarrow> 'w \<Rightarrow> go_error option \<times> 'w" where
  "processDelivery s delivery w =
     (case wd_LeaseExpiresAt delivery of
        None \<Rightarrow> (Some (Opaque (''claimed delivery '' @ wd_ID delivery @ '' is missing lease expiry'')), w)
      | Some lease \<Rightarrow>
          (let attempt = wd_AttemptCount delivery + 1;
               (dispatched, w1) = ws_dispatcher s delivery w;
               result = (case dispatched of Inl _ \<Rightarrow> \<lparr>dr_StatusCode = 0, dr_Body = ''''\<rparr> | Inr r \<Rightarrow> r);
               base = \<lparr>mp_ID = wd_ID delivery, mp_LeaseExpiresAt = lease, mp_AttemptCount = attempt,
                       mp_ResponseStatusCode = dr_StatusCode result, mp_ResponseBody = dr_Body result\<rparr>;
               lastError = (case dispatched of
                   Inl e \<Rightarrow> error_text e
                 | Inr r \<Rightarrow> ''unexpected response status: '' @ itoa (dr_StatusCode r))
           in if accepted dispatched
              then marked (wr_MarkDelivered (ws_repository s) base w1)
              else if wd_MaxAttempts delivery \<le> attempt
              then marked (wr_MarkFailed (ws_repository s)
                     \<lparr>mp_ID = wd_ID delivery, mp_LeaseExpiresAt = lease, mp_AttemptCount = attempt,
                      mp_ResponseStatusCode = dr_StatusCode result, mp_ResponseBody = dr_Body result,
                      mp_LastError = lastError\<rparr> w1)
              else marked (wr_MarkRetry (ws_repository s)
                     \<lparr>mp_ID = wd_ID delivery, mp_LeaseExpiresAt = lease, mp_AttemptCount = attempt,
                      mp_ResponseStatusCode = dr_StatusCode result, mp_ResponseBody = dr_Body result,
                      mp_LastError = lastError,
                      mp_NextAttemptAt = time_add (ws_now s w1) (backoffForAttempt s attempt)\<rparr> w1)))"

fun process_deliveries :: "'w WebhookService \<Rightarrow> Delivery list \<Rightarrow> 'w \<Rightarrow> go_error option \<times> 'w" where
  "process_deliveries s [] w = (None, w)"
| "process_deliveries s (delivery # deliveries) w =
     (case processDelivery s delivery w of
        (Some e, w1) \<Rightarrow> (Some e, w1)
      | (None, w1) \<Rightarrow> process_deliveries s deliveries w1)"

definition RunCycle :: "'w WebhookService \<Rightarrow> 'w \<Rightarrow> go_error option \<times> 'w" where
  "RunCycle s w =
     (case wr_Schedule (ws_repository s) (ws_maxAttempts s) w of
        (Inl e, w1) \<Rightarrow> (Some e, w1)
      | (Inr _, w1) \<Rightarrow>
          (case wr_Claim (ws_repository s) (ws_batchSize s) (ws_leaseDuration s) w1 of
             (Inl e, w2) \<Rightarrow> (Some e, w2)
           | (Inr deliveries, w2) \<Rightarrow> process_deliveries s deliveries w2))"

text \<open>\<^verbatim>\<open>worker.go\<close>: cycles until one fails or the context is done; \<open>True\<close> is a tick.\<close>

definition webhook_poll_interval :: "duration \<Rightarrow> duration" where
  "webhook_poll_interval p = (if sint p \<le> 0 then 2 * Second else p)"

datatype worker_state = WorkerRunning | WorkerReturned "go_error option"

fun worker_ticks :: "'w WebhookService \<Rightarrow> bool list \<Rightarrow> 'w \<Rightarrow> worker_state \<times> 'w" where
  "worker_ticks s [] w = (WorkerRunning, w)"
| "worker_ticks s (ticked # evs) w =
     (if \<not> ticked then (WorkerReturned None, w)
      else (case RunCycle s w of
              (Some e, w1) \<Rightarrow> (WorkerReturned (Some e), w1)
            | (None, w1) \<Rightarrow> worker_ticks s evs w1))"

definition Worker_Run :: "'w WebhookService \<Rightarrow> bool list \<Rightarrow> 'w \<Rightarrow> worker_state \<times> 'w" where
  "Worker_Run s evs w =
     (case RunCycle s w of
        (Some e, w1) \<Rightarrow> (WorkerReturned (Some e), w1)
      | (None, w1) \<Rightarrow> worker_ticks s evs w1)"

end
