(* ===== verification/Supervisor.thy ===== *)
theory Supervisor
  imports Consumer Outbox Webhooks
begin

text \<open>
  \<^verbatim>\<open>app/worker.go\<close> (\<open>superviseWorkerSubsystem\<close> and the subsystems it runs) and
  \<^verbatim>\<open>app/worker_health.go\<close> (the status tracker and the health endpoint of the worker). One turn of
  the supervision loop is an \<open>iteration\<close>: what the context, the clock and the run of the
  subsystem do in it. The tracker's map is an association list with one entry per name.
\<close>

subsection \<open>worker\_health.go\<close>

definition workerSubsystemStatusStarting :: string where [go_consts]: "workerSubsystemStatusStarting = ''starting''"
definition workerSubsystemStatusRunning :: string where [go_consts]: "workerSubsystemStatusRunning = ''running''"
definition workerSubsystemStatusRestarting :: string where [go_consts]: "workerSubsystemStatusRestarting = ''restarting''"
definition workerSubsystemStatusStopped :: string where [go_consts]: "workerSubsystemStatusStopped = ''stopped''"
definition workerSubsystemStatusFatal :: string where [go_consts]: "workerSubsystemStatusFatal = ''fatal''"

record workerSubsystemState =
  st_Status :: string
  st_RestartCount :: int
  st_ConsecutiveFailures :: int
  st_LastError :: string
  st_LastRunDuration :: duration
  st_LastTransitionAt :: "go_time option"

record workerStatusTracker =
  tk_service :: string
  tk_version :: string
  tk_environment :: string
  tk_startedAt :: go_time
  tk_subsystems :: "(string \<times> workerSubsystemState) list"

record workerSubsystemReport =
  sr_Status :: string
  sr_RestartCount :: int
  sr_ConsecutiveFailures :: int
  sr_LastError :: string
  sr_LastRunDuration :: string
  sr_LastTransitionAt :: string

record workerHealthReport =
  hr_Status :: string
  hr_Service :: string
  hr_Version :: string
  hr_Environment :: string
  hr_Timestamp :: go_time
  hr_Uptime :: string
  hr_Subsystems :: "(string \<times> workerSubsystemReport) list"

definition newWorkerStatusTracker :: "string \<Rightarrow> string \<Rightarrow> string \<Rightarrow> go_time \<Rightarrow> workerStatusTracker" where
  "newWorkerStatusTracker name version env now =
     \<lparr>tk_service = name @ ''-worker'', tk_version = version, tk_environment = env, tk_startedAt = now, tk_subsystems = []\<rparr>"

text \<open>Reading a missing name gives the zero value; writing replaces the entry or adds one.\<close>

definition zero_state :: workerSubsystemState where
  "zero_state = \<lparr>st_Status = '''', st_RestartCount = 0, st_ConsecutiveFailures = 0, st_LastError = '''',
     st_LastRunDuration = 0, st_LastTransitionAt = None\<rparr>"

definition subsystem_state :: "string \<Rightarrow> workerStatusTracker \<Rightarrow> workerSubsystemState" where
  "subsystem_state name t = (case map_of (tk_subsystems t) name of Some s \<Rightarrow> s | None \<Rightarrow> zero_state)"

fun put_entry :: "string \<Rightarrow> 'a \<Rightarrow> (string \<times> 'a) list \<Rightarrow> (string \<times> 'a) list" where
  "put_entry name s [] = [(name, s)]"
| "put_entry name s ((n, x) # xs) = (if n = name then (name, s) # xs else (n, x) # put_entry name s xs)"

definition put_subsystem :: "string \<Rightarrow> workerSubsystemState \<Rightarrow> workerStatusTracker \<Rightarrow> workerStatusTracker" where
  "put_subsystem name s t = t\<lparr>tk_subsystems := put_entry name s (tk_subsystems t)\<rparr>"

definition RegisterSubsystem :: "string \<Rightarrow> go_time \<Rightarrow> workerStatusTracker \<Rightarrow> workerStatusTracker" where
  "RegisterSubsystem name now t =
     put_subsystem name (zero_state\<lparr>st_Status := workerSubsystemStatusStarting, st_LastTransitionAt := Some now\<rparr>) t"

definition MarkRunning :: "string \<Rightarrow> go_time \<Rightarrow> workerStatusTracker \<Rightarrow> workerStatusTracker" where
  "MarkRunning name now t =
     put_subsystem name ((subsystem_state name t)\<lparr>st_Status := workerSubsystemStatusRunning, st_LastError := '''',
       st_LastTransitionAt := Some now\<rparr>) t"

definition MarkRestarting ::
  "string \<Rightarrow> duration \<Rightarrow> int \<Rightarrow> go_error option \<Rightarrow> go_time \<Rightarrow> workerStatusTracker \<Rightarrow> workerStatusTracker" where
  "MarkRestarting name runtime consecutiveFailures err now t =
     (let s = subsystem_state name t in
      put_subsystem name (s\<lparr>st_Status := workerSubsystemStatusRestarting, st_RestartCount := st_RestartCount s + 1,
        st_ConsecutiveFailures := consecutiveFailures, st_LastRunDuration := runtime,
        st_LastError := (case err of None \<Rightarrow> st_LastError s | Some e \<Rightarrow> error_text e),
        st_LastTransitionAt := Some now\<rparr>) t)"

definition MarkStopped :: "string \<Rightarrow> duration \<Rightarrow> go_time \<Rightarrow> workerStatusTracker \<Rightarrow> workerStatusTracker" where
  "MarkStopped name runtime now t =
     put_subsystem name ((subsystem_state name t)\<lparr>st_Status := workerSubsystemStatusStopped,
       st_LastRunDuration := runtime, st_LastTransitionAt := Some now\<rparr>) t"

definition MarkFatal ::
  "string \<Rightarrow> duration \<Rightarrow> int \<Rightarrow> go_error option \<Rightarrow> go_time \<Rightarrow> workerStatusTracker \<Rightarrow> workerStatusTracker" where
  "MarkFatal name runtime consecutiveFailures err now t =
     (let s = subsystem_state name t in
      put_subsystem name (s\<lparr>st_Status := workerSubsystemStatusFatal, st_RestartCount := st_RestartCount s + 1,
        st_ConsecutiveFailures := consecutiveFailures, st_LastRunDuration := runtime,
        st_LastError := (case err of None \<Rightarrow> st_LastError s | Some e \<Rightarrow> error_text e),
        st_LastTransitionAt := Some now\<rparr>) t)"

definition MarkHealthy :: "string \<Rightarrow> duration \<Rightarrow> go_time \<Rightarrow> workerStatusTracker \<Rightarrow> workerStatusTracker" where
  "MarkHealthy name runtime now t =
     put_subsystem name ((subsystem_state name t)\<lparr>st_Status := workerSubsystemStatusRunning,
       st_ConsecutiveFailures := 0, st_LastError := '''', st_LastRunDuration := runtime, st_LastTransitionAt := Some now\<rparr>) t"

text \<open>The texts of durations and times are parameters: \<open>Round(...).String()\<close> and RFC 3339.\<close>

record formats =
  fmt_milliseconds :: "duration \<Rightarrow> string"
  fmt_seconds :: "int \<Rightarrow> string"
  fmt_rfc3339 :: "go_time \<Rightarrow> string"

definition subsystem_report :: "formats \<Rightarrow> workerSubsystemState \<Rightarrow> workerSubsystemReport" where
  "subsystem_report F s =
     \<lparr>sr_Status = st_Status s, sr_RestartCount = st_RestartCount s, sr_ConsecutiveFailures = st_ConsecutiveFailures s,
      sr_LastError = st_LastError s,
      sr_LastRunDuration = (if 0 < sint (st_LastRunDuration s) then fmt_milliseconds F (st_LastRunDuration s) else ''''),
      sr_LastTransitionAt = (case st_LastTransitionAt s of None \<Rightarrow> '''' | Some at \<Rightarrow> fmt_rfc3339 F at)\<rparr>"

definition Report :: "formats \<Rightarrow> go_time \<Rightarrow> workerStatusTracker \<Rightarrow> workerHealthReport" where
  "Report F now t =
     \<lparr>hr_Status = (if list_ex (\<lambda>(name, s). st_Status s \<noteq> workerSubsystemStatusRunning) (tk_subsystems t)
                  then ''degraded'' else ''ok''),
      hr_Service = tk_service t, hr_Version = tk_version t, hr_Environment = tk_environment t, hr_Timestamp = now,
      hr_Uptime = fmt_seconds F (now - tk_startedAt t),
      hr_Subsystems = map (\<lambda>(name, s). (name, subsystem_report F s)) (tk_subsystems t)\<rparr>"

text \<open>The handler: the status code and, where it writes one, the report.\<close>

definition workerHealthHandler ::
  "formats \<Rightarrow> go_time \<Rightarrow> workerStatusTracker \<Rightarrow> string \<Rightarrow> string \<Rightarrow> int \<times> workerHealthReport option" where
  "workerHealthHandler F now t path meth =
     (if path \<noteq> ''/healthz'' then (404, None)
      else if meth \<noteq> ''GET'' then (405, None)
      else (let report = Report F now t in (if hr_Status report \<noteq> ''ok'' then 503 else 200, Some report)))"

subsection \<open>superviseWorkerSubsystem\<close>

definition initialSubsystemRestartBackoff :: duration where "initialSubsystemRestartBackoff = 2 * Second"
definition maxSubsystemRestartBackoff :: duration where "maxSubsystemRestartBackoff = 30 * Second"
definition subsystemHealthyRunResetThreshold :: duration where "subsystemHealthyRunResetThreshold = Minute"
definition maxConsecutiveSubsystemFailures :: int where "maxConsecutiveSubsystemFailures = 5"

record 'e iteration =
  it_done_before :: bool
  it_script :: 'e
  it_runtime :: duration
  it_done_after :: bool
  it_done_waiting :: bool
  it_now :: go_time

record supervision =
  sp_backoff :: duration
  sp_consecutiveFailures :: int
  sp_tracker :: workerStatusTracker
  sp_waits :: "duration list"

datatype supervision_end = StillRunning | Stopped | Fatal go_error

definition fatal_error :: "string \<Rightarrow> int \<Rightarrow> go_error" where
  "fatal_error name n =
     Opaque (''worker subsystem '' @ name @ '' exceeded failure budget after '' @ itoa n @ '' consecutive failures'')"

definition start_supervision :: "workerStatusTracker \<Rightarrow> supervision" where
  "start_supervision t =
     \<lparr>sp_backoff = initialSubsystemRestartBackoff, sp_consecutiveFailures = 0, sp_tracker = t, sp_waits = []\<rparr>"

text \<open>The reset after a long run.\<close>

definition after_run :: "'e iteration \<Rightarrow> supervision \<Rightarrow> supervision" where
  "after_run it st =
     (if sint subsystemHealthyRunResetThreshold \<le> sint (it_runtime it)
      then st\<lparr>sp_consecutiveFailures := 0, sp_backoff := initialSubsystemRestartBackoff\<rparr> else st)"

text \<open>What follows a failure: the budget, the wait, the doubled backoff. \<open>None\<close>: the loop goes on.\<close>

definition after_failure ::
  "string \<Rightarrow> 'e iteration \<Rightarrow> go_error option \<Rightarrow> supervision \<Rightarrow> supervision_end option \<times> supervision" where
  "after_failure name it err st =
     (let failures = sp_consecutiveFailures st + 1;
          t1 = MarkRestarting name (it_runtime it) failures err (it_now it) (sp_tracker st);
          st1 = st\<lparr>sp_consecutiveFailures := failures, sp_tracker := t1\<rparr>
      in if maxConsecutiveSubsystemFailures \<le> failures
         then (Some (Fatal (fatal_error name failures)),
               st1\<lparr>sp_tracker := MarkFatal name (it_runtime it) failures (Some (fatal_error name failures)) (it_now it) t1\<rparr>)
         else if it_done_waiting it
         then (Some Stopped, st1\<lparr>sp_tracker := MarkStopped name (it_runtime it) (it_now it) t1\<rparr>)
         else (None,
               st1\<lparr>sp_waits := sp_waits st1 @ [sp_backoff st1],
                   sp_backoff := (if sint maxSubsystemRestartBackoff < sint (sp_backoff st1 * 2)
                                  then maxSubsystemRestartBackoff else sp_backoff st1 * 2)\<rparr>))"

fun superviseWorkerSubsystem ::
  "string \<Rightarrow> ('e \<Rightarrow> 'w \<Rightarrow> go_error option option \<times> 'w) \<Rightarrow> 'e iteration list \<Rightarrow> supervision \<Rightarrow> 'w \<Rightarrow>
   supervision_end \<times> supervision \<times> 'w" where
  "superviseWorkerSubsystem name run [] st w = (StillRunning, st, w)"
| "superviseWorkerSubsystem name run (it # its) st w =
     (if it_done_before it then (Stopped, st, w)
      else
        (let st1 = st\<lparr>sp_tracker := MarkRunning name (it_now it) (sp_tracker st)\<rparr> in
         case run (it_script it) w of
           (None, w1) \<Rightarrow> (StillRunning, st1, w1)
         | (Some err, w1) \<Rightarrow>
             (let st2 = after_run it st1;
                  stopped = (Stopped, st2\<lparr>sp_tracker := MarkStopped name (it_runtime it) (it_now it) (sp_tracker st2)\<rparr>, w1)
              in if (case err of None \<Rightarrow> it_done_after it | Some e \<Rightarrow> errors_is e Canceled) then stopped
                 else (case after_failure name it err st2 of
                         (Some out, st3) \<Rightarrow> (out, st3, w1)
                       | (None, st3) \<Rightarrow> superviseWorkerSubsystem name run its st3 w1))))"

subsection \<open>The tracker\<close>

lemma map_of_put_entry [simp]: "map_of (put_entry name s xs) = (map_of xs)(name \<mapsto> s)"
  by (induction name s xs rule: put_entry.induct) auto

lemma put_entry_names [simp]: "fst ` set (put_entry name s xs) = insert name (fst ` set xs)"
  by (induction name s xs rule: put_entry.induct) auto

lemma distinct_put_entry: "distinct (map fst xs) \<Longrightarrow> distinct (map fst (put_entry name s xs))"
proof (induction name s xs rule: put_entry.induct)
  case (2 name s n x xs)
  have "n \<notin> fst ` set (put_entry name s xs)" if "n \<noteq> name" using 2(2) that unfolding put_entry_names by simp
  then show ?case using 2 by auto
qed simp

lemma subsystem_state_put [simp]:
  "subsystem_state n (put_subsystem name s t) = (if n = name then s else subsystem_state n t)"
  by (simp add: subsystem_state_def put_subsystem_def)

lemma subsystem_status_neq [simp]:
  "workerSubsystemStatusFatal \<noteq> workerSubsystemStatusRunning" "workerSubsystemStatusStopped \<noteq> workerSubsystemStatusRunning"
  "workerSubsystemStatusRestarting \<noteq> workerSubsystemStatusRunning" "workerSubsystemStatusStarting \<noteq> workerSubsystemStatusRunning"
  by (simp_all add: go_consts)

lemma Report_ok_iff:
  "hr_Status (Report F now t) = ''ok'' \<longleftrightarrow> (\<forall>s \<in> snd ` set (tk_subsystems t). st_Status s = workerSubsystemStatusRunning)"
  by (force simp: Report_def list_ex_iff)

lemma Report_degraded:
  assumes "st_Status (subsystem_state name t) \<noteq> workerSubsystemStatusRunning" and "name \<in> fst ` set (tk_subsystems t)"
  shows "hr_Status (Report F now t) \<noteq> ''ok''"
proof -
  obtain s where s: "map_of (tk_subsystems t) name = Some s"
    using assms(2) by (metis map_of_eq_None_iff not_None_eq)
  then have "s \<in> snd ` set (tk_subsystems t)" by (force dest: map_of_SomeD)
  with s assms(1) show ?thesis unfolding Report_ok_iff by (auto simp: subsystem_state_def)
qed

lemma put_subsystem_names [simp]:
  "fst ` set (tk_subsystems (put_subsystem name s t)) = insert name (fst ` set (tk_subsystems t))"
  by (simp add: put_subsystem_def)

lemmas marks = MarkRunning_def MarkRestarting_def MarkStopped_def MarkFatal_def Let_def

subsection \<open>Restarts\<close>

definition restart_backoff :: "nat \<Rightarrow> duration" where
  "restart_backoff n = (if n < 4 then 2 ^ Suc n * Second else 30 * Second)"

definition supervision_ok :: "supervision \<Rightarrow> bool" where
  "supervision_ok st \<longleftrightarrow>
     (\<exists>n \<le> 4. sp_consecutiveFailures st = int n \<and> sp_backoff st = restart_backoff n) \<and>
     set (sp_waits st) \<subseteq> restart_backoff ` {..<4}"

lemma sint_seconds:
  "sint (2 * Second) = 2000000000" "sint (4 * Second) = 4000000000" "sint (8 * Second) = 8000000000"
  "sint (16 * Second) = 16000000000" "sint (30 * Second) = 30000000000"
  by (simp_all add: sint_mult_fits)

lemma sint_restart_backoff: "sint (restart_backoff n) = (if n < 4 then 2 ^ Suc n * 10 ^ 9 else 30 * 10 ^ 9)"
proof -
  have "n < 4 \<Longrightarrow> n = 0 \<or> n = 1 \<or> n = 2 \<or> n = 3" by linarith
  then show ?thesis by (auto simp: restart_backoff_def sint_seconds)
qed

lemma backoff_doubles:
  assumes "n < 4"
  shows "(if sint maxSubsystemRestartBackoff < sint (restart_backoff n * 2) then maxSubsystemRestartBackoff
          else restart_backoff n * 2) = restart_backoff (Suc n)"
proof -
  have small: "sint (restart_backoff n * 2) = sint (restart_backoff n) * 2"
    using assms by (subst sint_mult_fits) (auto simp: sint_restart_backoff less_Suc_eq numeral_eq_Suc)
  have "n = 0 \<or> n = 1 \<or> n = 2 \<or> n = 3" using assms by linarith
  then show ?thesis
    unfolding small by (auto simp: maxSubsystemRestartBackoff_def restart_backoff_def sint_seconds)
qed

lemma supervision_ok_start [simp]: "supervision_ok (start_supervision t)"
  by (auto simp: supervision_ok_def start_supervision_def initialSubsystemRestartBackoff_def restart_backoff_def intro: exI[of _ 0])

lemma supervision_ok_tracker [simp]: "supervision_ok (st\<lparr>sp_tracker := t\<rparr>) = supervision_ok st"
  by (simp add: supervision_ok_def)

lemma after_run_ok: "supervision_ok st \<Longrightarrow> supervision_ok (after_run it st)"
  by (auto simp: after_run_def supervision_ok_def initialSubsystemRestartBackoff_def restart_backoff_def intro: exI[of _ 0])

lemma after_failure_ok:
  assumes "supervision_ok st" and "after_failure name it err st = (out, st')"
  shows "set (sp_waits st') \<subseteq> restart_backoff ` {..<4}" and "out = None \<Longrightarrow> supervision_ok st'"
proof -
  obtain n where n: "n \<le> 4" "sp_consecutiveFailures st = int n" "sp_backoff st = restart_backoff n"
    using assms(1) by (auto simp: supervision_ok_def)
  have waits: "set (sp_waits st) \<subseteq> restart_backoff ` {..<4}" using assms(1) by (simp add: supervision_ok_def)
  show "set (sp_waits st') \<subseteq> restart_backoff ` {..<4}"
    using assms(2) n waits by (auto simp: after_failure_def Let_def maxConsecutiveSubsystemFailures_def split: if_splits)
  show "supervision_ok st'" if "out = None"
  proof -
    have "n < 4" and st': "sp_consecutiveFailures st' = int (Suc n)" "sp_waits st' = sp_waits st @ [restart_backoff n]"
      "sp_backoff st' = (if sint maxSubsystemRestartBackoff < sint (restart_backoff n * 2) then maxSubsystemRestartBackoff
          else restart_backoff n * 2)"
      using assms(2) n that by (auto simp: after_failure_def Let_def maxConsecutiveSubsystemFailures_def split: if_splits)
    then show ?thesis using waits unfolding backoff_doubles[OF \<open>n < 4\<close>] by (auto simp: supervision_ok_def intro!: exI[of _ "Suc n"])
  qed
qed

text \<open>One turn of the loop.\<close>

definition turn_state :: "string \<Rightarrow> 'e iteration \<Rightarrow> supervision \<Rightarrow> supervision" where
  "turn_state name it st = after_run it (st\<lparr>sp_tracker := MarkRunning name (it_now it) (sp_tracker st)\<rparr>)"

lemma turn_state_ok: "supervision_ok st \<Longrightarrow> supervision_ok (turn_state name it st)"
  by (simp add: turn_state_def after_run_ok)

lemma supervise_cases:
  assumes "superviseWorkerSubsystem name run (it # its) st w = (out, st', w')"
  obtains (before) "it_done_before it" "out = Stopped" "st' = st"
  | (running) "out = StillRunning" "st' = st\<lparr>sp_tracker := MarkRunning name (it_now it) (sp_tracker st)\<rparr>"
  | (stopped) t where "out = Stopped" "st' = (turn_state name it st)\<lparr>sp_tracker := t\<rparr>"
  | (ended) err o1 where "after_failure name it err (turn_state name it st) = (Some o1, st')" "out = o1"
  | (again) err st3 w1 where "run (it_script it) w = (Some err, w1)"
      "after_failure name it err (turn_state name it st) = (None, st3)" "superviseWorkerSubsystem name run its st3 w1 = (out, st', w')"
  using assms
  by (simp add: Let_def turn_state_def[symmetric] split: if_split_asm prod.split_asm option.split_asm) blast+

lemma supervise_waits:
  "superviseWorkerSubsystem name run its st w = (out, st', w') \<Longrightarrow> supervision_ok st \<Longrightarrow>
   set (sp_waits st') \<subseteq> restart_backoff ` {..<4}"
proof (induction its arbitrary: st w)
  case (Cons it its)
  note ok = turn_state_ok[OF Cons.prems(2), of name it]
  from Cons.prems(1) show ?case
  proof (cases rule: supervise_cases)
    case ended
    then show ?thesis using after_failure_ok(1)[OF ok] by blast
  next
    case (again err st3 w1)
    then show ?thesis using Cons.IH after_failure_ok(2)[OF ok again(2)] by blast
  qed (use Cons.prems(2) ok in \<open>simp_all add: supervision_ok_def\<close>)
qed (simp add: supervision_ok_def)

subsection \<open>The failure budget\<close>

definition quick_failure :: "'e iteration \<Rightarrow> bool" where
  "quick_failure it \<longleftrightarrow> \<not> it_done_before it \<and> \<not> it_done_after it \<and> \<not> it_done_waiting it \<and>
     sint (it_runtime it) < sint subsystemHealthyRunResetThreshold"

text \<open>A subsystem that returns whenever it is run, and not because of the context.\<close>

definition keeps_failing :: "('e \<Rightarrow> 'w \<Rightarrow> go_error option option \<times> 'w) \<Rightarrow> bool" where
  "keeps_failing run \<longleftrightarrow>
     (\<forall>s w. \<exists>err w1. run s w = (Some err, w1) \<and> (\<forall>e. err = Some e \<longrightarrow> \<not> errors_is e Canceled))"

lemma after_failure_last:
  assumes "sp_consecutiveFailures st = 4"
  shows "\<exists>st'. after_failure name it err st = (Some (Fatal (fatal_error name 5)), st') \<and> sp_waits st' = sp_waits st \<and>
    st_Status (subsystem_state name (sp_tracker st')) = workerSubsystemStatusFatal \<and>
    name \<in> fst ` set (tk_subsystems (sp_tracker st'))"
  using assms by (simp add: after_failure_def maxConsecutiveSubsystemFailures_def marks)

lemma after_failure_next:
  assumes "sp_consecutiveFailures st = int n" and "n < 4" and "sp_backoff st = restart_backoff n" and "\<not> it_done_waiting it"
  shows "\<exists>st'. after_failure name it err st = (None, st') \<and> sp_waits st' = sp_waits st @ [restart_backoff n] \<and>
    sp_consecutiveFailures st' = int (Suc n) \<and> sp_backoff st' = restart_backoff (Suc n)"
  using assms backoff_doubles[OF assms(2)]
  by (simp add: after_failure_def maxConsecutiveSubsystemFailures_def Let_def split: if_splits)

lemma quick_failures_end:
  assumes "keeps_failing run"
  shows "list_all quick_failure its \<Longrightarrow> length its = 5 - n \<Longrightarrow> n \<le> 4 \<Longrightarrow> sp_consecutiveFailures st = int n \<Longrightarrow>
    sp_backoff st = restart_backoff n \<Longrightarrow>
    \<exists>st' w'. superviseWorkerSubsystem name run (its @ rest) st w = (Fatal (fatal_error name 5), st', w') \<and>
      sp_waits st' = sp_waits st @ map restart_backoff [n..<4] \<and>
      st_Status (subsystem_state name (sp_tracker st')) = workerSubsystemStatusFatal \<and>
      name \<in> fst ` set (tk_subsystems (sp_tracker st'))"
proof (induction its arbitrary: n st w)
  case (Cons it its)
  obtain err w1 where run: "run (it_script it) w = (Some err, w1)" and err: "\<forall>e. err = Some e \<longrightarrow> \<not> errors_is e Canceled"
    using assms unfolding keeps_failing_def by blast
  have quick: "quick_failure it" using Cons.prems(1) by simp
  let ?st = "turn_state name it st"
  have st: "sp_consecutiveFailures ?st = int n" "sp_backoff ?st = restart_backoff n" "sp_waits ?st = sp_waits st"
    using Cons.prems(4,5) quick by (simp_all add: turn_state_def after_run_def quick_failure_def)
  have step: "superviseWorkerSubsystem name run ((it # its) @ rest) st w =
      (case after_failure name it err ?st of
         (Some out, st3) \<Rightarrow> (out, st3, w1)
       | (None, st3) \<Rightarrow> superviseWorkerSubsystem name run (its @ rest) st3 w1)"
    using quick run err by (auto simp: quick_failure_def turn_state_def Let_def split: option.splits)
  show ?case
  proof (cases "n = 4")
    case True
    with after_failure_last[of ?st name it err] st show ?thesis unfolding step by auto
  next
    case False
    then have n: "n < 4" using Cons.prems(3) by simp
    obtain st3 where st3: "after_failure name it err ?st = (None, st3)" "sp_waits st3 = sp_waits ?st @ [restart_backoff n]"
      "sp_consecutiveFailures st3 = int (Suc n)" "sp_backoff st3 = restart_backoff (Suc n)"
      using after_failure_next[OF st(1) n st(2), of it name err] quick unfolding quick_failure_def by blast
    have "[n..<4] = n # [Suc n..<4]" using n by (rule upt_conv_Cons)
    moreover have "list_all quick_failure its" "length its = 5 - Suc n" "Suc n \<le> 4" using Cons.prems n by simp_all
    ultimately show ?thesis
      unfolding step using Cons.IH[OF _ _ _ st3(3,4)] st3(1,2) st(3) by simp
  qed
qed simp

lemma crash_loop:
  assumes "keeps_failing run" and "list_all quick_failure its" and "length its = 5"
  shows "\<exists>st w'. superviseWorkerSubsystem name run (its @ rest) (start_supervision t) w = (Fatal (fatal_error name 5), st, w') \<and>
    sp_waits st = map restart_backoff [0..<4] \<and>
    st_Status (subsystem_state name (sp_tracker st)) = workerSubsystemStatusFatal \<and>
    name \<in> fst ` set (tk_subsystems (sp_tracker st))"
  using quick_failures_end[OF assms(1,2), of 0 "start_supervision t" name rest w] assms(3)
  by (simp add: start_supervision_def initialSubsystemRestartBackoff_def restart_backoff_def)

lemma after_failure_fatal:
  assumes "after_failure name it err st = (Some (Fatal e), st')"
  shows "4 \<le> sp_consecutiveFailures st" and "st_Status (subsystem_state name (sp_tracker st')) = workerSubsystemStatusFatal"
    and "name \<in> fst ` set (tk_subsystems (sp_tracker st'))"
  using assms by (auto simp: after_failure_def maxConsecutiveSubsystemFailures_def marks split: if_splits)

lemma fatal_is_marked:
  "superviseWorkerSubsystem name run its st w = (Fatal e, st', w') \<Longrightarrow>
   st_Status (subsystem_state name (sp_tracker st')) = workerSubsystemStatusFatal \<and>
   name \<in> fst ` set (tk_subsystems (sp_tracker st'))"
proof (induction its arbitrary: st w)
  case (Cons it its)
  from Cons.prems show ?case
    by (cases rule: supervise_cases) (use Cons.IH in \<open>auto dest: after_failure_fatal\<close>)
qed simp

lemma long_runs_not_fatal:
  "superviseWorkerSubsystem name run its st w = (out, st', w') \<Longrightarrow>
   list_all (\<lambda>it. sint subsystemHealthyRunResetThreshold \<le> sint (it_runtime it)) its \<Longrightarrow> out \<noteq> Fatal e"
proof (induction its arbitrary: st w)
  case (Cons it its)
  have zero: "sp_consecutiveFailures (turn_state name it st) = 0"
    using Cons.prems(2) by (simp add: turn_state_def after_run_def)
  from Cons.prems(1) show ?case
    by (cases rule: supervise_cases) (use Cons.IH Cons.prems(2) zero in \<open>auto dest: after_failure_fatal(1)\<close>)
qed simp

subsection \<open>The subsystems of the worker\<close>

text \<open>The closures of \<open>RunWorker\<close>: a cancelled context is no error of the subsystem.\<close>

definition subsystem_error :: "string \<Rightarrow> go_error option \<Rightarrow> go_error option" where
  "subsystem_error operation err =
     (case err of
        None \<Rightarrow> None
      | Some e \<Rightarrow> if errors_is e Canceled then None else Some (Errorf operation e))"

text \<open>\<open>Run\<close> of the outbox dispatcher returns when the context is done, and never with an error.\<close>

definition transfer_outbox_dispatcher_run :: "'w OutboxDispatcher \<Rightarrow> bool list \<Rightarrow> 'w \<Rightarrow> go_error option option \<times> 'w" where
  "transfer_outbox_dispatcher_run D evs w =
     (if False \<in> set evs then Some (subsystem_error ''run transfer outbox dispatcher'' None) else None,
      OutboxDispatcher_Run D evs w)"

text \<open>A delivery for which the fuel \<open>n\<close> is not enough is still being handled.\<close>

definition transfer_consumer_run ::
  "nat \<Rightarrow> Client option \<Rightarrow> string \<Rightarrow> Consumer \<Rightarrow> consumer_event list \<Rightarrow> world \<Rightarrow> go_error option option \<times> world" where
  "transfer_consumer_run n client queue consumer evs w =
     (case Consume client queue w of
        (Inl e, w1) \<Rightarrow> (Some (Some (Errorf ''start transfer consumer'' e)), w1)
      | (Inr _, w1) \<Rightarrow>
          (case Consumer_Run n consumer evs w1 of
             Some (Returned err, w2) \<Rightarrow> (Some (subsystem_error ''run transfer consumer'' err), w2)
           | Some (Running, w2) \<Rightarrow> (None, w2)
           | None \<Rightarrow> (None, w1)))"

definition webhook_worker_run :: "world WebhookService \<Rightarrow> bool list \<Rightarrow> world \<Rightarrow> go_error option option \<times> world" where
  "webhook_worker_run S evs w =
     (case Worker_Run S evs w of
        (WorkerReturned err, w1) \<Rightarrow> (Some (subsystem_error ''run webhook worker'' err), w1)
      | (WorkerRunning, w1) \<Rightarrow> (None, w1))"

end
