(* ===== verification/WebhookSteps.thy ===== *)
theory WebhookSteps
  imports Webhooks
begin

text \<open>
  The committed work on \<open>webhook_deliveries\<close> as a step relation and its invariant: one delivery
  per status change, every row within the CHECK constraints, attempts left while a delivery is
  open, and a delivery that is delivered or failed never changes again. A mark with a lease
  that is no longer the row's changes nothing (fencing).
\<close>

definition open_delivery :: "Delivery \<Rightarrow> bool" where
  "open_delivery x \<longleftrightarrow>
     wd_DeliveryStatus x \<in> set [DeliveryStatusPending, DeliveryStatusRetrying, DeliveryStatusInProgress]"

inductive webhook_step :: "pg \<Rightarrow> db \<Rightarrow> db \<Rightarrow> bool" for pg where
  schedule: "sql_schedule_deliveries pg m d = Inr (n, d') \<Longrightarrow> webhook_step pg d d'"
| claim: "sql_claim_deliveries pg limit lease d = Inr (xs, d') \<Longrightarrow> webhook_step pg d d'"
| delivered: "sql_mark_delivery pg did lease (delivered_row p) d = Inr (n, d') \<Longrightarrow> webhook_step pg d d'"
| failed: "sql_mark_delivery pg did lease (failed_row q) d = Inr (n, d') \<Longrightarrow> webhook_step pg d d'"
| retry: "sql_mark_delivery pg did lease (retry_row r) d = Inr (n, d') \<Longrightarrow>
    (\<forall>x \<in> set (webhook_deliveries d). uuid_in pg did = Some (wd_ID x) \<longrightarrow> mp_AttemptCount r < wd_MaxAttempts x) \<Longrightarrow>
    webhook_step pg d d'"

inductive_cases webhook_stepE: "webhook_step pg d d'"

text \<open>A delivery announces a status change that is on record.\<close>

definition announces :: "db \<Rightarrow> Delivery \<Rightarrow> bool" where
  "announces d x \<longleftrightarrow>
     (\<exists>h \<in> set (transfer_status_history d). sh_ID h = wd_TransferStatusHistoryID x \<and>
        sh_TransferID h = wd_TransferRequestID x \<and> sh_ToStatus h = wd_TransferStatus x)"

definition webhook_inv :: "db \<Rightarrow> bool" where
  "webhook_inv d \<longleftrightarrow>
     distinct (map wd_ID (webhook_deliveries d)) \<and>
     distinct (map wd_TransferStatusHistoryID (webhook_deliveries d)) \<and>
     (\<forall>x \<in> set (webhook_deliveries d). delivery_row_ok x \<and> announces d x \<and>
        (open_delivery x \<longrightarrow> wd_AttemptCount x < wd_MaxAttempts x))"

lemma notifiable_in:
  "(h, t) \<in> set (notifiable d) \<Longrightarrow> h \<in> set (transfer_status_history d) \<and> t \<in> set (transfer_requests d) \<and>
     tr_ID t = sh_TransferID h \<and> sh_ToStatus h \<in> set webhook_statuses \<and> tr_CallbackURL t \<noteq> ''''"
  by (auto simp: notifiable_def)

lemma insert_deliveries_grows:
  "insert_deliveries pg m rows n d = Inr (n', d') \<Longrightarrow>
   \<exists>new k. d' = d\<lparr>webhook_deliveries := webhook_deliveries d @ new, uuid_count := k\<rparr> \<and> n' = n + length new \<and>
     (\<forall>x \<in> set new. wd_DeliveryStatus x = DeliveryStatusPending \<and> wd_ID x \<in> range (gen_random_uuid pg))"
proof (induction pg m rows n d rule: insert_deliveries.induct)
  case (1 pg m n d)
  then show ?case by (intro exI[of _ "[]"] exI[of _ "uuid_count d"]) auto
next
  case (2 pg m h t rows n d)
  let ?r = "new_delivery pg m h t d" and ?d1 = "d\<lparr>uuid_count := Suc (uuid_count d)\<rparr>"
  from 2(3) have ok: "delivery_row_ok ?r" by (auto simp: Let_def split: if_splits)
  let ?c = "\<exists>x \<in> set (webhook_deliveries d).
      wd_ID x = wd_ID ?r \<or> wd_TransferStatusHistoryID x = wd_TransferStatusHistoryID ?r"
  show ?case
  proof (cases ?c)
    case True
    with 2(3) ok have run: "insert_deliveries pg m rows n ?d1 = Inr (n', d')" by (simp add: Let_def)
    from 2(1)[OF refl refl _ True run] ok show ?thesis by auto
  next
    case False
    with 2(3) ok have run: "insert_deliveries pg m rows (Suc n)
        (?d1\<lparr>webhook_deliveries := webhook_deliveries d @ [?r]\<rparr>) = Inr (n', d')" by (simp add: Let_def)
    from 2(2)[OF refl refl _ False run] ok obtain new k where
      "d' = ?d1\<lparr>webhook_deliveries := webhook_deliveries d @ ?r # new, uuid_count := k\<rparr>"
      "n' = Suc n + length new"
      "\<forall>x \<in> set new. wd_DeliveryStatus x = DeliveryStatusPending \<and> wd_ID x \<in> range (gen_random_uuid pg)" by auto
    then show ?thesis
      by (intro exI[of _ "?r # new"] exI[of _ k]) (simp add: new_delivery_def)
  qed
qed

lemma insert_deliveries_inv:
  "insert_deliveries pg m rows n d = Inr (n', d') \<Longrightarrow> webhook_inv d \<Longrightarrow>
   (\<And>h t. (h, t) \<in> set rows \<Longrightarrow> h \<in> set (transfer_status_history d) \<and> tr_ID t = sh_TransferID h) \<Longrightarrow>
   webhook_inv d'"
proof (induction pg m rows n d rule: insert_deliveries.induct)
  case (2 pg m h t rows n d)
  let ?r = "new_delivery pg m h t d" and ?d1 = "d\<lparr>uuid_count := Suc (uuid_count d)\<rparr>"
  from 2(3) have ok: "delivery_row_ok ?r" by (auto simp: Let_def split: if_splits)
  let ?c = "\<exists>x \<in> set (webhook_deliveries d).
      wd_ID x = wd_ID ?r \<or> wd_TransferStatusHistoryID x = wd_TransferStatusHistoryID ?r"
  show ?case
  proof (cases ?c)
    case True
    with 2(3) ok have run: "insert_deliveries pg m rows n ?d1 = Inr (n', d')" by (simp add: Let_def)
    have "webhook_inv ?d1" using 2(4) by (simp add: webhook_inv_def announces_def)
    from 2(1)[OF refl refl _ True run this] ok 2(5) show ?thesis by auto
  next
    case False
    with 2(3) ok have run: "insert_deliveries pg m rows (Suc n)
        (?d1\<lparr>webhook_deliveries := webhook_deliveries d @ [?r]\<rparr>) = Inr (n', d')" by (simp add: Let_def)
    have new: "announces d ?r" using 2(5)[of h t] by (auto simp: announces_def new_delivery_def)
    have att: "wd_AttemptCount ?r < wd_MaxAttempts ?r" using ok by (simp add: delivery_row_ok_def new_delivery_def)
    have "webhook_inv (?d1\<lparr>webhook_deliveries := webhook_deliveries d @ [?r]\<rparr>)"
      using 2(4) False ok new att by (auto simp: webhook_inv_def announces_def)
    from 2(2)[OF refl refl _ False run this] ok 2(5) show ?thesis by auto
  qed
qed simp

text \<open>What identifies a delivery.\<close>

definition delivery_identity :: "Delivery \<Rightarrow> string \<times> string \<times> string \<times> string \<times> string \<times> raw_json" where
  "delivery_identity x =
     (wd_ID x, wd_TransferRequestID x, wd_TransferStatusHistoryID x, wd_TargetURL x, wd_TransferStatus x,
      wd_PayloadJSON x)"

lemma row_identity [simp]:
  "delivery_identity (claimed_delivery lease d x) = delivery_identity x"
  "delivery_identity (delivered_row p now x) = delivery_identity x"
  "delivery_identity (retry_row r now x) = delivery_identity x"
  "delivery_identity (failed_row q now x) = delivery_identity x"
  by (simp_all add: delivery_identity_def claimed_delivery_def delivered_row_def retry_row_def failed_row_def)

lemma row_open [simp]:
  "open_delivery (claimed_delivery lease d x)" "open_delivery (retry_row r now x)"
  "\<not> open_delivery (delivered_row p now x)" "\<not> open_delivery (failed_row q now x)"
  by (simp_all add: open_delivery_def claimed_delivery_def delivered_row_def retry_row_def failed_row_def)

lemma retry_row_attempts [simp]:
  "wd_AttemptCount (retry_row r now x) = mp_AttemptCount r" "wd_MaxAttempts (retry_row r now x) = wd_MaxAttempts x"
  by (simp_all add: retry_row_def)

lemma updated_deliveries_inv:
  assumes inv: "webhook_inv d"
    and rows: "\<And>x. x \<in> set (webhook_deliveries d) \<Longrightarrow> p x \<Longrightarrow>
        delivery_identity (f x) = delivery_identity x \<and> delivery_row_ok (f x) \<and>
        (open_delivery (f x) \<longrightarrow> wd_AttemptCount (f x) < wd_MaxAttempts (f x))"
  shows "webhook_inv (d\<lparr>webhook_deliveries := update_where p f (webhook_deliveries d)\<rparr>)"
proof -
  have "map wd_ID (update_where p f (webhook_deliveries d)) = map wd_ID (webhook_deliveries d)"
    and "map wd_TransferStatusHistoryID (update_where p f (webhook_deliveries d)) =
         map wd_TransferStatusHistoryID (webhook_deliveries d)"
    using rows by (auto intro!: map_update_where_keep simp: delivery_identity_def)
  moreover have "announces d (f x)" if "x \<in> set (webhook_deliveries d)" "p x" for x
    using rows[OF that] inv that(1) by (auto simp: webhook_inv_def announces_def delivery_identity_def)
  ultimately show ?thesis
    using inv rows by (auto simp: webhook_inv_def announces_def in_update_where)
qed

lemma claimed_row_ok:
  "delivery_row_ok x \<Longrightarrow> delivery_row_ok (claimed_delivery lease d x)"
  by (auto simp: delivery_row_ok_def claimed_delivery_def)

lemma delivery_candidates_in: "set (delivery_candidates n d) \<subseteq> {x \<in> set (webhook_deliveries d). delivery_due (db_now d) x}"
  by (auto simp: delivery_candidates_def nulls_first_def dest!: in_set_takeD)

lemma candidate_row:
  assumes "distinct (map wd_ID (webhook_deliveries d))" and "x \<in> set (webhook_deliveries d)"
    and "wd_ID x \<in> wd_ID ` set (delivery_candidates n d)"
  shows "delivery_due (db_now d) x" and "x \<in> set (delivery_candidates n d)"
proof -
  from assms(3) obtain c where c: "c \<in> set (delivery_candidates n d)" "wd_ID x = wd_ID c" by auto
  from c(1) delivery_candidates_in have i: "c \<in> set (webhook_deliveries d)" "delivery_due (db_now d) c" by auto
  from distinct_map_inj[OF assms(1,2) i(1) c(2)] have "x = c" .
  with i c show "delivery_due (db_now d) x" and "x \<in> set (delivery_candidates n d)" by simp_all
qed

lemma due_open: "delivery_due now x \<Longrightarrow> open_delivery x"
  by (auto simp: delivery_due_def open_delivery_def)

lemma sql_claim_deliveriesD:
  assumes "sql_claim_deliveries pg n lease d = Inr (xs, d')"
  shows "accepts_ambiguous pg"
    and "xs = map (scanDelivery \<circ> claimed_delivery lease d) (delivery_candidates n d)"
    and "d' = d\<lparr>webhook_deliveries :=
                  update_where (\<lambda>x. wd_ID x \<in> wd_ID ` set (delivery_candidates n d)) (claimed_delivery lease d)
                    (webhook_deliveries d)\<rparr>"
  using assms by (auto simp: sql_claim_deliveries_def Let_def split: if_splits)

lemma sql_mark_deliveryD:
  assumes "sql_mark_delivery pg did lease f d = Inr (n, d')"
  obtains k where "uuid_in pg did = Some k" and "n = length (filter (leased k lease) (webhook_deliveries d))"
    and "d' = d\<lparr>webhook_deliveries := update_where (leased k lease) (f (db_now d)) (webhook_deliveries d)\<rparr>"
    and "\<And>x. x \<in> set (webhook_deliveries d) \<Longrightarrow> leased k lease x \<Longrightarrow> delivery_row_ok (f (db_now d) x)"
  using assms by (auto simp: sql_mark_delivery_def Let_def split: option.splits if_splits)

theorem webhook_step_inv:
  assumes "webhook_step pg d d'" and inv: "webhook_inv d"
  shows "webhook_inv d'"
  using assms(1)
proof cases
  case (schedule m n)
  then have "insert_deliveries pg m (notifiable d) 0 d = Inr (n, d')"
    by (simp add: sql_schedule_deliveries_def split: if_splits)
  then show ?thesis by (rule insert_deliveries_inv[OF _ inv]) (use notifiable_in in blast)
next
  case (claim n lease xs)
  note D = sql_claim_deliveriesD[OF claim]
  have ids: "distinct (map wd_ID (webhook_deliveries d))" using inv by (simp add: webhook_inv_def)
  show ?thesis unfolding D(3)
  proof (rule updated_deliveries_inv[OF inv])
    fix x assume x: "x \<in> set (webhook_deliveries d)" "wd_ID x \<in> wd_ID ` set (delivery_candidates n d)"
    from due_open[OF candidate_row(1)[OF ids x]] x(1) inv
    show "delivery_identity (claimed_delivery lease d x) = delivery_identity x \<and>
        delivery_row_ok (claimed_delivery lease d x) \<and>
        (open_delivery (claimed_delivery lease d x) \<longrightarrow>
           wd_AttemptCount (claimed_delivery lease d x) < wd_MaxAttempts (claimed_delivery lease d x))"
      by (auto simp: webhook_inv_def claimed_row_ok) (auto simp: claimed_delivery_def)
  qed
next
  case (delivered did lease p n)
  from delivered show ?thesis
    by (rule sql_mark_deliveryD) (auto intro!: updated_deliveries_inv[OF inv])
next
  case (failed did lease q n)
  from failed show ?thesis
    by (rule sql_mark_deliveryD) (auto intro!: updated_deliveries_inv[OF inv])
next
  case (retry did lease r n)
  from retry(1) obtain k where k: "uuid_in pg did = Some k"
      "d' = d\<lparr>webhook_deliveries := update_where (leased k lease) (retry_row r (db_now d)) (webhook_deliveries d)\<rparr>"
      "\<And>x. x \<in> set (webhook_deliveries d) \<Longrightarrow> leased k lease x \<Longrightarrow> delivery_row_ok (retry_row r (db_now d) x)"
    by (rule sql_mark_deliveryD) (rule that)
  show ?thesis unfolding k(2)
  proof (rule updated_deliveries_inv[OF inv])
    fix x assume x: "x \<in> set (webhook_deliveries d)" "leased k lease x"
    with retry(2) k(1) have "mp_AttemptCount r < wd_MaxAttempts x" by (auto simp: leased_def)
    with k(3)[OF x] show "delivery_identity (retry_row r (db_now d) x) = delivery_identity x \<and>
        delivery_row_ok (retry_row r (db_now d) x) \<and>
        (open_delivery (retry_row r (db_now d) x) \<longrightarrow>
           wd_AttemptCount (retry_row r (db_now d) x) < wd_MaxAttempts (retry_row r (db_now d) x))"
      by simp
  qed
qed

subsection \<open>Closed deliveries, fencing and the other tables\<close>

lemma webhook_step_rows:
  assumes "webhook_step pg d d'"
  shows "transfer_requests d' = transfer_requests d \<and> transfer_status_history d' = transfer_status_history d \<and>
         transaction_attempts d' = transaction_attempts d \<and> transfer_outbox d' = transfer_outbox d \<and>
         wallets d' = wallets d \<and> reconciliation_results d' = reconciliation_results d"
  using assms
proof cases
  case (schedule m n)
  then have "insert_deliveries pg m (notifiable d) 0 d = Inr (n, d')"
    by (simp add: sql_schedule_deliveries_def split: if_splits)
  from insert_deliveries_grows[OF this] show ?thesis by auto
qed (auto dest: sql_claim_deliveriesD elim!: sql_mark_deliveryD)

lemma webhook_step_side: "webhook_step pg d d' \<Longrightarrow> side_step d d'"
  using webhook_step_rows by (simp add: side_step_def)

lemma closed_kept:
  assumes "webhook_step pg d d'" and "webhook_inv d" and x: "x \<in> set (webhook_deliveries d)" "\<not> open_delivery x"
  shows "x \<in> set (webhook_deliveries d')"
proof -
  have ids: "distinct (map wd_ID (webhook_deliveries d))" using assms(2) by (simp add: webhook_inv_def)
  have keep: "x \<in> set (update_where p f (webhook_deliveries d))" if "\<not> p x" for p f
    using x(1) that by (auto simp: in_update_where intro!: bexI[of _ x])
  have lease: "x \<in> set (update_where (leased k l) f (webhook_deliveries d))" for k l f
    using x(2) by (intro keep) (auto simp: leased_def open_delivery_def)
  from assms(1) show ?thesis
  proof cases
    case (schedule m n)
    then have "insert_deliveries pg m (notifiable d) 0 d = Inr (n, d')"
      by (simp add: sql_schedule_deliveries_def split: if_splits)
    from insert_deliveries_grows[OF this] x(1) show ?thesis by auto
  next
    case (claim n l xs)
    have "wd_ID x \<notin> wd_ID ` set (delivery_candidates n d)"
      using candidate_row(1)[OF ids x(1)] due_open x(2) by blast
    then show ?thesis by (simp add: sql_claim_deliveriesD(3)[OF claim] keep)
  qed (auto elim!: sql_mark_deliveryD simp: lease)
qed

text \<open>A lease that is no longer the row's marks nothing.\<close>

lemma sql_mark_fenced:
  assumes "\<forall>x \<in> set (webhook_deliveries d). uuid_in pg did = Some (wd_ID x) \<longrightarrow> \<not> leased (wd_ID x) lease x"
    and "sql_mark_delivery pg did lease f d = Inr (n, d')"
  shows "n = 0 \<and> d' = d"
proof -
  from assms(2) obtain k where k: "uuid_in pg did = Some k"
      "n = length (filter (leased k lease) (webhook_deliveries d))"
      "d' = d\<lparr>webhook_deliveries := update_where (leased k lease) (f (db_now d)) (webhook_deliveries d)\<rparr>"
    by (rule sql_mark_deliveryD)
  have no: "\<not> leased k lease x" if "x \<in> set (webhook_deliveries d)" for x
    using assms(1) that k(1) by (auto simp: leased_def)
  then have "filter (leased k lease) (webhook_deliveries d) = []" by (simp add: filter_empty_conv)
  moreover from no have "update_where (leased k lease) (f (db_now d)) (webhook_deliveries d) = webhook_deliveries d"
    by (rule update_where_idle)
  ultimately show ?thesis using k by simp
qed

text \<open>Nothing is due twice: a claimed row is not due again before its lease ends.\<close>

lemma claimed_not_due:
  assumes "0 < formatPostgresInterval lease"
  shows "\<not> delivery_due (db_now d) (claimed_delivery lease d x)"
  using assms by (auto simp: delivery_due_def claimed_delivery_def)

end
