(* ===== verification/WebhookContract.thy ===== *)
theory WebhookContract
  imports WebhookSteps
begin

text \<open>
  What the webhook service relies on (\<open>delivery_store\<close>) and what it then achieves: one cycle
  settles every delivery it claimed, as the answer of the target says. The interpretation
  \<open>pgd\<close> is PostgreSQL without other sessions; what single calls commit among other sessions is
  \<open>mark_commits\<close> and its siblings.
\<close>

text \<open>A response status the schema can store.\<close>

definition storable :: "go_error + DispatchResult \<Rightarrow> bool" where
  "storable out \<longleftrightarrow> (\<forall>r. out = Inr r \<longrightarrow> 100 \<le> dr_StatusCode r \<and> dr_StatusCode r \<le> 599)"

definition settled_delivery :: "go_error + DispatchResult \<Rightarrow> Delivery \<Rightarrow> Delivery \<Rightarrow> bool" where
  "settled_delivery out x y \<longleftrightarrow>
     wd_ID y = wd_ID x \<and> wd_AttemptCount y = wd_AttemptCount x + 1 \<and> wd_LeaseExpiresAt y = None \<and>
     wd_ResponseStatusCode y = (case out of Inl _ \<Rightarrow> 0 | Inr r \<Rightarrow> dr_StatusCode r) \<and>
     wd_DeliveryStatus y =
       (if accepted out then DeliveryStatusDelivered
        else if wd_MaxAttempts x \<le> wd_AttemptCount x + 1 then DeliveryStatusFailed
        else DeliveryStatusRetrying)"

text \<open>The row a claimed delivery was read from.\<close>

definition holds_lease :: "Delivery list \<Rightarrow> Delivery \<Rightarrow> bool" where
  "holds_lease rs x \<longleftrightarrow>
     (\<exists>y \<in> set rs. \<exists>l. wd_ID y = wd_ID x \<and> wd_LeaseExpiresAt x = Some l \<and> leased (wd_ID y) l y \<and>
        wd_AttemptCount y = wd_AttemptCount x \<and> wd_MaxAttempts y = wd_MaxAttempts x)"

definition rows_ok :: "Delivery list \<Rightarrow> bool" where
  "rows_ok rs \<longleftrightarrow> distinct (map wd_ID rs) \<and>
     (\<forall>x \<in> set rs. delivery_row_ok x \<and> (open_delivery x \<longrightarrow> wd_AttemptCount x < wd_MaxAttempts x))"

locale delivery_store =
  fixes S :: "'w WebhookService"
    and rows :: "'w \<Rightarrow> Delivery list"
    and ok :: "'w \<Rightarrow> bool"
    and answers :: "Delivery \<Rightarrow> go_error + DispatchResult \<Rightarrow> bool"
  assumes ok_rows: "ok w \<Longrightarrow> rows_ok (rows w)"
    and answers_storable: "answers x out \<Longrightarrow> storable out"
    and schedules: "ok w \<Longrightarrow> wr_Schedule (ws_repository S) m w = (rn, w') \<Longrightarrow>
          ok w' \<and> (\<exists>new. rows w' = rows w @ new)"
    and claims: "ok w \<Longrightarrow> wr_Claim (ws_repository S) n lease w = (Inr ds, w') \<Longrightarrow>
          ok w' \<and> distinct (map wd_ID ds) \<and> (\<forall>x \<in> set ds. holds_lease (rows w') x) \<and>
          (\<forall>y \<in> set (rows w). wd_ID y \<notin> wd_ID ` set ds \<longrightarrow> y \<in> set (rows w'))"
    and dispatches: "ok w \<Longrightarrow> ws_dispatcher S x w = (out, w') \<Longrightarrow> ok w' \<and> rows w' = rows w \<and> answers x out"
    and marks_delivered: "ok w \<Longrightarrow> y \<in> set (rows w) \<Longrightarrow> leased (mp_ID p) (mp_LeaseExpiresAt p) y \<Longrightarrow>
          (\<And>now. delivery_row_ok (delivered_row p now y)) \<Longrightarrow>
          wr_MarkDelivered (ws_repository S) p w = (ru, w') \<Longrightarrow>
          ru = Inr () \<and> ok w' \<and> (\<exists>now. rows w' = update_where (\<lambda>z. wd_ID z = wd_ID y) (\<lambda>_. delivered_row p now y) (rows w))"
    and marks_failed: "ok w \<Longrightarrow> y \<in> set (rows w) \<Longrightarrow> leased (mp_ID q) (mp_LeaseExpiresAt q) y \<Longrightarrow>
          (\<And>now. delivery_row_ok (failed_row q now y)) \<Longrightarrow>
          wr_MarkFailed (ws_repository S) q w = (ru, w') \<Longrightarrow>
          ru = Inr () \<and> ok w' \<and> (\<exists>now. rows w' = update_where (\<lambda>z. wd_ID z = wd_ID y) (\<lambda>_. failed_row q now y) (rows w))"
    and marks_retry: "ok w \<Longrightarrow> y \<in> set (rows w) \<Longrightarrow> leased (mp_ID r) (mp_LeaseExpiresAt r) y \<Longrightarrow>
          (\<And>now. delivery_row_ok (retry_row r now y)) \<Longrightarrow> mp_AttemptCount r < wd_MaxAttempts y \<Longrightarrow>
          wr_MarkRetry (ws_repository S) r w = (ru, w') \<Longrightarrow>
          ru = Inr () \<and> ok w' \<and> (\<exists>now. rows w' = update_where (\<lambda>z. wd_ID z = wd_ID y) (\<lambda>_. retry_row r now y) (rows w))"
begin

lemma processDelivery_settles:
  assumes ok: "ok w" and hold: "holds_lease (rows w) x" and run: "processDelivery S x w = (e, w')"
  shows "\<exists>out y. answers x out \<and> e = None \<and> ok w' \<and> settled_delivery out x y \<and>
           rows w' = update_where (\<lambda>z. wd_ID z = wd_ID x) (\<lambda>_. y) (rows w)"
proof -
  from hold obtain y l where y: "y \<in> set (rows w)" "wd_ID y = wd_ID x" "wd_LeaseExpiresAt x = Some l"
      "leased (wd_ID x) l y" "wd_AttemptCount y = wd_AttemptCount x" "wd_MaxAttempts y = wd_MaxAttempts x"
    by (auto simp: holds_lease_def)
  obtain out w1 where d: "ws_dispatcher S x w = (out, w1)" by force
  note dk = dispatches[OF ok d]
  have st: "storable out" using dk answers_storable by blast
  have yok: "delivery_row_ok y" "wd_AttemptCount y < wd_MaxAttempts y"
    using ok_rows[OF ok] y(1,4) by (auto simp: rows_ok_def leased_def open_delivery_def)
  define res where "res = (case out of Inl _ \<Rightarrow> \<lparr>dr_StatusCode = 0, dr_Body = ''''\<rparr> | Inr r \<Rightarrow> r)"
  define err where "err = (case out of Inl e \<Rightarrow> error_text e
      | Inr r \<Rightarrow> ''unexpected response status: '' @ itoa (dr_StatusCode r))"
  have code: "dr_StatusCode res = 0 \<or> 100 \<le> dr_StatusCode res \<and> dr_StatusCode res \<le> 599"
    using st by (auto simp: res_def storable_def split: sum.splits)
  have code2: "(case out of Inl _ \<Rightarrow> 0 | Inr r \<Rightarrow> dr_StatusCode r) = dr_StatusCode res"
    by (auto simp: res_def split: sum.splits)
  let ?n = "wd_AttemptCount x + 1"
  let ?p = "\<lparr>mp_ID = wd_ID x, mp_LeaseExpiresAt = l, mp_AttemptCount = ?n,
     mp_ResponseStatusCode = dr_StatusCode res, mp_ResponseBody = dr_Body res\<rparr>"
  let ?q = "\<lparr>mp_ID = wd_ID x, mp_LeaseExpiresAt = l, mp_AttemptCount = ?n,
     mp_ResponseStatusCode = dr_StatusCode res, mp_ResponseBody = dr_Body res, mp_LastError = err\<rparr>"
  let ?r = "\<lparr>mp_ID = wd_ID x, mp_LeaseExpiresAt = l, mp_AttemptCount = ?n,
     mp_ResponseStatusCode = dr_StatusCode res, mp_ResponseBody = dr_Body res, mp_LastError = err,
     mp_NextAttemptAt = time_add (ws_now S w1) (backoffForAttempt S ?n)\<rparr>"
  have rows: "delivery_row_ok (delivered_row ?p now y)" "delivery_row_ok (failed_row ?q now y)"
      "delivery_row_ok (retry_row ?r now y)" for now
    using yok y(5) code by (simp_all add: delivery_row_ok_def delivered_row_def failed_row_def retry_row_def)
  have y1: "y \<in> set (rows w1)" "ok w1" "rows w1 = rows w" using dk y(1) by auto
  have run': "(if accepted out then marked (wr_MarkDelivered (ws_repository S) ?p w1)
      else if wd_MaxAttempts x \<le> ?n then marked (wr_MarkFailed (ws_repository S) ?q w1)
      else marked (wr_MarkRetry (ws_repository S) ?r w1)) = (e, w')"
    using run d y(3) by (simp add: processDelivery_def Let_def res_def err_def cong: if_cong)
  show ?thesis
  proof (cases "accepted out")
    case True
    obtain ru w2 where m: "wr_MarkDelivered (ws_repository S) ?p w1 = (ru, w2)" by force
    from marks_delivered[OF y1(2,1) _ rows(1) m] y(4) obtain now where
      k: "ru = Inr ()" "ok w2" "rows w2 = update_where (\<lambda>z. wd_ID z = wd_ID y) (\<lambda>_. delivered_row ?p now y) (rows w1)"
      by auto
    have "e = None" "w' = w2"
      using run' m True k(1) by (auto simp: marked_def)
    moreover have "settled_delivery out x (delivered_row ?p now y)"
      using True y(2,5) code2 by (simp add: settled_delivery_def delivered_row_def)
    ultimately show ?thesis using k dk y(2) y1(3) by auto
  next
    case rej: False
    show ?thesis
    proof (cases "wd_MaxAttempts x \<le> ?n")
      case True
      obtain ru w2 where m: "wr_MarkFailed (ws_repository S) ?q w1 = (ru, w2)" by force
      from marks_failed[OF y1(2,1) _ rows(2) m] y(4) obtain now where
        k: "ru = Inr ()" "ok w2" "rows w2 = update_where (\<lambda>z. wd_ID z = wd_ID y) (\<lambda>_. failed_row ?q now y) (rows w1)"
        by auto
      have "e = None" "w' = w2"
        using run' m rej True k(1) by (auto simp: marked_def)
      moreover have "settled_delivery out x (failed_row ?q now y)"
        using rej True y(2,5) code2 by (simp add: settled_delivery_def failed_row_def)
      ultimately show ?thesis using k dk y(2) y1(3) by auto
    next
      case False
      obtain ru w2 where m: "wr_MarkRetry (ws_repository S) ?r w1 = (ru, w2)" by force
      from marks_retry[OF y1(2,1) _ rows(3) _ m] y(4,6) False obtain now where
        k: "ru = Inr ()" "ok w2" "rows w2 = update_where (\<lambda>z. wd_ID z = wd_ID y) (\<lambda>_. retry_row ?r now y) (rows w1)"
        by auto
      have "e = None" "w' = w2"
        using run' m rej False k(1) by (auto simp: marked_def)
      moreover have "settled_delivery out x (retry_row ?r now y)"
        using rej False y(2,5) code2 by (simp add: settled_delivery_def retry_row_def)
      ultimately show ?thesis using k dk y(2) y1(3) by auto
    qed
  qed
qed

lemma holds_lease_kept:
  assumes "holds_lease rs z" and "wd_ID z \<noteq> wd_ID x"
  shows "holds_lease (update_where (\<lambda>r. wd_ID r = wd_ID x) f rs) z"
proof -
  from assms(1) obtain y l where y: "y \<in> set rs" "wd_ID y = wd_ID z" "wd_LeaseExpiresAt z = Some l"
      "leased (wd_ID y) l y" "wd_AttemptCount y = wd_AttemptCount z" "wd_MaxAttempts y = wd_MaxAttempts z"
    by (auto simp: holds_lease_def)
  have "y \<in> set (update_where (\<lambda>r. wd_ID r = wd_ID x) f rs)"
    using y(1,2) assms(2) by (intro update_where_keepI) auto
  with y show ?thesis unfolding holds_lease_def by blast
qed

lemma process_deliveries_settles:
  assumes "ok w" and "distinct (map wd_ID ds)" and "\<forall>x \<in> set ds. holds_lease (rows w) x"
    and "process_deliveries S ds w = (e, w')"
  shows "e = None \<and> ok w' \<and>
         (\<forall>x \<in> set ds. \<exists>out y. answers x out \<and> y \<in> set (rows w') \<and> settled_delivery out x y) \<and>
         (\<forall>y \<in> set (rows w). wd_ID y \<notin> wd_ID ` set ds \<longrightarrow> y \<in> set (rows w'))"
  using assms
proof (induction ds arbitrary: w)
  case Nil
  then show ?case by simp
next
  case (Cons x ds)
  obtain e1 w1 where p: "processDelivery S x w = (e1, w1)" by force
  from processDelivery_settles[OF Cons.prems(1) _ p] Cons.prems(3) obtain out y where
    k: "answers x out" "e1 = None" "ok w1" "settled_delivery out x y"
      "rows w1 = update_where (\<lambda>z. wd_ID z = wd_ID x) (\<lambda>_. y) (rows w)" by auto
  have other: "wd_ID z \<noteq> wd_ID x" if "z \<in> set ds" for z using Cons.prems(2) that by (metis distinct.simps(2) imageI list.set_map list.simps(9))
  have "\<forall>z \<in> set ds. holds_lease (rows w1) z"
    using Cons.prems(3) other by (auto simp: k(5) intro: holds_lease_kept)
  with Cons.IH[OF k(3)] Cons.prems(2,4) p k(2) have
    IH: "e = None" "ok w'" "\<forall>x \<in> set ds. \<exists>out y. answers x out \<and> y \<in> set (rows w') \<and> settled_delivery out x y"
      "\<forall>y \<in> set (rows w1). wd_ID y \<notin> wd_ID ` set ds \<longrightarrow> y \<in> set (rows w')" by auto
  have yid: "wd_ID y = wd_ID x" using k(4) by (simp add: settled_delivery_def)
  have "y \<in> set (rows w1)"
    using Cons.prems(3) by (force simp: k(5) in_update_where holds_lease_def)
  with IH(4) yid other Cons.prems(2) have y': "y \<in> set (rows w')" by auto
  have keep: "z \<in> set (rows w1)" if "z \<in> set (rows w)" "wd_ID z \<noteq> wd_ID x" for z
    using that by (force simp: k(5) in_update_where)
  show ?case using IH k(1,4) y' keep by auto
qed

lemma RunCycle_settles:
  assumes ok: "ok w"
    and s: "wr_Schedule (ws_repository S) (ws_maxAttempts S) w = (Inr n, w1)"
    and c: "wr_Claim (ws_repository S) (ws_batchSize S) (ws_leaseDuration S) w1 = (Inr ds, w2)"
    and run: "RunCycle S w = (e, w')"
  shows "e = None \<and> ok w' \<and>
         (\<forall>x \<in> set ds. \<exists>out y. answers x out \<and> y \<in> set (rows w') \<and> settled_delivery out x y) \<and>
         (\<forall>y \<in> set (rows w1). wd_ID y \<notin> wd_ID ` set ds \<longrightarrow> y \<in> set (rows w'))"
proof -
  have ok1: "ok w1" using schedules[OF ok s] by simp
  note cl = claims[OF ok1 c]
  have "process_deliveries S ds w2 = (e, w')" using run s c by (simp add: RunCycle_def)
  from process_deliveries_settles[OF _ _ _ this] cl show ?thesis by auto
qed

end

subsection \<open>PostgreSQL keeps the contract\<close>

text \<open>
  The worker's service: the HTTP dispatcher is a function of the number of requests posted so
  far and of the delivery; every request is on record with the database at that moment.
\<close>

definition LoggedDispatcher ::
  "(nat \<Rightarrow> Delivery \<Rightarrow> go_error + DispatchResult) \<Rightarrow> Delivery \<Rightarrow> (world, DispatchResult) act" where
  "LoggedDispatcher answer x w =
     (answer (length (w_posted w)) x, w\<lparr>w_posted := w_posted w @ [(x, w_db w)]\<rparr>)"

definition WorkerWebhooks ::
  "pg \<Rightarrow> (nat \<Rightarrow> Delivery \<Rightarrow> go_error + DispatchResult) \<Rightarrow> int \<Rightarrow> duration \<Rightarrow> int \<Rightarrow> duration \<Rightarrow> world WebhookService" where
  "WorkerWebhooks pg answer maxAttempts initialBackoff batchSize leaseDuration =
     NewWebhookService (PostgresWebhooks pg) (LoggedDispatcher answer) maxAttempts initialBackoff batchSize
       leaseDuration w_clock"

lemma WorkerWebhooks_simps [simp]:
  "ws_repository (WorkerWebhooks pg answer m b n l) = PostgresWebhooks pg"
  "ws_dispatcher (WorkerWebhooks pg answer m b n l) = LoggedDispatcher answer"
  by (simp_all add: WorkerWebhooks_def NewWebhookService_def)

definition deliveries_ready :: "pg \<Rightarrow> world \<Rightarrow> bool" where
  "deliveries_ready pg w \<longleftrightarrow> quiet w \<and> webhook_inv (w_db w) \<and>
     uuid_laws pg \<and> (\<forall>x \<in> set (webhook_deliveries (w_db w)). uuid_in pg (wd_ID x) = Some (wd_ID x))"

lemma deliveries_ready_step:
  assumes "deliveries_ready pg w" and "webhook_step pg (w_db w) d"
    and "wd_ID ` set (webhook_deliveries d) \<subseteq> wd_ID ` set (webhook_deliveries (w_db w)) \<union> range (gen_random_uuid pg)"
  shows "deliveries_ready pg (w\<lparr>w_db := d\<rparr>)"
proof -
  have "uuid_in pg (wd_ID x) = Some (wd_ID x)" if "x \<in> set (webhook_deliveries d)" for x
  proof -
    from that assms(3) consider y where "y \<in> set (webhook_deliveries (w_db w))" "wd_ID x = wd_ID y"
      | n where "wd_ID x = gen_random_uuid pg n" by blast
    then show ?thesis using assms(1) by cases (auto simp: deliveries_ready_def uuid_laws_def)
  qed
  with assms webhook_step_inv show ?thesis by (auto simp: deliveries_ready_def)
qed

lemma mark_ready:
  assumes ready: "deliveries_ready pg w" and y: "y \<in> set (webhook_deliveries (w_db w))" "leased did l y"
    and row: "\<And>now. delivery_row_ok (f now y)" and ident: "\<And>now x. delivery_identity (f now x) = delivery_identity x"
    and step: "\<And>n d. sql_mark_delivery pg did l f (w_db w) = Inr (n, d) \<Longrightarrow> webhook_step pg (w_db w) d"
    and run: "mark_delivery pg op did l f w = (ru, w')"
  shows "ru = Inr () \<and> deliveries_ready pg w' \<and>
         (\<exists>now. webhook_deliveries (w_db w') =
            update_where (\<lambda>z. wd_ID z = wd_ID y) (\<lambda>_. f now y) (webhook_deliveries (w_db w)))"
proof -
  let ?rs = "webhook_deliveries (w_db w)" and ?f = "f (db_now (w_db w))"
  from ready have q: "quiet w" and ids: "distinct (map wd_ID ?rs)" by (simp_all add: deliveries_ready_def webhook_inv_def)
  have did: "did = wd_ID y" using y(2) by (simp add: leased_def)
  have uid: "uuid_in pg did = Some (wd_ID y)" using ready y(1) did by (simp add: deliveries_ready_def)
  have only: "leased (wd_ID y) l z \<longleftrightarrow> z = y" if "z \<in> set ?rs" for z
    using that y did distinct_map_inj[OF ids that y(1)] by (auto simp: leased_def)
  have hit: "filter (leased (wd_ID y) l) ?rs = filter (\<lambda>z. z = y) ?rs"
    using only by (intro filter_cong) auto
  have upd: "update_where (leased (wd_ID y) l) ?f ?rs = update_where (\<lambda>z. wd_ID z = wd_ID y) (\<lambda>_. ?f y) ?rs"
    using only distinct_map_inj[OF ids _ y(1)] by (auto simp: update_where_def)
  define d where "d = (w_db w)\<lparr>webhook_deliveries := update_where (\<lambda>z. wd_ID z = wd_ID y) (\<lambda>_. ?f y) ?rs\<rparr>"
  have n: "length (filter (\<lambda>z. z = y) ?rs) \<noteq> 0" using y(1) by (auto simp: filter_empty_conv)
  have sql: "sql_mark_delivery pg did l f (w_db w) = Inr (length (filter (\<lambda>z. z = y) ?rs), d)"
    unfolding sql_mark_delivery_def uid option.case Let_def hit upd d_def using row by auto
  have "wd_ID ` set (webhook_deliveries d) \<subseteq> wd_ID ` set ?rs"
    using ident y(1) by (auto simp: d_def in_update_where delivery_identity_def)
  then have "deliveries_ready pg (w\<lparr>w_db := d\<rparr>)"
    by (intro deliveries_ready_step[OF ready step[OF sql]]) auto
  moreover have "ru = Inr ()" "w' = w\<lparr>w_db := d\<rparr>"
    using run q sql n by (auto simp: mark_delivery_def split: if_splits)
  ultimately show ?thesis by (auto simp: d_def)
qed

lemma delivery_candidates_distinct:
  assumes "distinct (map wd_ID (webhook_deliveries d))"
  shows "distinct (map wd_ID (delivery_candidates n d))"
proof -
  have dm: "distinct (map wd_ID (sort_key f xs)) = distinct (map wd_ID xs)" for f :: "Delivery \<Rightarrow> int" and xs
    by (metis distinct_map distinct_sort set_sort)
  have nf: "distinct (map wd_ID (nulls_first f xs))" if "distinct (map wd_ID xs)" for f and xs :: "Delivery list"
  proof -
    have "wd_ID ` set (filter (\<lambda>x. f x = None) xs) \<inter> wd_ID ` set (filter (\<lambda>x. f x \<noteq> None) xs) = {}"
    proof (rule equals0I, elim IntE imageE)
      fix i a b assume "i = wd_ID a" "a \<in> set (filter (\<lambda>x. f x = None) xs)"
        "i = wd_ID b" "b \<in> set (filter (\<lambda>x. f x \<noteq> None) xs)"
      with distinct_map_inj[OF that, of a b] show False by simp
    qed
    with that show ?thesis by (simp add: nulls_first_def dm distinct_map_filter)
  qed
  have "distinct (map wd_ID (filter (delivery_due (db_now d)) (webhook_deliveries d)))"
    using assms by (rule distinct_map_filter)
  then show ?thesis unfolding delivery_candidates_def take_map[symmetric] by (intro distinct_take nf) (simp add: dm)
qed

lemma claim_ready:
  assumes ready: "deliveries_ready pg w" and run: "sql_claim_deliveries pg n lease (w_db w) = Inr (ds, d)"
  shows "deliveries_ready pg (w\<lparr>w_db := d\<rparr>)" and "distinct (map wd_ID ds)"
    and "\<forall>x \<in> set ds. holds_lease (webhook_deliveries d) x"
    and "\<forall>y \<in> set (webhook_deliveries (w_db w)). wd_ID y \<notin> wd_ID ` set ds \<longrightarrow> y \<in> set (webhook_deliveries d)"
proof -
  note D = sql_claim_deliveriesD[OF run]
  let ?c = "delivery_candidates n (w_db w)" and ?rs = "webhook_deliveries (w_db w)"
  from ready have ids: "distinct (map wd_ID ?rs)" by (simp add: deliveries_ready_def webhook_inv_def)
  have cid [simp]: "wd_ID (claimed_delivery lease d0 x) = wd_ID x" "wd_ID (scanDelivery x) = wd_ID x" for d0 x
    by (simp_all add: claimed_delivery_def scanDelivery_def)
  have rows: "webhook_deliveries d = update_where (\<lambda>x. wd_ID x \<in> wd_ID ` set ?c) (claimed_delivery lease (w_db w)) ?rs"
    by (simp add: D(3))
  show "deliveries_ready pg (w\<lparr>w_db := d\<rparr>)"
    by (rule deliveries_ready_step[OF ready webhook_step.claim[OF run]]) (auto simp: rows in_update_where)
  show "distinct (map wd_ID ds)" using delivery_candidates_distinct[OF ids] by (simp add: D(2) comp_def)
  show "\<forall>x \<in> set ds. holds_lease (webhook_deliveries d) x"
  proof
    fix x assume "x \<in> set ds"
    then obtain c where c: "c \<in> set ?c" "x = scanDelivery (claimed_delivery lease (w_db w) c)" by (auto simp: D(2))
    then have "claimed_delivery lease (w_db w) c \<in> set (webhook_deliveries d)"
      unfolding rows using delivery_candidates_in by (intro update_where_hitI) auto
    then show "holds_lease (webhook_deliveries d) x"
      unfolding holds_lease_def c(2) by (rule bexI[rotated]) (auto simp: leased_def claimed_delivery_def scanDelivery_def)
  qed
  show "\<forall>y \<in> set ?rs. wd_ID y \<notin> wd_ID ` set ds \<longrightarrow> y \<in> set (webhook_deliveries d)"
    unfolding rows by (auto intro!: update_where_keepI simp: D(2) image_image)
qed

lemma schedule_ready:
  assumes ready: "deliveries_ready pg w" and run: "sql_schedule_deliveries pg m (w_db w) = Inr (n, d)"
  shows "deliveries_ready pg (w\<lparr>w_db := d\<rparr>)" and "\<exists>new. webhook_deliveries d = webhook_deliveries (w_db w) @ new"
proof -
  from run have ins: "insert_deliveries pg m (notifiable (w_db w)) 0 (w_db w) = Inr (n, d)"
    by (simp add: sql_schedule_deliveries_def split: if_splits)
  from insert_deliveries_grows[OF ins] obtain new k where
    d: "d = (w_db w)\<lparr>webhook_deliveries := webhook_deliveries (w_db w) @ new, uuid_count := k\<rparr>"
    and new: "\<forall>x \<in> set new. wd_ID x \<in> range (gen_random_uuid pg)" by blast
  show "deliveries_ready pg (w\<lparr>w_db := d\<rparr>)"
    by (rule deliveries_ready_step[OF ready webhook_step.schedule[OF run]]) (use d new in auto)
  from d show "\<exists>new. webhook_deliveries d = webhook_deliveries (w_db w) @ new" by auto
qed

interpretation pgd: delivery_store "WorkerWebhooks pg answer m b n l" "\<lambda>w. webhook_deliveries (w_db w)"
    "\<lambda>w. deliveries_ready pg w \<and> (\<forall>k x. storable (answer k x))"
    "\<lambda>x out. storable out \<and> (\<exists>k. out = answer k x)"
  for pg answer m b n l
proof (unfold_locales, goal_cases)
  case (1 w)
  then show ?case by (auto simp: deliveries_ready_def webhook_inv_def rows_ok_def)
next
  case (2 out)
  then show ?case by simp
next
  case (3 w mx rn w')
  then have q: "quiet w" by (simp add: deliveries_ready_def)
  show ?case
  proof (cases "sql_schedule_deliveries pg mx (w_db w)")
    case (Inl e)
    with 3 q show ?thesis by (auto simp: PostgresWebhooks_def ScheduleTransferStatusDeliveries_def)
  next
    case (Inr r)
    obtain k d where r: "r = (k, d)" by force
    with Inr 3 q have "w' = w\<lparr>w_db := d\<rparr>"
      by (auto simp: PostgresWebhooks_def ScheduleTransferStatusDeliveries_def)
    with schedule_ready[of pg w mx k d] Inr r 3 show ?thesis by auto
  qed
next
  case (4 w lim lease ds w')
  then have q: "quiet w" by (simp add: deliveries_ready_def)
  let ?lim = "nat (if lim \<le> 0 then 25 else lim)" and ?lease = "if sint lease \<le> 0 then 30 * Second else lease"
  from 4 q obtain d where "sql_claim_deliveries pg ?lim ?lease (w_db w) = Inr (ds, d)" "w' = w\<lparr>w_db := d\<rparr>"
    by (auto simp: PostgresWebhooks_def ClaimDueDeliveries_def Let_def split: sum.splits prod.splits)
  with claim_ready[of pg w ?lim ?lease ds d] 4 show ?case by auto
next
  case (5 w x out w')
  then show ?case by (auto simp: LoggedDispatcher_def deliveries_ready_def quiet_def)
next
  case (6 w y p ru w')
  have "mark_delivery pg ''mark webhook delivered'' (mp_ID p) (mp_LeaseExpiresAt p) (delivered_row p) w = (ru, w')"
    using 6(5) by (simp add: PostgresWebhooks_def MarkDelivered_def)
  from mark_ready[OF _ 6(2,3) 6(4) row_identity(2) _ this] 6(1) show ?case
    by (blast intro: webhook_step.delivered)
next
  case (7 w y q ru w')
  have "mark_delivery pg ''mark webhook failed'' (mp_ID q) (mp_LeaseExpiresAt q) (failed_row q) w = (ru, w')"
    using 7(5) by (simp add: PostgresWebhooks_def MarkFailed_def)
  from mark_ready[OF _ 7(2,3) 7(4) row_identity(4) _ this] 7(1) show ?case
    by (blast intro: webhook_step.failed)
next
  case (8 w y r ru w')
  have m: "mark_delivery pg ''mark webhook retry'' (mp_ID r) (mp_LeaseExpiresAt r) (retry_row r) w = (ru, w')"
    using 8(6) by (simp add: PostgresWebhooks_def MarkRetry_def)
  have "mp_AttemptCount r < wd_MaxAttempts x"
    if "x \<in> set (webhook_deliveries (w_db w))" "uuid_in pg (mp_ID r) = Some (wd_ID x)" for x
  proof -
    have "wd_ID x = wd_ID y" using that 8(1,2,3) by (auto simp: deliveries_ready_def leased_def)
    with that(1) 8(1,2) have "x = y" by (auto simp: deliveries_ready_def webhook_inv_def dest: distinct_map_inj)
    with 8(5) show ?thesis by simp
  qed
  then have "webhook_step pg (w_db w) d"
    if "sql_mark_delivery pg (mp_ID r) (mp_LeaseExpiresAt r) (retry_row r) (w_db w) = Inr (k, d)" for k d
    using that by (blast intro: webhook_step.retry)
  from mark_ready[OF _ 8(2,3) 8(4) row_identity(3) _ m] this 8(1) show ?case by blast
qed

subsection \<open>Scheduling succeeds\<close>

lemma new_delivery_ok:
  "0 < m \<Longrightarrow> sh_ToStatus h \<in> set webhook_statuses \<Longrightarrow> delivery_row_ok (new_delivery pg m h t d)"
  by (auto simp: delivery_row_ok_def new_delivery_def webhook_statuses_def)

lemma insert_deliveries_succeeds:
  "0 < m \<Longrightarrow> (\<And>h t. (h, t) \<in> set rows \<Longrightarrow> sh_ToStatus h \<in> set webhook_statuses) \<Longrightarrow>
   \<exists>n' d'. insert_deliveries pg m rows n d = Inr (n', d')"
proof (induction rows arbitrary: n d)
  case (Cons r rows)
  obtain h t where r: "r = (h, t)" by force
  have row: "delivery_row_ok (new_delivery pg m h t d)" using Cons.prems r by (auto intro: new_delivery_ok)
  have "\<exists>n' d'. insert_deliveries pg m rows k e = Inr (n', d')" for k e
    using Cons.prems by (intro Cons.IH) auto
  with row show ?case by (simp add: r Let_def)
qed simp

lemma schedule_succeeds:
  assumes "0 < m" and "m < 2 ^ 31"
  shows "\<exists>n d'. sql_schedule_deliveries pg m d = Inr (n, d')"
  using insert_deliveries_succeeds[OF assms(1), of "notifiable d"] notifiable_in assms
  by (auto simp: sql_schedule_deliveries_def)

text \<open>A cycle without other sessions: what it claims, and how each claimed delivery ends.\<close>

lemma RunCycle_quiet:
  assumes ready: "deliveries_ready pg w" and pg: "accepts_ambiguous pg" and ans: "\<forall>k x. storable (answer k x)"
    and S: "S = WorkerWebhooks pg answer m b n l" and m: "m < 2 ^ 31"
  shows "\<exists>k w1 w'. ScheduleTransferStatusDeliveries pg (ws_maxAttempts S) w = (Inr k, w1) \<and> RunCycle S w = (None, w') \<and>
           (\<forall>x \<in> set (delivery_candidates (nat (ws_batchSize S)) (w_db w1)). \<exists>i y. y \<in> set (webhook_deliveries (w_db w')) \<and>
              settled_delivery (answer i (scanDelivery (claimed_delivery (ws_leaseDuration S) (w_db w1) x))) x y)"
proof -
  let ?m = "ws_maxAttempts S"
  have q: "quiet w" using ready by (simp add: deliveries_ready_def)
  have pos: "0 < ?m" "?m < 2 ^ 31" "0 < ws_batchSize S" "\<not> sint (ws_leaseDuration S) \<le> 0"
    using m sint_mult_fits[of 30 Second] by (auto simp: S WorkerWebhooks_def NewWebhookService_def)
  obtain k d where sch: "sql_schedule_deliveries pg ?m (w_db w) = Inr (k, d)"
    using schedule_succeeds[OF pos(1,2)] by blast
  let ?w1 = "w\<lparr>w_db := d\<rparr>"
  let ?c = "delivery_candidates (nat (ws_batchSize S)) d" and ?f = "scanDelivery \<circ> claimed_delivery (ws_leaseDuration S) d"
  obtain d2 where cl: "sql_claim_deliveries pg (nat (ws_batchSize S)) (ws_leaseDuration S) d = Inr (map ?f ?c, d2)"
    using pg by (simp add: sql_claim_deliveries_def Let_def)
  have s: "ScheduleTransferStatusDeliveries pg ?m w = (Inr k, ?w1)"
    using q sch by (simp add: ScheduleTransferStatusDeliveries_def)
  have c: "ClaimDueDeliveries pg (ws_batchSize S) (ws_leaseDuration S) ?w1 = (Inr (map ?f ?c), ?w1\<lparr>w_db := d2\<rparr>)"
    using q cl pos by (simp add: ClaimDueDeliveries_def)
  obtain e w' where run: "RunCycle S w = (e, w')" by force
  have "e = None \<and> (\<forall>x \<in> set (map ?f ?c). \<exists>out y. (storable out \<and> (\<exists>i. out = answer i x)) \<and>
      y \<in> set (webhook_deliveries (w_db w')) \<and> settled_delivery out x y)"
    using pgd.RunCycle_settles[OF _ _ _ run[unfolded S], folded S]
      ready ans s c by (simp add: S PostgresWebhooks_def)
  moreover have "settled_delivery out (?f x) y \<Longrightarrow> settled_delivery out x y" for out x y
    by (simp add: settled_delivery_def scanDelivery_def claimed_delivery_def)
  ultimately show ?thesis
    using s run by (intro exI[of _ k] exI[of _ ?w1] exI[of _ w']) fastforce
qed

lemma ScheduleTransferStatusDeliveries_outside:
  assumes "ScheduleTransferStatusDeliveries pg m w = (r, w1)"
  shows "same_outside w w1"
proof -
  obtain f w0 where e: "enter w = (f, w0)" by force
  obtain q w2 where a: "autocommit f (sql_schedule_deliveries pg m (w_db w0)) w0 = (q, w2)" by force
  have "same_outside w w2"
    using autocommit_outside[of w f "sql_schedule_deliveries pg m (w_db w0)" w0] same_outside_enter[of w] a e by simp
  then show ?thesis using assms e a by (auto simp: ScheduleTransferStatusDeliveries_def split: sum.splits)
qed

end
