(* ===== verification/Dispatcher.thy ===== *)
theory Dispatcher
  imports TargetPolicy WebhookContract
begin

text \<open>
  \<^verbatim>\<open>webhooks/dispatcher.go\<close>, \<^verbatim>\<open>webhooks/signing.go\<close> and \<^verbatim>\<open>webhooks/response_sanitizer.go\<close>: one
  delivery is one POST, with redirects followed by \<open>http.Client\<close>. The rest of the internet is a
  parameter: what the resolver, a dial and a server answer at each moment. A moment is the
  number of questions asked so far, so that a name may resolve to something else each time.
  HMAC-SHA256, the RFC 3339 form of a time and the parsers of URLs are parameters too.
\<close>

subsection \<open>signing.go\<close>

record Signer =
  sg_secret :: string

definition NewSigner :: "string \<Rightarrow> Signer option" where
  "NewSigner secret = (if secret = '''' then None else Some \<lparr>sg_secret = secret\<rparr>)"

definition EncodeToString :: "string \<Rightarrow> string" where
  "EncodeToString bytes = concat (map (\<lambda>c. [hex_digit (of_char c div 16), hex_digit (of_char c mod 16)]) bytes)"

text \<open>The message authenticated is the timestamp, a dot and the body.\<close>

definition signed_message :: "string \<Rightarrow> string \<Rightarrow> string" where
  "signed_message timestamp body = timestamp @ ''.'' @ body"

definition ComputeSignature :: "(string \<Rightarrow> string \<Rightarrow> string) \<Rightarrow> string \<Rightarrow> string \<Rightarrow> string \<Rightarrow> string" where
  "ComputeSignature hmac secret timestamp body =
     ''v1='' @ EncodeToString (hmac secret (signed_message timestamp body))"

definition Sign ::
  "(string \<Rightarrow> string \<Rightarrow> string) \<Rightarrow> (go_time \<Rightarrow> string) \<Rightarrow> Signer option \<Rightarrow> string \<Rightarrow> go_time \<Rightarrow> string \<times> string" where
  "Sign hmac rfc3339 s body at =
     (case s of
        None \<Rightarrow> ('''', '''')
      | Some signer \<Rightarrow>
          (let timestamp = rfc3339 at in (timestamp, ComputeSignature hmac (sg_secret signer) timestamp body)))"

subsection \<open>response\_sanitizer.go\<close>

definition byte_in :: "nat \<Rightarrow> nat \<Rightarrow> char \<Rightarrow> bool" where
  "byte_in lo hi c \<longleftrightarrow> lo \<le> (of_char c :: nat) \<and> (of_char c :: nat) \<le> hi"

text \<open>The range of the second byte of a rune, by its first byte (\<open>utf8.acceptRanges\<close>).\<close>

definition second_range :: "char \<Rightarrow> nat \<times> nat" where
  "second_range c =
     (let n = (of_char c :: nat) in
      if n = 0xE0 then (0xA0, 0xBF) else if n = 0xED then (0x80, 0x9F)
      else if n = 0xF0 then (0x90, 0xBF) else if n = 0xF4 then (0x80, 0x8F) else (0x80, 0xBF))"

definition second_ok :: "char \<Rightarrow> char \<Rightarrow> bool" where
  "second_ok c d \<longleftrightarrow> byte_in (fst (second_range c)) (snd (second_range c)) d"

text \<open>The width of the rune a text starts with, 0 when its first byte starts none.\<close>

fun rune_width :: "string \<Rightarrow> nat" where
  "rune_width [] = 0"
| "rune_width (c # cs) =
     (if byte_in 0 0x7F c then 1
      else if byte_in 0xC2 0xDF c
      then (case cs of d # _ \<Rightarrow> if second_ok c d then 2 else 0 | _ \<Rightarrow> 0)
      else if byte_in 0xE0 0xEF c
      then (case cs of d # e # _ \<Rightarrow> if second_ok c d \<and> byte_in 0x80 0xBF e then 3 else 0 | _ \<Rightarrow> 0)
      else if byte_in 0xF0 0xF4 c
      then (case cs of d # e # f # _ \<Rightarrow>
              if second_ok c d \<and> byte_in 0x80 0xBF e \<and> byte_in 0x80 0xBF f then 4 else 0 | _ \<Rightarrow> 0)
      else 0)"

lemma rune_width_le: "rune_width s \<le> length s"
  by (cases s) (auto split: list.splits)

definition replacement :: string where
  "replacement = [CHR 0xEF, CHR 0xBF, CHR 0xBD]"

text \<open>\<open>strings.ToValidUTF8\<close>: every run of invalid bytes becomes one replacement.\<close>

function to_valid :: "bool \<Rightarrow> string \<Rightarrow> string" where
  "to_valid invalid [] = []"
| "to_valid invalid (c # cs) =
     (let w = rune_width (c # cs) in
      if w = 0 then (if invalid then [] else replacement) @ to_valid True cs
      else take w (c # cs) @ to_valid False (drop w (c # cs)))"
  by pat_completeness auto
termination
  by (relation "measure (length \<circ> snd)") (auto simp del: rune_width.simps)

definition ToValidUTF8 :: "string \<Rightarrow> string" where
  "ToValidUTF8 s = to_valid False s"

definition sanitizeResponseBody :: "string \<Rightarrow> int \<Rightarrow> string" where
  "sanitizeResponseBody body maxBytes0 =
     (let maxBytes = (if maxBytes0 \<le> 0 then 512 else maxBytes0);
          truncated = maxBytes < int (length body);
          cut = (if truncated then take (nat maxBytes) body else body);
          sanitized = filter (\<lambda>c. c \<noteq> CHR 0x00) (ToValidUTF8 cut)
      in if truncated then sanitized @ ''...[truncated]'' else sanitized)"

text \<open>Valid UTF-8: a concatenation of runes. A \<open>text\<close> column stores it when it has no NUL.\<close>

definition is_rune :: "string \<Rightarrow> bool" where
  "is_rune r \<longleftrightarrow> r \<noteq> [] \<and> rune_width r = length r"

inductive valid_utf8 :: "string \<Rightarrow> bool" where
  valid_empty: "valid_utf8 []"
| valid_rune: "is_rune r \<Longrightarrow> valid_utf8 s \<Longrightarrow> valid_utf8 (r @ s)"

definition storable_text :: "string \<Rightarrow> bool" where
  "storable_text s \<longleftrightarrow> valid_utf8 s \<and> CHR 0x00 \<notin> set s"

lemma is_rune_take: "0 < rune_width s \<Longrightarrow> is_rune (take (rune_width s) s)"
  by (cases s) (auto simp: is_rune_def numeral_eq_Suc split: list.splits if_splits)

lemma is_rune_replacement: "is_rune replacement"
  by (simp add: is_rune_def replacement_def byte_in_def second_ok_def second_range_def)

lemma valid_append: "valid_utf8 s \<Longrightarrow> valid_utf8 t \<Longrightarrow> valid_utf8 (s @ t)"
  by (induction rule: valid_utf8.induct) (auto simp: append_assoc intro: valid_utf8.intros)

lemma valid_one: "is_rune r \<Longrightarrow> valid_utf8 r"
  using valid_rune[OF _ valid_empty] by simp

lemma to_valid_valid: "valid_utf8 (to_valid invalid s)"
proof (induction invalid s rule: to_valid.induct)
  case (2 invalid c cs)
  show ?case
  proof (cases "rune_width (c # cs) = 0")
    case True
    then show ?thesis
      using 2(1)[OF refl] valid_rune[OF is_rune_replacement] by (simp del: rune_width.simps)
  next
    case False
    then show ?thesis
      using 2(2)[OF refl False] valid_rune[OF is_rune_take] by (simp del: rune_width.simps add: Let_def)
  qed
qed (simp add: valid_empty)

lemma rune_without_nul: "is_rune r \<Longrightarrow> r = [CHR 0x00] \<or> CHR 0x00 \<notin> set r"
  by (cases r) (auto simp: is_rune_def byte_in_def second_ok_def second_range_def Let_def split: list.splits if_splits)

lemma valid_filter_nul: "valid_utf8 s \<Longrightarrow> valid_utf8 (filter (\<lambda>c. c \<noteq> CHR 0x00) s)"
proof (induction rule: valid_utf8.induct)
  case (valid_rune r s)
  from rune_without_nul[OF valid_rune(1)] show ?case
  proof
    assume "CHR 0x00 \<notin> set r"
    then have "filter (\<lambda>c. c \<noteq> CHR 0x00) r = r" by (induction r) auto
    then show ?thesis using valid_utf8.valid_rune[OF valid_rune(1,3)] by simp
  qed (simp add: valid_rune)
qed (simp add: valid_empty)

lemma length_to_valid: "length (to_valid invalid s) \<le> 2 * length s + (if invalid then 0 else 1)"
proof (induction invalid s rule: to_valid.induct)
  case (2 invalid c cs)
  show ?case
  proof (cases "rune_width (c # cs) = 0")
    case True
    then show ?thesis using 2(1)[OF refl True] by (simp del: rune_width.simps add: replacement_def)
  next
    case False
    then show ?thesis
      using 2(2)[OF refl False] rune_width_le[of "c # cs"] by (simp del: rune_width.simps add: Let_def split: if_splits)
  qed
qed simp

text \<open>A valid text without NUL comes out as it went in.\<close>

lemma rune_width_append: "is_rune r \<Longrightarrow> rune_width (r @ s) = length r"
  by (cases r) (auto simp: is_rune_def split: list.splits if_splits)

lemma to_valid_id: "valid_utf8 s \<Longrightarrow> to_valid invalid s = s"
proof (induction arbitrary: invalid rule: valid_utf8.induct)
  case (valid_rune r s)
  obtain c cs where r: "r = c # cs" using valid_rune(1) by (cases r) (auto simp: is_rune_def)
  have "rune_width (c # (cs @ s)) = Suc (length cs)" using rune_width_append[OF valid_rune(1), of s] by (simp add: r)
  then show ?case using valid_rune(3)[of False] by (simp add: r del: rune_width.simps)
qed simp

lemma sanitizeResponseBody_storable: "storable_text (sanitizeResponseBody body n)"
proof -
  have dots: "valid_utf8 ''...[truncated]''"
  proof -
    have "valid_utf8 s" if "list_all (byte_in 0 0x7F) s" for s
      using that by (induction s) (auto simp: is_rune_def valid_empty intro: valid_rune[of "[_]", simplified])
    then show ?thesis by (simp add: byte_in_def)
  qed
  show ?thesis
    using valid_append[OF valid_filter_nul[OF to_valid_valid] dots] valid_filter_nul[OF to_valid_valid]
    by (auto simp: storable_text_def sanitizeResponseBody_def ToValidUTF8_def Let_def)
qed

lemma sanitizeResponseBody_length:
  assumes "0 < n"
  shows "int (length (sanitizeResponseBody body n)) \<le> 2 * n + 15"
proof -
  have filtered: "length (filter (\<lambda>c. c \<noteq> CHR 0x00) (to_valid False s)) \<le> 2 * length s + 1" for s
    using le_trans[OF length_filter_le length_to_valid[of False s]] by simp
  show ?thesis
    using assms filtered[of body] filtered[of "take (nat n) body"]
    by (auto simp: sanitizeResponseBody_def ToValidUTF8_def Let_def)
qed

lemma sanitizeResponseBody_id:
  "storable_text body \<Longrightarrow> int (length body) \<le> n \<Longrightarrow> 0 < n \<Longrightarrow> sanitizeResponseBody body n = body"
  by (auto simp: sanitizeResponseBody_def ToValidUTF8_def storable_text_def to_valid_id Let_def filter_id_conv)

subsection \<open>dispatcher.go\<close>

record http_request =
  rq_Method :: string
  rq_URL :: url
  rq_Header :: "(string \<times> string) list"
  rq_Body :: string

record http_response =
  rs_StatusCode :: int
  rs_Location :: string
  rs_Body :: "go_error + string"

text \<open>
  The internet, and the transport's choices: a kept connection may serve the next request to
  the same address. \<open>net_address\<close> is the address \<open>http.Transport\<close> dials for a URL.
\<close>

record internet =
  net_lookup :: "nat \<Rightarrow> resolver"
  net_dial :: "nat \<Rightarrow> string \<Rightarrow> go_error option"
  net_answer :: "nat \<Rightarrow> http_request \<Rightarrow> go_error + http_response"
  net_reuse :: "nat \<Rightarrow> bool"
  net_address :: "url \<Rightarrow> string"
  net_parse :: "string \<Rightarrow> url option"
  net_resolve :: "url \<Rightarrow> string \<Rightarrow> url option"

text \<open>One \<open>Dispatch\<close>: questions asked, addresses dialed, connections held, requests sent (with the address of their connection).\<close>

record exchange =
  ex_clock :: nat
  ex_dialed :: "string list"
  ex_conns :: "(string \<times> string) list"
  ex_sent :: "(string option \<times> http_request) list"

definition fresh_exchange :: exchange where
  "fresh_exchange = \<lparr>ex_clock = 0, ex_dialed = [], ex_conns = [], ex_sent = []\<rparr>"

text \<open>The transport the client was built with; \<open>NewHTTPDispatcher\<close> sets none.\<close>

datatype round_tripper = NoTransport | HttpTransport | OtherTransport

record HTTPDispatcher =
  hd_transport :: round_tripper
  hd_signer :: "Signer option"
  hd_targetPolicy :: TargetPolicy
  hd_responseBodyMaxBytes :: int
  hd_hmac :: "string \<Rightarrow> string \<Rightarrow> string"
  hd_rfc3339 :: "go_time \<Rightarrow> string"
  hd_now :: go_time

definition NewHTTPDispatcher ::
  "(string \<Rightarrow> string \<Rightarrow> string) \<Rightarrow> (go_time \<Rightarrow> string) \<Rightarrow> go_time \<Rightarrow> Signer option \<Rightarrow> TargetPolicy \<Rightarrow> int \<Rightarrow> HTTPDispatcher" where
  "NewHTTPDispatcher hmac rfc3339 now signer targetPolicy responseBodyMaxBytes =
     \<lparr>hd_transport = NoTransport, hd_signer = signer, hd_targetPolicy = targetPolicy,
      hd_responseBodyMaxBytes = responseBodyMaxBytes, hd_hmac = hmac, hd_rfc3339 = rfc3339, hd_now = now\<rparr>"

definition validateTarget :: "HTTPDispatcher \<Rightarrow> internet \<Rightarrow> url \<Rightarrow> exchange \<Rightarrow> go_error option \<times> exchange" where
  "validateTarget d net targetURL x =
     (validateDispatchTarget targetURL (hd_targetPolicy d) (net_lookup net (ex_clock x)),
      x\<lparr>ex_clock := Suc (ex_clock x)\<rparr>)"

text \<open>The addresses are tried in order; the errors are joined.\<close>

fun dial_first ::
  "internet \<Rightarrow> string \<Rightarrow> ip list \<Rightarrow> go_error option \<Rightarrow> exchange \<Rightarrow> (go_error option + string) \<times> exchange" where
  "dial_first net port [] dialErr x = (Inl dialErr, x)"
| "dial_first net port (ip # ips) dialErr x =
     (let address = JoinHostPort (IP_String ip) port;
          x1 = x\<lparr>ex_clock := Suc (ex_clock x), ex_dialed := ex_dialed x @ [address]\<rparr>
      in case net_dial net (ex_clock x) address of
           None \<Rightarrow> (Inr address, x1)
         | Some e \<Rightarrow> dial_first net port ips (Some (errors_join dialErr e)) x1)"

definition dialValidatedTarget ::
  "HTTPDispatcher \<Rightarrow> internet \<Rightarrow> string \<Rightarrow> exchange \<Rightarrow> (go_error + string) \<times> exchange" where
  "dialValidatedTarget d net address x =
     (case SplitHostPort address of
        Inl e \<Rightarrow> (Inl (Errorf ''split webhook dial target'' e), x)
      | Inr (host, port) \<Rightarrow>
          (let hostname = normalizeHostname host in
           if hostname = '''' then (Inl (Opaque ''webhook dial target is missing hostname''), x)
           else
             (let targetURL = \<lparr>u_Scheme = ''https'', u_User = None, u_Host = JoinHostPort hostname port\<rparr>;
                  x1 = x\<lparr>ex_clock := Suc (ex_clock x)\<rparr>
              in case resolveDispatchTarget targetURL (hd_targetPolicy d) (net_lookup net (ex_clock x)) of
                   Inl e \<Rightarrow> (Inl e, x1)
                 | Inr (_, _, ips) \<Rightarrow>
                     (case dial_first net port ips None x1 of
                        (Inr conn, x2) \<Rightarrow> (Inr conn, x2)
                      | (Inl dialErr, x2) \<Rightarrow>
                          (Inl (Errorf (''dial webhook target '' @ go_quote hostname)
                                  (case dialErr of Some e \<Rightarrow> e | None \<Rightarrow> Opaque ''%!w(<nil>)'')), x2)))))"

text \<open>\<open>transport\<close>: the proxy is off and every connection is dialed by \<open>dialValidatedTarget\<close>, unless the client had a foreign transport.\<close>

definition transport_validates :: "HTTPDispatcher \<Rightarrow> bool" where
  "transport_validates d \<longleftrightarrow> hd_transport d \<noteq> OtherTransport"

definition connection ::
  "HTTPDispatcher \<Rightarrow> internet \<Rightarrow> http_request \<Rightarrow> exchange \<Rightarrow> (go_error + string option) \<times> exchange" where
  "connection d net request x =
     (if \<not> transport_validates d then (Inr None, x)
      else
        (let address = net_address net (rq_URL request) in
         case (if net_reuse net (ex_clock x) then map_of (ex_conns x) address else None) of
           Some conn \<Rightarrow> (Inr (Some conn), x)
         | None \<Rightarrow>
             (case dialValidatedTarget d net address x of
                (Inl e, x1) \<Rightarrow> (Inl e, x1)
              | (Inr conn, x1) \<Rightarrow> (Inr (Some conn), x1\<lparr>ex_conns := (address, conn) # ex_conns x1\<rparr>))))"

definition RoundTrip ::
  "HTTPDispatcher \<Rightarrow> internet \<Rightarrow> http_request \<Rightarrow> exchange \<Rightarrow> (go_error + http_response) \<times> exchange" where
  "RoundTrip d net request x =
     (case connection d net request x of
        (Inl e, x1) \<Rightarrow> (Inl e, x1)
      | (Inr conn, x1) \<Rightarrow>
          (net_answer net (ex_clock x1) request,
           x1\<lparr>ex_clock := Suc (ex_clock x1), ex_sent := ex_sent x1 @ [(conn, request)]\<rparr>))"

definition CheckRedirect ::
  "HTTPDispatcher \<Rightarrow> internet \<Rightarrow> http_request \<Rightarrow> nat \<Rightarrow> exchange \<Rightarrow> go_error option \<times> exchange" where
  "CheckRedirect d net req via x =
     (if 10 \<le> via then (Some (Opaque (''stop after '' @ nat_text via @ '' redirects'')), x)
      else case validateTarget d net (rq_URL req) x of
             (Some e, x1) \<Rightarrow> (Some (Errorf ''validate redirect target'' e), x1)
           | (None, x1) \<Rightarrow> (None, x1))"

text \<open>\<open>redirectBehavior\<close> of \<open>http.Client\<close> for a POST whose body can be sent again.\<close>

definition redirected :: "http_request \<Rightarrow> int \<Rightarrow> url \<Rightarrow> http_request" where
  "redirected request status target =
     (if status = 307 \<or> status = 308 then request\<lparr>rq_URL := target\<rparr>
      else request\<lparr>rq_URL := target, rq_Body := '''',
             rq_Method := (if rq_Method request = ''HEAD'' then ''HEAD'' else ''GET'')\<rparr>)"

text \<open>\<open>client.Do\<close>: \<open>via\<close> requests were sent before this one.\<close>

function client_Do ::
  "HTTPDispatcher \<Rightarrow> internet \<Rightarrow> http_request \<Rightarrow> nat \<Rightarrow> exchange \<Rightarrow> (go_error + http_response) \<times> exchange" where
  "client_Do d net request via x =
     (case RoundTrip d net request x of
        (Inl e, x1) \<Rightarrow> (Inl e, x1)
      | (Inr response, x1) \<Rightarrow>
          if rs_StatusCode response \<notin> {301, 302, 303, 307, 308} \<or> rs_Location response = ''''
          then (Inr response, x1)
          else (case net_resolve net (rq_URL request) (rs_Location response) of
                  None \<Rightarrow> (Inl (Opaque ''failed to parse Location header''), x1)
                | Some target \<Rightarrow>
                    (let next = redirected request (rs_StatusCode response) target in
                     case CheckRedirect d net next (Suc via) x1 of
                       (Some e, x2) \<Rightarrow> (Inl e, x2)
                     | (None, x2) \<Rightarrow> client_Do d net next (Suc via) x2)))"
  by pat_completeness auto
termination
  by (relation "measure (\<lambda>(d, net, request, via, x). 10 - via)") (auto simp: CheckRedirect_def split: if_splits)

declare client_Do.simps [simp del]

definition webhook_headers :: "HTTPDispatcher \<Rightarrow> string \<Rightarrow> Delivery \<Rightarrow> (string \<times> string) list" where
  "webhook_headers d body delivery =
     [(''Content-Type'', ''application/json''), (''X-Aegis-Event'', wd_EventType delivery),
      (''X-Aegis-Transfer-Status'', wd_TransferStatus delivery), (''X-Aegis-Delivery-ID'', wd_ID delivery)] @
     (if hd_signer d = None then []
      else (let (timestamp, signature) = Sign (hd_hmac d) (hd_rfc3339 d) (hd_signer d) body (hd_now d)
            in [(''X-Aegis-Timestamp'', timestamp), (''X-Aegis-Signature'', signature)]))"

definition Dispatch ::
  "(raw_json \<Rightarrow> string) \<Rightarrow> HTTPDispatcher \<Rightarrow> internet \<Rightarrow> Delivery \<Rightarrow> exchange \<Rightarrow> (go_error + DispatchResult) \<times> exchange" where
  "Dispatch render d net delivery x =
     (case net_parse net (wd_TargetURL delivery) of
        None \<Rightarrow> (Inl (Errorf ''build webhook request'' (Opaque ''parse'')), x)
      | Some target \<Rightarrow>
          (case validateTarget d net target x of
             (Some e, x1) \<Rightarrow> (Inl (Errorf ''validate webhook target'' e), x1)
           | (None, x1) \<Rightarrow>
               (let body = render (wd_PayloadJSON delivery);
                    request = \<lparr>rq_Method = ''POST'', rq_URL = target, rq_Header = webhook_headers d body delivery,
                               rq_Body = body\<rparr>
                in case client_Do d net request 0 x1 of
                     (Inl e, x2) \<Rightarrow> (Inl (Errorf ''send webhook request'' e), x2)
                   | (Inr response, x2) \<Rightarrow>
                       (let maxBytes = (if hd_responseBodyMaxBytes d \<le> 0 then 512 else hd_responseBodyMaxBytes d) in
                        case rs_Body response of
                          Inl e \<Rightarrow> (Inl (Errorf ''read webhook response body'' e), x2)
                        | Inr bytes \<Rightarrow>
                            (Inr \<lparr>dr_StatusCode = rs_StatusCode response,
                                  dr_Body = sanitizeResponseBody (take (nat (maxBytes + 1)) bytes) maxBytes\<rparr>, x2)))))"

subsection \<open>Every connection goes to a permitted address\<close>

definition permitted_address :: "TargetPolicy \<Rightarrow> string \<Rightarrow> bool" where
  "permitted_address policy address \<longleftrightarrow>
     (\<exists>ip port. address = JoinHostPort (IP_String ip) port \<and> ip_permitted policy ip)"

definition request_permitted :: "TargetPolicy \<Rightarrow> http_request \<Rightarrow> bool" where
  "request_permitted policy request \<longleftrightarrow> host_permitted policy (normalizeHostname (Hostname (rq_URL request)))"

definition exchange_ok :: "TargetPolicy \<Rightarrow> exchange \<Rightarrow> bool" where
  "exchange_ok policy x \<longleftrightarrow>
     (\<forall>address \<in> set (ex_dialed x). permitted_address policy address) \<and>
     (\<forall>(address, conn) \<in> set (ex_conns x). conn \<in> set (ex_dialed x)) \<and>
     (\<forall>(conn, request) \<in> set (ex_sent x). conn \<in> Some ` set (ex_dialed x) \<and> request_permitted policy request)"

lemma exchange_ok_simps [simp]:
  "exchange_ok policy fresh_exchange"
  "exchange_ok policy (x\<lparr>ex_clock := n\<rparr>) \<longleftrightarrow> exchange_ok policy x"
  by (simp_all add: exchange_ok_def fresh_exchange_def)

lemma dial_first_ok:
  "dial_first net port ips e x = (r, x') \<Longrightarrow> exchange_ok policy x \<Longrightarrow> \<forall>ip \<in> set ips. ip_permitted policy ip \<Longrightarrow>
   exchange_ok policy x' \<and> ex_sent x' = ex_sent x \<and> (\<forall>conn. r = Inr conn \<longrightarrow> conn \<in> set (ex_dialed x'))"
proof (induction net port ips e x rule: dial_first.induct)
  case (2 net port ip ips e x)
  let ?address = "JoinHostPort (IP_String ip) port"
  let ?x = "x\<lparr>ex_clock := Suc (ex_clock x), ex_dialed := ex_dialed x @ [?address]\<rparr>"
  have ok: "exchange_ok policy ?x"
    using "2.prems"(2,3) by (auto simp: exchange_ok_def permitted_address_def)
  show ?case
  proof (cases "net_dial net (ex_clock x) ?address")
    case None
    then show ?thesis using "2.prems"(1) ok by (auto simp: Let_def)
  next
    case (Some err)
    then show ?thesis using "2.IH"[OF refl refl Some _ ok] "2.prems"(1,3) by auto
  qed
qed auto

lemma dialValidatedTarget_ok:
  assumes "dialValidatedTarget d net address x = (r, x')" and "exchange_ok (hd_targetPolicy d) x"
  shows "exchange_ok (hd_targetPolicy d) x' \<and> ex_sent x' = ex_sent x \<and> (\<forall>conn. r = Inr conn \<longrightarrow> conn \<in> set (ex_dialed x'))"
  using assms
  by (auto simp: dialValidatedTarget_def Let_def dest!: dial_first_ok[where policy = "hd_targetPolicy d"]
      dest: resolveDispatchTarget_permits(4) split: sum.splits prod.splits if_splits)

lemma connection_ok:
  assumes "connection d net request x = (r, x')" and "exchange_ok (hd_targetPolicy d) x" and "transport_validates d"
  shows "exchange_ok (hd_targetPolicy d) x' \<and> ex_sent x' = ex_sent x \<and>
    (\<forall>conn. r = Inr conn \<longrightarrow> conn \<in> Some ` set (ex_dialed x'))"
proof -
  let ?address = "net_address net (rq_URL request)"
  show ?thesis
  proof (cases "if net_reuse net (ex_clock x) then map_of (ex_conns x) ?address else None")
    case (Some conn)
    then have "conn \<in> set (ex_dialed x)"
      using assms(2) by (auto simp: exchange_ok_def split: if_splits dest!: map_of_SomeD)
    then show ?thesis using assms Some by (auto simp: connection_def)
  next
    case None
    obtain q x1 where dial: "dialValidatedTarget d net ?address x = (q, x1)" by (rule prod.exhaust)
    from dialValidatedTarget_ok[OF dial assms(2)] assms(1,3) None dial show ?thesis
      by (cases q) (auto simp: connection_def exchange_ok_def)
  qed
qed

lemma RoundTrip_ok:
  assumes "RoundTrip d net request x = (r, x')" and "exchange_ok (hd_targetPolicy d) x" and "transport_validates d"
    and "request_permitted (hd_targetPolicy d) request"
  shows "exchange_ok (hd_targetPolicy d) x' \<and> length (ex_sent x') \<le> Suc (length (ex_sent x))"
proof -
  obtain q x1 where c: "connection d net request x = (q, x1)" by (rule prod.exhaust)
  from connection_ok[OF c assms(2,3)] assms(1,4) c show ?thesis
    by (cases q) (auto simp: RoundTrip_def exchange_ok_def)
qed

lemma validateTarget_ok:
  assumes "validateTarget d net u x = (None, x')"
  shows "host_permitted (hd_targetPolicy d) (normalizeHostname (Hostname u))" and "x' = x\<lparr>ex_clock := Suc (ex_clock x)\<rparr>"
  using assms resolveDispatchTarget_permits(1,2)
  by (fastforce simp: validateTarget_def validateDispatchTarget_def split: sum.splits)+

lemma validateTarget_state: "validateTarget d net u x = (r, x') \<Longrightarrow> x' = x\<lparr>ex_clock := Suc (ex_clock x)\<rparr>"
  by (simp add: validateTarget_def)

lemma CheckRedirect_ok:
  assumes "CheckRedirect d net req via x = (r, x')" and "exchange_ok (hd_targetPolicy d) x"
  shows "exchange_ok (hd_targetPolicy d) x' \<and> ex_sent x' = ex_sent x \<and>
    (r = None \<longrightarrow> via < 10 \<and> request_permitted (hd_targetPolicy d) req)"
  using assms validateTarget_ok(1) validateTarget_state
  by (fastforce simp: CheckRedirect_def request_permitted_def split: if_splits prod.splits option.splits)

lemma client_Do_ok:
  assumes "client_Do d net request via x = (r, x')" and "exchange_ok (hd_targetPolicy d) x" and "transport_validates d"
    and "request_permitted (hd_targetPolicy d) request" and "via < 10" and "length (ex_sent x) \<le> via"
  shows "exchange_ok (hd_targetPolicy d) x' \<and> length (ex_sent x') \<le> 10"
  using assms
proof (induction d net request via x arbitrary: r x' rule: client_Do.induct)
  case (1 d net request via x)
  obtain q x1 where trip: "RoundTrip d net request x = (q, x1)" by (rule prod.exhaust)
  note ok1 = RoundTrip_ok[OF trip "1.prems"(2,3,4)]
  have n1: "length (ex_sent x1) \<le> Suc via" using ok1 "1.prems"(6) by simp
  show ?case
  proof (cases "\<exists>response target x2. q = Inr response \<and> rs_StatusCode response \<in> {301, 302, 303, 307, 308} \<and>
      rs_Location response \<noteq> '''' \<and> net_resolve net (rq_URL request) (rs_Location response) = Some target \<and>
      CheckRedirect d net (redirected request (rs_StatusCode response) target) (Suc via) x1 = (None, x2)")
    case True
    then obtain response target x2 where q: "q = Inr response" "rs_StatusCode response \<in> {301, 302, 303, 307, 308}"
      "rs_Location response \<noteq> ''''" "net_resolve net (rq_URL request) (rs_Location response) = Some target"
      and check: "CheckRedirect d net (redirected request (rs_StatusCode response) target) (Suc via) x1 = (None, x2)"
      by blast
    let ?next = "redirected request (rs_StatusCode response) target"
    have go: "client_Do d net request via x = client_Do d net ?next (Suc via) x2"
      using trip q check by (subst client_Do.simps) (simp add: Let_def)
    note ok2 = CheckRedirect_ok[OF check conjunct1[OF ok1]]
    show ?thesis
      by (rule "1.IH"[OF trip[symmetric] q(1) _ q(4) refl check[symmetric] refl])
        (use q "1.prems" go ok2 n1 in auto)
  next
    case False
    have "exchange_ok (hd_targetPolicy d) x' \<and> ex_sent x' = ex_sent x1"
      using "1.prems"(1) trip ok1 False
      by (subst (asm) client_Do.simps)
        (auto simp: Let_def split: sum.splits if_splits option.splits prod.splits dest!: CheckRedirect_ok)
    then show ?thesis using n1 "1.prems"(5) by simp
  qed
qed

lemma Dispatch_ok:
  assumes "Dispatch render d net delivery fresh_exchange = (r, x)" and "transport_validates d"
  shows "exchange_ok (hd_targetPolicy d) x \<and> length (ex_sent x) \<le> 10"
proof (cases "net_parse net (wd_TargetURL delivery)")
  case None
  then have "x = fresh_exchange" using assms(1) by (simp add: Dispatch_def)
  then show ?thesis by (simp add: fresh_exchange_def exchange_ok_def)
next
  case (Some target)
  obtain v x1 where val: "validateTarget d net target fresh_exchange = (v, x1)" by (rule prod.exhaust)
  have x1: "exchange_ok (hd_targetPolicy d) x1" "ex_sent x1 = []"
    using validateTarget_state[OF val] by (simp_all add: fresh_exchange_def exchange_ok_def)
  show ?thesis
  proof (cases v)
    case (Some e)
    then show ?thesis using assms(1) x1 val \<open>net_parse _ _ = _\<close> by (simp add: Dispatch_def)
  next
    case None
    let ?body = "render (wd_PayloadJSON delivery)"
    let ?request = "\<lparr>rq_Method = ''POST'', rq_URL = target, rq_Header = webhook_headers d ?body delivery, rq_Body = ?body\<rparr>"
    obtain q x2 where run: "client_Do d net ?request 0 x1 = (q, x2)" by (rule prod.exhaust)
    have "request_permitted (hd_targetPolicy d) ?request"
      using validateTarget_ok(1)[OF val[unfolded None]] by (simp add: request_permitted_def)
    from client_Do_ok[OF run x1(1) assms(2) this] x1(2)
    have "exchange_ok (hd_targetPolicy d) x2 \<and> length (ex_sent x2) \<le> 10" by simp
    moreover have "x = x2"
      using assms(1) val None run \<open>net_parse _ _ = _\<close> by (simp add: Dispatch_def Let_def split: sum.splits)
    ultimately show ?thesis by simp
  qed
qed

subsection \<open>What a delivery stores\<close>

text \<open>A status line has three digits; the schema stores the codes of the standard classes.\<close>

definition standard_statuses :: "internet \<Rightarrow> bool" where
  "standard_statuses net \<longleftrightarrow>
     (\<forall>n request response. net_answer net n request = Inr response \<longrightarrow>
        100 \<le> rs_StatusCode response \<and> rs_StatusCode response \<le> 599)"

lemma client_Do_answer:
  "client_Do d net request via x = (Inr response, x') \<Longrightarrow> \<exists>n req. net_answer net n req = Inr response"
proof (induction d net request via x rule: client_Do.induct)
  case (1 d net request via x)
  obtain q x1 where trip: "RoundTrip d net request x = (q, x1)" by (rule prod.exhaust)
  have answer: "\<exists>n req. net_answer net n req = Inr response" if "q = Inr response"
    using trip that by (auto simp: RoundTrip_def split: sum.splits prod.splits)
  show ?case
    using "1.prems" "1.IH"[OF trip[symmetric]] answer trip
    by (subst (asm) client_Do.simps)
      (auto simp: Let_def split: sum.splits if_splits option.splits prod.splits)
qed

lemma Dispatch_answer:
  assumes "Dispatch render d net delivery x = (Inr result, x')"
  obtains response request x1 bytes maxBytes where "client_Do d net request 0 x1 = (Inr response, x')"
    and "maxBytes = (if hd_responseBodyMaxBytes d \<le> 0 then 512 else hd_responseBodyMaxBytes d)"
    and "result = \<lparr>dr_StatusCode = rs_StatusCode response,
           dr_Body = sanitizeResponseBody (take (nat (maxBytes + 1)) bytes) maxBytes\<rparr>"
  using assms
  by (auto simp: Dispatch_def Let_def split: option.split_asm prod.split_asm sum.split_asm intro!: that[OF _ refl])

lemma Dispatch_result:
  assumes "Dispatch render d net delivery x = (Inr result, x')"
  shows "storable_text (dr_Body result)"
    and "0 < hd_responseBodyMaxBytes d \<Longrightarrow> int (length (dr_Body result)) \<le> 2 * hd_responseBodyMaxBytes d + 15"
    and "standard_statuses net \<Longrightarrow> storable (Inr result)"
proof -
  obtain response request x1 bytes maxBytes where run: "client_Do d net request 0 x1 = (Inr response, x')"
    and m: "maxBytes = (if hd_responseBodyMaxBytes d \<le> 0 then 512 else hd_responseBodyMaxBytes d)"
    and result: "result = \<lparr>dr_StatusCode = rs_StatusCode response,
           dr_Body = sanitizeResponseBody (take (nat (maxBytes + 1)) bytes) maxBytes\<rparr>"
    using assms by (rule Dispatch_answer)
  show "storable_text (dr_Body result)" by (simp add: result sanitizeResponseBody_storable)
  show "int (length (dr_Body result)) \<le> 2 * hd_responseBodyMaxBytes d + 15" if "0 < hd_responseBodyMaxBytes d"
    using that sanitizeResponseBody_length[of maxBytes] m by (simp add: result)
  show "storable (Inr result)" if "standard_statuses net"
    using that client_Do_answer[OF run] by (auto simp: standard_statuses_def storable_def result)
qed

subsection \<open>What a signature binds\<close>

lemma hex_digit_inj: "a < 16 \<Longrightarrow> b < 16 \<Longrightarrow> hex_digit a = hex_digit b \<Longrightarrow> a = b"
proof -
  assume small: "a < 16" "b < 16" and same: "hex_digit a = hex_digit b"
  then have "of_char (hex_digit a) = (of_char (hex_digit b) :: nat)" by simp
  with small show "a = b" by (auto simp: hex_digit_def split: if_splits)
qed

lemma EncodeToString_inj: "EncodeToString a = EncodeToString b \<Longrightarrow> a = b"
proof (induction a arbitrary: b)
  case Nil
  then show ?case by (cases b) (simp_all add: EncodeToString_def)
next
  case (Cons c a)
  obtain e b' where b: "b = e # b'" using Cons.prems by (cases b) (simp_all add: EncodeToString_def)
  have small: "of_char x div 16 < (16 :: nat)" for x :: char
    using nat_of_char_less_256[of x] by (simp add: less_mult_imp_div_less)
  have "of_char c div 16 = (of_char e div 16 :: nat)" "of_char c mod 16 = (of_char e mod 16 :: nat)"
    and tail: "EncodeToString a = EncodeToString b'"
    using Cons.prems by (auto simp: EncodeToString_def b small intro: hex_digit_inj)
  then have "of_char c = (of_char e :: nat)" by (metis div_mult_mod_eq)
  then show ?case using Cons.IH[OF tail] b by simp
qed

lemma signed_message_inj:
  assumes "CHR ''.'' \<notin> set t" and "CHR ''.'' \<notin> set t'" and "signed_message t body = signed_message t' body'"
  shows "t = t' \<and> body = body'"
proof -
  have cut: "takeWhile (\<lambda>c. c \<noteq> CHR ''.'') (signed_message s b) = s" if "CHR ''.'' \<notin> set s" for s b
    using that by (simp add: signed_message_def takeWhile_append)
  have "t = t'" using cut[OF assms(1), of body] cut[OF assms(2), of body'] assms(3) by simp
  then show ?thesis using assms(3) by (simp add: signed_message_def)
qed

lemma ComputeSignature_inj:
  "ComputeSignature hmac k t body = ComputeSignature hmac k t' body' \<Longrightarrow>
   hmac k (signed_message t body) = hmac k (signed_message t' body')"
  by (auto simp: ComputeSignature_def dest: EncodeToString_inj)

end
