(* ===== verification/Platform.thy ===== *)
theory Platform
  imports Supervisor Dispatcher
begin

text \<open>
  \<^verbatim>\<open>config/config.go\<close>, \<^verbatim>\<open>platform/\<close>, \<^verbatim>\<open>bootstrap/container.go\<close>, \<^verbatim>\<open>modules/health/service.go\<close> and the
  wiring of \<^verbatim>\<open>app/\<close>: the configuration, how the process opens and closes its connections, the
  health report of the API, and what the worker builds from its configuration. How a call of a
  driver ends is given by \<open>endpoints\<close>; the connections a process holds are counted.
\<close>

subsection \<open>config.go\<close>

record AppConfig =
  app_Name :: string
  app_Env :: string
  app_Version :: string
  app_StartupTimeout :: duration
  app_ShutdownTimeout :: duration

record HTTPConfig =
  http_Host :: string
  http_Port :: int
  http_ReadTimeout :: duration
  http_ReadHeaderTimeout :: duration
  http_WriteTimeout :: duration
  http_IdleTimeout :: duration

definition HTTPConfig_Address :: "HTTPConfig \<Rightarrow> string" where
  "HTTPConfig_Address c = JoinHostPort (http_Host c) (itoa (http_Port c))"

record InternalAuthConfig =
  ia_HeaderName :: string
  ia_APIKey :: string

record CallbackURLConfig =
  cbc_AllowedHosts :: "string list"
  cbc_AllowPrivateTargets :: bool

record WorkerConfig =
  wk_ConsumerTag :: string
  wk_TransferMaxRetries :: int
  wk_TransferRetryDelay :: duration
  wk_TransferProcessLockTTL :: duration
  wk_TransferOutboxPollInterval :: duration
  wk_TransferOutboxBatchSize :: int
  wk_TransferOutboxRetryDelay :: duration
  wk_TransferOutboxProcessingAfter :: duration
  wk_WebhookPollInterval :: duration
  wk_HealthHost :: string
  wk_HealthPort :: int

definition HealthAddress :: "WorkerConfig \<Rightarrow> string" where
  "HealthAddress c = JoinHostPort (wk_HealthHost c) (itoa (wk_HealthPort c))"

record WebhookConfig =
  wh_Timeout :: duration
  wh_MaxAttempts :: int
  wh_InitialBackoff :: duration
  wh_BatchSize :: int
  wh_LeaseDuration :: duration
  wh_SigningSecret :: string
  wh_ResponseBodyMaxBytes :: int

record DatabaseConfig =
  dbc_URL :: string
  dbc_MaxConns :: int
  dbc_MinConns :: int
  dbc_MaxConnLifetime :: duration
  dbc_MaxConnIdleTime :: duration

record RedisConfig =
  rd_Addr :: string
  rd_Username :: string
  rd_Password :: string
  rd_DB :: int

record BlockchainConfig =
  bc_RPCURL :: string
  bc_ChainID :: int
  bc_RequestTimeout :: duration

record Config =
  cfg_App :: AppConfig
  cfg_LogLevel :: string
  cfg_HTTP :: HTTPConfig
  cfg_InternalAuth :: InternalAuthConfig
  cfg_CallbackURL :: CallbackURLConfig
  cfg_Worker :: WorkerConfig
  cfg_Webhook :: WebhookConfig
  cfg_Database :: DatabaseConfig
  cfg_Redis :: RedisConfig
  cfg_RabbitMQ :: RabbitMQConfig
  cfg_RabbitMQ_URL :: string
  cfg_RabbitMQ_PrefetchCount :: int
  cfg_Blockchain :: BlockchainConfig

text \<open>The \<open>envDefault\<close> tags: what \<open>Load\<close> gives when only the two required variables are set.\<close>

definition default_webhook_config :: WebhookConfig where
  "default_webhook_config =
     \<lparr>wh_Timeout = 10 * Second, wh_MaxAttempts = 5, wh_InitialBackoff = 2 * Second, wh_BatchSize = 25,
      wh_LeaseDuration = 30 * Second, wh_SigningSecret = '''', wh_ResponseBodyMaxBytes = 512\<rparr>"

definition default_worker_config :: WorkerConfig where
  "default_worker_config =
     \<lparr>wk_ConsumerTag = ''aegis-worker'', wk_TransferMaxRetries = 3, wk_TransferRetryDelay = 2 * Second,
      wk_TransferProcessLockTTL = 30 * Second, wk_TransferOutboxPollInterval = 2 * Second,
      wk_TransferOutboxBatchSize = 25, wk_TransferOutboxRetryDelay = 2 * Second,
      wk_TransferOutboxProcessingAfter = 30 * Second, wk_WebhookPollInterval = 2 * Second,
      wk_HealthHost = ''127.0.0.1'', wk_HealthPort = 8081\<rparr>"

definition default_config :: "string \<Rightarrow> string \<Rightarrow> Config" where
  "default_config databaseURL rabbitURL =
     \<lparr>cfg_App = \<lparr>app_Name = ''aegis'', app_Env = ''development'', app_Version = ''dev'',
        app_StartupTimeout = 20 * Second, app_ShutdownTimeout = 15 * Second\<rparr>,
      cfg_LogLevel = ''info'',
      cfg_HTTP = \<lparr>http_Host = ''0.0.0.0'', http_Port = 8080, http_ReadTimeout = 10 * Second,
        http_ReadHeaderTimeout = 5 * Second, http_WriteTimeout = 15 * Second, http_IdleTimeout = 60 * Second\<rparr>,
      cfg_InternalAuth = \<lparr>ia_HeaderName = ''X-Aegis-Internal-Key'', ia_APIKey = ''''\<rparr>,
      cfg_CallbackURL = \<lparr>cbc_AllowedHosts = [], cbc_AllowPrivateTargets = False\<rparr>,
      cfg_Worker = default_worker_config, cfg_Webhook = default_webhook_config,
      cfg_Database = \<lparr>dbc_URL = databaseURL, dbc_MaxConns = 20, dbc_MinConns = 2, dbc_MaxConnLifetime = 30 * Minute,
        dbc_MaxConnIdleTime = 5 * Minute\<rparr>,
      cfg_Redis = \<lparr>rd_Addr = ''127.0.0.1:6379'', rd_Username = '''', rd_Password = '''', rd_DB = 0\<rparr>,
      cfg_RabbitMQ = \<lparr>rc_Exchange = ''aegis.events'', rc_TransferQueue = ''transfer_requests'',
        rc_TransferRoutingKey = ''transfers.requested''\<rparr>,
      cfg_RabbitMQ_URL = rabbitURL, cfg_RabbitMQ_PrefetchCount = 10,
      cfg_Blockchain = \<lparr>bc_RPCURL = '''', bc_ChainID = 1, bc_RequestTimeout = 10 * Second\<rparr>\<rparr>"

subsection \<open>Connections\<close>

text \<open>How the calls of the drivers end.\<close>

record endpoints =
  ep_ParseConfig :: "string \<Rightarrow> go_error option"
  ep_NewPool :: "go_error option"
  ep_PingPool :: "go_error option"
  ep_PingRedis :: "go_error option"
  ep_CloseRedis :: "go_error option"
  ep_DialEth :: "string \<Rightarrow> go_error option"
  ep_ChainID :: "go_error + int"
  ep_BlockNumber :: "go_error option"

text \<open>The connections the process holds; the broker's is the world's.\<close>

record process =
  ps_world :: world
  ps_pools :: nat
  ps_redis :: nat
  ps_eth :: nat

definition postgres_New :: "endpoints \<Rightarrow> DatabaseConfig \<Rightarrow> (process, unit) act" where
  "postgres_New E cfg p =
     (case ep_ParseConfig E (dbc_URL cfg) of
        Some e \<Rightarrow> (Inl (Errorf ''parse postgres config'' e), p)
      | None \<Rightarrow>
          (case ep_NewPool E of
             Some e \<Rightarrow> (Inl (Errorf ''connect postgres'' e), p)
           | None \<Rightarrow>
               (let p1 = p\<lparr>ps_pools := ps_pools p + 1\<rparr> in
                case ep_PingPool E of
                  Some e \<Rightarrow> (Inl (Errorf ''ping postgres'' e), p1\<lparr>ps_pools := ps_pools p1 - 1\<rparr>)
                | None \<Rightarrow> (Inr (), p1))))"

definition redis_New :: "endpoints \<Rightarrow> RedisConfig \<Rightarrow> (process, unit) act" where
  "redis_New E cfg p =
     (let p1 = p\<lparr>ps_redis := ps_redis p + 1\<rparr> in
      case ep_PingRedis E of
        Some e \<Rightarrow> (Inl (Errorf ''ping redis'' e), p1\<lparr>ps_redis := ps_redis p1 - 1\<rparr>)
      | None \<Rightarrow> (Inr (), p1))"

record Adapter =
  ad_enabled :: bool

text \<open>\<open>chainID.Int64()\<close> keeps the low 64 bits.\<close>

definition blockchain_New :: "endpoints \<Rightarrow> BlockchainConfig \<Rightarrow> (process, Adapter) act" where
  "blockchain_New E cfg p =
     (if bc_RPCURL cfg = '''' then (Inr \<lparr>ad_enabled = False\<rparr>, p)
      else (case ep_DialEth E (bc_RPCURL cfg) of
          Some e \<Rightarrow> (Inl (Errorf ''connect evm rpc'' e), p)
        | None \<Rightarrow>
            (let p1 = p\<lparr>ps_eth := ps_eth p + 1\<rparr>; closed = p1\<lparr>ps_eth := ps_eth p1 - 1\<rparr> in
             if 0 < bc_ChainID cfg
             then (case ep_ChainID E of
                     Inl e \<Rightarrow> (Inl (Errorf ''fetch evm chain id'' e), closed)
                   | Inr chainID \<Rightarrow>
                       (let got = sint (word_of_int chainID :: 64 word) in
                        if got \<noteq> bc_ChainID cfg
                        then (Inl (Opaque (''unexpected evm chain id: got '' @ itoa got @ '' want '' @ itoa (bc_ChainID cfg))), closed)
                        else (Inr \<lparr>ad_enabled = True\<rparr>, p1)))
             else (Inr \<lparr>ad_enabled = True\<rparr>, p1))))"

definition Adapter_Enabled :: "Adapter option \<Rightarrow> bool" where
  "Adapter_Enabled a = (case a of None \<Rightarrow> False | Some x \<Rightarrow> ad_enabled x)"

definition Adapter_Status :: "endpoints \<Rightarrow> Adapter option \<Rightarrow> go_error option" where
  "Adapter_Status E a =
     (if \<not> Adapter_Enabled a then None
      else map_option (Errorf ''request latest block'') (ep_BlockNumber E))"

definition Adapter_Close :: "Adapter option \<Rightarrow> process \<Rightarrow> go_error option \<times> process" where
  "Adapter_Close a p = (if \<not> Adapter_Enabled a then (None, p) else (None, p\<lparr>ps_eth := ps_eth p - 1\<rparr>))"

subsection \<open>container.go\<close>

record Container =
  ct_Config :: Config
  ct_Postgres :: bool
  ct_Redis :: bool
  ct_RabbitMQ :: "Client option"
  ct_Blockchain :: "Adapter option"

definition close_rabbit :: "Client option \<Rightarrow> process \<Rightarrow> go_error option \<times> process" where
  "close_rabbit c p = (let (e, w) = Client_Close c (ps_world p) in (e, p\<lparr>ps_world := w\<rparr>))"

definition NewContainer :: "endpoints \<Rightarrow> Config \<Rightarrow> (process, Container) act" where
  "NewContainer E cfg p =
     (case postgres_New E (cfg_Database cfg) p of
        (Inl e, p1) \<Rightarrow> (Inl e, p1)
      | (Inr _, p1) \<Rightarrow>
     (case redis_New E (cfg_Redis cfg) p1 of
        (Inl e, p2) \<Rightarrow> (Inl e, p2\<lparr>ps_pools := ps_pools p2 - 1\<rparr>)
      | (Inr _, p2) \<Rightarrow>
     (case New_client (cfg_RabbitMQ_PrefetchCount cfg) (ps_world p2) of
        (Inl e, w) \<Rightarrow> (Inl e, p2\<lparr>ps_world := w, ps_redis := ps_redis p2 - 1, ps_pools := ps_pools p2 - 1\<rparr>)
      | (Inr rabbit, w) \<Rightarrow>
     (let p3 = p2\<lparr>ps_world := w\<rparr> in
      case blockchain_New E (cfg_Blockchain cfg) p3 of
        (Inl e, p4) \<Rightarrow>
          (let p5 = snd (close_rabbit (Some rabbit) p4)
           in (Inl e, p5\<lparr>ps_redis := ps_redis p5 - 1, ps_pools := ps_pools p5 - 1\<rparr>))
      | (Inr adapter, p4) \<Rightarrow>
          (Inr \<lparr>ct_Config = cfg, ct_Postgres = True, ct_Redis = True, ct_RabbitMQ = Some rabbit,
                ct_Blockchain = Some adapter\<rparr>, p4)))))"

definition join_close :: "go_error option \<Rightarrow> go_error option \<Rightarrow> go_error option" where
  "join_close acc e = (case e of None \<Rightarrow> map_option (\<lambda>a. Join [a]) acc | Some x \<Rightarrow> Some (errors_join acc x))"

definition Container_Close :: "endpoints \<Rightarrow> Container option \<Rightarrow> process \<Rightarrow> go_error option \<times> process" where
  "Container_Close E c p =
     (case c of
        None \<Rightarrow> (None, p)
      | Some x \<Rightarrow>
          (let (e1, p1) = (if ct_Blockchain x = None then (None, p)
                           else (let (e, q) = Adapter_Close (ct_Blockchain x) p in (join_close None e, q)));
               (e2, p2) = (if ct_RabbitMQ x = None then (e1, p1)
                           else (let (e, q) = close_rabbit (ct_RabbitMQ x) p1 in (join_close e1 e, q)));
               (e3, p3) = (if ct_Redis x then (join_close e2 (ep_CloseRedis E), p2\<lparr>ps_redis := ps_redis p2 - 1\<rparr>) else (e2, p2));
               p4 = (if ct_Postgres x then p3\<lparr>ps_pools := ps_pools p3 - 1\<rparr> else p3)
           in (e3, p4)))"

text \<open>\<^verbatim>\<open>app/transfers.go\<close>.\<close>

definition ensureTransferQueue :: "Client option \<Rightarrow> RabbitMQConfig \<Rightarrow> world \<Rightarrow> go_error option \<times> world" where
  "ensureTransferQueue client cfg w =
     (case DeclareExchange client (rc_Exchange cfg) w of
        (Inl e, w1) \<Rightarrow> (Some (Errorf ''declare transfer exchange'' e), w1)
      | (Inr _, w1) \<Rightarrow>
          (case DeclareQueue client (rc_TransferQueue cfg) w1 of
             (Inl e, w2) \<Rightarrow> (Some (Errorf ''declare transfer queue'' e), w2)
           | (Inr _, w2) \<Rightarrow>
               (case BindQueue client (rc_TransferQueue cfg) (rc_TransferRoutingKey cfg) (rc_Exchange cfg) w2 of
                  (Inl e, w3) \<Rightarrow> (Some (Errorf ''bind transfer queue'' e), w3)
                | (Inr _, w3) \<Rightarrow> (None, w3))))"

subsection \<open>health/service.go\<close>

record ComponentStatus =
  cs_Status :: string
  cs_Error :: string

record HealthReport =
  rp_Status :: string
  rp_Service :: string
  rp_Version :: string
  rp_Environment :: string
  rp_Timestamp :: go_time
  rp_Uptime :: string
  rp_Components :: "(string \<times> ComponentStatus) list"

definition checkComponent :: "go_error option \<Rightarrow> ComponentStatus" where
  "checkComponent err =
     (case err of
        Some e \<Rightarrow> \<lparr>cs_Status = ''down'', cs_Error = error_text e\<rparr>
      | None \<Rightarrow> \<lparr>cs_Status = ''ok'', cs_Error = ''''\<rparr>)"

text \<open>The checks run in a map literal; their order does not matter, only RabbitMQ's has an effect.\<close>

definition Check :: "endpoints \<Rightarrow> formats \<Rightarrow> Container \<Rightarrow> go_time \<Rightarrow> go_time \<Rightarrow> world \<Rightarrow> HealthReport \<times> world" where
  "Check E F c startedAt now w =
     (let (rabbit, w1) = Status (ct_RabbitMQ c) w;
          components =
            [(''postgres'', checkComponent (ep_PingPool E)), (''redis'', checkComponent (ep_PingRedis E)),
             (''rabbitmq'', checkComponent (case rabbit of Inl e \<Rightarrow> Some e | Inr _ \<Rightarrow> None)),
             (''blockchain'', if \<not> Adapter_Enabled (ct_Blockchain c) then \<lparr>cs_Status = ''skipped'', cs_Error = ''''\<rparr>
                             else checkComponent (Adapter_Status E (ct_Blockchain c)))];
          app = cfg_App (ct_Config c)
      in (\<lparr>rp_Status = (if list_ex (\<lambda>(name, s). cs_Status s \<noteq> ''ok'' \<and> cs_Status s \<noteq> ''skipped'') components
                        then ''degraded'' else ''ok''),
           rp_Service = app_Name app, rp_Version = app_Version app, rp_Environment = app_Env app, rp_Timestamp = now,
           rp_Uptime = fmt_seconds F (now - startedAt), rp_Components = components\<rparr>, w1))"

subsection \<open>The processes\<close>

text \<open>\<open>RunWorker\<close>: the lease of a delivery outlives its request.\<close>

definition webhookLeaseDuration :: "WebhookConfig \<Rightarrow> duration" where
  "webhookLeaseDuration cfg =
     (let minimum = wh_Timeout cfg + 5 * Second
      in if sint (wh_LeaseDuration cfg) < sint minimum then minimum else wh_LeaseDuration cfg)"

definition worker_dispatcher ::
  "(string \<Rightarrow> string \<Rightarrow> string) \<Rightarrow> (go_time \<Rightarrow> string) \<Rightarrow> go_time \<Rightarrow> Config \<Rightarrow> HTTPDispatcher" where
  "worker_dispatcher hmac rfc3339 now cfg =
     NewHTTPDispatcher hmac rfc3339 now (NewSigner (wh_SigningSecret (cfg_Webhook cfg)))
       \<lparr>tp_AllowedHosts = cbc_AllowedHosts (cfg_CallbackURL cfg),
        tp_AllowPrivateTargets = cbc_AllowPrivateTargets (cfg_CallbackURL cfg)\<rparr>
       (wh_ResponseBodyMaxBytes (cfg_Webhook cfg))"

text \<open>What the select of \<open>RunWorker\<close> and of \<open>RunAPI\<close> sees first.\<close>

datatype worker_select = HealthServerFailed go_error | FatalSubsystem go_error | WorkerShutdown

definition worker_result :: "worker_select \<Rightarrow> go_error option" where
  "worker_result ev = (case ev of HealthServerFailed e \<Rightarrow> Some e | FatalSubsystem e \<Rightarrow> Some e | WorkerShutdown \<Rightarrow> None)"

datatype api_select = ServerFailed go_error | APIShutdown "go_error option"

definition api_result :: "api_select \<Rightarrow> go_error option" where
  "api_result ev =
     (case ev of
        ServerFailed e \<Rightarrow> Some (Errorf ''run http server'' e)
      | APIShutdown err \<Rightarrow> map_option (Errorf ''shutdown http server'') err)"

text \<open>
  Both processes: configuration, container, queue, then their body until the select, with the
  container closed on every return after it was built. \<open>body\<close> is what the goroutines do to the world.
\<close>

definition run_process ::
  "endpoints \<Rightarrow> go_error + Config \<Rightarrow> (Container \<Rightarrow> world \<Rightarrow> go_error option \<times> world) \<Rightarrow> process \<Rightarrow> go_error option \<times> process" where
  "run_process E load body p =
     (case load of
        Inl e \<Rightarrow> (Some (Errorf ''load config'' e), p)
      | Inr cfg \<Rightarrow>
          (case NewContainer E cfg p of
             (Inl e, p1) \<Rightarrow> (Some (Errorf ''bootstrap container'' e), p1)
           | (Inr container, p1) \<Rightarrow>
               (let (r, w2) = (case ensureTransferQueue (ct_RabbitMQ container) (cfg_RabbitMQ cfg) (ps_world p1) of
                                 (Some e, w) \<Rightarrow> (Some e, w)
                               | (None, w) \<Rightarrow> body container w)
                in (r, snd (Container_Close E (Some container) (p1\<lparr>ps_world := w2\<rparr>))))))"

definition RunWorker ::
  "endpoints \<Rightarrow> go_error + Config \<Rightarrow> (Container \<Rightarrow> world \<Rightarrow> worker_select \<times> world) \<Rightarrow> process \<Rightarrow> go_error option \<times> process" where
  "RunWorker E load goroutines =
     run_process E load (\<lambda>c w. let (ev, w1) = goroutines c w in (worker_result ev, w1))"

definition RunAPI ::
  "endpoints \<Rightarrow> go_error + Config \<Rightarrow> (Container \<Rightarrow> world \<Rightarrow> api_select \<times> world) \<Rightarrow> process \<Rightarrow> go_error option \<times> process" where
  "RunAPI E load goroutines =
     run_process E load (\<lambda>c w. let (ev, w1) = goroutines c w in (api_result ev, w1))"

subsection \<open>Connections are released\<close>

definition connections :: "process \<Rightarrow> nat \<times> nat \<times> nat \<times> bool" where
  "connections p = (ps_pools p, ps_redis p, ps_eth p, w_amqp_closed (ps_world p))"

lemma amqp_call_closed: "w_amqp_closed (snd (amqp_call w)) = w_amqp_closed w"
  by (simp add: amqp_call_def split: list.splits)

lemma New_client_closed:
  assumes "New_client n w = (r, w')" and "w_amqp_closed w"
  shows "case r of Inl e \<Rightarrow> w_amqp_closed w' | Inr c \<Rightarrow> cl_Conn c"
  using assms amqp_call_closed[of w]
  by (auto simp: New_client_def Let_def split: sum.splits prod.splits)

lemma close_rabbit_closed:
  assumes "cl_Conn c"
  shows "connections (snd (close_rabbit (Some c) p)) = (ps_pools p, ps_redis p, ps_eth p, True)"
  using assms by (simp add: close_rabbit_def Client_Close_def connections_def split: prod.splits)

text \<open>A container that was built: one connection of each kind more, and the broker's client connected.\<close>

lemma NewContainer_connections:
  assumes "NewContainer E cfg p = (r, p')" and "w_amqp_closed (ps_world p)"
  shows "case r of
      Inl e \<Rightarrow> connections p' = connections p
    | Inr c \<Rightarrow> ps_pools p' = ps_pools p + 1 \<and> ps_redis p' = ps_redis p + 1 \<and> ct_Postgres c \<and> ct_Redis c \<and>
        ps_eth p' = ps_eth p + (if Adapter_Enabled (ct_Blockchain c) then 1 else 0) \<and>
        (\<exists>rabbit adapter. ct_RabbitMQ c = Some rabbit \<and> cl_Conn rabbit \<and> ct_Blockchain c = Some adapter)"
proof -
  obtain rc w where rabbit: "New_client (cfg_RabbitMQ_PrefetchCount cfg) (ps_world p) = (rc, w)" by (rule prod.exhaust)
  note new = New_client_closed[OF rabbit assms(2)]
  have world: "ps_world (p\<lparr>ps_pools := a, ps_redis := b\<rparr>) = ps_world p" for a b by simp
  show ?thesis
    using assms rabbit new close_rabbit_closed
    by (auto simp: NewContainer_def postgres_New_def redis_New_def blockchain_New_def Let_def connections_def Adapter_Enabled_def
        close_rabbit_def Client_Close_def split: sum.splits option.splits if_splits prod.splits)
qed

lemma Container_Close_connections:
  assumes "ct_Postgres c" and "ct_Redis c" and "ct_RabbitMQ c = Some rabbit" and "cl_Conn rabbit" and "ct_Blockchain c = Some adapter"
  shows "connections (snd (Container_Close E (Some c) p)) =
    (ps_pools p - 1, ps_redis p - 1, ps_eth p - (if Adapter_Enabled (ct_Blockchain c) then 1 else 0), True)"
  using assms
  by (auto simp: Container_Close_def Adapter_Close_def close_rabbit_def Client_Close_def connections_def Let_def
      split: prod.splits)

lemma run_process_releases:
  assumes "w_amqp_closed (ps_world p)"
  shows "connections (snd (run_process E load body p)) = connections p"
proof (cases load)
  case (Inr cfg)
  obtain r p1 where new: "NewContainer E cfg p = (r, p1)" by (rule prod.exhaust)
  note built = NewContainer_connections[OF new assms]
  show ?thesis
  proof (cases r)
    case (Inr c)
    obtain rabbit adapter where c: "ct_Postgres c" "ct_Redis c" "ct_RabbitMQ c = Some rabbit" "cl_Conn rabbit"
      "ct_Blockchain c = Some adapter" using built Inr by auto
    show ?thesis
      using Container_Close_connections[OF c] built assms Inr new \<open>load = Inr cfg\<close>
      by (auto simp: run_process_def connections_def split: prod.splits)
  qed (use built new \<open>load = Inr cfg\<close> in \<open>simp add: run_process_def\<close>)
qed (simp add: run_process_def)

lemma lease_outlives_request:
  assumes "0 \<le> sint (wh_Timeout cfg)" and "sint (wh_Timeout cfg) < 2 ^ 63 - 5 * 10 ^ 9"
  shows "sint (wh_Timeout cfg) + 5 * 10 ^ 9 \<le> sint (webhookLeaseDuration cfg)"
proof -
  have five: "sint (5 * Second) = 5 * 10 ^ 9" by (simp add: sint_mult_fits)
  have "sint (wh_Timeout cfg + 5 * Second) = sint (wh_Timeout cfg) + 5 * 10 ^ 9"
    using assms five by (simp add: sint_word_ariths signed_take_bit_int_eq_self)
  then show ?thesis by (simp add: webhookLeaseDuration_def Let_def)
qed

end
