(* ===== verification/Http.thy ===== *)
theory Http
  imports TransferService Wallets Reconciliation Platform
begin

text \<open>
  \<^verbatim>\<open>transport/http/\<close>: the routes of the API, the authentication of its internal part, the
  handlers with the structs they read and write, and the mapping of errors to status codes. A
  request is its method, the segments of its path, its headers, its query and the first JSON value of
  its body (what \<open>Decode\<close> reads); a response is a status code and a JSON body.
\<close>

record api_request =
  aq_Method :: string
  aq_Path :: "string list"
  aq_Header :: "string \<Rightarrow> string"
  aq_Query :: "string \<Rightarrow> string option"
  aq_Body :: raw_json

type_synonym api_response = "int \<times> json"

subsection \<open>response.go\<close>

definition writeError :: "int \<Rightarrow> string \<Rightarrow> string \<Rightarrow> api_response" where
  "writeError statusCode code message =
     (statusCode, JObject [(''error'', JObject [(''code'', JString code), (''message'', JString message)])])"

subsection \<open>Reading requests\<close>

text \<open>
  \<open>ShouldBindJSON\<close> into a struct of strings: the last member that names a field (ignoring ASCII
  case) counts, null leaves it alone, another kind of value is an error; other members are
  ignored. A \<open>json.RawMessage\<close> field takes any value.
\<close>

definition string_field :: "string \<Rightarrow> (string \<times> json) list \<Rightarrow> string" where
  "string_field field ms =
     foldl (\<lambda>old m. if field_matches field (fst m) then snd (assign_string (snd m) old) else old) '''' ms"

definition raw_field :: "string \<Rightarrow> (string \<times> json) list \<Rightarrow> raw_json" where
  "raw_field field ms = foldl (\<lambda>old m. if field_matches field (fst m) then RawJson (snd m) else old) (RawText '''') ms"

definition strings_fit :: "string list \<Rightarrow> (string \<times> json) list \<Rightarrow> bool" where
  "strings_fit names ms \<longleftrightarrow>
     list_all (\<lambda>m. list_all (\<lambda>field. field_matches field (fst m) \<longrightarrow> fst (assign_string (snd m) '''')) names) ms"

definition bind_members :: "string list \<Rightarrow> raw_json \<Rightarrow> (string \<times> json) list option" where
  "bind_members names body =
     (case body of
        RawJson (JObject ms) \<Rightarrow> if strings_fit names ms then Some ms else None
      | RawJson JNull \<Rightarrow> Some []
      | _ \<Rightarrow> None)"

definition createTransferRequest :: "raw_json \<Rightarrow> CreateInput option" where
  "createTransferRequest body =
     map_option (\<lambda>ms.
       \<lparr>ci_IdempotencyKey = string_field ''idempotency_key'' ms, ci_Chain = string_field ''chain'' ms,
        ci_AssetType = string_field ''asset_type'' ms, ci_SourceWalletID = string_field ''source_wallet_id'' ms,
        ci_DestinationAddress = string_field ''destination_address'' ms, ci_Amount = string_field ''amount'' ms,
        ci_CallbackURL = string_field ''callback_url'' ms, ci_MetadataJSON = raw_field ''metadata_json'' ms\<rparr>)
     (bind_members [''idempotency_key'', ''chain'', ''asset_type'', ''source_wallet_id'', ''destination_address'',
        ''amount'', ''callback_url''] body)"

definition createWalletRequest :: "raw_json \<Rightarrow> WalletCreateInput option" where
  "createWalletRequest body =
     map_option (\<lambda>ms.
       \<lparr>wi_Chain = string_field ''chain'' ms, wi_Address = string_field ''address'' ms, wi_Label = string_field ''label'' ms,
        wi_SigningType = string_field ''signing_type'' ms, wi_Status = string_field ''status'' ms\<rparr>)
     (bind_members [''chain'', ''address'', ''label'', ''signing_type'', ''status''] body)"

text \<open>\<open>ShouldBindQuery\<close> of an \<open>int\<close>: absent or empty is 0, otherwise a decimal integer of 64 bits.\<close>

definition bind_int :: "string option \<Rightarrow> int option" where
  "bind_int v =
     (case v of
        None \<Rightarrow> Some 0
      | Some s \<Rightarrow> if s = '''' then Some 0
                  else (case decimal_value s of None \<Rightarrow> None | Some i \<Rightarrow> if fits_int64 i then Some i else None))"

definition listTransfersQuery :: "(string \<Rightarrow> string option) \<Rightarrow> ListInput option" where
  "listTransfersQuery q =
     (case (bind_int (q ''limit''), bind_int (q ''offset'')) of
        (Some limit, Some offset) \<Rightarrow> Some \<lparr>li_Limit = limit, li_Offset = offset\<rparr>
      | _ \<Rightarrow> None)"

subsection \<open>Writing responses\<close>

text \<open>The JSON text of a time is a parameter.\<close>

definition raw_value :: "raw_json \<Rightarrow> json" where
  "raw_value raw = (case raw of RawJson v \<Rightarrow> v | RawText _ \<Rightarrow> JObject [])"

definition newTransferResponse :: "(go_time \<Rightarrow> string) \<Rightarrow> Transfer \<Rightarrow> json" where
  "newTransferResponse time t =
     JObject [(''id'', JString (tr_ID t)), (''idempotency_key'', JString (tr_IdempotencyKey t)),
       (''chain'', JString (tr_Chain t)), (''asset_type'', JString (tr_AssetType t)),
       (''source_wallet_id'', JString (tr_SourceWalletID t)),
       (''destination_address'', JString (tr_DestinationAddress t)), (''amount'', JString (tr_Amount t)),
       (''callback_url'', JString (tr_CallbackURL t)), (''metadata_json'', raw_value (tr_MetadataJSON t)),
       (''tx_hash'', JString (tr_TxHash t)), (''status'', JString (tr_Status t)),
       (''created_at'', JString (time (tr_CreatedAt t))), (''updated_at'', JString (time (tr_UpdatedAt t)))]"

definition newWalletResponse :: "(go_time \<Rightarrow> string) \<Rightarrow> Wallet \<Rightarrow> json" where
  "newWalletResponse time x =
     JObject [(''id'', JString (wa_ID x)), (''chain'', JString (wa_Chain x)), (''address'', JString (wa_Address x)),
       (''label'', JString (wa_Label x)), (''signing_type'', JString (wa_SigningType x)), (''status'', JString (wa_Status x)),
       (''created_at'', JString (time (wa_CreatedAt x))), (''updated_at'', JString (time (wa_UpdatedAt x)))]"

definition newReconciliationResultResponse :: "(go_time \<Rightarrow> string) \<Rightarrow> ReconciliationResult \<Rightarrow> json" where
  "newReconciliationResultResponse time r =
     JObject [(''id'', JString (rr_ID r)), (''transfer_request_id'', JString (rr_TransferRequestID r)),
       (''tx_hash'', JString (rr_TxHash r)), (''internal_status'', JString (rr_InternalStatus r)),
       (''blockchain_status'', JString (rr_BlockchainStatus r)), (''is_mismatch'', JBool (rr_IsMismatch r)),
       (''notes'', JString (rr_Notes r)), (''checked_at'', JString (time (rr_CheckedAt r))),
       (''trigger_source'', JString (rr_TriggerSource r))]"

definition data_envelope :: "json \<Rightarrow> json" where
  "data_envelope v = JObject [(''data'', v)]"

subsection \<open>Handlers\<close>

definition transfers_handleServiceError :: "go_error \<Rightarrow> api_response" where
  "transfers_handleServiceError err =
     (if errors_is err ErrValidation then writeError 400 ''validation_error'' (error_text err)
      else if errors_is err ErrSourceWalletNotFound
      then writeError 400 ''source_wallet_not_found'' ''source wallet does not exist''
      else if errors_is err ErrTransferNotFound then writeError 404 ''transfer_not_found'' ''transfer not found''
      else writeError 500 ''internal_error'' ''internal server error'')"

record api =
  api_libs :: libs
  api_wallet_libs :: wallet_libs
  api_time :: "go_time \<Rightarrow> string"
  api_transfers :: "world TransferService"
  api_wallets :: "world WalletRepository"
  api_reconciliation :: "world ReconciliationRepository"
  api_checker :: "string \<Rightarrow> string \<Rightarrow> (world, string) act"
  api_health :: "world \<Rightarrow> HealthReport \<times> world"
  api_auth :: InternalAuthConfig
  api_no_route :: "string \<Rightarrow> string list \<Rightarrow> api_response"

definition TransferHandler_Create :: "api \<Rightarrow> api_request \<Rightarrow> world \<Rightarrow> api_response \<times> world" where
  "TransferHandler_Create A req w =
     (case createTransferRequest (aq_Body req) of
        None \<Rightarrow> (writeError 400 ''invalid_request'' ''request body must be valid JSON'', w)
      | Some input \<Rightarrow>
          (case CreateTransfer (api_libs A) (api_transfers A) input w of
             (Inl e, w1) \<Rightarrow> (transfers_handleServiceError e, w1)
           | (Inr (transfer, created), w1) \<Rightarrow>
               ((if created then 201 else 200, data_envelope (newTransferResponse (api_time A) transfer)), w1)))"

definition TransferHandler_GetByID :: "api \<Rightarrow> string \<Rightarrow> world \<Rightarrow> api_response \<times> world" where
  "TransferHandler_GetByID A param w =
     (case GetTransfer (api_libs A) (api_transfers A) param w of
        (Inl e, w1) \<Rightarrow> (transfers_handleServiceError e, w1)
      | (Inr transfer, w1) \<Rightarrow> ((200, data_envelope (newTransferResponse (api_time A) transfer)), w1))"

definition TransferHandler_List :: "api \<Rightarrow> api_request \<Rightarrow> world \<Rightarrow> api_response \<times> world" where
  "TransferHandler_List A req w =
     (case listTransfersQuery (aq_Query req) of
        None \<Rightarrow> (writeError 400 ''invalid_query'' ''query parameters are invalid'', w)
      | Some input \<Rightarrow>
          (case ListTransfers (api_transfers A) input w of
             (Inl e, w1) \<Rightarrow> (transfers_handleServiceError e, w1)
           | (Inr result, w1) \<Rightarrow>
               ((200, JObject [(''data'', JArray (map (newTransferResponse (api_time A)) (lr_Items result))),
                  (''meta'', JObject [(''limit'', JInt (lr_Limit result)), (''offset'', JInt (lr_Offset result)),
                     (''count'', JInt (int (length (lr_Items result))))])]), w1)))"

definition wallets_handleServiceError :: "go_error \<Rightarrow> api_response" where
  "wallets_handleServiceError err =
     (if errors_is err WalletsErrValidation then writeError 400 ''validation_error'' (error_text err)
      else if errors_is err ErrDuplicateActiveWallet
      then writeError 409 ''wallet_conflict'' ''an active wallet with this chain and address already exists''
      else if errors_is err ErrWalletNotFound then writeError 404 ''wallet_not_found'' ''wallet not found''
      else writeError 500 ''internal_error'' ''internal server error'')"

definition WalletHandler_Create :: "api \<Rightarrow> api_request \<Rightarrow> world \<Rightarrow> api_response \<times> world" where
  "WalletHandler_Create A req w =
     (case createWalletRequest (aq_Body req) of
        None \<Rightarrow> (writeError 400 ''invalid_request'' ''request body must be valid JSON'', w)
      | Some input \<Rightarrow>
          (case CreateWallet (api_wallet_libs A) (api_wallets A) input w of
             (Inl e, w1) \<Rightarrow> (wallets_handleServiceError e, w1)
           | (Inr wallet, w1) \<Rightarrow> ((201, data_envelope (newWalletResponse (api_time A) wallet)), w1)))"

definition WalletHandler_List :: "api \<Rightarrow> world \<Rightarrow> api_response \<times> world" where
  "WalletHandler_List A w =
     (case ListWallets (api_wallets A) w of
        (Inl e, w1) \<Rightarrow> (wallets_handleServiceError e, w1)
      | (Inr xs, w1) \<Rightarrow> ((200, data_envelope (JArray (map (newWalletResponse (api_time A)) xs))), w1))"

definition WalletHandler_GetByID :: "api \<Rightarrow> string \<Rightarrow> world \<Rightarrow> api_response \<times> world" where
  "WalletHandler_GetByID A param w =
     (case GetWallet (api_wallet_libs A) (api_wallets A) param w of
        (Inl e, w1) \<Rightarrow> (wallets_handleServiceError e, w1)
      | (Inr wallet, w1) \<Rightarrow> ((200, data_envelope (newWalletResponse (api_time A) wallet)), w1))"

definition ReconciliationHandler_Run :: "api \<Rightarrow> world \<Rightarrow> api_response \<times> world" where
  "ReconciliationHandler_Run A w =
     (case Run (api_reconciliation A) (api_checker A) ''manual'' w of
        (Inl e, w1) \<Rightarrow> (writeError 500 ''internal_error'' ''internal server error'', w1)
      | (Inr result, w1) \<Rightarrow>
          ((200, data_envelope (JObject [(''checked_count'', JInt (rn_CheckedCount result)),
              (''mismatch_count'', JInt (rn_MismatchCount result)), (''matched_count'', JInt (rn_MatchedCount result)),
              (''trigger_source'', JString ''manual'')])), w1))"

definition ReconciliationHandler_ListMismatches :: "api \<Rightarrow> world \<Rightarrow> api_response \<times> world" where
  "ReconciliationHandler_ListMismatches A w =
     (case Service_ListLatestMismatches (api_reconciliation A) w of
        (Inl e, w1) \<Rightarrow> (writeError 500 ''internal_error'' ''internal server error'', w1)
      | (Inr results, w1) \<Rightarrow>
          ((200, data_envelope (JArray (map (newReconciliationResultResponse (api_time A)) results))), w1))"

definition component_json :: "ComponentStatus \<Rightarrow> json" where
  "component_json s =
     JObject ((''status'', JString (cs_Status s)) # (if cs_Error s = '''' then [] else [(''error'', JString (cs_Error s))]))"

definition HealthHandler_Get :: "api \<Rightarrow> world \<Rightarrow> api_response \<times> world" where
  "HealthHandler_Get A w =
     (let (report, w1) = api_health A w
      in ((if rp_Status report \<noteq> ''ok'' then 503 else 200,
           JObject [(''status'', JString (rp_Status report)), (''service'', JString (rp_Service report)),
             (''version'', JString (rp_Version report)), (''environment'', JString (rp_Environment report)),
             (''timestamp'', JString (api_time A (rp_Timestamp report))), (''uptime'', JString (rp_Uptime report)),
             (''components'', JObject (map (\<lambda>(name, s). (name, component_json s)) (rp_Components report)))]), w1))"

subsection \<open>internal\_auth.go and server.go\<close>

definition internalAuthMiddleware ::
  "InternalAuthConfig \<Rightarrow> (world \<Rightarrow> api_response \<times> world) \<Rightarrow> api_request \<Rightarrow> world \<Rightarrow> api_response \<times> world" where
  "internalAuthMiddleware cfg handler req w =
     (let headerName = (if ia_HeaderName cfg = '''' then ''X-Aegis-Internal-Key'' else ia_HeaderName cfg) in
      if ia_APIKey cfg = ''''
      then (writeError 503 ''service_unavailable'' ''internal authentication is not configured'', w)
      else if aq_Header req headerName \<noteq> ia_APIKey cfg
      then (writeError 401 ''unauthorized'' ''invalid internal api key'', w)
      else handler w)"

datatype route =
    Healthz | CreateTransferRoute | GetTransferRoute string | ListTransfersRoute
  | CreateWalletRoute | ListWalletsRoute | GetWalletRoute string | ReconcileRoute | MismatchesRoute

text \<open>The routing tree; a parameter matches one segment that is not empty.\<close>

definition route_of :: "string \<Rightarrow> string list \<Rightarrow> route option" where
  "route_of meth path =
     (if meth = ''GET'' \<and> path = [''healthz''] then Some Healthz
      else (case path of
          api # v1 # rest \<Rightarrow>
            if api \<noteq> ''api'' \<or> v1 \<noteq> ''v1'' then None
            else if meth = ''POST'' \<and> rest = [''transfers''] then Some CreateTransferRoute
            else if meth = ''GET'' \<and> rest = [''transfers''] then Some ListTransfersRoute
            else if meth = ''POST'' \<and> rest = [''wallets''] then Some CreateWalletRoute
            else if meth = ''GET'' \<and> rest = [''wallets''] then Some ListWalletsRoute
            else if meth = ''POST'' \<and> rest = [''jobs'', ''reconcile''] then Some ReconcileRoute
            else if meth = ''GET'' \<and> rest = [''reconciliation'', ''mismatches''] then Some MismatchesRoute
            else (case rest of
                [kind, param] \<Rightarrow>
                  if meth \<noteq> ''GET'' \<or> param = '''' then None
                  else if kind = ''transfers'' then Some (GetTransferRoute param)
                  else if kind = ''wallets'' then Some (GetWalletRoute param) else None
              | _ \<Rightarrow> None)
        | _ \<Rightarrow> None))"

definition internal_route :: "route \<Rightarrow> bool" where
  "internal_route r = (case r of
       CreateWalletRoute \<Rightarrow> True | ListWalletsRoute \<Rightarrow> True | GetWalletRoute _ \<Rightarrow> True | ReconcileRoute \<Rightarrow> True
     | MismatchesRoute \<Rightarrow> True | _ \<Rightarrow> False)"

definition handle_route :: "api \<Rightarrow> api_request \<Rightarrow> route \<Rightarrow> world \<Rightarrow> api_response \<times> world" where
  "handle_route A req r w = (case r of
       Healthz \<Rightarrow> HealthHandler_Get A w
     | CreateTransferRoute \<Rightarrow> TransferHandler_Create A req w
     | GetTransferRoute param \<Rightarrow> TransferHandler_GetByID A param w
     | ListTransfersRoute \<Rightarrow> TransferHandler_List A req w
     | CreateWalletRoute \<Rightarrow> WalletHandler_Create A req w
     | ListWalletsRoute \<Rightarrow> WalletHandler_List A w
     | GetWalletRoute param \<Rightarrow> WalletHandler_GetByID A param w
     | ReconcileRoute \<Rightarrow> ReconciliationHandler_Run A w
     | MismatchesRoute \<Rightarrow> ReconciliationHandler_ListMismatches A w)"

text \<open>The router of \<open>NewServer\<close>. What gin answers to a path without a route (404, or a redirect) is a parameter.\<close>

definition NewServer :: "api \<Rightarrow> api_request \<Rightarrow> world \<Rightarrow> api_response \<times> world" where
  "NewServer A req w =
     (case route_of (aq_Method req) (aq_Path req) of
        None \<Rightarrow> (api_no_route A (aq_Method req) (aq_Path req), w)
      | Some r \<Rightarrow>
          if internal_route r then internalAuthMiddleware (api_auth A) (handle_route A req r) req w
          else handle_route A req r w)"

definition resolveGinMode :: "string \<Rightarrow> string" where
  "resolveGinMode environment =
     (let e = ToLower environment in
      if e = ''production'' \<or> e = ''prod'' then ''release'' else if e = ''test'' then ''test'' else ''debug'')"

text \<open>\<open>RunAPI\<close>: the services over one database and the configuration.\<close>

definition api_of :: "pg \<Rightarrow> libs \<Rightarrow> wallet_libs \<Rightarrow> (string \<Rightarrow> 8 word list) \<Rightarrow> (go_time \<Rightarrow> string) \<Rightarrow> (world \<Rightarrow> HealthReport \<times> world) \<Rightarrow>
    (string \<Rightarrow> string list \<Rightarrow> api_response) \<Rightarrow> Config \<Rightarrow> api" where
  "api_of pg L WL sha256 time health no_route cfg =
     \<lparr>api_libs = L, api_wallet_libs = WL, api_time = time,
      api_transfers = NewService (PostgresRepository pg)
        \<lparr>cb_AllowedHosts = cbc_AllowedHosts (cfg_CallbackURL cfg),
         cb_AllowPrivateTargets = cbc_AllowPrivateTargets (cfg_CallbackURL cfg)\<rparr>,
      api_wallets = PostgresWallets pg, api_reconciliation = PostgresReconciliation pg,
      api_checker = PlaceholderReceiptChecker sha256, api_health = health, api_auth = cfg_InternalAuth cfg, api_no_route = no_route\<rparr>"

subsection \<open>Facts\<close>

lemma writeError_status [simp]: "fst (writeError n code message) = n"
  by (simp add: writeError_def)

text \<open>An internal route without the key: nothing happens.\<close>

lemma internal_closed:
  assumes "route_of (aq_Method req) (aq_Path req) = Some r" and "internal_route r"
    and "ia_APIKey (api_auth A) = '''' \<or>
      aq_Header req (if ia_HeaderName (api_auth A) = '''' then ''X-Aegis-Internal-Key'' else ia_HeaderName (api_auth A)) \<noteq>
      ia_APIKey (api_auth A)"
  shows "snd (NewServer A req w) = w \<and> fst (fst (NewServer A req w)) = (if ia_APIKey (api_auth A) = '''' then 503 else 401)"
  using assms by (auto simp: NewServer_def internalAuthMiddleware_def Let_def split: if_splits)

text \<open>Routes that write wallets or reconciliation results are internal.\<close>

lemma routes_iff:
  "route_of m p = Some r \<Longrightarrow> \<not> internal_route r \<Longrightarrow>
   p = [''healthz''] \<or> (\<exists>rest. p = ''api'' # ''v1'' # ''transfers'' # rest)"
  by (auto simp: route_of_def internal_route_def split: list.splits if_splits)

text \<open>An amount the request may have and the column may not.\<close>

lemma oversized_amount:
  assumes "quiet w" and "decimal_value (cp_Amount p) = Some amount" and "10 ^ 78 \<le> amount"
  shows "\<exists>e. Create pg p w = (Inl e, w) \<and> \<not> errors_is e ErrValidation \<and> \<not> errors_is e ErrSourceWalletNotFound \<and>
    \<not> errors_is e ErrTransferNotFound"
proof -
  have "numeric_78 (cp_Amount p) = Inl (PgError ''22003'' '''')"
    using assms(2,3) by (simp add: numeric_78_def)
  then have "sql_insert_transfer pg p (w_db w) =
      Inl (PgError (if uuid_in pg (cp_SourceWalletID p) = None then ''22P02'' else ''22003'') '''')"
    by (simp add: sql_insert_transfer_def split: option.splits)
  then show ?thesis using assms(1) by (simp add: Create_def mapTransferWriteError_def)
qed

lemma TransferHandler_Create_again:
  assumes "quiet w" and "api_transfers A = NewService (PostgresRepository pg) policy"
    and run: "TransferHandler_Create A req w = ((status, body), w1)" and "status = 201 \<or> status = 200"
  shows "TransferHandler_Create A req w1 = ((200, body), w1)"
proof -
  obtain input where input: "createTransferRequest (aq_Body req) = Some input"
    using run assms(4) by (cases "createTransferRequest (aq_Body req)") (auto simp: TransferHandler_Create_def writeError_def)
  obtain t created where create: "CreateTransfer (api_libs A) (api_transfers A) input w = (Inr (t, created), w1)"
    and body: "body = data_envelope (newTransferResponse (api_time A) t)"
    using run assms(4) input
    by (auto simp: TransferHandler_Create_def transfers_handleServiceError_def writeError_def
        split: sum.splits prod.splits if_splits)
  obtain p where p: "normalizeCreateInput (api_libs A) input policy = Inr p" and c: "Create pg p w = (Inr (t, created), w1)"
    using create assms(2)
    by (auto simp: CreateTransfer_def NewService_def PostgresRepository_def split: sum.splits prod.splits)
  have "Create pg p w1 = (Inr (t, False), w1)" using assms(1) c by (rule Create_idempotent_quiet)
  then show ?thesis
    using input p body assms(2)
    by (simp add: TransferHandler_Create_def CreateTransfer_def NewService_def PostgresRepository_def)
qed

end
