(* ===== verification/Samples.thy ===== *)
theory Samples
  imports Progress Http
begin

text \<open>
  Concrete data for the witnesses: a server whose identifiers are numbered, a database with one
  wallet and one transfer request, and a world in which nothing else happens.
\<close>

definition sample_pg :: pg where
  "sample_pg = \<lparr>gen_random_uuid = (\<lambda>n. ''u'' @ nat_text n), uuid_in = Some,
     timestamptz_out = (\<lambda>t. itoa t), accepts_ambiguous = True\<rparr>"

definition sample_wallet :: Wallet where
  "sample_wallet = \<lparr>wa_ID = ''w1'', wa_Chain = ''ethereum'', wa_Address = ''0xAA'', wa_Label = '''',
     wa_SigningType = ''EOA'', wa_Status = ''ACTIVE'', wa_CreatedAt = 0, wa_UpdatedAt = 0\<rparr>"

definition wallet_db :: db where
  "wallet_db = empty_db\<lparr>wallets := [sample_wallet]\<rparr>"

definition sample_create :: CreateParams where
  "sample_create = \<lparr>cp_IdempotencyKey = ''key-1'', cp_Chain = ''ethereum'', cp_AssetType = ''native'',
     cp_SourceWalletID = ''w1'', cp_DestinationAddress = ''0xBB'', cp_Amount = ''5'',
     cp_CallbackURL = ''https://example.com/hook'', cp_MetadataJSON = RawJson (JObject []),
     cp_Status = StatusCreated\<rparr>"

definition sample_db :: db where
  "sample_db = created_db sample_pg sample_create ''w1'' ''5'' wallet_db"

definition sample_transfer :: Transfer where
  "sample_transfer = request_row sample_pg sample_create ''w1'' ''5'' wallet_db"

definition sample_world :: "db \<Rightarrow> world" where
  "sample_world d = \<lparr>w_db = d, w_sched = [], w_ctx = None, w_clock = 1000, w_signed = [], w_broadcasts = [],
     w_published = [], w_amqp_outcomes = [], w_amqp_closed = False, w_channels = 0, w_settled = [],
     w_redis = (\<lambda>_. None), w_redis_outcomes = [], w_uuids = 0, w_heartbeat = [], w_waits = [], w_posted = []\<rparr>"

lemma sample_world_simps [simp]:
  "w_db (sample_world d) = d" "w_sched (sample_world d) = []" "w_ctx (sample_world d) = None"
  "w_clock (sample_world d) = 1000" "w_published (sample_world d) = []" "w_posted (sample_world d) = []"
  "w_settled (sample_world d) = []" "w_redis (sample_world d) = (\<lambda>_. None)" "w_redis_outcomes (sample_world d) = []"
  "w_amqp_outcomes (sample_world d) = []" "w_amqp_closed (sample_world d) = False" "w_channels (sample_world d) = 0"
  "w_broadcasts (sample_world d) = []" "w_signed (sample_world d) = []" "w_uuids (sample_world d) = 0"
  "w_heartbeat (sample_world d) = []"
  by (simp_all add: sample_world_def)

lemma quiet_sample [simp]: "quiet (sample_world d)"
  by (simp add: quiet_def)

lemma uuid_laws_sample [simp]: "uuid_laws sample_pg"
  by (simp add: uuid_laws_def sample_pg_def)

lemma nat_text_small [simp]: "n < 10 \<Longrightarrow> nat_text n = [char_of (48 + n)]"
  by (subst nat_text.simps) simp

lemma digit_five [simp]: "char_of (53 :: nat) = CHR ''5''"
  by code_simp

lemma sample_created: "tx_create sample_pg sample_create wallet_db = Inr (scanTransfer sample_transfer, sample_db)"
  by (simp add: tx_create_def sql_insert_transfer_def sql_insert_history_def sql_insert_outbox_def
      sample_pg_def sample_create_def wallet_db_def sample_db_def sample_transfer_def sample_wallet_def empty_db_def
      created_db_def request_row_def history_row_def outbox_row_def fresh_uuid_def numeric_78_def
      decimal_value_def itoa_def transfer_statuses_def requested_payload_def Let_def)

lemma sample_reachable: "(sys_step sample_pg)\<^sup>*\<^sup>* empty_db sample_db"
proof -
  have "side_step empty_db wallet_db" by (simp add: side_step_def wallet_db_def)
  then have "sys_step sample_pg empty_db wallet_db" by (rule sys_step.side)
  moreover have "sys_step sample_pg wallet_db sample_db"
    by (rule sys_step.transfer, rule transfer_step.create[OF sample_created]) (simp add: sample_create_def)
  ultimately show ?thesis by (meson converse_rtranclp_into_rtranclp rtranclp.rtrancl_refl)
qed

lemma sample_inv: "transfer_inv sample_db"
  by (rule sys_steps_inv[OF sample_reachable transfer_inv_empty])

lemma sample_canonical: "canonical_ids sample_pg sample_db"
  by (simp add: canonical_ids_def sample_pg_def)

lemma sample_in: "sample_transfer \<in> set (transfer_requests sample_db)"
  by (simp add: sample_db_def sample_transfer_def created_db_def Let_def)

lemma sample_ok: "pg_ok sample_pg (sample_world sample_db)"
  by (simp add: pg_ok_def sample_inv sample_canonical)

lemma inj_sample_uuid: "inj (gen_random_uuid sample_pg)"
  by (auto simp: sample_pg_def inj_def dest: nat_text_inj)

lemma sample_db_fields [simp]:
  "transfer_requests sample_db = [sample_transfer]" "transaction_attempts sample_db = []"
  "uuid_count sample_db = 3" "wallets sample_db = [sample_wallet]" "webhook_deliveries sample_db = []"
  "sh_ID ` set (transfer_status_history sample_db) = {gen_random_uuid sample_pg (Suc 0)}" "db_now sample_db = 0"
  by (simp_all add: sample_db_def sample_transfer_def created_db_def wallet_db_def empty_db_def Let_def
      history_row_def fresh_uuid_def)

lemma sample_rests: "rests sample_pg (tr_ID sample_transfer) StatusCreated '''' [] (sample_world sample_db)"
proof -
  have "uuid_fresh sample_pg sample_db"
    using inj_sample_uuid by (auto simp: uuid_fresh_def dest: injD)
  then show ?thesis
    using sample_inv sample_canonical by (simp add: rests_def sample_transfer_def sample_create_def)
qed

definition sample_signed :: SignedTransfer where
  "sample_signed = \<lparr>st_RawTransaction = ''0x02f8'', st_TxHash = ''0xhash'', st_Nonce = Some 7\<rparr>"

definition sample_validate :: TransitionParams where
  "sample_validate = \<lparr>tp_ID = tr_ID sample_transfer, tp_FromStatus = StatusCreated,
     tp_ToStatus = StatusValidated, tp_TxHash = None\<rparr>"

definition sample_client :: Client where
  "sample_client = \<lparr>cl_Conn = True, cl_PrefetchCount = 10\<rparr>"

definition sample_rabbitmq :: RabbitMQConfig where
  "sample_rabbitmq = \<lparr>rc_Exchange = ''aegis.transfers'', rc_TransferQueue = ''transfers'',
     rc_TransferRoutingKey = ''transfer.requested''\<rparr>"

definition sample_job :: TransferJob where
  "sample_job = \<lparr>job_TransferID = tr_ID sample_transfer, job_Attempt = 0\<rparr>"

definition sample_event :: OutboxEvent where
  "sample_event = outbox_row sample_pg (tr_ID sample_transfer) OutboxEventTypeTransferRequested
     (requested_payload (tr_ID sample_transfer)) OutboxStatusPending (wallet_db\<lparr>uuid_count := Suc (Suc 0)\<rparr>)"

lemma sample_outbox [simp]: "transfer_outbox sample_db = [sample_event]"
  by (simp add: sample_db_def created_db_def sample_event_def sample_transfer_def wallet_db_def empty_db_def Let_def)

lemma sample_outbox_keys: "outbox_keys sample_pg sample_db"
  by (simp add: outbox_keys_def sample_pg_def)

lemma sample_event_count [simp]: "oe_AttemptCount sample_event = 0"
  by (simp add: sample_event_def)

definition sample_sent :: OutboxEvent where
  "sample_sent = dispatched_event 1 5 sample_event"

definition sample_sent_db :: db where
  "sample_sent_db = sample_db\<lparr>transfer_outbox := [sample_sent]\<rparr>"

definition sample_delivery :: Delivery where
  "sample_delivery = \<lparr>wd_ID = ''d1'', wd_TransferRequestID = ''u0'', wd_TransferStatusHistoryID = ''u1'',
     wd_TargetURL = ''https://example.com/hook'', wd_EventType = ''transfer.status.updated'',
     wd_TransferStatus = StatusSubmitted, wd_PayloadJSON = RawJson (JObject []),
     wd_DeliveryStatus = DeliveryStatusInProgress, wd_AttemptCount = 1, wd_MaxAttempts = 5,
     wd_ResponseStatusCode = 503, wd_ResponseBody = '''', wd_LastError = '''', wd_NextAttemptAt = None,
     wd_LeaseExpiresAt = Some 500, wd_DeliveredAt = None, wd_CreatedAt = 0, wd_UpdatedAt = 0\<rparr>"

text \<open>A mark under a lease that ended before the row was claimed again.\<close>

definition sample_mark :: MarkRetryParams where
  "sample_mark = \<lparr>mp_ID = ''d1'', mp_LeaseExpiresAt = 100, mp_AttemptCount = 2, mp_ResponseStatusCode = 503,
     mp_ResponseBody = '''', mp_LastError = ''unexpected response status: 503'', mp_NextAttemptAt = 900\<rparr>"

subsection \<open>An exchange over the internet\<close>

text \<open>
  A resolver whose answer changes: the name is public when the URL is validated and on the
  first dial, and points into the private network afterwards.
\<close>

definition sample_policy :: TargetPolicy where
  "sample_policy = \<lparr>tp_AllowedHosts = [], tp_AllowPrivateTargets = False\<rparr>"

definition sample_url :: url where
  "sample_url = \<lparr>u_Scheme = ''https'', u_User = None, u_Host = ''hooks.example.com''\<rparr>"

definition sample_net :: internet where
  "sample_net =
     \<lparr>net_lookup = (\<lambda>n host. Inr [\<lparr>ia_IP = (if n < 2 then [8, 8, 8, 8] else [10, 0, 0, 1]), ia_Zone = ''''\<rparr>]),
      net_dial = (\<lambda>_ _. None),
      net_answer = (\<lambda>n request. Inr \<lparr>rs_StatusCode = 307, rs_Location = ''/again'', rs_Body = Inr ''moved''\<rparr>),
      net_reuse = (\<lambda>_. False), net_address = (\<lambda>u. u_Host u @ '':443''), net_parse = (\<lambda>_. Some sample_url),
      net_resolve = (\<lambda>u _. Some u)\<rparr>"

definition sample_dispatcher :: HTTPDispatcher where
  "sample_dispatcher = NewHTTPDispatcher (\<lambda>key message. key @ message) (\<lambda>_. ''2024-01-01T00:00:00Z'') 0 (NewSigner ''k'') sample_policy 64"

lemma sample_hostname: "normalizeHostname ''hooks.example.com'' = ''hooks.example.com''"
  by (simp add: normalizeHostname_def TrimSpace_def is_space_def ToLower_def ascii_lower_def TrimSuffix_def HasSuffix_def)

lemma sample_parse: "ParseIP ''hooks.example.com'' = None"
  by (simp add: ParseIP_def parseIPv4_def is_digit_def numeral_eq_Suc)

lemma sample_url_parts: "Hostname sample_url = ''hooks.example.com''" "Port sample_url = ''''"
  by (simp_all add: Hostname_def Port_def sample_url_def url_split_def last_colon_def colon_free_def strip_brackets_def)

lemma sample_ips: "isPrivateOrLocalIP [10, 0, 0, 1]" "\<not> isPrivateOrLocalIP [8, 8, 8, 8]" 
  by (simp_all add: isPrivateOrLocalIP_def IsLoopback_def IsPrivate_def IsLinkLocalMulticast_def
        IsLinkLocalUnicast_def IsMulticast_def IsUnspecified4 To4_def)

lemma sample_texts: "IP_String [10, 0, 0, 1] = ''10.0.0.1''" "IP_String [8, 8, 8, 8] = ''8.8.8.8''"
  by (simp_all add: IP_String_def To4_def dotted_def nat_text.simps char_of_def bit_0)

lemma sample_dialed_url:
  "Hostname \<lparr>u_Scheme = ''https'', u_User = None, u_Host = ''hooks.example.com:443''\<rparr> = ''hooks.example.com''"
  "Port \<lparr>u_Scheme = ''https'', u_User = None, u_Host = ''hooks.example.com:443''\<rparr> = ''443''"
  "SplitHostPort ''hooks.example.com:443'' = Inr (''hooks.example.com'', ''443'')"
  by (simp_all add: Hostname_def Port_def url_split_def last_colon_def colon_free_def strip_brackets_def is_digit_def SplitHostPort_def)

lemma sample_exchange:
  "Dispatch (\<lambda>_. ''{}'') sample_dispatcher sample_net sample_delivery fresh_exchange =
     (Inl (Errorf ''send webhook request'' (Errorf ''validate redirect target''
        (Opaque (''target host '' @ go_quote ''hooks.example.com'' @ '' resolved to disallowed IP 10.0.0.1'')))),
      \<lparr>ex_clock = 5, ex_dialed = [''8.8.8.8:443''], ex_conns = [(''hooks.example.com:443'', ''8.8.8.8:443'')],
       ex_sent = [(Some ''8.8.8.8:443'', \<lparr>rq_Method = ''POST'', rq_URL = sample_url,
          rq_Header = webhook_headers sample_dispatcher ''{}'' sample_delivery, rq_Body = ''{}''\<rparr>)]\<rparr>)"
proof -
  have label: "\<not> isPrivateHostnameLabel ''hooks.example.com''" by (simp add: isPrivateHostnameLabel_def HasSuffix_def)
  have policy: "hd_targetPolicy sample_dispatcher = sample_policy" "transport_validates sample_dispatcher"
    by (simp_all add: sample_dispatcher_def NewHTTPDispatcher_def transport_validates_def)
  have net: "net_dial sample_net n a = None" "net_reuse sample_net n = False" "net_address sample_net u = u_Host u @ '':443''"
    "net_answer sample_net n rq = Inr \<lparr>rs_StatusCode = 307, rs_Location = ''/again'', rs_Body = Inr ''moved''\<rparr>"
    "net_parse sample_net s = Some sample_url" "net_resolve sample_net u s = Some u" for n a u rq s
    by (simp_all add: sample_net_def)
  have resolve: "resolveDispatchTarget u sample_policy (net_lookup sample_net n) =
      (if n < 2 then Inr (''hooks.example.com'', p, [[8, 8, 8, 8]])
       else Inl (Opaque (''target host '' @ go_quote ''hooks.example.com'' @ '' resolved to disallowed IP 10.0.0.1'')))"
    if "Hostname u = ''hooks.example.com''" "resolveTargetPort u = Inr p" for u n p
    using that by (simp add: resolveDispatchTarget_def sample_policy_def sample_hostname sample_parse label Let_def
        resolveTargetIPAddrs_def sample_net_def sample_ips sample_texts extractIPs_def)
  have port: "resolveTargetPort sample_url = Inr ''443''"
    "resolveTargetPort \<lparr>u_Scheme = ''https'', u_User = None, u_Host = ''hooks.example.com:443''\<rparr> = Inr ''443''"
    by (simp_all add: resolveTargetPort_def sample_url_parts(2)[unfolded sample_url_def] sample_dialed_url ToLower_def ascii_lower_def
        sample_url_def)
  have valid: "validateTarget sample_dispatcher sample_net sample_url x =
      (if ex_clock x < 2 then None else Some (Opaque (''target host '' @ go_quote ''hooks.example.com'' @ '' resolved to disallowed IP 10.0.0.1'')),
       x\<lparr>ex_clock := Suc (ex_clock x)\<rparr>)" for x
    by (simp add: validateTarget_def validateDispatchTarget_def policy resolve[OF sample_url_parts(1) port(1)])
  have dial: "dialValidatedTarget sample_dispatcher sample_net ''hooks.example.com:443'' x =
      (Inr ''8.8.8.8:443'', x\<lparr>ex_clock := Suc (Suc (ex_clock x)), ex_dialed := ex_dialed x @ [''8.8.8.8:443'']\<rparr>)"
    if "ex_clock x < 2" for x
    using that resolve[OF sample_dialed_url(1) port(2)]
    by (simp add: dialValidatedTarget_def sample_dialed_url sample_hostname policy Let_def JoinHostPort_def colon_free_def
        sample_texts net)
  have first: "RoundTrip sample_dispatcher sample_net request x =
      (Inr \<lparr>rs_StatusCode = 307, rs_Location = ''/again'', rs_Body = Inr ''moved''\<rparr>,
       x\<lparr>ex_clock := Suc (Suc (Suc (ex_clock x))), ex_dialed := ex_dialed x @ [''8.8.8.8:443''],
         ex_conns := (''hooks.example.com:443'', ''8.8.8.8:443'') # ex_conns x,
         ex_sent := ex_sent x @ [(Some ''8.8.8.8:443'', request)]\<rparr>)"
    if "ex_clock x < 2" "rq_URL request = sample_url" for x request
    using that dial by (simp add: RoundTrip_def connection_def policy net sample_url_def Let_def)
  show ?thesis
    by (simp add: Dispatch_def net valid fresh_exchange_def Let_def client_Do.simps[of _ _ _ 0] first CheckRedirect_def redirected_def)
qed

subsection \<open>Requests of the API\<close>

definition sample_libs :: libs where
  "sample_libs = \<lparr>lib_uuid = (\<lambda>_. True), lib_IsHexAddress = (\<lambda>_. True), lib_url = (\<lambda>_. Some sample_url),
     lib_float64 = (\<lambda>v. case v of JInt i \<Rightarrow> Some (JInt i) | JNumber s \<Rightarrow> Some (JNumber s) | _ \<Rightarrow> None)\<rparr>"

definition sample_callback_policy :: CallbackURLPolicy where
  "sample_callback_policy = \<lparr>cb_AllowedHosts = [], cb_AllowPrivateTargets = False\<rparr>"

definition sample_input :: "string \<Rightarrow> CreateInput" where
  "sample_input amount =
     \<lparr>ci_IdempotencyKey = ''k'', ci_Chain = ''c'', ci_AssetType = ''a'', ci_SourceWalletID = ''w1'',
      ci_DestinationAddress = ''d'', ci_Amount = amount, ci_CallbackURL = '''', ci_MetadataJSON = RawText ''''\<rparr>"

definition sample_params :: "string \<Rightarrow> CreateParams" where
  "sample_params amount =
     \<lparr>cp_IdempotencyKey = ''k'', cp_Chain = ''c'', cp_AssetType = ''a'', cp_SourceWalletID = ''w1'',
      cp_DestinationAddress = ''d'', cp_Amount = amount, cp_CallbackURL = '''', cp_MetadataJSON = RawJson (JObject []),
      cp_Status = StatusCreated\<rparr>"

text \<open>One with 78 zeros: an amount of 79 digits.\<close>

definition sample_huge :: string where
  "sample_huge = CHR ''1'' # replicate 78 CHR ''0''"

lemma digits_value_zeros: "digits_value acc (replicate n CHR ''0'') = Some (acc * 10 ^ n)"
  by (induction n arbitrary: acc) (simp_all add: algebra_simps)

lemma sample_huge_value: "decimal_value sample_huge = Some (10 ^ 78)"
  by (simp add: sample_huge_def decimal_value_def digits_value_zeros)

lemma sample_huge_trim: "TrimSpace sample_huge = sample_huge"
  by (rule TrimSpace_id) (simp_all add: sample_huge_def is_space_def)

lemma sample_normal:
  assumes "TrimSpace amount = amount" and "decimal_value amount = Some i" and "0 < i"
  shows "normalizeCreateInput sample_libs (sample_input amount) sample_callback_policy = Inr (sample_params amount)"
proof -
  have "amount \<noteq> ''''" using assms(2) by (auto simp: decimal_value_def)
  moreover have "TrimSpace [x] = [x]" if "\<not> is_space x" for x using that by (simp add: TrimSpace_def)
  moreover have "TrimSpace ''w1'' = ''w1''" by (simp add: TrimSpace_def is_space_def)
  ultimately show ?thesis
    using assms
    by (simp add: normalizeCreateInput_def sample_input_def sample_params_def sample_libs_def Let_def is_space_def
        normalize_metadata_def object_of_def)
qed

definition sample_body :: "string \<Rightarrow> raw_json" where
  "sample_body amount = RawJson (JObject [(''idempotency_key'', JString ''k''), (''chain'', JString ''c''),
     (''asset_type'', JString ''a''), (''source_wallet_id'', JString ''w1''), (''destination_address'', JString ''d''),
     (''amount'', JString amount)])"

lemma sample_request: "createTransferRequest (sample_body amount) = Some (sample_input amount)"
  by (simp add: createTransferRequest_def sample_body_def sample_input_def bind_members_def strings_fit_def
      string_field_def raw_field_def field_matches_def ascii_lower_def assign_string_def)

definition sample_api :: api where
  "sample_api = api_of sample_pg sample_libs \<lparr>wl_uuid = (\<lambda>_. True), wl_IsHexAddress = (\<lambda>_. True), wl_Hex = id\<rparr>
     (\<lambda>_. [0]) itoa (\<lambda>w. (\<lparr>rp_Status = ''ok'', rp_Service = '''', rp_Version = '''', rp_Environment = '''', rp_Timestamp = 0,
       rp_Uptime = '''', rp_Components = []\<rparr>, w)) (\<lambda>_ _. (404, JNull)) (default_config ''db'' ''mq'')"

definition sample_post :: "string \<Rightarrow> api_request" where
  "sample_post amount = \<lparr>aq_Method = ''POST'', aq_Path = [''api'', ''v1'', ''transfers''], aq_Header = (\<lambda>_. ''''),
     aq_Query = (\<lambda>_. None), aq_Body = sample_body amount\<rparr>"

lemma sample_api_simps [simp]:
  "api_libs sample_api = sample_libs"
  "api_transfers sample_api = NewService (PostgresRepository sample_pg) sample_callback_policy"
  by (simp_all add: sample_api_def api_of_def default_config_def sample_callback_policy_def)

lemma sample_five: "TrimSpace ''5'' = ''5''" "decimal_value ''5'' = Some 5"
  by (simp_all add: TrimSpace_def is_space_def decimal_value_def)

lemma sample_post_created:
  "\<exists>body w1. TransferHandler_Create sample_api (sample_post ''5'') (sample_world wallet_db) = ((201, body), w1)"
proof -
  have "normalizeCreateInput sample_libs (sample_input ''5'') sample_callback_policy = Inr (sample_params ''5'')"
    by (rule sample_normal[OF sample_five]) simp
  moreover have "\<exists>t w1. Create sample_pg (sample_params ''5'') (sample_world wallet_db) = (Inr (t, True), w1)"
    by (simp add: Create_def sample_params_def sql_insert_transfer_def sql_insert_history_def sql_insert_outbox_def
        sample_pg_def numeric_78_def sample_five wallet_db_def empty_db_def sample_wallet_def transfer_statuses_def Let_def
        scanTransfer_def itoa_def)
  ultimately show ?thesis
    by (auto simp: TransferHandler_Create_def sample_post_def sample_request CreateTransfer_def NewService_def PostgresRepository_def)
qed

subsection \<open>A reconciliation\<close>

text \<open>The database after its transfer was submitted with a hash.\<close>

definition submitted_db :: db where
  "submitted_db = wallet_db\<lparr>transfer_requests := [sample_transfer\<lparr>tr_Status := StatusSubmitted, tr_TxHash := ''0x1''\<rparr>],
     uuid_count := 9, db_now := 7\<rparr>"

lemma submitted_ready: "reconciliation_ready sample_pg (sample_world submitted_db)"
proof -
  have "inj (gen_random_uuid sample_pg)" by (auto simp: inj_def sample_pg_def dest: nat_text_inj)
  then show ?thesis
    by (simp add: reconciliation_ready_def submitted_db_def canonical_ids_def wallet_db_def empty_db_def sample_pg_def)
qed

lemma submitted_candidates: "length (sql_list_candidates (w_db (sample_world submitted_db))) = 1"
  by (simp add: submitted_db_def sql_list_candidates_def candidate_statuses_def)

definition sample_result_params :: CreateResultParams where
  "sample_result_params =
     \<lparr>cr_TransferRequestID = tr_ID sample_transfer, cr_TxHash = ''0x1'', cr_InternalStatus = StatusSubmitted,
      cr_BlockchainStatus = ReceiptStatusConfirmed, cr_IsMismatch = True, cr_Notes = ''n'', cr_TriggerSource = ''manual''\<rparr>"

subsection \<open>A supervised subsystem\<close>

definition sample_iteration :: "unit iteration" where
  "sample_iteration = \<lparr>it_done_before = False, it_script = (), it_runtime = Second, it_done_after = False,
     it_done_waiting = False, it_now = 0\<rparr>"

lemma sample_iteration_quick: "quick_failure sample_iteration"
  by (simp add: quick_failure_def sample_iteration_def subsystemHealthyRunResetThreshold_def)

definition sample_process :: process where
  "sample_process = \<lparr>ps_world = (sample_world empty_db)\<lparr>w_amqp_closed := True\<rparr>, ps_pools = 0, ps_redis = 0, ps_eth = 0\<rparr>"

definition sample_endpoints :: endpoints where
  "sample_endpoints = \<lparr>ep_ParseConfig = (\<lambda>_. None), ep_NewPool = None, ep_PingPool = None, ep_PingRedis = Some (Opaque ''refused''),
     ep_CloseRedis = None, ep_DialEth = (\<lambda>_. None), ep_ChainID = Inr 1, ep_BlockNumber = None\<rparr>"

definition sample_formats :: formats where
  "sample_formats = \<lparr>fmt_milliseconds = (\<lambda>_. ''1s''), fmt_seconds = (\<lambda>_. ''1s''), fmt_rfc3339 = (\<lambda>_. ''1970-01-01T00:00:00Z'')\<rparr>"

definition sample_tick :: "bool list iteration" where
  "sample_tick = \<lparr>it_done_before = False, it_script = [True], it_runtime = Second, it_done_after = False,
     it_done_waiting = False, it_now = 0\<rparr>"

lemma sample_tick_quick: "quick_failure sample_tick"
  by (simp add: quick_failure_def sample_tick_def subsystemHealthyRunResetThreshold_def)

end
