(* ===== verification/WorkerProcess.thy ===== *)
theory WorkerProcess
  imports Platform WebhookContract Progress
begin

text \<open>
  What \<open>RunWorker\<close> (\<^verbatim>\<open>app/worker.go\<close>) puts together: the mock signer and broadcaster of
  \<^verbatim>\<open>transfers/mocks.go\<close>, the processor, the outbox dispatcher, the consumer and the webhook service with
  the numbers of the configuration, the status tracker with its three subsystems, and the health
  server. SHA-256 is a parameter.
\<close>

subsection \<open>mocks.go\<close>

text \<open>\<open>binary.BigEndian.Uint64\<close> of eight bytes.\<close>

definition Uint64 :: "8 word list \<Rightarrow> nat" where
  "Uint64 bytes = foldl (\<lambda>acc b. acc * 256 + unat b) 0 bytes"

definition raw_transaction :: "Transfer \<Rightarrow> string" where
  "raw_transaction t = ''signed:'' @ tr_ID t @ '':'' @ tr_SourceWalletID t @ '':'' @ tr_Amount t"

definition SignTransfer :: "(string \<Rightarrow> 8 word list) \<Rightarrow> Transfer \<Rightarrow> SignedTransfer" where
  "SignTransfer digest t =
     (let sum = digest (raw_transaction t)
      in \<lparr>st_RawTransaction = raw_transaction t,
          st_TxHash = ''0x'' @ EncodeToString (map (\<lambda>b. char_of (unat b)) sum),
          st_Nonce = Some (of_nat (Uint64 (take 8 sum) mod 1000000))\<rparr>)"

subsection \<open>The parts of the worker\<close>

definition worker_processor :: "pg \<Rightarrow> (string \<Rightarrow> 8 word list) \<Rightarrow> world Processor" where
  "worker_processor pg digest = NewProcessor pg (\<lambda>_ t. Inr (SignTransfer digest t)) (\<lambda>_ _ _. None)"

definition worker_outbox :: "pg \<Rightarrow> Client option \<Rightarrow> Config \<Rightarrow> world OutboxDispatcher" where
  "worker_outbox pg client cfg =
     WorkerDispatcher pg client (cfg_RabbitMQ cfg) (wk_TransferOutboxBatchSize (cfg_Worker cfg))
       (wk_TransferOutboxPollInterval (cfg_Worker cfg)) (wk_TransferOutboxRetryDelay (cfg_Worker cfg))
       (wk_TransferOutboxProcessingAfter (cfg_Worker cfg))"

definition worker_consumer ::
  "pg \<Rightarrow> (string \<Rightarrow> 8 word list) \<Rightarrow> (nat \<Rightarrow> string) \<Rightarrow> Client option \<Rightarrow> Config \<Rightarrow> Consumer" where
  "worker_consumer pg digest new_uuid client cfg =
     WorkerConsumer pg (\<lambda>_ t. Inr (SignTransfer digest t)) (\<lambda>_ _ _. None) client (cfg_RabbitMQ cfg) new_uuid
       (Some (NewRedisProcessingLocker True '''')) (wk_TransferMaxRetries (cfg_Worker cfg))
       (wk_TransferRetryDelay (cfg_Worker cfg)) (wk_TransferProcessLockTTL (cfg_Worker cfg))"

text \<open>The \<open>k\<close>-th post of the webhook service meets the internet \<open>net k\<close>.\<close>

definition worker_webhooks ::
  "pg \<Rightarrow> (raw_json \<Rightarrow> string) \<Rightarrow> (string \<Rightarrow> string \<Rightarrow> string) \<Rightarrow> (go_time \<Rightarrow> string) \<Rightarrow> go_time \<Rightarrow> (nat \<Rightarrow> internet) \<Rightarrow> Config \<Rightarrow>
   world WebhookService" where
  "worker_webhooks pg render hmac rfc3339 now net cfg =
     WorkerWebhooks pg (\<lambda>k d. fst (Dispatch render (worker_dispatcher hmac rfc3339 now cfg) (net k) d fresh_exchange))
       (wh_MaxAttempts (cfg_Webhook cfg)) (wh_InitialBackoff (cfg_Webhook cfg)) (wh_BatchSize (cfg_Webhook cfg))
       (webhookLeaseDuration (cfg_Webhook cfg))"

definition worker_subsystems :: "string list" where
  "worker_subsystems = [''transfer_outbox_dispatcher'', ''transfer_consumer'', ''webhook_worker'']"

definition worker_tracker :: "Config \<Rightarrow> go_time \<Rightarrow> workerStatusTracker" where
  "worker_tracker cfg now =
     foldl (\<lambda>t name. RegisterSubsystem name now t)
       (newWorkerStatusTracker (app_Name (cfg_App cfg)) (app_Version (cfg_App cfg)) (app_Env (cfg_App cfg)) now)
       worker_subsystems"

text \<open>The address the health server listens on, and its answers; no server without a port.\<close>

definition startWorkerHealthServer ::
  "formats \<Rightarrow> WorkerConfig \<Rightarrow> (string \<times> (go_time \<Rightarrow> workerStatusTracker \<Rightarrow> string \<Rightarrow> string \<Rightarrow> int \<times> workerHealthReport option)) option" where
  "startWorkerHealthServer F cfg =
     (if wk_HealthPort cfg \<le> 0 then None else Some (HealthAddress cfg, workerHealthHandler F))"

subsection \<open>Facts\<close>

lemma mock_signature_usable:
  "st_RawTransaction (SignTransfer digest t) \<noteq> ''''" "st_TxHash (SignTransfer digest t) \<noteq> ''''"
  by (simp_all add: SignTransfer_def raw_transaction_def Let_def)

lemma length_EncodeToString [simp]: "length (EncodeToString bytes) = 2 * length bytes"
  by (induction bytes) (simp_all add: EncodeToString_def)

lemma mock_hash_length: "length (digest (raw_transaction t)) = 32 \<Longrightarrow> length (st_TxHash (SignTransfer digest t)) = 66"
  by (simp add: SignTransfer_def Let_def)

text \<open>The nonce is below a million, so the column holds it and \<open>int64\<close> does not change its sign.\<close>

lemma mock_nonce_bound:
  assumes "st_Nonce (SignTransfer digest t) = Some n"
  shows "0 \<le> sint n \<and> sint n < 1000000"
proof -
  define k where "k = Uint64 (take 8 (digest (raw_transaction t))) mod 1000000"
  have k: "k < 1000000" by (simp add: k_def)
  have n: "n = of_nat k" using assms by (simp add: SignTransfer_def Let_def k_def)
  have "sint (of_nat k :: 64 word) = int k"
    using k by (transfer fixing: k) (simp add: signed_take_bit_int_eq_self)
  then show ?thesis using k n by simp
qed

text \<open>The mocks work for every transfer whose hash is not taken.\<close>

lemma mocks_work:
  assumes "transfer_inv (w_db w)" and "r \<in> set (transfer_requests (w_db w))" and "tr_ID r = tid"
    and "\<forall>a \<in> set (transaction_attempts (w_db w)). ta_TxHash a \<noteq> st_TxHash (SignTransfer digest r)"
  shows "works (\<lambda>_ t. Inr (SignTransfer digest t)) (\<lambda>_ _ _. None) (SignTransfer digest r) tid w"
proof -
  have "distinct (map tr_ID (transfer_requests (w_db w)))" using assms(1) by (simp add: transfer_inv_def keys_inv_def)
  then have only: "x = r" if "x \<in> set (transfer_requests (w_db w))" "tr_ID x = tid" for x
    using distinct_map_inj[of tr_ID, OF _ that(1) assms(2)] that(2) assms(3) by simp
  have "SignTransfer digest t = SignTransfer digest r" if asked: "request_of t \<in> requests tid (w_db w)" for t
  proof -
    obtain x where x: "x \<in> set (transfer_requests (w_db w))" "request_of t = request_of x" "fst (request_of x) = tid"
      using asked unfolding requests_def by auto
    then have "tr_ID x = tid" by (simp add: request_of_def)
    with x(1) have "x = r" by (rule only)
    with x(2) have "request_of t = request_of r" by simp
    then show ?thesis by (simp add: request_of_def SignTransfer_def raw_transaction_def)
  qed
  then show ?thesis using assms(4) by (simp add: works_def mock_signature_usable)
qed

text \<open>The worker is healthy when its three subsystems are all running.\<close>

definition tracks_worker :: "workerStatusTracker \<Rightarrow> bool" where
  "tracks_worker t \<longleftrightarrow> map fst (tk_subsystems t) = worker_subsystems"

lemma put_entry_fst: "name \<in> fst ` set xs \<Longrightarrow> map fst (put_entry name s xs) = map fst xs"
  by (induction name s xs rule: put_entry.induct) auto

lemma tracks_worker_put [simp]:
  assumes "name \<in> set worker_subsystems"
  shows "tracks_worker t \<Longrightarrow> tracks_worker (put_subsystem name s t)"
proof -
  assume t: "tracks_worker t"
  then have "name \<in> fst ` set (tk_subsystems t)" using assms by (metis tracks_worker_def set_map)
  with t show ?thesis by (simp add: tracks_worker_def put_subsystem_def put_entry_fst)
qed

lemma tracks_worker_start: "tracks_worker (worker_tracker cfg now)"
  by (simp add: tracks_worker_def worker_tracker_def worker_subsystems_def newWorkerStatusTracker_def RegisterSubsystem_def
      put_subsystem_def)

lemma tracks_worker_marks:
  assumes "tracks_worker t" and "name \<in> set worker_subsystems"
  shows "tracks_worker (MarkRunning name now t)" "tracks_worker (MarkRestarting name d n err now t)"
    "tracks_worker (MarkStopped name d now t)" "tracks_worker (MarkFatal name d n err now t)" "tracks_worker (MarkHealthy name d now t)"
  using assms by (simp_all add: marks MarkHealthy_def)

lemma worker_healthy_iff:
  assumes "tracks_worker t"
  shows "fst (workerHealthHandler F now t ''/healthz'' ''GET'') = 200 \<longleftrightarrow>
    list_all (\<lambda>name. st_Status (subsystem_state name t) = workerSubsystemStatusRunning) worker_subsystems"
proof -
  have names: "map fst (tk_subsystems t) = worker_subsystems" using assms by (simp add: tracks_worker_def)
  then have "distinct (map fst (tk_subsystems t))" by (simp add: worker_subsystems_def)
  then have state: "subsystem_state name t = s" if "(name, s) \<in> set (tk_subsystems t)" for name s
    using that by (simp add: subsystem_state_def map_of_is_SomeI)
  have "list_all (\<lambda>name. st_Status (subsystem_state name t) = workerSubsystemStatusRunning) (map fst (tk_subsystems t)) \<longleftrightarrow>
      (\<forall>s \<in> snd ` set (tk_subsystems t). st_Status s = workerSubsystemStatusRunning)"
    using state by (force simp: list_all_iff)
  then show ?thesis unfolding names Report_ok_iff[symmetric, of _ F now] by (simp add: workerHealthHandler_def Let_def)
qed

lemma worker_starts_degraded: "fst (workerHealthHandler F now (worker_tracker cfg at) ''/healthz'' ''GET'') = 503"
proof -
  have "st_Status (subsystem_state ''webhook_worker'' (worker_tracker cfg at)) = workerSubsystemStatusStarting"
    by (simp add: worker_tracker_def worker_subsystems_def RegisterSubsystem_def)
  then have "fst (workerHealthHandler F now (worker_tracker cfg at) ''/healthz'' ''GET'') \<noteq> 200"
    unfolding worker_healthy_iff[OF tracks_worker_start] by (simp add: worker_subsystems_def)
  then show ?thesis by (simp add: workerHealthHandler_def Let_def split: if_splits)
qed

subsection \<open>A server that refuses the claim of deliveries\<close>

lemma RunCycle_ambiguous:
  assumes "\<not> accepts_ambiguous pg"
  shows "\<exists>e w'. RunCycle (WorkerWebhooks pg answer m b n l) w = (Some e, w') \<and> w_posted w' = w_posted w"
proof -
  let ?S = "WorkerWebhooks pg answer m b n l"
  obtain rs w1 where s: "ScheduleTransferStatusDeliveries pg (ws_maxAttempts ?S) w = (rs, w1)" by force
  have w1: "w_posted w1 = w_posted w" using ScheduleTransferStatusDeliveries_outside[OF s] by (simp add: same_outside_def)
  obtain rc w2 where c: "ClaimDueDeliveries pg (ws_batchSize ?S) (ws_leaseDuration ?S) w1 = (rc, w2)" by force
  then obtain e where "rc = Inl e" "w_posted w2 = w_posted w"
    using assms w1 same_outside_enter[of w1]
    by (auto simp: ClaimDueDeliveries_def sql_claim_deliveries_def autocommit_def driver_def Let_def same_outside_def
        split: prod.splits option.splits)
  then show ?thesis using s c w1 by (cases rs) (auto simp: RunCycle_def PostgresWebhooks_def)
qed

lemma webhook_worker_keeps_failing:
  assumes "\<not> accepts_ambiguous pg"
  shows "keeps_failing (webhook_worker_run (WorkerWebhooks pg answer m b n l))"
  unfolding keeps_failing_def
proof (intro allI)
  fix evs w
  obtain e w' where "RunCycle (WorkerWebhooks pg answer m b n l) w = (Some e, w')"
    using RunCycle_ambiguous[OF assms] by blast
  then show "\<exists>err w1. webhook_worker_run (WorkerWebhooks pg answer m b n l) evs w = (Some err, w1) \<and>
      (\<forall>x. err = Some x \<longrightarrow> \<not> errors_is x Canceled)"
    by (auto simp: webhook_worker_run_def Worker_Run_def subsystem_error_def)
qed

end
