(* ===== verification/Spec2Isabelle.thy ===== *)
theory Spec2Isabelle
  imports Progress Samples Http WorkerProcess
begin

text \<open>
  Aegis takes transfer requests, signs and broadcasts them, tells the caller about status
  changes and compares its records with the chain. This development models the whole of it, from the
  HTTP request to the process that stops, and proves what makes it correct.

  \<^bold>\<open>Parts.\<close> The API routes a request to its handler (\<^verbatim>\<open>transport/http/\<close>), the services validate and
  normalise it (\<^verbatim>\<open>transfers/service.go\<close>, \<^verbatim>\<open>wallets/service.go\<close>, \<^verbatim>\<open>reconciliation/service.go\<close>). A transfer
  request becomes a row with its first history entry and an outbox event, in one
  transaction (\<^verbatim>\<open>transfers/postgres_repository.go\<close>). The outbox dispatcher publishes the event as
  a job on RabbitMQ (\<^verbatim>\<open>outbox_dispatcher.go\<close>, \<^verbatim>\<open>publisher.go\<close>, \<^verbatim>\<open>rabbitmq.go\<close>). The consumer takes the
  transfer's lock in Redis (\<^verbatim>\<open>lock.go\<close>), runs the processor under a heartbeat and settles the
  delivery (\<^verbatim>\<open>consumer.go\<close>). The processor advances the transfer by conditional updates and keeps
  each signed transaction as an attempt row before it is broadcast (\<^verbatim>\<open>processor.go\<close>). The webhook
  service turns status changes into deliveries, claims them under leases, posts them to targets its
  policy permits and settles them by the target's answer (\<^verbatim>\<open>webhooks/\<close>). The worker supervises the
  last three as subsystems (\<^verbatim>\<open>app/worker.go\<close>, \<^verbatim>\<open>app/worker_health.go\<close>); \<^verbatim>\<open>bootstrap/\<close>, \<^verbatim>\<open>platform/\<close> and
  \<^verbatim>\<open>config/\<close> open and close the connections of both processes.

  \<^bold>\<open>Theories.\<close> Shared: \<^verbatim>\<open>Prelude\<close> (times, durations as 64-bit words, tables as lists of rows),
  \<^verbatim>\<open>GoErrors\<close> (error values, \<^verbatim>\<open>errors.go\<close>), \<^verbatim>\<open>GoText\<close>, \<^verbatim>\<open>GoUrl\<close>, \<^verbatim>\<open>IPAddr\<close> (strings, UTF-8, URLs and
  addresses as the standard library treats them), \<^verbatim>\<open>Json\<close> (the JSON the code reads and writes), \<^verbatim>\<open>Schema\<close>
  (structs, tables and constraints of the migrations), \<^verbatim>\<open>Driver\<close> (round trips with interference,
  failures and cancellation). Transfers: \<^verbatim>\<open>TransferRepo\<close> (SQL and methods of the repository),
  \<^verbatim>\<open>Processor\<close>, \<^verbatim>\<open>TransferSteps\<close> and \<^verbatim>\<open>TransferInv\<close> (committed transactions as a step relation, its
  invariant), \<^verbatim>\<open>SystemSteps\<close> (with the steps of all other sessions), \<^verbatim>\<open>RepoContract\<close> (the contract
  between processor and repository as locales, the processor proved once over it),
  \<^verbatim>\<open>PostgresContract\<close> (PostgreSQL keeps it), \<^verbatim>\<open>RepoBehaviour\<close> and \<^verbatim>\<open>Progress\<close> (single calls; the happy
  path), \<^verbatim>\<open>TransferService\<close>. Messages: \<^verbatim>\<open>Broker\<close>, \<^verbatim>\<open>Lock\<close>, \<^verbatim>\<open>Consumer\<close>, \<^verbatim>\<open>Outbox\<close>. Webhooks: \<^verbatim>\<open>Webhooks\<close>,
  \<^verbatim>\<open>WebhookSteps\<close>, \<^verbatim>\<open>WebhookContract\<close> (rows, leases, cycles), \<^verbatim>\<open>TargetPolicy\<close>, \<^verbatim>\<open>Dispatcher\<close> (where a
  request may go and what comes back). \<^verbatim>\<open>Wallets\<close>, \<^verbatim>\<open>Reconciliation\<close>. Processes: \<^verbatim>\<open>Supervisor\<close> (restarts
  and health of the worker), \<^verbatim>\<open>Platform\<close> (configuration, connections, container, health of the API),
  \<^verbatim>\<open>WorkerProcess\<close> (what the worker wires together), \<^verbatim>\<open>Http\<close> (routes, authentication, handlers).
  \<^verbatim>\<open>Samples\<close> holds concrete data for witnesses.

  \<^bold>\<open>Correspondence.\<close> A Go struct is a record, an interface a record of functions over the caller's
  world, an error a value of \<open>go_error\<close>, a method a function from the world to a sum and a new
  world. The world holds the database, what the environment will do at the next round trips, and
  logs of every effect (signatures, broadcasts, messages, settlements, posted requests). Names of the
  source are kept; where two packages share one, the package or the receiver is prefixed
  (\<open>wallets_handleServiceError\<close>, \<open>TransferHandler_Create\<close>).

  \<^bold>\<open>What is shown.\<close> Transfers (C1 to C9): the invariant of all reachable states, the safety and progress
  of processing, atomic and idempotent creation, the fence of conditional updates. Messages (C10 to
  C18): the outbox, publication, the lock, the settling of deliveries. Webhooks (C19 to C28): cycles,
  leases, backoff, the target policy against any resolver and server, signatures, stored bodies.
  The API (C29 to C34): requests are refused or well formed, normalisation is idempotent, the
  callback check agrees with the dispatcher's, authentication. Wallets and reconciliation (C35 to
  C37). The worker process (C38 to C40): restarts, the failure budget, the release of connections.
  Some describe what the code does against its intention: C18, C20, C22, C32.

  \<^bold>\<open>Fuel.\<close> The submission functions of the processor call each other again after a conflict, and
  other workers can cause any number of conflicts. The model gives them fuel; a conflict on a row
  just read consumes one entry of the schedule of interference, so the length of the schedule and
  five passes of the loop are enough (C4, C17). A redirect chain is bounded by the code (C24).

  \<^bold>\<open>Parameters.\<close> SHA-256 and HMAC, \<open>uuid.Parse\<close>, \<open>common.IsHexAddress\<close> and the checksummed address,
  \<open>url.Parse\<close>, the printing of times and floats, the resolver and the servers of the internet, how
  driver calls end, what gin answers to a path without a route.

  \<^bold>\<open>Not modelled.\<close> Log lines; the reading of environment variables; the loops of \<open>net/http\<close> that accept
  connections; the wire formats of PostgreSQL, Redis and AMQP; the two main functions. The goroutines of
  the two processes are arguments of \<open>RunWorker\<close> and \<open>RunAPI\<close>, so that what is shown of these holds for
  every interleaving. \<open>jsonb\<close> keeps the members of an object in an order of its own, the model keeps
  them as written; nothing that reads them depends on the order.
\<close>

section \<open>Transfers\<close>

text \<open>
  C1 (invariant). In every state the system can reach from an empty database, by any
  interleaving of the transactions of the transfer pipeline with the work of the other
  sessions, the status history of a transfer is a chain (it starts with no status, each entry
  starts where the one before ended) that ends in the transfer's current status.
\<close>

theorem history_replays_to_status:
  assumes "(sys_step pg)\<^sup>*\<^sup>* empty_db d" and "t \<in> set (transfer_requests d)"
  shows "replay None (history_of (tr_ID t) d) = Some (Some (tr_Status t))"
  using sys_steps_inv[OF assms(1) transfer_inv_empty] assms(2)
  by (simp add: transfer_inv_def history_inv_def)

theorem history_replays_to_status_witness:
  "(sys_step sample_pg)\<^sup>*\<^sup>* empty_db sample_db \<and>
   replay None (history_of (tr_ID sample_transfer) sample_db) = Some (Some (tr_Status sample_transfer))"
  using history_replays_to_status[OF sample_reachable sample_in] sample_reachable by simp



text \<open>
  C3 (invariant). In every reachable state an idempotency key belongs to one transfer, at most
  one attempt of a transfer is active (\<open>SIGNED\<close> or \<open>BROADCASTING\<close>), no two attempts share a
  transaction hash, and every attempt stores a hash and a payload from which the signed
  transaction can be read back.
\<close>

theorem attempts_stay_unique:
  assumes "(sys_step pg)\<^sup>*\<^sup>* empty_db d"
  shows "(\<forall>s \<in> set (transfer_requests d). \<forall>t \<in> set (transfer_requests d).
            tr_IdempotencyKey s = tr_IdempotencyKey t \<longrightarrow> s = t) \<and>
         (\<forall>a \<in> set (transaction_attempts d). \<forall>b \<in> set (transaction_attempts d).
            (ta_TxHash a = ta_TxHash b \<longrightarrow> a = b) \<and>
            (ta_TransferID a = ta_TransferID b \<and> attempt_active a \<and> attempt_active b \<longrightarrow> a = b)) \<and>
         (\<forall>a \<in> set (transaction_attempts d). ta_TxHash a \<noteq> '''' \<and>
            (\<exists>raw. raw \<noteq> '''' \<and> attempt_Payload (ta_RawPayload a) =
               Inr \<lparr>pay_Encoding = ''raw_transaction'', pay_RawTransaction = raw\<rparr>))"
proof -
  have inv: "keys_inv d" "attempts_inv d"
    using sys_steps_inv[OF assms transfer_inv_empty] by (simp_all add: transfer_inv_def)
  have hash: "a = b" if "a \<in> set (transaction_attempts d)" "b \<in> set (transaction_attempts d)" "ta_TxHash a = ta_TxHash b" for a b
    using inv that by (auto simp: keys_inv_def attempts_inv_def attempt_has_hash_def intro: unique_on_inj)
  have active: "a = b" if "a \<in> set (transaction_attempts d)" "b \<in> set (transaction_attempts d)"
    "ta_TransferID a = ta_TransferID b" "attempt_active a" "attempt_active b" for a b
    using inv that by (auto simp: keys_inv_def intro: unique_on_inj)
  have pay: "ta_TxHash a \<noteq> '''' \<and> (\<exists>raw. raw \<noteq> '''' \<and> attempt_Payload (ta_RawPayload a) =
      Inr \<lparr>pay_Encoding = ''raw_transaction'', pay_RawTransaction = raw\<rparr>)" if "a \<in> set (transaction_attempts d)" for a
    using inv that by (auto simp: attempts_inv_def attempt_Payload_new)
  show ?thesis
    using hash active pay inv by (auto simp: keys_inv_def dest: distinct_map_inj)
qed

theorem attempts_stay_unique_witness:
  "(sys_step sample_pg)\<^sup>*\<^sup>* empty_db sample_db \<and>
   {s \<in> set (transfer_requests sample_db). tr_IdempotencyKey s = tr_IdempotencyKey sample_transfer} = {sample_transfer}"
  using attempts_stay_unique[OF sample_reachable] sample_reachable sample_in by blast



text \<open>
  C5 (liveness). While nothing else happens, signer and broadcaster work and the signed hash is
  new (the worker's mocks always work), processing a \<open>CREATED\<close> transfer without attempts takes it all the way: the result and the
  stored row are \<open>PENDING_ON_CHAIN\<close> with the signed hash, the one attempt on record is
  \<open>BROADCASTED\<close>, and exactly one signature and one broadcast (of the signed payload) were made.
\<close>

theorem processing_reaches_the_chain:
  assumes "rests pg tid StatusCreated hash [] w" and "works sign bcast s tid w"
  shows "\<exists>t' w' a. ProcessTransfer (n + 5) (NewProcessor pg sign bcast) tid w = Some (Inr t', w') \<and>
           tr_ID t' = tid \<and> tr_Status t' = StatusPendingOnChain \<and> tr_TxHash t' = st_TxHash s \<and>
           (\<exists>r \<in> set (transfer_requests (w_db w')). tr_ID r = tid \<and> tr_Status r = StatusPendingOnChain \<and>
              tr_TxHash r = st_TxHash s) \<and>
           filter (\<lambda>x. ta_TransferID x = tid) (transaction_attempts (w_db w')) = [a] \<and>
           ta_Status a = AttemptStatusBroadcasted \<and>
           length (w_signed w') = length (w_signed w) + 1 \<and>
           (\<exists>t b d. w_broadcasts w' = w_broadcasts w @ [(t, b, d)] \<and> ta_TxHash b = st_TxHash s \<and>
              ta_RawPayload b = newTransactionAttemptPayload (st_RawTransaction s))"
  using process_progress[OF assms, of n] by (fastforce simp: reached_def rests_def)

theorem processing_reaches_the_chain_witness:
  "\<exists>t' w'. ProcessTransfer (0 + 5) (worker_processor sample_pg (\<lambda>_. [10, 11])) (tr_ID sample_transfer) (sample_world sample_db) =
       Some (Inr t', w') \<and>
     tr_Status t' = StatusPendingOnChain \<and> tr_TxHash t' = ''0x0a0b''"
proof -
  have works: "works (\<lambda>_ t. Inr (SignTransfer (\<lambda>_. [10, 11]) t)) (\<lambda>_ _ _. None) (SignTransfer (\<lambda>_. [10, 11]) sample_transfer)
      (tr_ID sample_transfer) (sample_world sample_db)"
    by (rule mocks_work) (use sample_rests in \<open>simp_all add: rests_def\<close>)
  have "st_TxHash (SignTransfer (\<lambda>_. [10, 11]) sample_transfer) = ''0x0a0b''"
    by (simp add: SignTransfer_def EncodeToString_def hex_digit_def char_of_def bit_simps)
  with processing_reaches_the_chain[OF sample_rests works, where n = 0] show ?thesis
    by (auto simp: worker_processor_def)
qed

text \<open>
  C6 (functional). \<open>Create\<close> is atomic. When it reports a new transfer, the database is the one
  it found with exactly the request row (in status \<open>CREATED\<close> for the service's calls), its first
  history row and its outbox event added; when it reports an existing one, it wrote nothing and
  the transfer is the row stored under the key; when it reports an error, either nothing was
  written or the whole transaction was committed and only the reply was lost.
\<close>

theorem create_is_atomic:
  assumes "Create pg p w = (r, w')"
  shows "case r of
           Inr (t, True) \<Rightarrow> (\<exists>wallet amount. uuid_in pg (cp_SourceWalletID p) = Some wallet \<and>
             numeric_78 (cp_Amount p) = Inr amount \<and> w_db w' = created_db pg p wallet amount (seen_db w) \<and>
             t = scanTransfer (request_row pg p wallet amount (seen_db w)))
         | Inr (t, False) \<Rightarrow> w_db w' = seen_db (snd (enter w)) \<and>
             sql_select_by_key (cp_IdempotencyKey p) (w_db w') = Inr t
         | Inl e \<Rightarrow> w_db w' = seen_db w \<or> w_db w' = seen_db (snd (enter w)) \<or>
             (\<exists>wallet amount. w_db w' = created_db pg p wallet amount (seen_db w))"
proof -
  obtain f w1 where e: "enter w = (f, w1)" by fastforce
  have seen: "seen_db w = w_db w1" "seen_db (snd (enter w)) = seen_db w1" by (simp_all add: seen_db_def e)
  from assms e show ?thesis
  proof (cases rule: Create_cases)
    case (rejected err)
    then show ?thesis by (simp add: seen)
  next
    case (taken rg)
    then show ?thesis
      by (auto simp: getByIdempotencyKey_def query_def seen_db_def e driver_def
          split: prod.splits sum.splits option.splits)
  next
    case (commit t d)
    from tx_createD[OF commit(1)] obtain wallet amount where
      "uuid_in pg (cp_SourceWalletID p) = Some wallet" "numeric_78 (cp_Amount p) = Inr amount"
      "t = scanTransfer (request_row pg p wallet amount (w_db w1))" "d = created_db pg p wallet amount (w_db w1)" by metis
    moreover have "w_db w' = d" by (simp add: commit(2))
    ultimately show ?thesis using commit(3) unfolding seen by (elim disjE exE) (simp, blast?)+
  qed
qed

lemma sample_Create:
  "Create sample_pg sample_create (sample_world wallet_db) =
     (Inr (scanTransfer sample_transfer, True), sample_world sample_db)"
  using sample_created
  by (auto simp: Create_def tx_create_def requested_payload_def sample_world_def Let_def quiet_def
      split: sum.splits prod.splits)

theorem create_is_atomic_witness:
  "\<exists>wallet amount. w_db (sample_world sample_db) = created_db sample_pg sample_create wallet amount wallet_db"
  using create_is_atomic[OF sample_Create] by auto





text \<open>
  C9 (functional). \<open>FailTransfer\<close> on a transfer at rest: one that is \<open>PENDING_ON_CHAIN\<close> or
  \<open>FAILED\<close> is left alone, any other one is \<open>FAILED\<close> afterwards and keeps its hash and attempts;
  the call reports no error either way.
\<close>

theorem fail_transfer_closes:
  assumes "rests pg tid st hash as w"
  shows "\<exists>d. FailTransfer (NewProcessor pg sign bcast) tid w = (None, w\<lparr>w_db := d\<rparr>) \<and>
           (if st \<in> {StatusPendingOnChain, StatusFailed} then d = w_db w
            else rests pg tid StatusFailed hash as (w\<lparr>w_db := d\<rparr>))"
proof -
  let ?P = "NewProcessor pg sign bcast"
  have q: "quiet w" and inv: "transfer_inv (w_db w)" and ids: "canonical_ids pg (w_db w)"
    using assms by (simp_all add: rests_def)
  obtain r where r: "r \<in> set (transfer_requests (w_db w))" "tr_ID r = tid" "tr_Status r = st" "tr_TxHash r = hash"
    using assms by (auto simp: rests_def)
  have "find (\<lambda>x. tr_ID x = tid) (transfer_requests (w_db w)) = Some r"
    using find_unique_key[of tr_ID _ r] r inv by (simp add: transfer_inv_def keys_inv_def)
  moreover have "uuid_in pg tid = Some tid" using ids r by (auto simp: canonical_ids_def)
  ultimately have get: "GetByID pg tid w = (Inr (scanTransfer r), w)"
    using q by (simp add: GetByID_def sql_select_transfer_def)
  have st: "st \<in> set transfer_statuses"
    using inv r by (auto simp: transfer_inv_def hash_inv_def transfer_statuses_def)
  show ?thesis
  proof (cases "st \<in> {StatusPendingOnChain, StatusFailed}")
    case True
    then show ?thesis using get r by (intro exI[of _ "w_db w"]) (auto simp: FailTransfer_def NewProcessor_def)
  next
    case False
    have law: "lawful_transition (uuid_in pg)
        \<lparr>tp_ID = tid, tp_FromStatus = st, tp_ToStatus = StatusFailed, tp_TxHash = None\<rparr> (w_db w)"
      using False by (simp add: lawful_transition_def)
    obtain t' d where "transition ?P (scanTransfer r) StatusFailed None w = (Inr t', w\<lparr>w_db := d\<rparr>)"
      "rests pg tid StatusFailed hash as (w\<lparr>w_db := d\<rparr>)"
      using transition_progress[OF assms _ _ law st, of "scanTransfer r" hash sign bcast] r(2,3)
      by (auto simp: transfer_statuses_def)
    then show ?thesis using get r(3) False
      by (intro exI[of _ d]) (auto simp: FailTransfer_def NewProcessor_def)
  qed
qed

theorem fail_transfer_closes_witness:
  "\<exists>d. FailTransfer (NewProcessor sample_pg (\<lambda>_ _. Inr sample_signed) (\<lambda>_ _ _. None)) (tr_ID sample_transfer)
     (sample_world sample_db) = (None, (sample_world sample_db)\<lparr>w_db := d\<rparr>) \<and>
     rests sample_pg (tr_ID sample_transfer) StatusFailed '''' [] ((sample_world sample_db)\<lparr>w_db := d\<rparr>)"
  using fail_transfer_closes[OF sample_rests] by simp

section \<open>Outbox and broker\<close>

text \<open>
  C10 (functional). One pass of the outbox dispatcher, while nothing else happens: it reports no
  error, publishes for each claimed event it could send exactly the job of that event's payload,
  in claim order, and leaves each claimed event settled, that is \<open>DISPATCHED\<close> when it was sent
  and due for \<open>RETRY\<close> when it was not, with its attempt counted and its claim released. Rows it
  did not claim stay as they were.
\<close>

theorem dispatch_settles_claimed_events:
  assumes ready: "outbox_ready pg w" and counts: "\<forall>x \<in> set (transfer_outbox (w_db w)). fits_int4 (oe_AttemptCount x + 1)"
    and D: "D = WorkerDispatcher pg c cfg b p r t"
  shows "\<exists>evs w1 w' sent. DispatchPending D w = (None, w') \<and>
           ClaimPendingOutbox (od_batchSize D) (time_add (w_clock w) (- od_processingTimeout D)) w = (Inr evs, w1) \<and>
           w_published w' = w_published w @
             map (\<lambda>x. job_publishing cfg (event_job x)) (filter (\<lambda>x. sent (oe_ID x)) evs) \<and>
           (\<forall>x \<in> set evs. \<exists>y \<in> set (transfer_outbox (w_db w')). outbox_identity y = outbox_identity x \<and>
              oe_LockedAt y = None \<and> oe_AttemptCount y = oe_AttemptCount x + 1 \<and>
              (if sent (oe_ID x) then oe_Status y = OutboxStatusDispatched \<and> oe_DispatchedAt y \<noteq> None
               else oe_Status y = OutboxStatusRetry)) \<and>
           (\<forall>y \<in> set (transfer_outbox (w_db w)). oe_ID y \<notin> oe_ID ` set evs \<longrightarrow> y \<in> set (transfer_outbox (w_db w')))"
proof -
  obtain err w' where run: "DispatchPending D w = (err, w')" by fastforce
  have "\<forall>w1 evs. ClaimPendingOutbox (od_batchSize D) (time_add (w_clock w) (- od_processingTimeout D)) w = (Inr evs, w1) \<longrightarrow>
      (\<forall>x \<in> set evs. fits_int4 (oe_AttemptCount x + 1))"
  proof (intro allI impI ballI)
    fix w1 evs x
    assume "ClaimPendingOutbox (od_batchSize D) (time_add (w_clock w) (- od_processingTimeout D)) w = (Inr evs, w1)"
      and "x \<in> set evs"
    then obtain y where "y \<in> set (transfer_outbox (w_db w))" "x = claimed_event (w_db w) y"
      using claimed_from_rows ready by (metis outbox_ready_def)
    then show "fits_int4 (oe_AttemptCount x + 1)" using counts by (simp add: claimed_event_def)
  qed
  note n = this
  have sel: "or_ClaimPendingOutbox (od_repository D) = ClaimPendingOutbox" "od_now D = w_clock"
    by (simp_all add: D PostgresOutbox_def)
  from pgo.DispatchPending_settles[OF ready run[unfolded D], folded D, unfolded sel, OF n] obtain evs w1 sent where
    s: "ClaimPendingOutbox (od_batchSize D) (time_add (w_clock w) (- od_processingTimeout D)) w = (Inr evs, w1)" "err = None"
      "w_published w' = w_published w @ map (\<lambda>x. job_publishing cfg (event_job x)) (filter (\<lambda>x. sent (oe_ID x)) evs)"
      "\<forall>x \<in> set evs. \<exists>y \<in> set (transfer_outbox (w_db w')). settled_event (sent (oe_ID x)) x y"
      "\<forall>y \<in> set (transfer_outbox (w_db w)). oe_ID y \<notin> oe_ID ` set evs \<longrightarrow> y \<in> set (transfer_outbox (w_db w'))"
    by blast
  show ?thesis
    by (intro exI[of _ evs] exI[of _ w1] exI[of _ w'] exI[of _ sent] conjI)
      (use run s in \<open>simp_all add: settled_event_def\<close>)
qed

theorem dispatch_settles_claimed_events_witness:
  "\<exists>w'. DispatchPending (WorkerDispatcher sample_pg (Some sample_client) sample_rabbitmq 10 0 0 0) (sample_world sample_db) =
     (None, w')"
proof -
  have "outbox_ready sample_pg (sample_world sample_db)" by (simp add: outbox_ready_def sample_outbox_keys)
  moreover have "\<forall>x \<in> set (transfer_outbox (w_db (sample_world sample_db))). fits_int4 (oe_AttemptCount x + 1)"
    by (simp add: fits_int4_def sample_outbox)
  ultimately show ?thesis
    using dispatch_settles_claimed_events[OF _ _ refl] by (metis (no_types, lifting))
qed

text \<open>
  C11 (safety). A dispatched outbox event is final: whatever claims and marks follow, the row
  stays exactly as it is, so it is never published again by a pass that claims it later.
\<close>

theorem dispatched_events_are_final:
  assumes "(outbox_step pg)\<^sup>*\<^sup>* d d'" and "outbox_keys pg d" and "x \<in> set (transfer_outbox d)"
    and "oe_Status x = OutboxStatusDispatched"
  shows "x \<in> set (transfer_outbox d') \<and> x \<notin> set (outbox_candidates n stale d')"
  using outbox_steps_dispatched[OF assms(1,2)] assms(3,4)
  by (auto simp: outbox_candidates_def outbox_due_def dest: in_set_takeD)

theorem dispatched_events_are_final_witness:
  "outbox_step sample_pg sample_sent_db (snd (sql_claim_outbox 5 0 sample_sent_db)) \<and>
   sample_sent \<in> set (transfer_outbox (snd (sql_claim_outbox 5 0 sample_sent_db))) \<and>
   sample_sent \<notin> set (outbox_candidates 5 0 (snd (sql_claim_outbox 5 0 sample_sent_db)))"
proof -
  have step: "outbox_step sample_pg sample_sent_db (snd (sql_claim_outbox 5 0 sample_sent_db))"
    by (rule outbox_step.claim) (rule prod.collapse[symmetric])
  have "outbox_keys sample_pg sample_sent_db" "sample_sent \<in> set (transfer_outbox sample_sent_db)"
    "oe_Status sample_sent = OutboxStatusDispatched"
    by (simp_all add: outbox_keys_def sample_sent_db_def sample_sent_def dispatched_event_def sample_pg_def)
  with step show ?thesis
    using dispatched_events_are_final[OF r_into_rtranclp[of "outbox_step sample_pg", OF step]] by blast
qed

text \<open>
  C12 (bounds). The dispatcher's backoff: from the second attempt on it is the retry delay
  doubled per further attempt, capped at a minute, and never wraps; on the first attempt it is
  the configured delay itself. (Delays of \<open>2 ^ 62\<close> nanoseconds, 146 years, and more are left out.)
\<close>

theorem outbox_backoff_is_capped_doubling:
  assumes "D = NewOutboxDispatcher repository publisher b p delay t now" and "sint delay < 2 ^ 62"
  shows "0 < sint (retryBackoff D n) \<and>
         sint (retryBackoff D n) =
           (let base = (if sint delay \<le> 0 then 2000000000 else sint delay) in
            if n \<le> 1 then base else min 60000000000 (base * 2 ^ nat (n - 1)))"
proof -
  have two: "sint (2 * Second) = 2000000000" using sint_mult_fits[of 2 Second] by simp
  let ?b = "od_retryDelay D"
  have b: "0 < sint ?b" "sint ?b < 2 ^ 62" "sint ?b = (if sint delay \<le> 0 then 2000000000 else sint delay)"
    using assms two by (auto simp: NewOutboxDispatcher_def)
  have "sint (retryBackoff D n) = (if n \<le> 1 then sint ?b else min 60000000000 (sint ?b * 2 ^ nat (n - 1)))"
    using retry_loop_exact[OF b(1,2), of "nat (n - 1)"] by (simp add: retryBackoff_def)
  then show ?thesis using b by (auto simp: Let_def)
qed

theorem outbox_backoff_is_capped_doubling_witness:
  "sint (retryBackoff (NewOutboxDispatcher (PostgresOutbox sample_pg) (\<lambda>_ w. (Inr (), w)) 10 0 (3 * Second) 0 w_clock) 5)
     = 48000000000"
proof -
  have d: "sint (3 * Second) = 3000000000" using sint_mult_fits[of 3 Second] by simp
  show ?thesis
    using outbox_backoff_is_capped_doubling[OF refl, of "3 * Second" "PostgresOutbox sample_pg" "\<lambda>_ w. (Inr (), w)" 10 0 0 w_clock 5]
    by (simp add: d)
qed



text \<open>
  C14 (roundtrip). In every reachable state each transfer has exactly one outbox event, and what
  the consumer decodes from that event's payload is the job for this transfer with attempt 0: no
  transfer is requested without a job, and none has two.
\<close>

theorem every_transfer_has_its_job:
  assumes "(sys_step pg)\<^sup>*\<^sup>* empty_db d" and "t \<in> set (transfer_requests d)"
  shows "\<exists>x. outbox_of (tr_ID t) d = [x] \<and> oe_EventType x = OutboxEventTypeTransferRequested \<and>
           unmarshal_job (oe_PayloadJSON x) = Inr \<lparr>job_TransferID = tr_ID t, job_Attempt = 0\<rparr>"
proof -
  have "outbox_inv d" using sys_steps_inv[OF assms(1) transfer_inv_empty] by (simp add: transfer_inv_def)
  then obtain x where "outbox_of (tr_ID t) d = [x]" "oe_EventType x = OutboxEventTypeTransferRequested"
    "oe_PayloadJSON x = requested_payload (tr_ID t)"
    using assms(2) unfolding outbox_inv_def by blast
  then show ?thesis by (simp add: requested_payload_def unmarshal_marshal_job fits_int64_def)
qed

theorem every_transfer_has_its_job_witness:
  "\<exists>x. outbox_of (tr_ID sample_transfer) sample_db = [x] \<and>
     unmarshal_job (oe_PayloadJSON x) = Inr \<lparr>job_TransferID = tr_ID sample_transfer, job_Attempt = 0\<rparr>"
  using every_transfer_has_its_job[OF sample_reachable sample_in] by blast

section \<open>Processing lock and consumer\<close>

text \<open>
  C15 (safety). The processing lock excludes: while a worker's token is in Redis, an attempt to
  acquire the lock of the same transfer is refused or fails, and the holder's token stays.
\<close>

theorem lock_is_exclusive:
  assumes "rl_client lk" and "redis_get (rl_prefix lk @ tid) w = Some tok"
    and "Acquire new_uuid (Some lk) tid ttl w = (r, w')"
  shows "(r = Inr (None, False) \<or> (\<exists>e. r = Inl e)) \<and> redis_get (rl_prefix lk @ tid) w' = Some tok"
proof -
  let ?w0 = "w\<lparr>w_uuids := Suc (w_uuids w)\<rparr>"
  have held: "redis_get (rl_prefix lk @ tid) ?w0 = Some tok"
    using assms(2) redis_get_cong[of ?w0 w] by simp
  obtain q w1 where c: "redis_setnx (rl_prefix lk @ tid) (new_uuid (w_uuids w)) (lock_ttl ttl) ?w0 = (q, w1)" by fastforce
  then show ?thesis using setnx_held[OF held c] assms(1,3) by (auto simp: Acquire_def Let_def)
qed

theorem lock_is_exclusive_witness:
  "fst (Acquire (\<lambda>n. ''t2'') (Some (NewRedisProcessingLocker True '''')) ''tr-1'' 0
     ((sample_world sample_db)\<lparr>w_redis := [''aegis:transfers:processing:tr-1'' \<mapsto> (''t1'', 5000)]\<rparr>)) = Inr (None, False)"
proof -
  let ?w = "(sample_world sample_db)\<lparr>w_redis := [''aegis:transfers:processing:tr-1'' \<mapsto> (''t1'', 5000)]\<rparr>"
  let ?lk = "NewRedisProcessingLocker True ''''"
  have lk: "rl_client ?lk" "rl_prefix ?lk @ ''tr-1'' = ''aegis:transfers:processing:tr-1''"
    by (simp_all add: NewRedisProcessingLocker_def defaultProcessingLockPrefix_def)
  have held: "redis_get (rl_prefix ?lk @ ''tr-1'') ?w = Some ''t1''"
    unfolding lk(2) by (simp add: redis_get_def)
  obtain r w' where run: "Acquire (\<lambda>n. ''t2'') (Some ?lk) ''tr-1'' 0 ?w = (r, w')" by fastforce
  have "\<not> (\<exists>e. r = Inl e)"
    using run by (auto simp: Acquire_def redis_setnx_def redis_command_def Let_def lk(1) split: prod.splits if_splits)
  then show ?thesis using lock_is_exclusive[OF lk(1) held run] run by simp
qed

text \<open>
  C16 (safety). A worker whose lock was taken over (its token is no longer the key's) cannot
  hurt the new holder: no sequence of refreshes and releases with the old token changes or
  removes the new one.
\<close>

theorem lost_lock_is_powerless:
  assumes "redis_get (pl_key l) w = Some tok" and "tok \<noteq> pl_token l"
  shows "redis_get (pl_key l) (lock_ops (RedisLocker new_uuid locker) l ops w) = Some tok"
  by (rule rl.lost_lock_powerless[OF assms])

theorem lost_lock_is_powerless_witness:
  "redis_get ''k'' (lock_ops (RedisLocker (\<lambda>_. ''t'') None) \<lparr>pl_key = ''k'', pl_token = ''old''\<rparr>
     [RefreshLock Minute, ReleaseLock] ((sample_world sample_db)\<lparr>w_redis := [''k'' \<mapsto> (''new'', 5000)]\<rparr>)) = Some ''new''"
  using lost_lock_is_powerless[of "\<lparr>pl_key = ''k'', pl_token = ''old''\<rparr>"
      "(sample_world sample_db)\<lparr>w_redis := [''k'' \<mapsto> (''new'', 5000)]\<rparr>" "''new''" "\<lambda>_. ''t''" None
      "[RefreshLock Minute, ReleaseLock]"]
  by (simp add: redis_get_def)





section \<open>Webhooks\<close>



text \<open>
  C20 (error). On a server that refuses an ambiguous column name (PostgreSQL does: the claim
  returns \<open>id\<close> unqualified although two relations of the statement have that column), every
  cycle fails without posting a request, and the worker does not survive: the webhook subsystem
  fails whenever it is started, so after five quick failures its supervisor reports the fatal error
  that ends the process.
\<close>

theorem ambiguous_claim_stops_the_worker:
  assumes "\<not> accepts_ambiguous pg" and "S = WorkerWebhooks pg answer m b n l"
    and "list_all quick_failure its" and "length its = 5"
  shows "(\<exists>e w'. RunCycle S w = (Some e, w') \<and> w_posted w' = w_posted w) \<and>
    (\<exists>st w'. superviseWorkerSubsystem ''webhook_worker'' (webhook_worker_run S) (its @ rest) (start_supervision t) w =
       (Fatal (fatal_error ''webhook_worker'' 5), st, w'))"
  using RunCycle_ambiguous[OF assms(1)] crash_loop[OF webhook_worker_keeps_failing[OF assms(1)] assms(3,4)]
  unfolding assms(2) by blast

theorem ambiguous_claim_stops_the_worker_witness:
  "\<exists>st w'. superviseWorkerSubsystem ''webhook_worker''
     (webhook_worker_run (WorkerWebhooks (sample_pg\<lparr>accepts_ambiguous := False\<rparr>) (\<lambda>_ _. Inl (Opaque '''')) 5 0 10 0))
     (replicate 5 sample_tick @ []) (start_supervision (newWorkerStatusTracker ''aegis'' '''' '''' 0)) (sample_world sample_db) =
     (Fatal (fatal_error ''webhook_worker'' 5), st, w')"
proof -
  have pg: "\<not> accepts_ambiguous (sample_pg\<lparr>accepts_ambiguous := False\<rparr>)" by simp
  have its: "list_all quick_failure (replicate 5 sample_tick)" "length (replicate 5 sample_tick) = 5"
    by (simp_all add: list_all_iff sample_tick_quick)
  from ambiguous_claim_stops_the_worker[OF pg refl its] show ?thesis by blast
qed



text \<open>
  C22 (bounds). The webhook backoff doubles without a cap, in 64-bit arithmetic: it is the
  initial backoff times a power of two while that product fits, and it is zero from the 65th
  attempt on, so a target that keeps failing is then retried at once.
\<close>

theorem webhook_backoff_doubles_until_it_wraps:
  assumes "1 < attempt"
  shows "(sint (ws_initialBackoff S) * 2 ^ nat (attempt - 1) < 2 ^ 63 \<and> 0 \<le> sint (ws_initialBackoff S) \<longrightarrow>
            sint (backoffForAttempt S attempt) = sint (ws_initialBackoff S) * 2 ^ nat (attempt - 1)) \<and>
         (64 < attempt \<longrightarrow> backoffForAttempt S attempt = 0)"
proof -
  let ?b = "ws_initialBackoff S" and ?k = "nat (attempt - 1)"
  have eq: "backoffForAttempt S attempt = push_bit ?k ?b"
    using assms by (simp add: backoffForAttempt_def push_bit_eq_mult)
  have val: "push_bit ?k ?b = (word_of_int (sint ?b * 2 ^ ?k) :: duration)"
    by (simp add: push_bit_eq_mult)
  have "sint (word_of_int (sint ?b * 2 ^ ?k) :: duration) = sint ?b * 2 ^ ?k"
    if "sint ?b * 2 ^ ?k < 2 ^ 63" "0 \<le> sint ?b"
  proof -
    have "- (2 ^ 63) \<le> sint ?b * 2 ^ ?k" using that(2) by (auto intro: order_trans[of _ 0])
    with that(1) show ?thesis
      unfolding sint_sbintrunc' by (intro signed_take_bit_int_eq_self) simp_all
  qed
  moreover have "push_bit ?k ?b = 0" if "64 < attempt"
  proof -
    have "64 \<le> ?k" using that by simp
    then have "(2 :: duration) ^ ?k = 0" by simp
    then show ?thesis unfolding push_bit_eq_mult by (metis mult_zero_right)
  qed
  ultimately show ?thesis by (simp add: eq val)
qed

theorem webhook_backoff_doubles_until_it_wraps_witness:
  "sint (backoffForAttempt (WorkerWebhooks sample_pg (\<lambda>_ _. Inl (Opaque '''')) 5 0 10 0) 4) = 16000000000 \<and>
   sint (backoffForAttempt (WorkerWebhooks sample_pg (\<lambda>_ _. Inl (Opaque '''')) 5 0 10 0) 70) = 0"
proof -
  let ?S = "WorkerWebhooks sample_pg (\<lambda>_ _. Inl (Opaque '''')) 5 0 10 0"
  have "sint (ws_initialBackoff ?S) = 2000000000"
    using sint_mult_fits[of 2 Second] by (simp add: WorkerWebhooks_def NewWebhookService_def)
  then show ?thesis
    using webhook_backoff_doubles_until_it_wraps[of 4 ?S] webhook_backoff_doubles_until_it_wraps[of 70 ?S] by simp
qed

section \<open>Dispatch of webhooks\<close>

text \<open>
  C23 (safety). Server-side request forgery is excluded: whatever the resolver, the dialed hosts
  and the servers answer, and however the answers change between one question and the next,
  one dispatch of the dispatcher the worker builds dials only addresses its policy permits
  (without private targets: addresses outside every local block), sends every request, the
  redirected ones too, over a connection to such an address, and only to hosts of the allow
  list.
\<close>

theorem dispatch_stays_within_policy:
  assumes "Dispatch render (NewHTTPDispatcher hmac rfc3339 now signer policy n) net delivery fresh_exchange = (r, x)"
  shows "(\<forall>address \<in> set (ex_dialed x). \<exists>ip port. address = JoinHostPort (IP_String ip) port \<and>
            (tp_AllowPrivateTargets policy \<or> public_ip ip)) \<and>
         (\<forall>(conn, request) \<in> set (ex_sent x). \<exists>address \<in> set (ex_dialed x). conn = Some address \<and>
            host_permitted policy (normalizeHostname (Hostname (rq_URL request))))"
proof -
  let ?d = "NewHTTPDispatcher hmac rfc3339 now signer policy n"
  have "transport_validates ?d" and "hd_targetPolicy ?d = policy"
    by (simp_all add: NewHTTPDispatcher_def transport_validates_def)
  with Dispatch_ok[OF assms] show ?thesis
    by (auto simp: exchange_ok_def permitted_address_def ip_permitted_def request_permitted_def)
qed

theorem dispatch_stays_within_policy_witness:
  "ex_dialed (snd (Dispatch (\<lambda>_. ''{}'') sample_dispatcher sample_net sample_delivery fresh_exchange)) = [''8.8.8.8:443''] \<and>
   (\<exists>ip port. ''8.8.8.8:443'' = JoinHostPort (IP_String ip) port \<and> public_ip ip)"
  using dispatch_stays_within_policy[OF sample_exchange[unfolded sample_dispatcher_def]] sample_exchange
  by (simp add: sample_policy_def)



text \<open>
  C25 (equivalence). The address test of the policy, six classes on bytes and masks, is
  membership in a list of CIDR blocks: an IPv4 address (also in its IPv6 form) in 127/8, 10/8,
  172.16/12, 192.168/16, 169.254/16, 224/4 or 0.0.0.0, another one in \<open>::1\<close>, \<open>fc00::/7\<close>,
  \<open>fe80::/10\<close>, \<open>ff00::/8\<close> or \<open>::\<close>.
\<close>

theorem private_addresses_are_local_blocks:
  "isPrivateOrLocalIP ip =
     (case To4 ip of
        Some b \<Rightarrow> list_ex (in_block b) local_blocks4
      | None \<Rightarrow> list_ex (in_block ip) local_blocks6)"
  using private_iff_blocks[of ip] by (simp add: public_ip_def split: option.splits)

text \<open>
  C26 (safety). A signature binds the timestamp and the body: two deliveries signed under one
  secret with the same signature have the same timestamp and body, or HMAC collides on two
  different messages. Timestamps in RFC 3339 have no dot at a precision of seconds.
\<close>

theorem signature_binds_request:
  assumes "\<And>at. CHR ''.'' \<notin> set (rfc3339 at)"
    and "Sign hmac rfc3339 (Some signer) body at = (timestamp, signature)"
    and "Sign hmac rfc3339 (Some signer) body' at' = (timestamp', signature)"
  shows "timestamp = timestamp' \<and> body = body' \<or>
    signed_message timestamp body \<noteq> signed_message timestamp' body' \<and>
    hmac (sg_secret signer) (signed_message timestamp body) = hmac (sg_secret signer) (signed_message timestamp' body')"
proof -
  have t: "timestamp = rfc3339 at" "timestamp' = rfc3339 at'" using assms(2,3) by (auto simp: Sign_def Let_def)
  have "hmac (sg_secret signer) (signed_message timestamp body) = hmac (sg_secret signer) (signed_message timestamp' body')"
    using assms(2,3) by (intro ComputeSignature_inj) (auto simp: Sign_def Let_def)
  then show ?thesis using signed_message_inj[OF assms(1) assms(1)] t by blast
qed

theorem signature_binds_request_witness:
  "Sign (\<lambda>key message. key @ message) (\<lambda>_. ''2024-01-01T00:00:00Z'') (Some \<lparr>sg_secret = ''k''\<rparr>) ''{}'' 0 \<noteq>
   Sign (\<lambda>key message. key @ message) (\<lambda>_. ''2024-01-01T00:00:00Z'') (Some \<lparr>sg_secret = ''k''\<rparr>) ''[]'' 0"
proof
  let ?hmac = "\<lambda>key message :: string. key @ message" and ?time = "\<lambda>_ :: go_time. ''2024-01-01T00:00:00Z''"
  assume "Sign ?hmac ?time (Some \<lparr>sg_secret = ''k''\<rparr>) ''{}'' 0 = Sign ?hmac ?time (Some \<lparr>sg_secret = ''k''\<rparr>) ''[]'' 0"
  moreover obtain t s where two: "Sign ?hmac ?time (Some \<lparr>sg_secret = ''k''\<rparr>) ''[]'' 0 = (t, s)" by (rule prod.exhaust)
  ultimately have one: "Sign ?hmac ?time (Some \<lparr>sg_secret = ''k''\<rparr>) ''{}'' 0 = (t, s)" by simp
  have "\<And>at. CHR ''.'' \<notin> set (?time at)" by simp
  from signature_binds_request[OF this one two] show False by (simp add: signed_message_def)
qed

text \<open>
  C27 (bounds). What a target answers can be stored: the body kept of a response is valid UTF-8
  without NUL bytes, whatever bytes the target sent, and no longer than twice the configured
  limit plus 15 characters; a storable body within the limit is kept as it is.
\<close>

theorem response_body_is_storable:
  assumes "0 < maxBytes"
  shows "valid_utf8 (sanitizeResponseBody body maxBytes) \<and> CHR 0x00 \<notin> set (sanitizeResponseBody body maxBytes) \<and>
    int (length (sanitizeResponseBody body maxBytes)) \<le> 2 * maxBytes + 15 \<and>
    (storable_text body \<and> int (length body) \<le> maxBytes \<longrightarrow> sanitizeResponseBody body maxBytes = body)"
  using assms sanitizeResponseBody_storable[of body maxBytes] sanitizeResponseBody_length[OF assms, of body]
    sanitizeResponseBody_id[of body maxBytes]
  by (simp add: storable_text_def)

theorem response_body_is_storable_witness:
  "valid_utf8 (sanitizeResponseBody [CHR 0xFF, CHR 0x00] 1) \<and>
   sanitizeResponseBody [CHR 0xFF, CHR 0x00] 1 = replacement @ ''...[truncated]''"
  using response_body_is_storable[of 1 "[CHR 0xFF, CHR 0x00]"]
  by (simp add: sanitizeResponseBody_def ToValidUTF8_def byte_in_def Let_def replacement_def)



section \<open>Requests of the API\<close>

text \<open>
  C29 (type). A request to create a transfer is either refused with a validation error, without
  any effect, or reaches the repository well-formed: trimmed non-empty fields, a UUID, a
  hex address, a positive decimal amount, no callback or one with scheme http or https, a host, no
  credentials and a permitted target, metadata that is an object with sorted distinct names,
  and the status CREATED. What the repository answers is what the caller gets.
\<close>

theorem request_is_refused_or_well_formed:
  assumes "CreateTransfer L (NewService R policy) input w = (r, w')"
  shows "(\<exists>e. r = Inl e \<and> errors_is e ErrValidation \<and> w' = w) \<or>
         (\<exists>p. params_ok L policy p \<and> repo_Create R p w = (r, w'))"
proof (cases "normalizeCreateInput L input policy")
  case (Inl e)
  then show ?thesis using assms normalizeCreateInput_error[OF Inl] by (auto simp: CreateTransfer_def NewService_def)
next
  case (Inr p)
  then show ?thesis
    using assms normalizeCreateInput_ok[OF Inr]
    by (auto simp: CreateTransfer_def NewService_def split: sum.split_asm prod.split_asm)
qed

theorem request_is_refused_or_well_formed_witness:
  "\<exists>p. params_ok sample_libs sample_callback_policy p \<and>
     Create sample_pg p (sample_world wallet_db) =
       CreateTransfer sample_libs (NewService (PostgresRepository sample_pg) sample_callback_policy) (sample_input ''5'') (sample_world wallet_db)"
proof -
  let ?c = "CreateTransfer sample_libs (NewService (PostgresRepository sample_pg) sample_callback_policy) (sample_input ''5'')"
  obtain r w' where run: "?c (sample_world wallet_db) = (r, w')" by (rule prod.exhaust)
  have ok: "\<not> (\<exists>e. r = Inl e)"
    using sample_post_created run by (auto simp: TransferHandler_Create_def sample_post_def sample_request
        transfers_handleServiceError_def writeError_def split: if_splits)
  from request_is_refused_or_well_formed[OF run] ok show ?thesis unfolding run by (auto simp: PostgresRepository_def)
qed

text \<open>
  C30 (roundtrip). Normalisation is idempotent: the parameters of an accepted request, sent again
  as a request, are accepted and normalised to themselves, so that a client that stores what the
  API returned may submit it again. The law of \<open>float64\<close> is what \<open>encoding/json\<close> documents.
\<close>

theorem normalising_twice_changes_nothing:
  assumes "float64_law (lib_float64 L)" and "normalizeCreateInput L input policy = Inr p"
  shows "normalizeCreateInput L
     \<lparr>ci_IdempotencyKey = cp_IdempotencyKey p, ci_Chain = cp_Chain p, ci_AssetType = cp_AssetType p,
      ci_SourceWalletID = cp_SourceWalletID p, ci_DestinationAddress = cp_DestinationAddress p, ci_Amount = cp_Amount p,
      ci_CallbackURL = cp_CallbackURL p, ci_MetadataJSON = cp_MetadataJSON p\<rparr> policy = Inr p"
  using normalizeCreateInput_twice[OF assms] by (simp add: input_of_def)

theorem normalising_twice_changes_nothing_witness:
  "normalizeCreateInput sample_libs (input_of (sample_params ''5'')) sample_callback_policy = Inr (sample_params ''5'')"
proof -
  have law: "float64_law (lib_float64 sample_libs)"
    by (auto simp: float64_law_def sample_libs_def split: json.splits)
  have "normalizeCreateInput sample_libs (sample_input ''5'') sample_callback_policy = Inr (sample_params ''5'')"
    by (rule sample_normal[OF sample_five]) simp
  from normalising_twice_changes_nothing[OF law this] show ?thesis by (simp add: input_of_def)
qed

text \<open>
  C31 (equivalence). The callback check of the API and the target check of the dispatcher are
  written twice; for one configuration, an http or https URL whose host one pass normalises, and
  a resolver that answers with public addresses, they accept the same URLs.
\<close>

theorem callback_checks_agree:
  assumes "u_Scheme u \<in> {''http'', ''https''}"
    and "normalizeHostname (normalizeHostname (Hostname u)) = normalizeHostname (Hostname u)"
    and "lookup (normalizeHostname (Hostname u)) = Inr addrs" and "addrs \<noteq> []"
    and "list_all (\<lambda>a. public_ip (ia_IP a)) addrs"
  shows "validateCallbackURLTarget u \<lparr>cb_AllowedHosts = hosts, cb_AllowPrivateTargets = private\<rparr> = None \<longleftrightarrow>
         validateDispatchTarget u \<lparr>tp_AllowedHosts = hosts, tp_AllowPrivateTargets = private\<rparr> lookup = None"
proof -
  let ?p = "\<lparr>cb_AllowedHosts = hosts, cb_AllowPrivateTargets = private\<rparr>"
  have p: "policy_of ?p = \<lparr>tp_AllowedHosts = hosts, tp_AllowPrivateTargets = private\<rparr>" by (simp add: policy_of_def)
  have "cb_AllowPrivateTargets ?p \<or> (\<forall>a \<in> set addrs. \<not> isPrivateOrLocalIP (ia_IP a))"
    using assms(5) by (simp add: list_all_iff private_iff_blocks)
  from dispatch_accepts_callback[where u = u and policy = ?p and lookup = lookup, OF _ assms(1-4) this] callback_accepts_dispatch[OF _ assms(2), of ?p lookup] show ?thesis
    unfolding p by blast
qed

theorem callback_checks_agree_witness:
  "(validateCallbackURLTarget sample_url \<lparr>cb_AllowedHosts = [''example.com''], cb_AllowPrivateTargets = False\<rparr> = None) =
   (validateDispatchTarget sample_url \<lparr>tp_AllowedHosts = [''example.com''], tp_AllowPrivateTargets = False\<rparr> (net_lookup sample_net 0) = None)"
proof (rule callback_checks_agree)
  show "u_Scheme sample_url \<in> {''http'', ''https''}" by (simp add: sample_url_def)
  show "normalizeHostname (normalizeHostname (Hostname sample_url)) = normalizeHostname (Hostname sample_url)"
    by (simp add: sample_url_parts sample_hostname)
  show "net_lookup sample_net 0 (normalizeHostname (Hostname sample_url)) = Inr [\<lparr>ia_IP = [8, 8, 8, 8], ia_Zone = ''''\<rparr>]"
    by (simp add: sample_net_def)
  show "list_all (\<lambda>a. public_ip (ia_IP a)) [\<lparr>ia_IP = [8, 8, 8, 8], ia_Zone = ''''\<rparr>]"
    using sample_ips(2) by (simp add: private_iff_blocks)
qed simp

text \<open>
  C32 (error). An amount of 79 digits or more passes the validation of the API and fails in the
  database, whose column has 78 digits: the request is answered with 500, not 400. Nothing is
  stored.
\<close>

theorem oversized_amount_is_an_internal_error:
  assumes "quiet w" and "api_transfers A = NewService (PostgresRepository pg) policy"
    and "createTransferRequest (aq_Body req) = Some input" and "normalizeCreateInput (api_libs A) input policy = Inr p"
    and "decimal_value (cp_Amount p) = Some amount" and "10 ^ 78 \<le> amount"
  shows "fst (fst (TransferHandler_Create A req w)) = 500 \<and> snd (TransferHandler_Create A req w) = w"
  using oversized_amount[OF assms(1,5,6), of pg] assms(2-4)
  by (auto simp: TransferHandler_Create_def CreateTransfer_def NewService_def PostgresRepository_def
      transfers_handleServiceError_def)

theorem oversized_amount_is_an_internal_error_witness:
  "fst (fst (TransferHandler_Create sample_api (sample_post sample_huge) (sample_world wallet_db))) = 500"
proof -
  have req: "createTransferRequest (aq_Body (sample_post sample_huge)) = Some (sample_input sample_huge)"
    by (simp add: sample_post_def sample_request)
  have norm: "normalizeCreateInput (api_libs sample_api) (sample_input sample_huge) sample_callback_policy = Inr (sample_params sample_huge)"
    using sample_normal[OF sample_huge_trim sample_huge_value] by simp
  have val: "decimal_value (cp_Amount (sample_params sample_huge)) = Some (10 ^ 78)"
    by (simp add: sample_params_def sample_huge_value)
  from oversized_amount_is_an_internal_error[OF quiet_sample sample_api_simps(2) req norm val] show ?thesis by simp
qed



text \<open>
  C34 (safety). The internal part of the API is closed: without a configured key, or without that
  key in the configured header, a request to a route for wallets or reconciliation is answered
  with 503 or 401 and changes nothing, and every other route is the health check or one for
  transfers.
\<close>

theorem internal_routes_need_the_key:
  assumes "route_of (aq_Method req) (aq_Path req) = Some r"
    and "ia_APIKey (api_auth A) = '''' \<or>
      aq_Header req (if ia_HeaderName (api_auth A) = '''' then ''X-Aegis-Internal-Key'' else ia_HeaderName (api_auth A)) \<noteq>
      ia_APIKey (api_auth A)"
  shows "(snd (NewServer A req w) = w \<and> fst (fst (NewServer A req w)) = (if ia_APIKey (api_auth A) = '''' then 503 else 401)) \<or>
         aq_Path req = [''healthz''] \<or> (\<exists>rest. aq_Path req = ''api'' # ''v1'' # ''transfers'' # rest)"
  using internal_closed[OF assms(1) _ assms(2), of w] routes_iff[OF assms(1)] by blast

theorem internal_routes_need_the_key_witness:
  "let req = \<lparr>aq_Method = ''POST'', aq_Path = [''api'', ''v1'', ''jobs'', ''reconcile''], aq_Header = (\<lambda>_. ''''),
        aq_Query = (\<lambda>_. None), aq_Body = RawText ''''\<rparr>
   in fst (fst (NewServer sample_api req (sample_world sample_db))) = 503"
proof -
  let ?req = "\<lparr>aq_Method = ''POST'', aq_Path = [''api'', ''v1'', ''jobs'', ''reconcile''], aq_Header = (\<lambda>_. ''''),
        aq_Query = (\<lambda>_. None), aq_Body = RawText ''''\<rparr>"
  have r: "route_of (aq_Method ?req) (aq_Path ?req) = Some ReconcileRoute" by (simp add: route_of_def)
  have k: "ia_APIKey (api_auth sample_api) = ''''" by (simp add: sample_api_def api_of_def default_config_def)
  from internal_routes_need_the_key[OF r disjI1[OF k], of "sample_world sample_db"] k show ?thesis by (simp add: Let_def)
qed

section \<open>Wallets\<close>

text \<open>
  C35 (invariant). Whatever other sessions do around it and however its statement fails, a
  registration keeps the table of wallets in order: identifiers are distinct, two active wallets
  never share a chain and an address (in any case), and the status is ACTIVE or INACTIVE. A wallet
  it returns is the new last row; nothing is removed or changed.
\<close>

theorem active_wallets_stay_unique:
  assumes "wallets_inv (w_db w)" and "wallets_inv (seen_db w)" and "CreateWallet L (PostgresWallets pg) input w = (r, w')"
  shows "wallets_inv (w_db w') \<and>
    (\<forall>x y. x \<in> set (wallets (w_db w')) \<longrightarrow> y \<in> set (wallets (w_db w')) \<longrightarrow> wa_Status x = WalletStatusActive \<longrightarrow>
       wa_Status y = WalletStatusActive \<longrightarrow> wa_Chain x = wa_Chain y \<longrightarrow> ToLower (wa_Address x) = ToLower (wa_Address y) \<longrightarrow> x = y) \<and>
    (\<forall>x. r = Inr x \<longrightarrow> wallets (w_db w') = wallets (seen_db w) @ [x])"
proof -
  have inv: "wallets_inv (w_db w') \<and> (\<forall>x. r = Inr x \<longrightarrow> wallets (w_db w') = wallets (seen_db w) @ [x])"
  proof (cases "normalizeWalletInput L input")
    case (Inl e)
    then show ?thesis using assms by (auto simp: CreateWallet_def)
  next
    case (Inr p)
    then have "CreateWalletRow pg p w = (r, w')" using assms(3) by (simp add: CreateWallet_def PostgresWallets_def)
    from CreateWalletRow_commits[OF this] show ?thesis
      using assms(2) sql_insert_walletD(2,3)[of pg p "seen_db w"] by auto
  qed
  then have "x = y" if "x \<in> set (wallets (w_db w'))" "y \<in> set (wallets (w_db w'))" "wallet_active x" "wallet_active y"
      "wallet_key x = wallet_key y" for x y
    using that by (auto simp: wallets_inv_def intro: unique_on_inj)
  with inv show ?thesis unfolding wallet_active_def wallet_key_def by blast
qed

theorem active_wallets_stay_unique_witness:
  "wallets_inv (w_db (snd (CreateWallet (api_wallet_libs sample_api) (PostgresWallets sample_pg)
     \<lparr>wi_Chain = ''ethereum'', wi_Address = ''0xaa'', wi_Label = ''l'', wi_SigningType = ''kms'', wi_Status = ''''\<rparr> (sample_world wallet_db))))"
proof -
  let ?i = "\<lparr>wi_Chain = ''ethereum'', wi_Address = ''0xaa'', wi_Label = ''l'', wi_SigningType = ''kms'', wi_Status = ''''\<rparr>"
  have ok: "wallets_inv wallet_db"
    by (simp add: wallets_inv_def wallet_db_def sample_wallet_def unique_on_def go_consts)
  obtain r w' where run: "CreateWallet (api_wallet_libs sample_api) (PostgresWallets sample_pg) ?i (sample_world wallet_db) = (r, w')"
    by (rule prod.exhaust)
  from active_wallets_stay_unique[OF _ _ run] ok show ?thesis unfolding run by simp
qed

section \<open>Reconciliation\<close>

text \<open>
  C36 (functional). A reconciliation run, while nothing else happens, checks every transfer that
  has a hash and a status SUBMITTED, PENDING\_ON\_CHAIN, CONFIRMED or FAILED, and appends one
  result for each, in their order: the transfer's identifier, hash and status, the receipt the
  checker reported, and whether the two disagree. Its counts are those of the new results; they
  add up.
\<close>

theorem run_records_every_candidate:
  assumes "reconciliation_ready pg w"
  shows "\<exists>new w'. Run (PostgresReconciliation pg) (PlaceholderReceiptChecker digest) trigger w =
      (Inr \<lparr>rn_CheckedCount = int (length new), rn_MismatchCount = int (length (filter rr_IsMismatch new)),
            rn_MatchedCount = int (length (filter (\<lambda>r. \<not> rr_IsMismatch r) new))\<rparr>, w') \<and>
    reconciliation_results (w_db w') = reconciliation_results (w_db w) @ new \<and>
    list_all2 (\<lambda>c r. rr_TransferRequestID r = ct_TransferID c \<and> rr_TxHash r = ct_TxHash c \<and>
        rr_InternalStatus r = ct_InternalStatus c \<and> rr_BlockchainStatus r = placeholder_receipt digest (ct_TxHash c) \<and>
        rr_IsMismatch r = fst (compareStatuses (ct_InternalStatus c) (placeholder_receipt digest (ct_TxHash c))))
      (sql_list_candidates (w_db w)) new"
proof -
  obtain new w' where run: "Run (PostgresReconciliation pg) (PlaceholderReceiptChecker digest) trigger w = (Inr (counted new), w')"
    and results: "reconciliation_results (w_db w') = reconciliation_results (w_db w) @ new"
    and rows: "list_all2 (\<lambda>c r. records (result_params (if trigger = '''' then ''manual'' else trigger) c
        (placeholder_receipt digest (ct_TxHash c))) r) (sql_list_candidates (w_db w)) new"
    using pgr.Run_checks_all[where checker = "PlaceholderReceiptChecker digest" and receipt = "\<lambda>_. placeholder_receipt digest",
        OF assms PlaceholderReceiptChecker_eq refl] by blast
  have "list_all2 (\<lambda>c r. rr_TransferRequestID r = ct_TransferID c \<and> rr_TxHash r = ct_TxHash c \<and>
        rr_InternalStatus r = ct_InternalStatus c \<and> rr_BlockchainStatus r = placeholder_receipt digest (ct_TxHash c) \<and>
        rr_IsMismatch r = fst (compareStatuses (ct_InternalStatus c) (placeholder_receipt digest (ct_TxHash c))))
      (sql_list_candidates (w_db w)) new"
    using rows by (rule list_all2_mono) (simp add: records_def result_params_def)
  with run results show ?thesis by (intro exI[of _ new] exI[of _ w']) (simp add: counted_def)
qed

theorem run_records_every_candidate_witness:
  "\<exists>w'. Run (PostgresReconciliation sample_pg) (PlaceholderReceiptChecker (\<lambda>_. [1])) '''' (sample_world submitted_db) =
     (Inr \<lparr>rn_CheckedCount = 1, rn_MismatchCount = 1, rn_MatchedCount = 0\<rparr>, w')"
proof -
  from run_records_every_candidate[where trigger = "''''" and digest = "\<lambda>_. [1]", OF submitted_ready]
  obtain new :: "ReconciliationResult list" and w' where new: "Run (PostgresReconciliation sample_pg) (PlaceholderReceiptChecker (\<lambda>_. [1])) '''' (sample_world submitted_db) =
      (Inr \<lparr>rn_CheckedCount = int (length new), rn_MismatchCount = int (length (filter rr_IsMismatch new)),
            rn_MatchedCount = int (length (filter (\<lambda>r. \<not> rr_IsMismatch r) new))\<rparr>, w')"
    and rows: "list_all2 (\<lambda>c r. rr_TransferRequestID r = ct_TransferID c \<and> rr_TxHash r = ct_TxHash c \<and>
        rr_InternalStatus r = ct_InternalStatus c \<and> rr_BlockchainStatus r = placeholder_receipt (\<lambda>_. [1]) (ct_TxHash c) \<and>
        rr_IsMismatch r = fst (compareStatuses (ct_InternalStatus c) (placeholder_receipt (\<lambda>_. [1]) (ct_TxHash c))))
      (sql_list_candidates (w_db (sample_world submitted_db))) new"
    by blast
  obtain x where "new = [x]" "rr_IsMismatch x"
    using rows by (auto simp: submitted_db_def sql_list_candidates_def candidate_statuses_def candidate_of_def compareStatuses_def
        placeholder_receipt_def list_all2_Cons1)
  with new show ?thesis by simp
qed

text \<open>
  C37 (refinement). The results table refines a map from transfers to their latest verdict: storing
  a result later than the earlier ones of its transfer updates the map at that transfer, and the
  list of mismatches is exactly the map's entries that are mismatches.
\<close>

theorem results_refine_verdicts:
  "(CreateResult pg p w = (Inr r, w') \<and> clock_advanced (rr_TransferRequestID r) (seen_db w) \<longrightarrow>
      verdicts (w_db w') = (verdicts (seen_db w))(rr_TransferRequestID r \<mapsto> r)) \<and>
   (ListLatestMismatches w = (Inr rs, w'') \<longrightarrow>
      set rs = {v. verdicts (seen_db w) (rr_TransferRequestID v) = Some v \<and> rr_IsMismatch v})"
proof (intro conjI impI)
  assume "CreateResult pg p w = (Inr r, w') \<and> clock_advanced (rr_TransferRequestID r) (seen_db w)"
  then have run: "CreateResult pg p w = (Inr r, w')" and later: "clock_advanced (rr_TransferRequestID r) (seen_db w)" by auto
  obtain f w1 where e: "enter w = (f, w1)" by (rule prod.exhaust)
  have "sql_insert_result pg p (seen_db w) = Inr (r, w_db w')"
    using run e by (auto simp: CreateResult_def autocommit_def driver_def seen_db_def split: sum.splits option.splits)
  from insert_result_updates_verdicts[OF this later] show "verdicts (w_db w') = (verdicts (seen_db w))(rr_TransferRequestID r \<mapsto> r)" .
next
  assume "ListLatestMismatches w = (Inr rs, w'')"
  then have "rs = sql_latest_mismatches (seen_db w)"
    by (auto simp: ListLatestMismatches_def seen_db_def driver_def split: prod.splits sum.splits option.splits)
  then show "set rs = {v. verdicts (seen_db w) (rr_TransferRequestID v) = Some v \<and> rr_IsMismatch v}"
    by (simp add: latest_mismatches_verdicts)
qed

theorem results_refine_verdicts_witness:
  "\<exists>r w'. CreateResult sample_pg sample_result_params (sample_world submitted_db) = (Inr r, w') \<and>
     verdicts (w_db w') = (verdicts submitted_db)(rr_TransferRequestID r \<mapsto> r)"
proof -
  have "cr_TransferRequestID sample_result_params \<in> ct_TransferID ` set (sql_list_candidates (w_db (sample_world submitted_db)))"
    by (simp add: sample_result_params_def submitted_db_def sql_list_candidates_def candidate_statuses_def candidate_of_def)
  then obtain r w' where run: "CreateResult sample_pg sample_result_params (sample_world submitted_db) = (Inr r, w')"
    using CreateResult_quiet[OF submitted_ready] by blast
  have "clock_advanced (rr_TransferRequestID r) (seen_db (sample_world submitted_db))"
    by (simp add: clock_advanced_def submitted_db_def wallet_db_def empty_db_def)
  with run results_refine_verdicts[of sample_pg sample_result_params "sample_world submitted_db" r w'] show ?thesis by auto
qed

section \<open>The worker process\<close>

text \<open>
  C38 (liveness). A subsystem whose run keeps returning although the context is live, each time within a
  minute, is restarted after 2, 4, 8 and 16 seconds and given up at the fifth failure: whatever would come
  next, the supervisor ends with the fatal error that stops the worker, and from then on the health
  endpoint answers 503.
\<close>

theorem crash_loop_ends_the_subsystem:
  assumes "keeps_failing run" and "list_all quick_failure its" and "length its = 5"
  shows "\<exists>st w'. superviseWorkerSubsystem name run (its @ rest) (start_supervision t) w = (Fatal (fatal_error name 5), st, w') \<and>
    map sint (sp_waits st) = [2 * 10 ^ 9, 4 * 10 ^ 9, 8 * 10 ^ 9, 16 * 10 ^ 9] \<and>
    fst (workerHealthHandler F now (sp_tracker st) ''/healthz'' ''GET'') = 503"
proof -
  obtain st w' where run: "superviseWorkerSubsystem name run (its @ rest) (start_supervision t) w = (Fatal (fatal_error name 5), st, w')"
    and waits: "sp_waits st = map restart_backoff [0..<4]"
    and marked: "st_Status (subsystem_state name (sp_tracker st)) = workerSubsystemStatusFatal"
      "name \<in> fst ` set (tk_subsystems (sp_tracker st))"
    using crash_loop[OF assms] by blast
  have "[0..<4] = [0, 1, 2, 3 :: nat]" by (simp add: upt_rec)
  then have "map sint (sp_waits st) = [2 * 10 ^ 9, 4 * 10 ^ 9, 8 * 10 ^ 9, 16 * 10 ^ 9]"
    unfolding waits by (simp add: sint_restart_backoff)
  moreover have "fst (workerHealthHandler F now (sp_tracker st) ''/healthz'' ''GET'') = 503"
    using Report_degraded[OF _ marked(2), of F now] marked(1) by (simp add: workerHealthHandler_def Let_def)
  ultimately show ?thesis using run by (intro exI conjI)
qed

theorem crash_loop_ends_the_subsystem_witness:
  "\<exists>st w'. superviseWorkerSubsystem ''consumer'' (\<lambda>_ w. (Some None, w)) (replicate 5 sample_iteration @ [])
      (start_supervision (newWorkerStatusTracker ''aegis'' '''' '''' 0)) () = (Fatal (fatal_error ''consumer'' 5), st, w') \<and>
    map sint (sp_waits st) = [2 * 10 ^ 9, 4 * 10 ^ 9, 8 * 10 ^ 9, 16 * 10 ^ 9] \<and>
    fst (workerHealthHandler sample_formats 0 (sp_tracker st) ''/healthz'' ''GET'') = 503"
  by (rule crash_loop_ends_the_subsystem) (simp_all add: keeps_failing_def list_all_iff sample_iteration_quick)

text \<open>
  C39 (bounds). Whatever the context, the clock and the subsystem do, every restart waits for 2, 4, 8
  or 16 seconds (the configured limit of 30 seconds is never waited for), and a subsystem whose runs
  all last a minute or more is never given up.
\<close>

theorem restart_waits_are_bounded:
  assumes "superviseWorkerSubsystem name run its (start_supervision t) w = (out, st, w')"
  shows "sint ` set (sp_waits st) \<subseteq> {2 * 10 ^ 9, 4 * 10 ^ 9, 8 * 10 ^ 9, 16 * 10 ^ 9} \<and>
    (list_all (\<lambda>it. sint subsystemHealthyRunResetThreshold \<le> sint (it_runtime it)) its \<longrightarrow> (\<forall>e. out \<noteq> Fatal e))"
proof -
  have "sint ` restart_backoff ` {..<4} = {2 * 10 ^ 9, 4 * 10 ^ 9, 8 * 10 ^ 9, 16 * 10 ^ 9}"
    by (simp add: lessThan_Suc numeral_eq_Suc sint_restart_backoff insert_commute)
  then show ?thesis
    using supervise_waits[OF assms supervision_ok_start] long_runs_not_fatal[OF assms] by blast
qed

theorem restart_waits_are_bounded_witness:
  "\<exists>out st w'. superviseWorkerSubsystem ''consumer'' (\<lambda>_ w. (Some None, w)) [sample_iteration]
      (start_supervision (newWorkerStatusTracker ''aegis'' '''' '''' 0)) () = (out, st, w') \<and>
    sint ` set (sp_waits st) \<subseteq> {2 * 10 ^ 9, 4 * 10 ^ 9, 8 * 10 ^ 9, 16 * 10 ^ 9}"
proof -
  obtain out st w' where run: "superviseWorkerSubsystem ''consumer'' (\<lambda>_ w. (Some None, w)) [sample_iteration]
      (start_supervision (newWorkerStatusTracker ''aegis'' '''' '''' 0)) () = (out, st, w')" by (rule prod_cases3)
  then show ?thesis using restart_waits_are_bounded[OF run] by blast
qed

text \<open>
  C40 (safety). However starting, serving and stopping go, the worker and the API end with the
  database pools, the Redis clients and the node connections they started with, and with the broker's
  connection closed.
\<close>

theorem process_releases_connections:
  assumes "w_amqp_closed (ps_world p)"
  shows "connections (snd (RunWorker E load work p)) = connections p \<and> connections (snd (RunAPI E load serve p)) = connections p"
  using run_process_releases[OF assms] unfolding RunWorker_def RunAPI_def by blast

theorem process_releases_connections_witness:
  "connections (snd (RunWorker sample_endpoints (Inr (default_config ''postgres'' ''amqp'')) (\<lambda>_ w. (WorkerShutdown, w)) sample_process)) = (0, 0, 0, True)"
proof -
  have closed: "w_amqp_closed (ps_world sample_process)" by (simp add: sample_process_def)
  have "connections sample_process = (0, 0, 0, True)" by (simp add: connections_def sample_process_def)
  then show ?thesis using process_releases_connections[OF closed] by simp
qed

end
